(* ===== verification/Prelude.thy ===== *)
theory Prelude
  imports Main "HOL-Library.Word" "HOL-Library.Char_ord" "HOL-Library.List_Lexorder"
    "HOL-Library.AList" "HOL-Library.Sublist"
begin

text \<open>
  Shared foundations of the RouteSmith development: results as sums, Rust's fixed-width integer
  operations, Rust strings, and the two map types of the Rust standard library.

  A Rust \<^verbatim>\<open>String\<close> or \<^verbatim>\<open>&str\<close> is a HOL \<open>string\<close> that holds its UTF-8 bytes: \<open>length\<close> is
  \<^verbatim>\<open>str::len\<close>, prefix, suffix and substring tests compare bytes exactly as Rust does, and the
  characters of a string (\<^verbatim>\<open>str::chars\<close>) are its maximal byte groups that start at a non-continuation
  byte. An unsigned integer is a \<open>nat\<close> with the saturation of the source written out; a signed one
  is an \<open>int\<close> with explicit range tests.
\<close>

named_theorems res_simps \<open>characterisations of results\<close>
named_theorems sat_simps \<open>definitions of the fixed-width integer operations\<close>
named_theorems str_simps \<open>definitions of the string operations\<close>

section \<open>Results\<close>

text \<open>The question-mark operator of Rust: the first error is returned.\<close>

definition res_bind :: "'e + 'a \<Rightarrow> ('a \<Rightarrow> 'e + 'b) \<Rightarrow> 'e + 'b" where
  "res_bind r f = (case r of Inl e \<Rightarrow> Inl e | Inr x \<Rightarrow> f x)"

definition ensure :: "bool \<Rightarrow> 'e \<Rightarrow> 'e + unit" where
  "ensure b e = (if b then Inr () else Inl e)"

definition ok_or :: "'a option \<Rightarrow> 'e \<Rightarrow> 'e + 'a" where
  "ok_or x e = (case x of None \<Rightarrow> Inl e | Some v \<Rightarrow> Inr v)"

fun is_ok :: "'e + 'a \<Rightarrow> bool" where
  "is_ok (Inl _) = False"
| "is_ok (Inr _) = True"

text \<open>A loop whose body may fail, over the elements of a list from left to right.\<close>

fun res_each :: "('a \<Rightarrow> 'e + unit) \<Rightarrow> 'a list \<Rightarrow> 'e + unit" where
  "res_each f [] = Inr ()"
| "res_each f (x # xs) = res_bind (f x) (\<lambda>_. res_each f xs)"

fun res_map :: "('a \<Rightarrow> 'e + 'b) \<Rightarrow> 'a list \<Rightarrow> 'e + 'b list" where
  "res_map f [] = Inr []"
| "res_map f (x # xs) = res_bind (f x) (\<lambda>y. res_bind (res_map f xs) (\<lambda>ys. Inr (y # ys)))"

text \<open>\<^verbatim>\<open>iter().enumerate()\<close>.\<close>

definition enumerated :: "'a list \<Rightarrow> (nat \<times> 'a) list" where
  "enumerated xs = List.enumerate 0 xs"

section \<open>Fixed-width integers\<close>

definition u32_max :: nat where
  "u32_max = 4294967295"

definition u64_max :: nat where
  "u64_max = 18446744073709551615"

definition u64_add :: "nat \<Rightarrow> nat \<Rightarrow> nat" where
  [sat_simps]: "u64_add a b = min (a + b) u64_max"

definition u64_mul :: "nat \<Rightarrow> nat \<Rightarrow> nat" where
  [sat_simps]: "u64_mul a b = min (a * b) u64_max"

definition u32_add :: "nat \<Rightarrow> nat \<Rightarrow> nat" where
  [sat_simps]: "u32_add a b = min (a + b) u32_max"

definition i64_max :: int where
  "i64_max = 9223372036854775807"

definition i64_min :: int where
  "i64_min = - 9223372036854775808"

definition i64_range :: "int \<Rightarrow> bool" where
  "i64_range x \<longleftrightarrow> i64_min \<le> x \<and> x \<le> i64_max"

definition i64_clamp :: "int \<Rightarrow> int" where
  [sat_simps]: "i64_clamp x = max i64_min (min i64_max x)"

text \<open>\<^verbatim>\<open>saturating_add\<close>, \<^verbatim>\<open>saturating_sub\<close>, \<^verbatim>\<open>checked_add\<close> and \<^verbatim>\<open>checked_sub\<close> on \<^verbatim>\<open>i64\<close>.\<close>

definition i64_add :: "int \<Rightarrow> int \<Rightarrow> int" where
  [sat_simps]: "i64_add a b = i64_clamp (a + b)"

definition i64_sub :: "int \<Rightarrow> int \<Rightarrow> int" where
  [sat_simps]: "i64_sub a b = i64_clamp (a - b)"

definition i64_checked_add :: "int \<Rightarrow> int \<Rightarrow> int option" where
  [sat_simps]: "i64_checked_add a b = (if i64_range (a + b) then Some (a + b) else None)"

definition i64_checked_sub :: "int \<Rightarrow> int \<Rightarrow> int option" where
  [sat_simps]: "i64_checked_sub a b = (if i64_range (a - b) then Some (a - b) else None)"

text \<open>\<^verbatim>\<open>i64::try_from(value).unwrap_or(i64::MAX)\<close> for an unsigned value.\<close>

definition to_i64_sat :: "nat \<Rightarrow> int" where
  [sat_simps]: "to_i64_sat n = min (int n) i64_max"

text \<open>Division of signed integers truncates towards zero in Rust.\<close>

definition tdiv :: "int \<Rightarrow> int \<Rightarrow> int" where
  "tdiv a b = sgn a * sgn b * (\<bar>a\<bar> div \<bar>b\<bar>)"

section \<open>Strings\<close>

fun starts_with :: "string \<Rightarrow> string \<Rightarrow> bool" where
  "starts_with s [] = True"
| "starts_with [] (p # ps) = False"
| "starts_with (c # cs) (p # ps) = (c = p \<and> starts_with cs ps)"

definition ends_with :: "string \<Rightarrow> string \<Rightarrow> bool" where
  "ends_with s p = starts_with (rev s) (rev p)"

fun contains :: "string \<Rightarrow> string \<Rightarrow> bool" where
  "contains [] p = (p = [])"
| "contains (c # cs) p = (starts_with (c # cs) p \<or> contains cs p)"

definition strip_prefix :: "string \<Rightarrow> string \<Rightarrow> string option" where
  "strip_prefix s p = (if starts_with s p then Some (drop (length p) s) else None)"

definition strip_suffix :: "string \<Rightarrow> string \<Rightarrow> string option" where
  "strip_suffix s p = (if ends_with s p then Some (take (length s - length p) s) else None)"

text \<open>\<^verbatim>\<open>str::split_once\<close> and \<^verbatim>\<open>str::rsplit_once\<close> on an ASCII delimiter.\<close>

fun split_once :: "char \<Rightarrow> string \<Rightarrow> (string \<times> string) option" where
  "split_once d [] = None"
| "split_once d (c # cs) =
     (if c = d then Some ([], cs)
      else map_option (\<lambda>(a, b). (c # a, b)) (split_once d cs))"

definition rsplit_once :: "char \<Rightarrow> string \<Rightarrow> (string \<times> string) option" where
  "rsplit_once d s = map_option (\<lambda>(a, b). (rev b, rev a)) (split_once d (rev s))"

definition ascii_lower :: "char \<Rightarrow> char" where
  "ascii_lower c = (if 65 \<le> (of_char c :: int) \<and> (of_char c :: int) \<le> 90
     then char_of (of_char c + 32 :: int) else c)"

definition to_ascii_lowercase :: "string \<Rightarrow> string" where
  "to_ascii_lowercase s = map ascii_lower s"

definition is_ascii_digit :: "char \<Rightarrow> bool" where
  "is_ascii_digit c \<longleftrightarrow> 48 \<le> (of_char c :: int) \<and> (of_char c :: int) \<le> 57"

definition is_ascii_lowercase :: "char \<Rightarrow> bool" where
  "is_ascii_lowercase c \<longleftrightarrow> 97 \<le> (of_char c :: int) \<and> (of_char c :: int) \<le> 122"

definition is_ascii_uppercase :: "char \<Rightarrow> bool" where
  "is_ascii_uppercase c \<longleftrightarrow> 65 \<le> (of_char c :: int) \<and> (of_char c :: int) \<le> 90"

definition is_ascii_alphabetic :: "char \<Rightarrow> bool" where
  "is_ascii_alphabetic c \<longleftrightarrow> is_ascii_lowercase c \<or> is_ascii_uppercase c"

definition is_ascii_alphanumeric :: "char \<Rightarrow> bool" where
  "is_ascii_alphanumeric c \<longleftrightarrow> is_ascii_alphabetic c \<or> is_ascii_digit c"

text \<open>
  The UTF-8 encodings of the characters with the Unicode property \<^verbatim>\<open>White_Space\<close>, which are the ones
  \<^verbatim>\<open>str::trim\<close> strips. No encoding is a prefix of another.
\<close>

definition white_space :: "string list" where
  "white_space =
    [[CHR 0x09], [CHR 0x0A], [CHR 0x0B], [CHR 0x0C], [CHR 0x0D], [CHR 0x20],
     [CHR 0xC2, CHR 0x85], [CHR 0xC2, CHR 0xA0], [CHR 0xE1, CHR 0x9A, CHR 0x80],
     [CHR 0xE2, CHR 0x80, CHR 0x80], [CHR 0xE2, CHR 0x80, CHR 0x81],
     [CHR 0xE2, CHR 0x80, CHR 0x82], [CHR 0xE2, CHR 0x80, CHR 0x83],
     [CHR 0xE2, CHR 0x80, CHR 0x84], [CHR 0xE2, CHR 0x80, CHR 0x85],
     [CHR 0xE2, CHR 0x80, CHR 0x86], [CHR 0xE2, CHR 0x80, CHR 0x87],
     [CHR 0xE2, CHR 0x80, CHR 0x88], [CHR 0xE2, CHR 0x80, CHR 0x89],
     [CHR 0xE2, CHR 0x80, CHR 0x8A], [CHR 0xE2, CHR 0x80, CHR 0xA8],
     [CHR 0xE2, CHR 0x80, CHR 0xA9], [CHR 0xE2, CHR 0x80, CHR 0xAF],
     [CHR 0xE2, CHR 0x81, CHR 0x9F], [CHR 0xE3, CHR 0x80, CHR 0x80]]"

text \<open>Characters as byte groups: a character starts at a byte that is no continuation byte.\<close>

definition is_continuation :: "char \<Rightarrow> bool" where
  "is_continuation c \<longleftrightarrow> 128 \<le> (of_char c :: int) \<and> (of_char c :: int) < 192"

function utf8_chars :: "string \<Rightarrow> string list" where
  "utf8_chars [] = []"
| "utf8_chars (c # cs) =
     (c # takeWhile is_continuation cs) # utf8_chars (dropWhile is_continuation cs)"
  by pat_completeness auto
termination
  by (relation "measure length") (auto simp: length_dropWhile_le le_imp_less_Suc)

definition chars_count :: "string \<Rightarrow> nat" where
  "chars_count s = length (utf8_chars s)"

definition trim_start :: "string \<Rightarrow> string" where
  "trim_start s = concat (dropWhile (\<lambda>c. c \<in> set white_space) (utf8_chars s))"

definition trim_end :: "string \<Rightarrow> string" where
  "trim_end s =
     concat (rev (dropWhile (\<lambda>c. c \<in> set white_space) (rev (utf8_chars s))))"

definition trim :: "string \<Rightarrow> string" where
  "trim s = trim_end (trim_start s)"

text \<open>The control characters of Unicode: U+0000 to U+001F and U+007F to U+009F.\<close>

definition is_control :: "string \<Rightarrow> bool" where
  "is_control ch =
     (case ch of
        [c] \<Rightarrow> (of_char c :: int) < 32 \<or> (of_char c :: int) = 127
      | [c, d] \<Rightarrow> (of_char c :: int) = 194 \<and> (of_char d :: int) < 160
      | _ \<Rightarrow> False)"

definition has_control :: "string \<Rightarrow> bool" where
  "has_control s = list_ex is_control (utf8_chars s)"

fun join :: "string \<Rightarrow> string list \<Rightarrow> string" where
  "join sep [] = []"
| "join sep [s] = s"
| "join sep (s # t # ss) = s @ sep @ join sep (t # ss)"

text \<open>Decimal printing and parsing of integers, as \<^verbatim>\<open>Display\<close> and \<^verbatim>\<open>FromStr\<close> of Rust's integers do it.\<close>

definition digit_char :: "nat \<Rightarrow> char" where
  "digit_char d = char_of (48 + d)"

fun show_nat :: "nat \<Rightarrow> string" where
  "show_nat n = (if n < 10 then [digit_char n] else show_nat (n div 10) @ [digit_char (n mod 10)])"

declare show_nat.simps [simp del]

definition show_int :: "int \<Rightarrow> string" where
  "show_int i = (if i < 0 then ''-'' @ show_nat (nat (- i)) else show_nat (nat i))"

definition digit_value :: "char \<Rightarrow> nat" where
  "digit_value c = of_char c - 48"

fun parse_digits :: "nat \<Rightarrow> string \<Rightarrow> nat" where
  "parse_digits acc [] = acc"
| "parse_digits acc (c # cs) = parse_digits (acc * 10 + digit_value c) cs"

definition parse_uint :: "nat \<Rightarrow> string \<Rightarrow> nat option" where
  "parse_uint bound s =
     (let ds = (case s of c # cs \<Rightarrow> if c = CHR ''+'' then cs else s | [] \<Rightarrow> [])
      in if ds \<noteq> [] \<and> list_all is_ascii_digit ds \<and> parse_digits 0 ds \<le> bound
         then Some (parse_digits 0 ds) else None)"

section \<open>Sorting\<close>

text \<open>\<^verbatim>\<open>slice::sort_by\<close>: a stable sort, given "not after" as \<open>le\<close>.\<close>

fun insert_by :: "('a \<Rightarrow> 'a \<Rightarrow> bool) \<Rightarrow> 'a \<Rightarrow> 'a list \<Rightarrow> 'a list" where
  "insert_by le x [] = [x]"
| "insert_by le x (y # ys) = (if le x y then x # y # ys else y # insert_by le x ys)"

definition sort_by :: "('a \<Rightarrow> 'a \<Rightarrow> bool) \<Rightarrow> 'a list \<Rightarrow> 'a list" where
  "sort_by le xs = foldr (insert_by le) xs []"

section \<open>Maps\<close>

text \<open>
  A \<^verbatim>\<open>BTreeMap\<close> is its list of entries in ascending key order, which is the order its iterators use.
  A \<^verbatim>\<open>HashMap\<close> has no specified iteration order: it is an association list with distinct keys, in any
  order, updated by \<open>AList.update\<close> and \<open>AList.delete\<close>.
\<close>

type_synonym ('k, 'v) btree = "('k \<times> 'v) list"
type_synonym ('k, 'v) hmap = "('k \<times> 'v) list"

fun bt_insert :: "'k::linorder \<Rightarrow> 'v \<Rightarrow> ('k, 'v) btree \<Rightarrow> ('k, 'v) btree" where
  "bt_insert k v [] = [(k, v)]"
| "bt_insert k v ((k', v') # m) =
     (if k < k' then (k, v) # (k', v') # m
      else if k = k' then (k, v) # m
      else (k', v') # bt_insert k v m)"

fun bt_remove :: "'k \<Rightarrow> ('k, 'v) btree \<Rightarrow> ('k, 'v) btree" where
  "bt_remove k [] = []"
| "bt_remove k ((k', v') # m) = (if k = k' then m else (k', v') # bt_remove k m)"

abbreviation map_values :: "('k \<times> 'v) list \<Rightarrow> 'v list" where
  "map_values m \<equiv> map snd m"

abbreviation map_keys :: "('k \<times> 'v) list \<Rightarrow> 'k list" where
  "map_keys m \<equiv> map fst m"

definition bt_sorted :: "('k::linorder, 'v) btree \<Rightarrow> bool" where
  "bt_sorted m \<longleftrightarrow> sorted_wrt (<) (map_keys m)"

definition hm_distinct :: "('k, 'v) hmap \<Rightarrow> bool" where
  "hm_distinct m \<longleftrightarrow> distinct (map_keys m)"

text \<open>\<^verbatim>\<open>Iterator::find\<close> is the library's \<open>List.find\<close>; \<^verbatim>\<open>find_map\<close> returns the first result.\<close>

fun find_map :: "('a \<Rightarrow> 'b option) \<Rightarrow> 'a list \<Rightarrow> 'b option" where
  "find_map f [] = None"
| "find_map f (x # xs) = (case f x of Some y \<Rightarrow> Some y | None \<Rightarrow> find_map f xs)"

section \<open>Lemmas on results\<close>

lemma res_bind_simps [simp]:
  "res_bind (Inl e) f = Inl e"
  "res_bind (Inr x) f = f x"
  by (simp_all add: res_bind_def)

lemma res_bind_Inr_iff [res_simps]:
  "res_bind r f = Inr y \<longleftrightarrow> (\<exists>x. r = Inr x \<and> f x = Inr y)"
  by (cases r) auto

lemma res_bind_Inl_iff [res_simps]:
  "res_bind r f = Inl e \<longleftrightarrow> r = Inl e \<or> (\<exists>x. r = Inr x \<and> f x = Inl e)"
  by (cases r) auto

lemma ensure_simps [simp]:
  "ensure b e = Inr u \<longleftrightarrow> b"
  "ensure b e = Inl e' \<longleftrightarrow> \<not> b \<and> e' = e"
  by (auto simp: ensure_def)

lemma ok_or_simps [simp]:
  "ok_or x e = Inr v \<longleftrightarrow> x = Some v"
  "ok_or x e = Inl e' \<longleftrightarrow> x = None \<and> e' = e"
  "ok_or None e = Inl e"
  "ok_or (Some v) e = Inr v"
  by (auto simp: ok_or_def split: option.splits)

lemma is_ok_iff: "is_ok r \<longleftrightarrow> (\<exists>x. r = Inr x)"
  by (cases r) auto

lemma res_each_Inr [res_simps]: "res_each f xs = Inr u \<longleftrightarrow> (\<forall>x\<in>set xs. f x = Inr ())"
  by (induction xs) (auto simp: res_bind_Inr_iff)

lemma res_each_Inl: "res_each f xs = Inl e \<Longrightarrow> \<exists>x\<in>set xs. f x = Inl e"
  by (induction xs) (auto simp: res_bind_Inl_iff)

lemma res_map_Inr [res_simps]:
  "res_map f xs = Inr ys \<longleftrightarrow> list_all2 (\<lambda>x y. f x = Inr y) xs ys"
proof (induction xs arbitrary: ys)
  case Nil
  then show ?case by auto
next
  case (Cons x xs)
  then show ?case by (cases ys) (auto simp: res_bind_Inr_iff)
qed

lemma res_map_length: "res_map f xs = Inr ys \<Longrightarrow> length ys = length xs"
  by (auto simp: res_map_Inr dest: list_all2_lengthD)

section \<open>Lemmas on integers\<close>

lemma u64_bounds [simp]:
  "u64_add a b \<le> u64_max"
  "u64_mul a b \<le> u64_max"
  "u32_add a b \<le> u32_max"
  by (simp_all add: sat_simps)

lemma u64_add_le [simp]: "a \<le> u64_max \<Longrightarrow> a \<le> u64_add a b"
  by (simp add: sat_simps)

lemma u64_add_exact: "a + b \<le> u64_max \<Longrightarrow> u64_add a b = a + b"
  by (simp add: sat_simps)

lemma u64_add_le_sum: "u64_add a b \<le> a + b"
  by (simp add: sat_simps)

lemma u64_add_assoc: "u64_add (u64_add a b) c = u64_add a (u64_add b c)"
  by (auto simp: sat_simps min_def)

lemma u64_add_commute: "u64_add a b = u64_add b a"
  by (simp add: sat_simps add.commute)

lemma i64_clamp_range [simp]: "i64_range (i64_clamp x)"
  by (auto simp: i64_range_def i64_clamp_def i64_min_def i64_max_def)

lemma i64_clamp_id [simp]: "i64_range x \<Longrightarrow> i64_clamp x = x"
  by (auto simp: i64_range_def i64_clamp_def)

lemma i64_checked_add_Some [simp]:
  "i64_checked_add a b = Some c \<longleftrightarrow> i64_range (a + b) \<and> c = a + b"
  by (auto simp: i64_checked_add_def)

lemma i64_checked_sub_Some [simp]:
  "i64_checked_sub a b = Some c \<longleftrightarrow> i64_range (a - b) \<and> c = a - b"
  by (auto simp: i64_checked_sub_def)

lemma to_i64_sat_range [simp]: "i64_range (to_i64_sat n)" "0 \<le> to_i64_sat n"
  by (auto simp: to_i64_sat_def i64_range_def i64_min_def i64_max_def)

lemma tdiv_nonneg: "0 \<le> a \<Longrightarrow> 0 < b \<Longrightarrow> tdiv a b = a div b"
  by (cases "a = 0") (auto simp: tdiv_def)

section \<open>Lemmas on strings\<close>

lemma starts_with_prefix: "starts_with s p \<longleftrightarrow> prefix p s"
  by (induction s p rule: starts_with.induct) auto

lemma ends_with_suffix: "ends_with s p \<longleftrightarrow> suffix p s"
  by (simp add: ends_with_def starts_with_prefix suffix_to_prefix)

lemma contains_sublist: "contains s p \<longleftrightarrow> sublist p s"
  by (induction s) (auto simp: starts_with_prefix sublist_Cons_right)

lemma starts_with_refl [simp]: "starts_with s s"
  by (simp add: starts_with_prefix)

lemma strip_prefix_Some: "strip_prefix s p = Some r \<longleftrightarrow> s = p @ r"
  by (auto simp: strip_prefix_def starts_with_prefix prefix_def)

lemma strip_suffix_Some: "strip_suffix s p = Some r \<longleftrightarrow> s = r @ p"
  by (auto simp: strip_suffix_def ends_with_suffix suffix_def)

lemma split_once_Some: "split_once d s = Some (a, b) \<longleftrightarrow> s = a @ d # b \<and> d \<notin> set a"
proof (induction s arbitrary: a)
  case (Cons c cs)
  show ?case
  proof (cases a)
    case Nil
    then show ?thesis by auto
  next
    case (Cons c' a')
    then show ?thesis using Cons.IH [of a'] by auto
  qed
qed simp

lemma split_once_None: "split_once d s = None \<longleftrightarrow> d \<notin> set s"
  by (induction s) auto

lemma concat_utf8_chars [simp]: "concat (utf8_chars s) = s"
  by (induction s rule: utf8_chars.induct) (simp_all)

lemma utf8_chars_nonempty: "c \<in> set (utf8_chars s) \<Longrightarrow> c \<noteq> []"
  by (induction s rule: utf8_chars.induct) auto

lemma chars_count_le: "chars_count s \<le> length s"
proof (induction s rule: utf8_chars.induct)
  case (2 c cs)
  have "length (dropWhile is_continuation cs) \<le> length cs"
    by (rule length_dropWhile_le)
  with 2 show ?case by (simp add: chars_count_def)
qed (simp add: chars_count_def)

text \<open>Splitting a string into characters is inverse to concatenation, and trimming is idempotent.\<close>

definition char_groups :: "string list \<Rightarrow> bool" where
  "char_groups cs \<longleftrightarrow> (\<forall>c\<in>set cs. c \<noteq> [] \<and> list_all is_continuation (tl c)) \<and>
     (\<forall>c\<in>set (tl cs). \<not> is_continuation (hd c))"

lemma in_set_tl: "x \<in> set (tl xs) \<Longrightarrow> x \<in> set xs"
  by (cases xs) auto

lemma utf8_chars_head: "s \<noteq> [] \<Longrightarrow> hd (hd (utf8_chars s)) = hd s"
  by (cases s) auto

lemma char_groups_utf8: "char_groups (utf8_chars s)"
proof (induction s rule: utf8_chars.induct)
  case (2 c cs)
  let ?rest = "dropWhile is_continuation cs"
  have "\<not> is_continuation (hd x)" if "x \<in> set (utf8_chars ?rest)" for x
  proof -
    have rest: "?rest \<noteq> []" using that by (cases ?rest) auto
    then have "\<not> is_continuation (hd ?rest)" using hd_dropWhile by blast
    with rest utf8_chars_head [of ?rest] 2 that show ?thesis
      by (cases "utf8_chars ?rest") (auto simp: char_groups_def)
  qed
  with 2 show ?case by (auto simp: char_groups_def list_all_iff dest: set_takeWhileD)
qed (simp add: char_groups_def)

lemma utf8_chars_concat: "char_groups cs \<Longrightarrow> utf8_chars (concat cs) = cs"
proof (induction cs)
  case (Cons c cs)
  then obtain h t where c: "c = h # t" "list_all is_continuation t"
    by (cases c) (auto simp: char_groups_def)
  have "cs = [] \<or> \<not> is_continuation (hd (concat cs))" using Cons.prems
    by (cases cs) (auto simp: char_groups_def hd_append)
  moreover have "concat cs = [] \<longleftrightarrow> cs = []" using Cons.prems by (auto simp: char_groups_def)
  ultimately have "takeWhile is_continuation (t @ concat cs) = t"
    "dropWhile is_continuation (t @ concat cs) = concat cs"
    using c(2) by (cases "concat cs"; simp add: list_all_iff takeWhile_append dropWhile_append)+
  moreover have "char_groups cs" using Cons.prems by (auto simp: char_groups_def dest: in_set_tl)
  ultimately show ?case using Cons.IH c(1) by simp
qed simp

definition strip :: "string list \<Rightarrow> string list" where
  "strip cs = rev (dropWhile (\<lambda>c. c \<in> set white_space) (rev (dropWhile (\<lambda>c. c \<in> set white_space) cs)))"

lemma char_groups_dropWhile: "char_groups cs \<Longrightarrow> char_groups (dropWhile P cs)"
proof -
  assume "char_groups cs"
  moreover have "set (tl (dropWhile P cs)) \<subseteq> set (tl cs)"
    by (induction cs) (auto dest: in_set_tl)
  ultimately show ?thesis by (auto simp: char_groups_def dest: set_dropWhileD)
qed

lemma char_groups_prefix: "char_groups (xs @ ys) \<Longrightarrow> char_groups xs"
  by (cases xs) (auto simp: char_groups_def)

lemma rev_dropWhile_rev: "\<exists>ys. xs = rev (dropWhile P (rev xs)) @ ys"
proof -
  have "xs = rev (takeWhile P (rev xs) @ dropWhile P (rev xs))" by simp
  then show ?thesis unfolding rev_append by blast
qed

lemma trim_strip: "trim s = concat (strip (utf8_chars s))" "char_groups (strip (utf8_chars s))"
proof -
  let ?ds = "dropWhile (\<lambda>c. c \<in> set white_space) (utf8_chars s)"
  have ds: "char_groups ?ds" by (rule char_groups_dropWhile [OF char_groups_utf8])
  obtain ys where "?ds = strip (utf8_chars s) @ ys"
    using rev_dropWhile_rev unfolding strip_def by blast
  with ds show "char_groups (strip (utf8_chars s))" by (metis char_groups_prefix)
  show "trim s = concat (strip (utf8_chars s))"
    using utf8_chars_concat [OF ds] by (simp add: trim_def trim_end_def trim_start_def strip_def)
qed

lemma strip_idem: "strip (strip cs) = strip cs"
proof (cases "strip cs = []")
  case True
  have "strip [] = []" by (simp add: strip_def)
  then show ?thesis by (simp only: True)
next
  case False
  define w where "w = (\<lambda>c. c \<in> set white_space)"
  have strip_w: "strip xs = rev (dropWhile w (rev (dropWhile w xs)))" for xs
    by (simp add: strip_def w_def)
  obtain ys where ys: "dropWhile w cs = strip cs @ ys" using rev_dropWhile_rev unfolding strip_w by blast
  with False have ne: "dropWhile w cs \<noteq> []" and hd: "hd (strip cs) = hd (dropWhile w cs)" by simp_all
  from hd_dropWhile [OF ne] hd have "\<not> w (hd (strip cs))" by simp
  with False have front: "dropWhile w (strip cs) = strip cs" by (cases "strip cs") auto
  have rear: "dropWhile w (rev (strip cs)) = rev (strip cs)"
    unfolding strip_w [of cs] rev_rev_ident by (rule dropWhile_idem)
  show ?thesis unfolding strip_w [of "strip cs"] front rear by simp
qed

lemma trim_idem [simp]: "trim (trim s) = trim s"
proof -
  have "utf8_chars (trim s) = strip (utf8_chars s)"
    unfolding trim_strip(1) [of s] by (rule utf8_chars_concat [OF trim_strip(2)])
  then have "trim (trim s) = concat (strip (strip (utf8_chars s)))"
    by (simp only: trim_strip(1) [of "trim s"])
  then show ?thesis by (simp only: strip_idem trim_strip(1) [of s])
qed

section \<open>Lemmas on maps\<close>

lemma map_of_bt_insert [simp]: "map_of (bt_insert k v m) = (map_of m)(k \<mapsto> v)"
  by (induction m) auto

lemma keys_bt_insert [simp]: "set (map_keys (bt_insert k v m)) = insert k (set (map_keys m))"
  by (induction k v m rule: bt_insert.induct) auto

lemma set_bt_remove: "e \<in> set (bt_remove k m) \<Longrightarrow> e \<in> set m"
  by (induction k m rule: bt_remove.induct) (auto split: if_splits)

lemma bt_sorted_distinct: "bt_sorted m \<Longrightarrow> distinct (map_keys m)"
  by (simp add: bt_sorted_def strict_sorted_iff)

lemma bt_sorted_Nil [simp]: "bt_sorted []"
  by (simp add: bt_sorted_def)

lemma bt_sorted_insert [simp]: "bt_sorted m \<Longrightarrow> bt_sorted (bt_insert k v m)"
proof (induction m)
  case (Cons x m)
  obtain k' v' where x: "x = (k', v')" by (cases x)
  with Cons have IH: "bt_sorted (bt_insert k v m)" and lt: "\<forall>y\<in>set (map_keys m). k' < y"
    by (auto simp: bt_sorted_def)
  show ?case
  proof (cases "k' < k")
    case True
    then have "\<forall>y\<in>set (map_keys (bt_insert k v m)). k' < y"
      using lt unfolding keys_bt_insert by blast
    with IH True x show ?thesis by (auto simp: bt_sorted_def)
  next
    case False
    then show ?thesis using x Cons.prems by (auto simp: bt_sorted_def)
  qed
qed (simp add: bt_sorted_def)

lemma bt_sorted_remove [simp]: "bt_sorted m \<Longrightarrow> bt_sorted (bt_remove k m)"
proof (induction m)
  case (Cons x m)
  obtain k' v' where x: "x = (k', v')" by (cases x)
  with Cons have "bt_sorted (bt_remove k m)" "\<forall>y\<in>set (map_keys m). k' < y" "bt_sorted m"
    by (auto simp: bt_sorted_def)
  with x show ?case by (auto simp: bt_sorted_def dest!: set_bt_remove)
qed (simp add: bt_sorted_def)

lemma map_of_bt_remove [simp]:
  "distinct (map_keys m) \<Longrightarrow> map_of (bt_remove k m) = (map_of m)(k := None)"
  by (induction k m rule: bt_remove.induct) (auto simp: fun_eq_iff map_of_eq_None_iff)

lemma find_map_Some: "find_map f xs = Some y \<Longrightarrow> \<exists>x\<in>set xs. f x = Some y"
  by (induction xs) (auto split: option.splits)

lemma find_map_None: "find_map f xs = None \<longleftrightarrow> (\<forall>x\<in>set xs. f x = None)"
  by (induction xs) (auto split: option.splits)

lemma find_SomeD: "List.find P xs = Some x \<Longrightarrow> x \<in> set xs \<and> P x"
  by (induction xs) (auto split: if_splits)

section \<open>The interface of an ordered map\<close>

text \<open>
  What the components rely on when they keep state in a keyed map: a lookup after an insertion or a
  removal, and the invariant that both keep. The two map representations are instances.
\<close>

locale keyed_map =
  fixes ins :: "'k \<Rightarrow> 'v \<Rightarrow> ('k \<times> 'v) list \<Rightarrow> ('k \<times> 'v) list"
    and del :: "'k \<Rightarrow> ('k \<times> 'v) list \<Rightarrow> ('k \<times> 'v) list"
    and inv :: "('k \<times> 'v) list \<Rightarrow> bool"
  assumes inv_empty: "inv []"
    and inv_ins: "inv m \<Longrightarrow> inv (ins k v m)"
    and inv_del: "inv m \<Longrightarrow> inv (del k m)"
    and inv_distinct: "inv m \<Longrightarrow> distinct (map fst m)"
    and get_ins: "inv m \<Longrightarrow> map_of (ins k v m) = (map_of m)(k \<mapsto> v)"
    and get_del: "inv m \<Longrightarrow> map_of (del k m) = (map_of m)(k := None)"
begin

lemma ins_other: "inv m \<Longrightarrow> k' \<noteq> k \<Longrightarrow> map_of (ins k v m) k' = map_of m k'"
  by (simp add: get_ins)

lemma ins_overwrites: "inv m \<Longrightarrow> map_of (ins k v (ins k w m)) = map_of (ins k v m)"
  by (simp add: get_ins inv_ins)

lemma mem_iff_get: "inv m \<Longrightarrow> (k, v) \<in> set m \<longleftrightarrow> map_of m k = Some v"
  by (simp add: inv_distinct)

lemma set_ins: "inv m \<Longrightarrow> set (ins k v m) = insert (k, v) {e \<in> set m. fst e \<noteq> k}"
proof (rule set_eqI)
  fix e
  assume "inv m"
  then show "e \<in> set (ins k v m) \<longleftrightarrow> e \<in> insert (k, v) {e \<in> set m. fst e \<noteq> k}"
    by (cases e) (auto simp: mem_iff_get inv_ins get_ins split: if_splits)
qed

lemma set_del: "inv m \<Longrightarrow> set (del k m) = {e \<in> set m. fst e \<noteq> k}"
proof (rule set_eqI)
  fix e
  assume "inv m"
  then show "e \<in> set (del k m) \<longleftrightarrow> e \<in> {e \<in> set m. fst e \<noteq> k}"
    by (cases e) (auto simp: mem_iff_get inv_del get_del split: if_splits)
qed

lemma sum_ins:
  fixes f :: "'k \<times> 'v \<Rightarrow> int"
  assumes "inv m"
  shows "sum_list (map f (ins k v m)) =
    sum_list (map f m) - (case map_of m k of None \<Rightarrow> 0 | Some w \<Rightarrow> f (k, w)) + f (k, v)"
proof -
  have as_sum: "sum_list (map f m') = sum f (set m')" if "inv m'" for m'
    using inv_distinct [OF that] by (simp add: sum_list_distinct_conv_sum_set distinct_map)
  let ?R = "{e \<in> set m. fst e \<noteq> k}"
  have new: "sum f (set (ins k v m)) = f (k, v) + sum f ?R"
    using assms by (simp add: set_ins)
  have old: "sum f (set m) = sum f ?R + (case map_of m k of None \<Rightarrow> 0 | Some w \<Rightarrow> f (k, w))"
  proof (cases "map_of m k")
    case None
    then have "set m = ?R" by (auto simp: map_of_eq_None_iff)
    with None show ?thesis by simp
  next
    case (Some w)
    with assms have "set m = insert (k, w) ?R"
      by (auto simp: mem_iff_get)
    then have "sum f (set m) = sum f (insert (k, w) ?R)" by simp
    also have "\<dots> = f (k, w) + sum f ?R" by (rule sum.insert) auto
    finally show ?thesis using Some by simp
  qed
  from new old assms show ?thesis by (simp add: as_sum inv_ins)
qed

end

interpretation bt: keyed_map bt_insert bt_remove bt_sorted
proof
qed (simp_all add: bt_sorted_distinct)

lemma hm_distinct_update [simp]: "hm_distinct m \<Longrightarrow> hm_distinct (AList.update k v m)"
  unfolding hm_distinct_def by (rule distinct_update)

lemma hm_distinct_delete [simp]: "hm_distinct m \<Longrightarrow> hm_distinct (AList.delete k m)"
  unfolding hm_distinct_def by (rule distinct_delete)

lemma hm_distinct_Nil [simp]: "hm_distinct []"
  by (simp add: hm_distinct_def)

interpretation hm: keyed_map AList.update AList.delete hm_distinct
proof
qed (simp_all add: update_conv' delete_conv' hm_distinct_def distinct_update distinct_delete)

text \<open>Sorting.\<close>

lemma set_insert_by [simp]: "set (insert_by le x xs) = insert x (set xs)"
  by (induction xs) auto

lemma set_sort_by [simp]: "set (sort_by le xs) = set xs"
  by (induction xs) (simp_all add: sort_by_def)

lemma length_insert_by [simp]: "length (insert_by le x xs) = Suc (length xs)"
  by (induction xs) auto

lemma length_sort_by [simp]: "length (sort_by le xs) = length xs"
  by (induction xs) (simp_all add: sort_by_def)

lemma sorted_wrt_insert_by:
  assumes "transp le" "totalp le" "reflp le" "sorted_wrt le xs"
  shows "sorted_wrt le (insert_by le x xs)"
  using assms(4)
proof (induction xs)
  case (Cons y ys)
  then show ?case
    using assms(1-3) by (auto dest: totalpD reflpD elim: transpE) (metis reflpE totalpD)
qed simp

lemma sorted_wrt_sort_by: "transp le \<Longrightarrow> totalp le \<Longrightarrow> reflp le \<Longrightarrow> sorted_wrt le (sort_by le xs)"
  by (induction xs) (simp_all add: sort_by_def sorted_wrt_insert_by)

lemma distinct_insert_by: "distinct (insert_by le x xs) \<longleftrightarrow> distinct (x # xs)"
  by (induction xs) auto

lemma distinct_sort_by [simp]: "distinct (sort_by le xs) \<longleftrightarrow> distinct xs"
  by (induction xs) (simp_all add: sort_by_def distinct_insert_by set_sort_by [unfolded sort_by_def])

text \<open>Two sorted lists of the same distinct elements are equal when the order is antisymmetric on them.\<close>

lemma sorted_wrt_unique:
  assumes "sorted_wrt le xs" "sorted_wrt le ys" "set xs = set ys" "distinct xs" "distinct ys"
    and "\<And>x y. x \<in> set xs \<Longrightarrow> y \<in> set xs \<Longrightarrow> le x y \<Longrightarrow> le y x \<Longrightarrow> x = y"
  shows "xs = ys"
  using assms
proof (induction xs arbitrary: ys)
  case (Cons x xs)
  then obtain y ys' where ys: "ys = y # ys'" by (cases ys) auto
  have "x = y"
  proof (rule ccontr)
    assume "x \<noteq> y"
    with Cons.prems(3) ys have "y \<in> set xs" "x \<in> set ys'" by auto
    with Cons.prems(1, 2) ys have "le x y" "le y x" by auto
    with Cons.prems(6) [of x y] \<open>y \<in> set xs\<close> \<open>x \<noteq> y\<close> show False by simp
  qed
  moreover have "xs = ys'"
  proof (rule Cons.IH)
    show "set xs = set ys'" using Cons.prems(3-5) ys \<open>x = y\<close> by auto
    show "a = b" if "a \<in> set xs" "b \<in> set xs" "le a b" "le b a" for a b
      using Cons.prems(6) [of a b] that by simp
  qed (use Cons.prems ys in auto)
  ultimately show ?case using ys by simp
qed simp

end
