(* ===== verification/F64.thy ===== *)
theory F64
  imports Complex_Main Prelude
begin

text \<open>
  The \<^verbatim>\<open>f64\<close> type of Rust: IEEE 754 binary64 with round-to-nearest-even, over exact rationals. Every
  arithmetic operation computes the exact rational result and rounds it once. The development uses it
  for token prices, spend limits and the conversion of costs to integral micro-units.
\<close>

named_theorems f64_defs \<open>definitions of the floating-point operations\<close>

text \<open>A finite value other than negative zero is its rational value.\<close>

datatype f64 = NaN | PInf | NInf | NegZero | Fin rat

section \<open>Rounding\<close>

definition pow2 :: "int \<Rightarrow> rat" where
  "pow2 e = (if 0 \<le> e then 2 ^ nat e else 1 / 2 ^ nat (- e))"

fun bitlen :: "nat \<Rightarrow> nat" where
  "bitlen n = (if n = 0 then 0 else Suc (bitlen (n div 2)))"

declare bitlen.simps [simp del]

text \<open>The binary exponent of a positive rational: \<open>pow2 (exponent a) \<le> a < pow2 (exponent a + 1)\<close>.\<close>

definition exponent :: "rat \<Rightarrow> int" where
  "exponent a =
     (case quotient_of a of (p, q) \<Rightarrow>
        let e = int (bitlen (nat p)) - int (bitlen (nat q))
        in if pow2 e \<le> a then e else e - 1)"

definition round_even :: "rat \<Rightarrow> int" where
  "round_even x =
     (let n = \<lfloor>x\<rfloor>; d = x - of_int n
      in if d < 1 / 2 then n
         else if 1 / 2 < d then n + 1
         else if even n then n else n + 1)"

text \<open>53 bits of significand, subnormal numbers below \<open>pow2 (-1022)\<close>.\<close>

definition ulp_exponent :: "rat \<Rightarrow> int" where
  "ulp_exponent a = max (exponent a - 52) (- 1074)"

definition round_mag :: "rat \<Rightarrow> rat" where
  "round_mag a =
     (let q = ulp_exponent a in of_int (round_even (a / pow2 q)) * pow2 q)"

definition f64_limit :: rat where
  "f64_limit = pow2 1024"

definition f64_of_rat :: "rat \<Rightarrow> f64" where
  "f64_of_rat r =
     (if r = 0 then Fin 0
      else let v = round_mag \<bar>r\<bar>
           in if f64_limit \<le> v then (if r < 0 then NInf else PInf)
              else if v = 0 then (if r < 0 then NegZero else Fin 0)
              else Fin (if r < 0 then - v else v))"

section \<open>Operations\<close>

fun fval :: "f64 \<Rightarrow> rat" where
  "fval (Fin r) = r"
| "fval _ = 0"

definition is_finite :: "f64 \<Rightarrow> bool" where
  "is_finite x \<longleftrightarrow> (case x of Fin _ \<Rightarrow> True | NegZero \<Rightarrow> True | _ \<Rightarrow> False)"

definition is_nan :: "f64 \<Rightarrow> bool" where
  "is_nan x \<longleftrightarrow> x = NaN"

definition sign_bit :: "f64 \<Rightarrow> bool" where
  "sign_bit x \<longleftrightarrow> (case x of NInf \<Rightarrow> True | NegZero \<Rightarrow> True | Fin r \<Rightarrow> r < 0 | _ \<Rightarrow> False)"

fun f64_neg :: "f64 \<Rightarrow> f64" where
  "f64_neg NaN = NaN"
| "f64_neg PInf = NInf"
| "f64_neg NInf = PInf"
| "f64_neg NegZero = Fin 0"
| "f64_neg (Fin r) = (if r = 0 then NegZero else Fin (- r))"

fun f64_add :: "f64 \<Rightarrow> f64 \<Rightarrow> f64" where
  "f64_add NaN _ = NaN"
| "f64_add _ NaN = NaN"
| "f64_add PInf NInf = NaN"
| "f64_add NInf PInf = NaN"
| "f64_add PInf _ = PInf"
| "f64_add _ PInf = PInf"
| "f64_add NInf _ = NInf"
| "f64_add _ NInf = NInf"
| "f64_add NegZero NegZero = NegZero"
| "f64_add x y = f64_of_rat (fval x + fval y)"

definition f64_sub :: "f64 \<Rightarrow> f64 \<Rightarrow> f64" where
  "f64_sub x y = f64_add x (f64_neg y)"

definition signed_zero :: "bool \<Rightarrow> f64" where
  "signed_zero neg = (if neg then NegZero else Fin 0)"

definition signed_inf :: "bool \<Rightarrow> f64" where
  "signed_inf neg = (if neg then NInf else PInf)"

definition f64_mul :: "f64 \<Rightarrow> f64 \<Rightarrow> f64" where
  "f64_mul x y =
     (let neg = (sign_bit x \<noteq> sign_bit y)
      in if is_nan x \<or> is_nan y then NaN
         else if is_finite x \<and> is_finite y then
           (if fval x = 0 \<or> fval y = 0 then signed_zero neg else f64_of_rat (fval x * fval y))
         else if is_finite x \<and> fval x = 0 \<or> is_finite y \<and> fval y = 0 then NaN
         else signed_inf neg)"

definition f64_div :: "f64 \<Rightarrow> f64 \<Rightarrow> f64" where
  "f64_div x y =
     (let neg = (sign_bit x \<noteq> sign_bit y)
      in if is_nan x \<or> is_nan y then NaN
         else if is_finite x \<and> is_finite y then
           (if fval y = 0 then (if fval x = 0 then NaN else signed_inf neg)
            else if fval x = 0 then signed_zero neg
            else f64_of_rat (fval x / fval y))
         else if is_finite x then signed_zero neg
         else if is_finite y then signed_inf neg
         else NaN)"

text \<open>The comparison operators: all false on NaN, and the two zeros are equal.\<close>

fun f64_le :: "f64 \<Rightarrow> f64 \<Rightarrow> bool" where
  "f64_le NaN _ = False"
| "f64_le _ NaN = False"
| "f64_le NInf _ = True"
| "f64_le _ PInf = True"
| "f64_le PInf _ = False"
| "f64_le _ NInf = False"
| "f64_le x y = (fval x \<le> fval y)"

definition f64_lt :: "f64 \<Rightarrow> f64 \<Rightarrow> bool" where
  "f64_lt x y \<longleftrightarrow> f64_le x y \<and> \<not> f64_le y x"

definition f64_eq :: "f64 \<Rightarrow> f64 \<Rightarrow> bool" where
  "f64_eq x y \<longleftrightarrow> f64_le x y \<and> f64_le y x"

text \<open>\<^verbatim>\<open>f64::min\<close> and \<^verbatim>\<open>f64::max\<close> return the other operand when one is NaN.\<close>

definition f64_min :: "f64 \<Rightarrow> f64 \<Rightarrow> f64" where
  "f64_min x y = (if is_nan x then y else if is_nan y then x else if f64_le x y then x else y)"

definition f64_max :: "f64 \<Rightarrow> f64 \<Rightarrow> f64" where
  "f64_max x y = (if is_nan x then y else if is_nan y then x else if f64_le x y then y else x)"

text \<open>\<^verbatim>\<open>f64::round\<close>: to the nearest integer, halves away from zero.\<close>

definition round_away :: "rat \<Rightarrow> int" where
  "round_away r = (if r < 0 then - \<lfloor>- r + 1 / 2\<rfloor> else \<lfloor>r + 1 / 2\<rfloor>)"

fun f64_round :: "f64 \<Rightarrow> f64" where
  "f64_round (Fin r) =
     (if r < 0 \<and> round_away r = 0 then NegZero else Fin (of_int (round_away r)))"
| "f64_round x = x"

text \<open>Conversions: \<^verbatim>\<open>as f64\<close> rounds to nearest, \<^verbatim>\<open>as i64\<close> truncates and saturates, NaN becomes 0.\<close>

definition f64_of_nat :: "nat \<Rightarrow> f64" where
  "f64_of_nat n = f64_of_rat (of_nat n)"

definition f64_of_int :: "int \<Rightarrow> f64" where
  "f64_of_int i = f64_of_rat (of_int i)"

definition rat_trunc :: "rat \<Rightarrow> int" where
  "rat_trunc r = (if r < 0 then - \<lfloor>- r\<rfloor> else \<lfloor>r\<rfloor>)"

fun f64_to_i64 :: "f64 \<Rightarrow> int" where
  "f64_to_i64 NaN = 0"
| "f64_to_i64 PInf = i64_max"
| "f64_to_i64 NInf = i64_min"
| "f64_to_i64 NegZero = 0"
| "f64_to_i64 (Fin r) = i64_clamp (rat_trunc r)"

section \<open>Rounding is monotone\<close>

lemma pow2_pos [simp]: "0 < pow2 e" "0 \<le> pow2 e" "pow2 e \<noteq> 0"
  by (auto simp: pow2_def)

lemma pow2_powi: "pow2 e = 2 powi e"
  by (auto simp: pow2_def power_int_def field_simps)

lemma pow2_add: "pow2 (a + b) = pow2 a * pow2 b"
  by (simp add: pow2_powi power_int_add)

lemma pow2_diff: "pow2 (a - b) = pow2 a / pow2 b"
  by (simp add: pow2_powi power_int_diff)

lemma pow2_strict_mono: "a < b \<Longrightarrow> pow2 a < pow2 b"
  by (simp add: pow2_powi power_int_strict_increasing)

lemma pow2_less_iff [simp]: "pow2 a < pow2 b \<longleftrightarrow> a < b"
  using pow2_strict_mono [of a b] pow2_strict_mono [of b a] by (cases a b rule: linorder_cases) auto

lemma pow2_le_iff [simp]: "pow2 a \<le> pow2 b \<longleftrightarrow> a \<le> b"
  by (simp flip: linorder_not_less)

lemma pow2_nat: "pow2 (int n) = 2 ^ n"
  by (simp add: pow2_def)

lemma bitlen_bounds: "0 < n \<Longrightarrow> 2 ^ (bitlen n - 1) \<le> n \<and> n < 2 ^ bitlen n"
proof (induction n rule: bitlen.induct)
  case (1 n)
  show ?case
  proof (cases "n < 2")
    case True
    with 1 have "n = 1" by simp
    then show ?thesis by (simp add: bitlen.simps)
  next
    case False
    then have pos: "0 < n div 2" "n \<noteq> 0" by auto
    with 1 have IH: "2 ^ (bitlen (n div 2) - 1) \<le> n div 2 \<and> n div 2 < 2 ^ bitlen (n div 2)"
      by simp
    obtain m where m: "bitlen (n div 2) = Suc m"
      using pos by (metis bitlen.simps not_gr_zero)
    have eq: "bitlen n = Suc (Suc m)"
      using pos m by (simp add: bitlen.simps [of n])
    define k :: nat where "k = 2 ^ m"
    from IH m have "k \<le> n div 2" "n div 2 < 2 * k" by (simp_all add: k_def)
    then have "2 * k \<le> n \<and> n < 4 * k" by arith
    with eq show ?thesis by (simp add: k_def)
  qed
qed

lemma exponent_bounds:
  assumes "0 < a"
  shows "pow2 (exponent a) \<le> a" "a < pow2 (exponent a + 1)"
proof -
  obtain p q where pq: "quotient_of a = (p, q)" by (cases "quotient_of a")
  have q: "0 < q" and a: "a = of_int p / of_int q"
    using quotient_of_denom_pos [OF pq] quotient_of_div [OF pq] by auto
  with assms have p: "0 < p" by (simp add: zero_less_divide_iff)
  let ?n = "nat p" and ?m = "nat q"
  let ?e = "int (bitlen ?n) - int (bitlen ?m)"
  have a': "a = of_nat ?n / of_nat ?m" using a p q by simp
  have n: "2 ^ (bitlen ?n - 1) \<le> ?n" "?n < 2 ^ bitlen ?n"
    and m: "2 ^ (bitlen ?m - 1) \<le> ?m" "?m < 2 ^ bitlen ?m"
    using bitlen_bounds [of ?n] bitlen_bounds [of ?m] p q by auto
  have bl: "0 < bitlen ?n" "0 < bitlen ?m"
    using p q by (subst bitlen.simps; simp)+
  have rn: "pow2 (int (bitlen ?n) - 1) \<le> of_nat ?n" "of_nat ?n < pow2 (int (bitlen ?n))"
    using n bl pow2_nat [of "bitlen ?n - 1"] pow2_nat [of "bitlen ?n"]
    by (metis Suc_pred' numeral_power_le_of_nat_cancel_iff of_nat_1 of_nat_Suc add_diff_cancel_left')
       (metis n(2) pow2_nat of_nat_less_numeral_power_cancel_iff)
  have rm: "pow2 (int (bitlen ?m) - 1) \<le> of_nat ?m" "of_nat ?m < pow2 (int (bitlen ?m))"
    using m bl pow2_nat [of "bitlen ?m - 1"] pow2_nat [of "bitlen ?m"]
    by (metis Suc_pred' numeral_power_le_of_nat_cancel_iff of_nat_1 of_nat_Suc add_diff_cancel_left')
       (metis m(2) pow2_nat of_nat_less_numeral_power_cancel_iff)
  have mpos: "(0::rat) < of_nat ?m" using q by simp
  have up: "a < pow2 (?e + 1)"
  proof -
    have "a < pow2 (int (bitlen ?n)) / pow2 (int (bitlen ?m) - 1)"
      unfolding a' using rn(2) rm(1) mpos by (intro frac_less) auto
    also have "\<dots> = pow2 (?e + 1)"
      by (simp add: pow2_diff [symmetric] algebra_simps)
    finally show ?thesis .
  qed
  have low: "pow2 (?e - 1) \<le> a"
  proof -
    have "pow2 (int (bitlen ?n) - 1) / pow2 (int (bitlen ?m)) \<le> a"
      unfolding a' using rn(1) rm(2) mpos by (intro frac_le) auto
    moreover have "pow2 (int (bitlen ?n) - 1) / pow2 (int (bitlen ?m)) = pow2 (?e - 1)"
      by (simp add: pow2_diff [symmetric] algebra_simps)
    ultimately show ?thesis by simp
  qed
  show "pow2 (exponent a) \<le> a" "a < pow2 (exponent a + 1)"
    using up low pq by (auto simp: exponent_def Let_def)
qed

lemma exponent_mono: "0 < a \<Longrightarrow> a \<le> b \<Longrightarrow> exponent a \<le> exponent b"
proof -
  assume ab: "0 < a" "a \<le> b"
  then have "pow2 (exponent a) < pow2 (exponent b + 1)"
    using exponent_bounds [of a] exponent_bounds [of b] by linarith
  then show ?thesis by simp
qed

lemma round_even_mono:
  assumes "x \<le> y"
  shows "round_even x \<le> round_even y"
proof (cases "\<lfloor>x\<rfloor> = \<lfloor>y\<rfloor>")
  case True
  with assms show ?thesis by (auto simp: round_even_def Let_def)
next
  case False
  with assms have "\<lfloor>x\<rfloor> + 1 \<le> \<lfloor>y\<rfloor>" using floor_mono [of x y] by linarith
  then show ?thesis by (auto simp: round_even_def Let_def)
qed

lemma round_even_int [simp]: "round_even (of_int n) = n"
  by (simp add: round_even_def Let_def)

lemma round_even_ge: "of_int n \<le> x \<Longrightarrow> n \<le> round_even x"
  using round_even_mono [of "of_int n" x] by simp

lemma round_even_le: "x \<le> of_int n \<Longrightarrow> round_even x \<le> n"
  using round_even_mono [of x "of_int n"] by simp

text \<open>Rounding does not cross a multiple of the unit in the last place.\<close>

lemma round_mag_ge: "of_int k * pow2 (ulp_exponent a) \<le> a \<Longrightarrow> of_int k * pow2 (ulp_exponent a) \<le> round_mag a"
  by (simp add: round_mag_def Let_def pos_le_divide_eq round_even_ge)

lemma round_mag_le: "a \<le> of_int k * pow2 (ulp_exponent a) \<Longrightarrow> round_mag a \<le> of_int k * pow2 (ulp_exponent a)"
  by (simp add: round_mag_def Let_def pos_divide_le_eq round_even_le)

lemma round_mag_nonneg: "0 \<le> a \<Longrightarrow> 0 \<le> round_mag a"
  using round_mag_ge [of 0 a] by simp

lemma pow2_multiple: "j \<le> i \<Longrightarrow> \<exists>k. pow2 i = of_int k * pow2 j"
  by (rule exI [of _ "2 ^ nat (i - j)"])
     (use pow2_add [of "i - j" j] in \<open>simp add: pow2_def [of "i - j"]\<close>)

lemma round_mag_mono:
  assumes "0 < a" "a \<le> b"
  shows "round_mag a \<le> round_mag b"
proof (cases "ulp_exponent a = ulp_exponent b")
  case True
  have "a / pow2 (ulp_exponent b) \<le> b / pow2 (ulp_exponent b)"
    using assms by (simp add: divide_right_mono)
  with True show ?thesis
    by (simp add: round_mag_def Let_def round_even_mono)
next
  case False
  define E where "E = max (exponent a + 1) (ulp_exponent a)"
  from False exponent_mono [OF assms] have lt: "E \<le> exponent b"
      "ulp_exponent a \<le> E" "ulp_exponent b \<le> exponent b"
    by (auto simp: ulp_exponent_def E_def)
  obtain k where k: "pow2 E = of_int k * pow2 (ulp_exponent a)"
    using pow2_multiple [OF lt(2)] by auto
  obtain l where l: "pow2 (exponent b) = of_int l * pow2 (ulp_exponent b)"
    using pow2_multiple [OF lt(3)] by auto
  have "pow2 (exponent a + 1) \<le> pow2 E" by (simp add: E_def)
  then have "a \<le> pow2 E" using exponent_bounds(2) [of a] assms by linarith
  then have "round_mag a \<le> pow2 E" unfolding k by (rule round_mag_le)
  also have "\<dots> \<le> pow2 (exponent b)" using lt(1) by simp
  also have "\<dots> \<le> round_mag b"
    using exponent_bounds(1) [of b] assms unfolding l by (intro round_mag_ge) simp
  finally show ?thesis .
qed

lemma f64_limit_pos [simp]: "0 < f64_limit"
  by (simp add: f64_limit_def)

lemma f64_of_rat_mono:
  assumes "x \<le> y"
  shows "f64_le (f64_of_rat x) (f64_of_rat y)"
proof -
  consider "x < 0" "y < 0" | "x < 0" "0 \<le> y" | "x = 0" "0 \<le> y" | "0 < x" "0 < y"
    using assms by linarith
  then show ?thesis
  proof cases
    case 1
    then have "round_mag \<bar>y\<bar> \<le> round_mag \<bar>x\<bar>" using assms by (intro round_mag_mono) auto
    with 1 round_mag_nonneg [of "\<bar>y\<bar>"] show ?thesis by (auto simp: f64_of_rat_def Let_def)
  next
    case 2
    with round_mag_nonneg [of "\<bar>x\<bar>"] round_mag_nonneg [of "\<bar>y\<bar>"] show ?thesis
      by (auto simp: f64_of_rat_def Let_def)
  next
    case 3
    with round_mag_nonneg [of "\<bar>y\<bar>"] show ?thesis by (auto simp: f64_of_rat_def Let_def)
  next
    case 4
    then have "round_mag \<bar>x\<bar> \<le> round_mag \<bar>y\<bar>" using assms by (intro round_mag_mono) auto
    with 4 round_mag_nonneg [of "\<bar>x\<bar>"] show ?thesis by (auto simp: f64_of_rat_def Let_def)
  qed
qed

section \<open>Non-negative values\<close>

text \<open>A value that is not NaN and not below zero; sums and products of such values stay so.\<close>

definition f64_nonneg :: "f64 \<Rightarrow> bool" where
  "f64_nonneg x \<longleftrightarrow> f64_le (Fin 0) x"

lemma f64_nonneg_cases:
  assumes "f64_nonneg x"
  obtains (Inf) "x = PInf" | (Zero) "x = NegZero" | (Fin) r where "x = Fin r" "0 \<le> r"
  using assms by (cases x) (auto simp: f64_nonneg_def)

lemma f64_of_rat_nonneg: "0 \<le> r \<Longrightarrow> f64_nonneg (f64_of_rat r)"
  using f64_of_rat_mono [of 0 r] by (simp add: f64_nonneg_def f64_of_rat_def)

lemma f64_nonneg_simps [simp]: "f64_nonneg PInf" "f64_nonneg NegZero" "f64_nonneg (Fin r) \<longleftrightarrow> 0 \<le> r"
  "\<not> f64_nonneg NaN" "\<not> f64_nonneg NInf"
  by (simp_all add: f64_nonneg_def)

lemma f64_nonneg_add: "f64_nonneg x \<Longrightarrow> f64_nonneg y \<Longrightarrow> f64_nonneg (f64_add x y)"
  by (elim f64_nonneg_cases) (auto intro: f64_of_rat_nonneg)

lemma f64_nonneg_of_nat [simp]: "f64_nonneg (f64_of_nat n)"
  by (simp add: f64_of_nat_def f64_of_rat_nonneg)

lemma f64_le_refl: "x \<noteq> NaN \<Longrightarrow> f64_le x x"
  by (cases x) auto

lemma f64_le_trans: "f64_le x y \<Longrightarrow> f64_le y z \<Longrightarrow> f64_le x z"
  by (cases x; cases y; cases z) auto

lemma f64_of_rat_not_NaN [simp]: "f64_of_rat r \<noteq> NaN" "NaN \<noteq> f64_of_rat r"
  by (auto simp: f64_of_rat_def Let_def)

lemma f64_le_extremes [simp]:
  "x \<noteq> NaN \<Longrightarrow> f64_le x PInf"
  "x \<noteq> NaN \<Longrightarrow> f64_le NInf x"
  "f64_le NegZero x \<longleftrightarrow> f64_nonneg x"
  "f64_le (Fin 0) x \<longleftrightarrow> f64_nonneg x"
  by (cases x; simp)+

lemma f64_of_rat_0 [simp]: "f64_of_rat 0 = Fin 0"
  by (simp add: f64_of_rat_def)

lemma f64_of_rat_nonpos: "r \<le> 0 \<Longrightarrow> f64_le (f64_of_rat r) (Fin 0)" "r \<le> 0 \<Longrightarrow> f64_le (f64_of_rat r) NegZero"
  using f64_of_rat_mono [of r 0] by (auto elim: f64_le_trans)

lemma f64_add_mono:
  assumes "f64_nonneg x" "f64_nonneg y" "f64_le x x'" "f64_le y y'"
  shows "f64_le (f64_add x y) (f64_add x' y')"
  using assms
  by (elim f64_nonneg_cases; cases x'; cases y')
     (auto intro: f64_of_rat_mono f64_of_rat_nonneg f64_of_rat_nonpos)

text \<open>Powers of two are representable, so a rational below one does not round above it.\<close>

lemma exponent_pow2: "exponent (pow2 k) = k"
  using exponent_bounds [of "pow2 k"] by simp

lemma round_mag_pow2: "- 1074 \<le> k \<Longrightarrow> round_mag (pow2 k) = pow2 k"
proof -
  assume "- 1074 \<le> k"
  then have "ulp_exponent (pow2 k) \<le> k" by (simp add: ulp_exponent_def exponent_pow2)
  then obtain i where "pow2 k = of_int i * pow2 (ulp_exponent (pow2 k))"
    using pow2_multiple by blast
  then show ?thesis
    using round_mag_le [of "pow2 k" i] round_mag_ge [of i "pow2 k"] by simp
qed

lemma f64_of_rat_finite:
  assumes "0 \<le> r" "r \<le> pow2 k" "- 1074 \<le> k" "k < 1024"
  shows "is_finite (f64_of_rat r)" "fval (f64_of_rat r) \<le> pow2 k"
proof -
  have lim: "pow2 k < f64_limit" using assms(4) by (simp add: f64_limit_def)
  have "is_finite (f64_of_rat r) \<and> fval (f64_of_rat r) \<le> pow2 k"
  proof (cases "r = 0")
    case False
    with assms(1) have pos: "0 < r" by simp
    have "round_mag r \<le> pow2 k"
      using round_mag_mono [OF pos assms(2)] round_mag_pow2 [OF assms(3)] by simp
    with pos lim show ?thesis by (simp add: f64_of_rat_def Let_def is_finite_def)
  qed (simp add: is_finite_def)
  then show "is_finite (f64_of_rat r)" "fval (f64_of_rat r) \<le> pow2 k" by auto
qed

lemma f64_nonneg_fval [simp]: "f64_nonneg x \<Longrightarrow> 0 \<le> fval x"
  by (cases x) auto

lemma f64_le_fval: "f64_le x y \<Longrightarrow> is_finite x \<Longrightarrow> is_finite y \<Longrightarrow> fval x \<le> fval y"
  by (cases x; cases y) (auto simp: is_finite_def)

lemma f64_le_signed_zero:
  "f64_le (signed_zero neg) z \<longleftrightarrow> f64_le (f64_of_rat 0) z"
  "f64_le z (signed_zero neg) \<longleftrightarrow> f64_le z (f64_of_rat 0)"
  by (cases z; simp add: signed_zero_def)+

text \<open>On finite operands a product and a quotient compare like the rounded rational result.\<close>

lemma f64_mul_compare:
  assumes "is_finite x" "is_finite y"
  shows "f64_le (f64_mul x y) z \<longleftrightarrow> f64_le (f64_of_rat (fval x * fval y)) z"
    "f64_le z (f64_mul x y) \<longleftrightarrow> f64_le z (f64_of_rat (fval x * fval y))"
proof -
  have "is_nan x = False" "is_nan y = False"
    using assms by (auto simp: is_nan_def is_finite_def)
  then have eq: "f64_mul x y = (if fval x = 0 \<or> fval y = 0 then signed_zero (sign_bit x \<noteq> sign_bit y)
      else f64_of_rat (fval x * fval y))"
    using assms unfolding f64_mul_def Let_def by simp
  show "f64_le (f64_mul x y) z \<longleftrightarrow> f64_le (f64_of_rat (fval x * fval y)) z"
    "f64_le z (f64_mul x y) \<longleftrightarrow> f64_le z (f64_of_rat (fval x * fval y))"
    unfolding eq using f64_le_signed_zero by auto
qed

lemma f64_div_compare:
  assumes "is_finite x" "d \<noteq> 0"
  shows "f64_le (f64_div x (Fin d)) z \<longleftrightarrow> f64_le (f64_of_rat (fval x / d)) z"
    "f64_le z (f64_div x (Fin d)) \<longleftrightarrow> f64_le z (f64_of_rat (fval x / d))"
proof -
  have "is_nan x = False" "is_nan (Fin d) = False" "is_finite (Fin d)"
    using assms by (auto simp: is_nan_def is_finite_def)
  then have eq: "f64_div x (Fin d) = (if fval x = 0 then signed_zero (sign_bit x \<noteq> sign_bit (Fin d))
      else f64_of_rat (fval x / d))"
    using assms unfolding f64_div_def Let_def by simp
  show "f64_le (f64_div x (Fin d)) z \<longleftrightarrow> f64_le (f64_of_rat (fval x / d)) z"
    "f64_le z (f64_div x (Fin d)) \<longleftrightarrow> f64_le z (f64_of_rat (fval x / d))"
    unfolding eq using f64_le_signed_zero by auto
qed

lemma f64_nonneg_mul:
  assumes "f64_nonneg x" "f64_nonneg y" "is_finite x" "is_finite y"
  shows "f64_nonneg (f64_mul x y)"
  using assms f64_of_rat_nonneg [of "fval x * fval y"] f64_mul_compare(2) [of x y "Fin 0"]
  by simp

lemma f64_mul_mono:
  assumes "f64_le x x'" "is_finite x" "is_finite x'" "f64_nonneg c" "is_finite c"
  shows "f64_le (f64_mul x c) (f64_mul x' c)"
  using assms f64_le_fval [OF assms(1-3)]
  by (simp add: f64_mul_compare f64_of_rat_mono mult_right_mono)

lemma f64_nonneg_div:
  assumes "f64_nonneg x" "is_finite x" "0 < d"
  shows "f64_nonneg (f64_div x (Fin d))"
  using assms f64_of_rat_nonneg [of "fval x / d"] f64_div_compare(2) [of x d "Fin 0"]
  by simp

lemma f64_div_mono:
  assumes "f64_le x x'" "is_finite x" "is_finite x'" "0 < d"
  shows "f64_le (f64_div x (Fin d)) (f64_div x' (Fin d))"
  using assms f64_le_fval [OF assms(1-3)]
  by (simp add: f64_div_compare f64_of_rat_mono divide_right_mono)

lemma f64_div_finite:
  assumes "f64_nonneg x" "is_finite x" "1 \<le> d" "fval x \<le> pow2 k" "- 1074 \<le> k" "k < 1024"
  shows "is_finite (f64_div x (Fin d))"
proof -
  have "fval x * 1 \<le> fval x * d" using assms by (intro mult_left_mono) simp_all
  then have "fval x / d \<le> fval x" using assms(3) by (simp add: divide_le_eq)
  with assms have "is_finite (f64_of_rat (fval x / d))"
    by (intro f64_of_rat_finite [of _ k]) auto
  then show ?thesis
    using assms by (auto simp: f64_div_def Let_def is_nan_def is_finite_def signed_zero_def split: f64.splits)
qed

lemma f64_to_i64_range: "i64_range (f64_to_i64 x)"
  by (cases x) (auto simp: i64_range_def i64_max_def i64_min_def i64_clamp_def)

text \<open>Integers below \<open>2 ^ 53\<close> are represented exactly.\<close>

lemma f64_of_rat_int:
  assumes "0 < n" "n < 2 ^ 53"
  shows "f64_of_rat (of_int n) = Fin (of_int n)"
proof -
  let ?a = "of_int n :: rat" and ?q = "ulp_exponent (of_int n)"
  have "?a < of_int (2 ^ 53)" using assms by (simp only: of_int_less_iff)
  then have lt: "?a < pow2 53" by (simp add: pow2_def)
  moreover have "pow2 (exponent ?a) \<le> ?a" using exponent_bounds [of ?a] assms by simp
  ultimately have "pow2 (exponent ?a) < pow2 53" by (rule le_less_trans [rotated])
  then have q: "?q \<le> 0" by (simp add: ulp_exponent_def)
  have "?a / pow2 ?q = of_int (n * 2 ^ nat (- ?q))"
    using q by (cases "?q = 0") (auto simp: pow2_def)
  then have mag: "round_mag ?a = ?a"
    by (simp only: round_mag_def Let_def round_even_int) (metis nonzero_eq_divide_eq pow2_pos(3))
  have "\<not> f64_limit \<le> ?a"
    using less_trans [OF lt, of "pow2 1024"] by (simp add: f64_limit_def not_le)
  with mag assms show ?thesis by (simp add: f64_of_rat_def)
qed

text \<open>Rounding is idempotent.\<close>

lemma round_mag_idem:
  assumes "0 < a"
  shows "round_mag (round_mag a) = round_mag a"
proof -
  let ?q = "ulp_exponent a" and ?e = "exponent a" and ?b = "round_mag a"
  obtain k where k: "?b = of_int k * pow2 ?q" by (simp add: round_mag_def Let_def)
  have bounds: "pow2 ?e \<le> a" "a < pow2 (?e + 1)" using exponent_bounds [OF assms] by auto
  show ?thesis
  proof (cases "?b = 0 \<or> ?q = ulp_exponent ?b")
    case True
    then show ?thesis
    proof
      assume "?b = 0"
      then show ?thesis by (simp add: round_mag_def round_even_def Let_def)
    next
      assume eq: "?q = ulp_exponent ?b"
      then have "?b / pow2 (ulp_exponent ?b) = of_int k" by (simp add: k)
      then have "round_mag ?b = of_int k * pow2 (ulp_exponent ?b)"
        by (simp only: round_mag_def Let_def round_even_int)
      with eq k show ?thesis by simp
    qed
  next
    case False
    then have pos: "0 < ?b" using round_mag_nonneg [of a] assms by (simp add: order_less_le)
    have up: "?b \<le> pow2 (max (?e + 1) (- 1074))"
    proof -
      have "?q \<le> max (?e + 1) (- 1074)" by (simp add: ulp_exponent_def)
      then obtain j where "pow2 (max (?e + 1) (- 1074)) = of_int j * pow2 ?q" using pow2_multiple by blast
      moreover have "a \<le> pow2 (max (?e + 1) (- 1074))"
        using bounds(2) pow2_le_iff [of "?e + 1" "max (?e + 1) (- 1074)"] by linarith
      ultimately show ?thesis using round_mag_le by metis
    qed
    have "ulp_exponent ?b \<noteq> ?q" using False by simp
    have "?b = pow2 (max (?e + 1) (- 1074))"
    proof (rule ccontr)
      assume "?b \<noteq> pow2 (max (?e + 1) (- 1074))"
      with up have lt: "?b < pow2 (max (?e + 1) (- 1074))" by simp
      have "pow2 (exponent ?b) \<le> ?b" using exponent_bounds [OF pos] by simp
      with lt have e1: "exponent ?b < max (?e + 1) (- 1074)" by (metis le_less_trans pow2_less_iff)
      show False
      proof (cases "- 1022 \<le> ?e")
        case True
        then have "?q = ?e - 52" by (simp add: ulp_exponent_def)
        moreover obtain j where "pow2 ?e = of_int j * pow2 ?q" using pow2_multiple [of ?q ?e] calculation by auto
        ultimately have "pow2 ?e \<le> ?b" using round_mag_ge [of j a] bounds(1) by simp
        with exponent_bounds [OF pos] have "pow2 ?e < pow2 (exponent ?b + 1)" by linarith
        with e1 True have "exponent ?b = ?e" by simp
        with False show False by (simp add: ulp_exponent_def)
      next
        case False2: False
        with e1 have "ulp_exponent ?b = - 1074" "?q = - 1074" by (auto simp: ulp_exponent_def)
        with \<open>ulp_exponent ?b \<noteq> ?q\<close> show False by simp
      qed
    qed
    then show ?thesis using round_mag_pow2 [of "max (?e + 1) (- 1074)"] by simp
  qed
qed

text \<open>Values that rounding leaves alone; sums of non-negative ones only grow.\<close>

definition representable :: "f64 \<Rightarrow> bool" where
  "representable x \<longleftrightarrow> (case x of Fin r \<Rightarrow> f64_of_rat r = Fin r | _ \<Rightarrow> True)"

lemma representable_of_rat:
  assumes "0 \<le> r"
  shows "representable (f64_of_rat r)"
proof (cases "f64_of_rat r")
  case (Fin v)
  show ?thesis
  proof (cases "v = 0")
    case False
    with Fin assms have "0 < r" "v = round_mag r" "\<not> f64_limit \<le> v"
      by (auto simp: f64_of_rat_def Let_def split: if_splits)
    moreover from this False have "0 < v" using round_mag_nonneg [of r] by simp
    ultimately show ?thesis
      by (simp add: representable_def Fin) (simp add: f64_of_rat_def [of "round_mag r"] round_mag_idem)
  qed (simp add: representable_def Fin)
qed (simp_all add: representable_def)

lemma representable_add:
  assumes "f64_nonneg x" "f64_nonneg y"
  shows "representable (f64_add x y)"
  using assms
  by (elim f64_nonneg_cases) (auto simp: representable_of_rat, simp_all add: representable_def)

lemma f64_add_grows:
  assumes "f64_nonneg x" "representable x" "f64_nonneg c"
  shows "f64_le x (f64_add x c)"
proof -
  have "f64_le (f64_add x (Fin 0)) (f64_add x c)" if "x \<noteq> PInf"
    using assms that by (intro f64_add_mono) (auto elim!: f64_nonneg_cases intro: f64_le_refl)
  then show ?thesis
    using assms by (elim f64_nonneg_cases) (auto simp: representable_def)
qed

end
