(* ===== verification/Json.thy ===== *)
theory Json
  imports F64
begin

text \<open>
  JSON documents as the gateway handles them: the \<^verbatim>\<open>serde_json::Value\<close> enumeration and the accessors the
  sources use. The crate is built without \<^verbatim>\<open>preserve_order\<close>, so an object is a map sorted by key.
  Reading and printing JSON text is not defined here: functions that need it take it as an argument.
\<close>

datatype number = PosInt nat | NegInt int | Float f64

datatype json =
    JNull
  | JBool bool
  | JNumber number
  | JString string
  | JArray "json list"
  | JObject "(string \<times> json) list"

definition json_get :: "json \<Rightarrow> string \<Rightarrow> json option" where
  "json_get v k = (case v of JObject m \<Rightarrow> map_of m k | _ \<Rightarrow> None)"

definition json_nth :: "json \<Rightarrow> nat \<Rightarrow> json option" where
  "json_nth v i = (case v of JArray xs \<Rightarrow> (if i < length xs then Some (xs ! i) else None) | _ \<Rightarrow> None)"

definition as_str :: "json \<Rightarrow> string option" where
  "as_str v = (case v of JString s \<Rightarrow> Some s | _ \<Rightarrow> None)"

definition as_bool :: "json \<Rightarrow> bool option" where
  "as_bool v = (case v of JBool b \<Rightarrow> Some b | _ \<Rightarrow> None)"

definition as_u64 :: "json \<Rightarrow> nat option" where
  "as_u64 v = (case v of JNumber (PosInt n) \<Rightarrow> Some n | _ \<Rightarrow> None)"

definition as_array :: "json \<Rightarrow> json list option" where
  "as_array v = (case v of JArray xs \<Rightarrow> Some xs | _ \<Rightarrow> None)"

definition as_object :: "json \<Rightarrow> (string \<times> json) list option" where
  "as_object v = (case v of JObject m \<Rightarrow> Some m | _ \<Rightarrow> None)"

definition is_object :: "json \<Rightarrow> bool" where
  "is_object v \<longleftrightarrow> (case v of JObject _ \<Rightarrow> True | _ \<Rightarrow> False)"

definition is_null :: "json \<Rightarrow> bool" where
  "is_null v \<longleftrightarrow> v = JNull"

definition contains_key :: "('k \<times> 'v) list \<Rightarrow> 'k \<Rightarrow> bool" where
  "contains_key m k \<longleftrightarrow> map_of m k \<noteq> None"

text \<open>Two accessors in a row, \<^verbatim>\<open>value.get(key).and_then(Value::as_str)\<close> and the like.\<close>

definition get_str :: "json \<Rightarrow> string \<Rightarrow> string option" where
  "get_str v k = Option.bind (json_get v k) as_str"

definition get_bool :: "json \<Rightarrow> string \<Rightarrow> bool option" where
  "get_bool v k = Option.bind (json_get v k) as_bool"

definition get_array :: "json \<Rightarrow> string \<Rightarrow> json list option" where
  "get_array v k = Option.bind (json_get v k) as_array"

text \<open>The \<^verbatim>\<open>json!\<close> macro on an object literal inserts its entries in turn.\<close>

definition json_object :: "(string \<times> json) list \<Rightarrow> json" where
  "json_object kvs = JObject (foldl (\<lambda>m (k, v). bt_insert k v m) [] kvs)"

text \<open>Objects are sorted, so their keys are distinct, and unsigned numbers are in range.\<close>

fun wf_json :: "json \<Rightarrow> bool" where
  "wf_json (JArray xs) = list_all wf_json xs"
| "wf_json (JObject m) = (bt_sorted m \<and> list_all (\<lambda>e. wf_json (snd e)) m)"
| "wf_json (JNumber (PosInt n)) = (n \<le> u64_max)"
| "wf_json _ = True"

section \<open>Lemmas\<close>

lemma json_get_simps [simp]:
  "json_get (JObject m) k = map_of m k"
  "json_get JNull k = None"
  "json_get (JBool b) k = None"
  "json_get (JNumber n) k = None"
  "json_get (JString s) k = None"
  "json_get (JArray xs) k = None"
  by (simp_all add: json_get_def)

lemma as_str_Some [simp]: "as_str v = Some s \<longleftrightarrow> v = JString s"
  by (cases v) (simp_all add: as_str_def)

lemma as_u64_Some [simp]: "as_u64 v = Some n \<longleftrightarrow> v = JNumber (PosInt n)"
  by (auto simp: as_u64_def split: json.splits number.splits)

lemma as_array_Some [simp]: "as_array v = Some xs \<longleftrightarrow> v = JArray xs"
  by (cases v) (simp_all add: as_array_def)

lemma as_object_Some [simp]: "as_object v = Some m \<longleftrightarrow> v = JObject m"
  by (cases v) (simp_all add: as_object_def)

lemma as_bool_Some [simp]: "as_bool v = Some b \<longleftrightarrow> v = JBool b"
  by (cases v) (simp_all add: as_bool_def)

lemma wf_json_get: "wf_json v \<Longrightarrow> json_get v k = Some w \<Longrightarrow> wf_json w"
  by (cases v) (auto simp: list_all_iff dest!: map_of_SomeD)

lemma as_u64_bound: "wf_json v \<Longrightarrow> as_u64 v = Some n \<Longrightarrow> n \<le> u64_max"
  by auto

lemma json_object_wf:
  assumes "list_all (\<lambda>e. wf_json (snd e)) kvs"
  shows "wf_json (json_object kvs)"
proof -
  have ins: "list_all (\<lambda>e. wf_json (snd e)) (bt_insert k v m)"
    if "list_all (\<lambda>e. wf_json (snd e)) m" "wf_json v" for k v m
    using that by (induction k v m rule: bt_insert.induct) auto
  have "wf_json (JObject (foldl (\<lambda>m (k, v). bt_insert k v m) m kvs))"
    if "wf_json (JObject m)" for m
    using that assms
  proof (induction kvs arbitrary: m)
    case (Cons e kvs)
    then show ?case by (cases e) (simp add: ins)
  qed simp
  from this [of "[]"] show ?thesis by (simp add: json_object_def)
qed

end
