(* ===== verification/Pricing.thy ===== *)
theory Pricing
  imports Json
begin

text \<open>
  Token accounting and pricing, \<^verbatim>\<open>src/src/pricing.rs\<close>: reading token counts from provider responses in
  the OpenAI and Anthropic shapes, the built-in price table, and the cost of a request. The header that
  carries a charge between layers is serialised text and is not modelled.
\<close>

record TokenUsageBreakdown =
  input_tokens :: nat
  output_tokens :: nat
  cache_write_tokens :: nat
  cache_read_tokens :: nat

record UsageCharge =
  charge_input_tokens :: nat
  charge_output_tokens :: nat
  charge_cache_write_tokens :: nat
  charge_cache_read_tokens :: nat
  cost_estimate :: f64

record ModelPricing =
  input_per_million :: f64
  output_per_million :: f64
  cache_write_per_million :: f64
  cache_read_per_million :: f64

definition usage_default :: TokenUsageBreakdown where
  "usage_default = \<lparr>input_tokens = 0, output_tokens = 0, cache_write_tokens = 0, cache_read_tokens = 0\<rparr>"

section \<open>Reading token counts\<close>

definition get_u64 :: "json \<Rightarrow> string list \<Rightarrow> nat" where
  "get_u64 v names =
     (case find_map (\<lambda>field. Option.bind (json_get v field) as_u64) names of
        Some n \<Rightarrow> n | None \<Rightarrow> 0)"

text \<open>The inner loop of \<^verbatim>\<open>get_nested_u64\<close>: a missing segment ends the walk at \<open>JNull\<close>.\<close>

fun walk_path :: "json \<Rightarrow> string list \<Rightarrow> json" where
  "walk_path current [] = current"
| "walk_path current (segment # path) =
     (case json_get current segment of None \<Rightarrow> JNull | Some nxt \<Rightarrow> walk_path nxt path)"

fun get_nested_u64 :: "json \<Rightarrow> string list list \<Rightarrow> nat" where
  "get_nested_u64 v [] = 0"
| "get_nested_u64 v (path # paths) =
     (case as_u64 (walk_path v path) of Some n \<Rightarrow> n | None \<Rightarrow> get_nested_u64 v paths)"

definition openai_usage :: "json \<Rightarrow> TokenUsageBreakdown" where
  "openai_usage response =
     (case json_get response ''usage'' of
        None \<Rightarrow> usage_default
      | Some usage \<Rightarrow>
          let prompt_tokens = get_u64 usage [''prompt_tokens'', ''input_tokens''];
              output = get_u64 usage [''completion_tokens'', ''output_tokens''];
              deepseek_cache_hit = get_u64 usage [''prompt_cache_hit_tokens''];
              deepseek_cache_miss = get_u64 usage [''prompt_cache_miss_tokens''];
              cached_tokens = get_nested_u64 usage
                [[''prompt_tokens_details'', ''cached_tokens''],
                 [''input_tokens_details'', ''cached_tokens'']];
              cache_read = max deepseek_cache_hit cached_tokens
          in \<lparr>input_tokens = (if 0 < deepseek_cache_miss then deepseek_cache_miss
                             else prompt_tokens - cache_read),
              output_tokens = output,
              cache_write_tokens =
                get_u64 usage [''cache_creation_input_tokens'', ''prompt_cache_write_tokens''],
              cache_read_tokens = cache_read\<rparr>)"

definition openai_usage_if_present :: "json \<Rightarrow> TokenUsageBreakdown option" where
  "openai_usage_if_present response =
     Option.bind (Option.bind (json_get response ''usage'') as_object) (\<lambda>usage.
       if list_ex (contains_key usage)
            [''prompt_tokens'', ''input_tokens'', ''completion_tokens'', ''output_tokens'',
             ''prompt_cache_hit_tokens'', ''prompt_cache_miss_tokens'',
             ''cache_creation_input_tokens'', ''prompt_cache_write_tokens'',
             ''prompt_tokens_details'', ''input_tokens_details'']
       then Some (openai_usage response) else None)"

definition anthropic_usage :: "json \<Rightarrow> TokenUsageBreakdown" where
  "anthropic_usage response =
     (case json_get response ''usage'' of
        None \<Rightarrow> usage_default
      | Some usage \<Rightarrow>
          \<lparr>input_tokens = get_u64 usage [''input_tokens''],
           output_tokens = get_u64 usage [''output_tokens''],
           cache_write_tokens = get_u64 usage [''cache_creation_input_tokens''],
           cache_read_tokens = get_u64 usage [''cache_read_input_tokens'']\<rparr>)"

definition anthropic_usage_if_present :: "json \<Rightarrow> TokenUsageBreakdown option" where
  "anthropic_usage_if_present response =
     Option.bind (Option.bind (json_get response ''usage'') as_object) (\<lambda>usage.
       if list_ex (contains_key usage)
            [''input_tokens'', ''output_tokens'', ''cache_creation_input_tokens'',
             ''cache_read_input_tokens'']
       then Some (anthropic_usage response) else None)"

section \<open>Prices and costs\<close>

text \<open>A decimal literal of the source denotes the nearest \<^verbatim>\<open>f64\<close>.\<close>

definition model_pricing :: "rat \<Rightarrow> rat \<Rightarrow> rat \<Rightarrow> rat \<Rightarrow> ModelPricing" where
  "model_pricing i out cw cr =
     \<lparr>input_per_million = f64_of_rat i, output_per_million = f64_of_rat out,
      cache_write_per_million = f64_of_rat cw, cache_read_per_million = f64_of_rat cr\<rparr>"

definition pricing_for_model :: "string \<Rightarrow> ModelPricing" where
  "pricing_for_model model =
     (let normalized = to_ascii_lowercase model
      in if contains normalized ''deepseek-v4-pro''
         then model_pricing (435 / 1000) (87 / 100) (435 / 1000) (3625 / 1000000)
         else if contains normalized ''deepseek-v4-flash'' \<or> contains normalized ''deepseek-chat''
           \<or> contains normalized ''deepseek-reasoner''
         then model_pricing (14 / 100) (28 / 100) (14 / 100) (28 / 10000)
         else if contains normalized ''claude-fable-5'' \<or> contains normalized ''claude-mythos-5''
         then model_pricing 10 50 (125 / 10) 1
         else if contains normalized ''claude-opus-4''
         then model_pricing 5 25 (625 / 100) (5 / 10)
         else if contains normalized ''claude-sonnet-4''
         then model_pricing 3 15 (375 / 100) (3 / 10)
         else if contains normalized ''claude-3-5-haiku'' \<or> contains normalized ''claude-haiku''
         then model_pricing (8 / 10) 4 1 (8 / 100)
         else if contains normalized ''gpt-5.5-pro'' \<or> contains normalized ''gpt-5.4-pro''
         then model_pricing 15 90 15 15
         else if contains normalized ''gpt-5.5''
         then model_pricing (25 / 10) 15 (25 / 10) (25 / 100)
         else if contains normalized ''gpt-5.4-mini''
         then model_pricing (375 / 1000) (225 / 100) (375 / 1000) (375 / 10000)
         else if contains normalized ''gpt-5.4-nano''
         then model_pricing (1 / 10) (625 / 1000) (1 / 10) (1 / 100)
         else if contains normalized ''gpt-5.4''
         then model_pricing (125 / 100) (75 / 10) (125 / 100) (13 / 100)
         else if contains normalized ''mimo-''
         then model_pricing (14 / 100) (28 / 100) 0 (28 / 10000)
         else if contains normalized ''gpt-4o''
         then model_pricing (25 / 10) 10 (25 / 10) (125 / 100)
         else if contains normalized ''gpt-'' \<or> contains normalized ''openai/''
         then model_pricing (125 / 100) (75 / 10) (125 / 100) (125 / 1000)
         else if contains normalized ''gemini-''
         then model_pricing (125 / 100) 10 (125 / 100) (125 / 1000)
         else if contains normalized ''qwen-'' \<or> contains normalized ''kimi-''
           \<or> contains normalized ''glm-''
         then model_pricing (6 / 10) (24 / 10) (6 / 10) (6 / 100)
         else model_pricing 1 4 1 (1 / 10))"

definition cost_component :: "nat \<Rightarrow> f64 \<Rightarrow> f64" where
  "cost_component tokens price_per_million =
     f64_mul (f64_div (f64_of_nat tokens) (Fin 1000000)) price_per_million"

definition cost_for_model_with_pricing ::
    "string \<Rightarrow> TokenUsageBreakdown \<Rightarrow> ModelPricing option \<Rightarrow> f64" where
  "cost_for_model_with_pricing model usage configured_pricing =
     (let pricing = (case configured_pricing of Some p \<Rightarrow> p | None \<Rightarrow> pricing_for_model model)
      in f64_add (f64_add (f64_add
           (cost_component (input_tokens usage) (input_per_million pricing))
           (cost_component (output_tokens usage) (output_per_million pricing)))
           (cost_component (cache_write_tokens usage) (cache_write_per_million pricing)))
           (cost_component (cache_read_tokens usage) (cache_read_per_million pricing)))"

definition charge_for_model_with_pricing ::
    "string \<Rightarrow> TokenUsageBreakdown \<Rightarrow> ModelPricing option \<Rightarrow> UsageCharge" where
  "charge_for_model_with_pricing model usage configured_pricing =
     \<lparr>charge_input_tokens = input_tokens usage,
      charge_output_tokens = output_tokens usage,
      charge_cache_write_tokens = cache_write_tokens usage,
      charge_cache_read_tokens = cache_read_tokens usage,
      cost_estimate = cost_for_model_with_pricing model usage configured_pricing\<rparr>"

section \<open>Ranges and order of token counts\<close>

definition usage_wf :: "TokenUsageBreakdown \<Rightarrow> bool" where
  "usage_wf u \<longleftrightarrow> input_tokens u \<le> u64_max \<and> output_tokens u \<le> u64_max \<and>
     cache_write_tokens u \<le> u64_max \<and> cache_read_tokens u \<le> u64_max"

definition usage_le :: "TokenUsageBreakdown \<Rightarrow> TokenUsageBreakdown \<Rightarrow> bool" where
  "usage_le u v \<longleftrightarrow> input_tokens u \<le> input_tokens v \<and> output_tokens u \<le> output_tokens v \<and>
     cache_write_tokens u \<le> cache_write_tokens v \<and> cache_read_tokens u \<le> cache_read_tokens v"

definition price_ok :: "f64 \<Rightarrow> bool" where
  "price_ok p \<longleftrightarrow> f64_nonneg p \<and> is_finite p"

definition pricing_ok :: "ModelPricing \<Rightarrow> bool" where
  "pricing_ok p \<longleftrightarrow> price_ok (input_per_million p) \<and> price_ok (output_per_million p) \<and>
     price_ok (cache_write_per_million p) \<and> price_ok (cache_read_per_million p)"

lemma usage_wf_default [simp]: "usage_wf usage_default"
  by (simp add: usage_wf_def usage_default_def)

lemma get_u64_bound:
  assumes "wf_json v"
  shows "get_u64 v names \<le> u64_max"
proof (cases "find_map (\<lambda>field. Option.bind (json_get v field) as_u64) names")
  case (Some n)
  then obtain f w where "json_get v f = Some w" "as_u64 w = Some n"
    by (auto dest!: find_map_Some simp: bind_eq_Some_conv)
  with assms Some show ?thesis
    by (auto simp: get_u64_def dest: wf_json_get)
qed (simp add: get_u64_def)

lemma walk_path_wf: "wf_json v \<Longrightarrow> wf_json (walk_path v path)"
  by (induction v path rule: walk_path.induct) (auto split: option.splits dest: wf_json_get)

lemma get_nested_u64_bound: "wf_json v \<Longrightarrow> get_nested_u64 v paths \<le> u64_max"
  by (induction paths) (auto split: option.splits dest: as_u64_bound [OF walk_path_wf])

lemma openai_usage_wf:
  assumes "wf_json r"
  shows "usage_wf (openai_usage r)"
proof (cases "json_get r ''usage''")
  case (Some usage)
  then have wf: "wf_json usage" using assms wf_json_get by blast
  have "get_u64 usage f - k \<le> u64_max" for f k
    using get_u64_bound [OF wf, of f] by linarith
  with Some wf show ?thesis
    by (simp add: openai_usage_def usage_wf_def Let_def get_u64_bound get_nested_u64_bound
        del: get_nested_u64.simps)
qed (simp add: openai_usage_def)

lemma anthropic_usage_wf:
  assumes "wf_json r"
  shows "usage_wf (anthropic_usage r)"
proof (cases "json_get r ''usage''")
  case (Some usage)
  then have "wf_json usage" using assms wf_json_get by blast
  with Some show ?thesis by (simp add: anthropic_usage_def usage_wf_def get_u64_bound)
qed (simp add: anthropic_usage_def)

lemma openai_usage_if_present_eq: "openai_usage_if_present r = Some u \<Longrightarrow> u = openai_usage r"
  by (auto simp: openai_usage_if_present_def bind_eq_Some_conv split: if_splits)

lemma anthropic_usage_if_present_eq: "anthropic_usage_if_present r = Some u \<Longrightarrow> u = anthropic_usage r"
  by (auto simp: anthropic_usage_if_present_def bind_eq_Some_conv split: if_splits)

section \<open>Lemmas on costs\<close>

lemma tokens_f64:
  assumes "n \<le> u64_max"
  shows "is_finite (f64_of_nat n)" "fval (f64_of_nat n) \<le> pow2 64"
proof -
  have "(of_nat n :: rat) \<le> of_nat u64_max" using assms by (simp only: of_nat_le_iff)
  also have "\<dots> \<le> pow2 64" by (simp add: u64_max_def pow2_def)
  finally have le: "(of_nat n :: rat) \<le> pow2 64" .
  show "is_finite (f64_of_nat n)" "fval (f64_of_nat n) \<le> pow2 64"
    unfolding f64_of_nat_def by (intro f64_of_rat_finite [of _ 64] le; simp)+
qed

lemma tokens_per_million_finite:
  assumes "n \<le> u64_max"
  shows "is_finite (f64_div (f64_of_nat n) (Fin 1000000))"
  using tokens_f64 [OF assms] by (intro f64_div_finite [of _ _ 64]) simp_all

lemma cost_component_nonneg: "n \<le> u64_max \<Longrightarrow> price_ok p \<Longrightarrow> f64_nonneg (cost_component n p)"
  by (simp add: cost_component_def price_ok_def f64_nonneg_mul f64_nonneg_div tokens_f64
      tokens_per_million_finite)

lemma cost_component_mono:
  assumes "n \<le> m" "m \<le> u64_max" "price_ok p"
  shows "f64_le (cost_component n p) (cost_component m p)"
proof -
  have "f64_le (f64_of_nat n) (f64_of_nat m)"
    using assms(1) by (simp add: f64_of_nat_def f64_of_rat_mono)
  with assms show ?thesis
    by (simp add: cost_component_def price_ok_def f64_mul_mono f64_div_mono tokens_f64
        tokens_per_million_finite)
qed

lemma price_ok_literal: "0 \<le> r \<Longrightarrow> r \<le> 1024 \<Longrightarrow> price_ok (f64_of_rat r)"
  using f64_of_rat_finite(1) [of r 10] by (simp add: price_ok_def f64_of_rat_nonneg pow2_def)

lemma pricing_ok_literals:
  assumes "0 \<le> i" "i \<le> 1024" "0 \<le> q" "q \<le> 1024" "0 \<le> cw" "cw \<le> 1024" "0 \<le> cr" "cr \<le> 1024"
  shows "pricing_ok (model_pricing i q cw cr)"
  using assms by (simp add: pricing_ok_def model_pricing_def price_ok_literal)

lemma pricing_for_model_ok: "pricing_ok (pricing_for_model model)"
  by (simp add: pricing_for_model_def Let_def if_distrib [of pricing_ok] pricing_ok_literals cong: if_cong)

text \<open>
  C21: with non-negative, finite prices (the built-in table always has them) the cost of a request is
  a non-negative number, and a request that uses at least as many tokens of each kind never costs less.
\<close>

theorem cost_monotone:
  assumes "usage_le u v" "usage_wf v" "case configured of Some p \<Rightarrow> pricing_ok p | None \<Rightarrow> True"
  shows "f64_nonneg (cost_for_model_with_pricing model u configured) \<and>
    f64_le (cost_for_model_with_pricing model u configured)
           (cost_for_model_with_pricing model v configured)"
proof -
  define p where "p = (case configured of Some p \<Rightarrow> p | None \<Rightarrow> pricing_for_model model)"
  have p: "pricing_ok p"
    using assms(3) by (simp add: p_def pricing_for_model_ok split: option.splits)
  have u: "usage_wf u" using assms by (auto simp: usage_le_def usage_wf_def)
  show ?thesis
    unfolding cost_for_model_with_pricing_def p_def [symmetric] Let_def
    using p u assms(1,2)
    by (auto simp: pricing_ok_def usage_wf_def usage_le_def
        intro!: f64_add_mono f64_nonneg_add cost_component_nonneg cost_component_mono)
qed

definition sample_usage :: "nat \<Rightarrow> TokenUsageBreakdown" where
  "sample_usage n = \<lparr>input_tokens = n, output_tokens = 2 * n, cache_write_tokens = 0, cache_read_tokens = n\<rparr>"

theorem cost_monotone_witness:
  "f64_nonneg (cost_for_model_with_pricing ''claude-opus-4'' (sample_usage 1000) None) \<and>
   f64_le (cost_for_model_with_pricing ''claude-opus-4'' (sample_usage 1000) None)
          (cost_for_model_with_pricing ''claude-opus-4'' (sample_usage 5000) None)"
  using cost_monotone [of "sample_usage 1000" "sample_usage 5000" None "''claude-opus-4''"]
  by (simp add: usage_le_def usage_wf_def sample_usage_def u64_max_def)

end
