(* ===== verification/AppErrors.thy ===== *)
theory AppErrors
  imports Pricing
begin

text \<open>
  The gateway's error type, \<^verbatim>\<open>src/src/error.rs\<close>: its HTTP status, machine-readable codes, the response
  built from it, and the redacted texts that may be stored in audit records. The operator hints are
  localised texts; the model keeps which of them is chosen.
\<close>

text \<open>I/O and JSON errors carry their printed form.\<close>

datatype AppError =
    Auth
  | Config string
  | Database string
  | Forbidden string
  | IdempotencyConflict string
  | StateConflict string
  | QuotaExceeded string
  | RateLimited string nat
  | InvalidRequest string
  | MissingSecret string
  | NotReady string
  | NotFound string
  | ProviderNotFound string
  | Transport string
  | Upstream nat string
  | UpstreamProtocol string
  | ToolArgumentsInvalid string string "TokenUsageBreakdown option"
  | Io string
  | JsonError string

type_synonym 'a result = "AppError + 'a"

section \<open>Printing and codes\<close>

fun display :: "AppError \<Rightarrow> string" where
  "display Auth = ''client authentication failed''"
| "display (Config m) = ''configuration error: '' @ m"
| "display (Database m) = ''database error: '' @ m"
| "display (Forbidden m) = ''forbidden: '' @ m"
| "display (IdempotencyConflict m) = ''idempotency conflict: '' @ m"
| "display (StateConflict m) = ''state conflict: '' @ m"
| "display (QuotaExceeded m) = ''quota exceeded: '' @ m"
| "display (RateLimited m _) = ''rate limited: '' @ m"
| "display (InvalidRequest m) = ''invalid request: '' @ m"
| "display (MissingSecret m) = ''missing secret environment variable: '' @ m"
| "display (NotReady m) = ''service not ready: '' @ m"
| "display (NotFound m) = ''not found: '' @ m"
| "display (ProviderNotFound m) = ''provider not found: '' @ m"
| "display (Transport m) = ''transport error: '' @ m"
| "display (Upstream status body) = ''upstream returned HTTP '' @ show_nat status @ '': '' @ body"
| "display (UpstreamProtocol m) = ''upstream protocol error: '' @ m"
| "display (ToolArgumentsInvalid instance_path schema_path _) =
     ''upstream tool arguments failed strict schema validation at '' @ instance_path @
     '' (schema path '' @ schema_path @ ''; value [redacted])''"
| "display (Io m) = m"
| "display (JsonError m) = m"

fun status_code :: "AppError \<Rightarrow> nat" where
  "status_code Auth = 401"
| "status_code (Config _) = 500"
| "status_code (Database _) = 500"
| "status_code (Forbidden _) = 403"
| "status_code (IdempotencyConflict _) = 409"
| "status_code (StateConflict _) = 409"
| "status_code (QuotaExceeded _) = 429"
| "status_code (RateLimited _ _) = 429"
| "status_code (InvalidRequest _) = 400"
| "status_code (MissingSecret _) = 500"
| "status_code (NotReady _) = 503"
| "status_code (NotFound _) = 404"
| "status_code (ProviderNotFound _) = 400"
| "status_code (Transport _) = 502"
| "status_code (UpstreamProtocol _) = 502"
| "status_code (ToolArgumentsInvalid _ _ _) = 502"
| "status_code (Upstream status _) = (if 400 \<le> status \<and> status \<le> 599 then status else 502)"
| "status_code (Io _) = 500"
| "status_code (JsonError _) = 500"

definition http_status :: "AppError \<Rightarrow> nat" where
  "http_status e = status_code e"

fun telemetry_code :: "AppError \<Rightarrow> string" where
  "telemetry_code Auth = ''auth''"
| "telemetry_code (Config _) = ''config''"
| "telemetry_code (Database _) = ''database''"
| "telemetry_code (Forbidden _) = ''forbidden''"
| "telemetry_code (IdempotencyConflict _) = ''idempotency_conflict''"
| "telemetry_code (StateConflict _) = ''state_conflict''"
| "telemetry_code (QuotaExceeded _) = ''quota_exceeded''"
| "telemetry_code (RateLimited _ _) = ''rate_limited''"
| "telemetry_code (InvalidRequest _) = ''invalid_request''"
| "telemetry_code (JsonError _) = ''invalid_request''"
| "telemetry_code (MissingSecret _) = ''missing_secret''"
| "telemetry_code (NotReady _) = ''not_ready''"
| "telemetry_code (NotFound _) = ''not_found''"
| "telemetry_code (ProviderNotFound _) = ''provider_not_found''"
| "telemetry_code (Transport _) = ''transport''"
| "telemetry_code (Io _) = ''transport''"
| "telemetry_code (Upstream _ _) = ''upstream_http''"
| "telemetry_code (UpstreamProtocol _) = ''upstream_protocol''"
| "telemetry_code (ToolArgumentsInvalid _ _ _) = ''tool_arguments_invalid''"

fun with_tool_argument_usage :: "AppError \<Rightarrow> TokenUsageBreakdown option \<Rightarrow> AppError" where
  "with_tool_argument_usage (ToolArgumentsInvalid i s _) usage = ToolArgumentsInvalid i s usage"
| "with_tool_argument_usage other usage = other"

fun tool_argument_usage :: "AppError \<Rightarrow> TokenUsageBreakdown option" where
  "tool_argument_usage (ToolArgumentsInvalid _ _ usage) = usage"
| "tool_argument_usage _ = None"

section \<open>Redacted audit texts\<close>

text \<open>The last marker is a Chinese phrase of four characters, given by its UTF-8 bytes.\<close>

definition balance_markers :: "string list" where
  "balance_markers =
     [''insufficient_balance'', ''insufficient balance'', ''insufficient account balance'',
      ''balance not enough'',
      [CHR 0xE4, CHR 0xBD, CHR 0x99, CHR 0xE9, CHR 0xA2, CHR 0x9D,
       CHR 0xE4, CHR 0xB8, CHR 0x8D, CHR 0xE8, CHR 0xB6, CHR 0xB3]]"

definition upstream_audit_category :: "nat \<Rightarrow> string \<Rightarrow> string" where
  "upstream_audit_category status body =
     (let normalized = to_ascii_lowercase body
      in if list_ex (contains normalized) balance_markers
         then ''insufficient balance [body redacted]''
         else if status = 401 \<or> status = 403
         then ''authentication or authorization failed [body redacted]''
         else if status = 429 \<or> contains normalized ''rate limit''
         then ''rate limit [body redacted]''
         else ''body [redacted]'')"

definition contains_tool_protocol_marker :: "string \<Rightarrow> bool" where
  "contains_tool_protocol_marker message =
     (let normalized = to_ascii_lowercase message
      in list_ex (contains normalized)
           [''tool'', ''function'', ''input_json'', ''tool_use'', ''tool_result''])"

fun audit_message :: "AppError \<Rightarrow> string" where
  "audit_message Auth = ''client authentication failed''"
| "audit_message (Config _) = ''configuration error [details redacted]''"
| "audit_message (Database _) = ''database error [details redacted]''"
| "audit_message (Forbidden _) = ''forbidden [details redacted]''"
| "audit_message (IdempotencyConflict _) = ''idempotency conflict [details redacted]''"
| "audit_message (StateConflict _) = ''state conflict [details redacted]''"
| "audit_message (QuotaExceeded _) = ''quota exceeded [details redacted]''"
| "audit_message (RateLimited _ _) = ''rate limited [details redacted]''"
| "audit_message (InvalidRequest _) = ''invalid request [details redacted]''"
| "audit_message (MissingSecret _) = ''missing secret environment variable [name redacted]''"
| "audit_message (NotReady _) = ''service not ready [details redacted]''"
| "audit_message (NotFound _) = ''not found [details redacted]''"
| "audit_message (ProviderNotFound _) = ''provider not found [details redacted]''"
| "audit_message (Transport message) =
     (if contains (to_ascii_lowercase message) ''timed out''
      then ''upstream transport timed out [details redacted]''
      else ''upstream transport error [details redacted]'')"
| "audit_message (Upstream status body) =
     ''upstream returned HTTP '' @ show_nat status @ '': '' @ upstream_audit_category status body"
| "audit_message (UpstreamProtocol message) =
     (if contains_tool_protocol_marker message
      then ''upstream tool protocol error [details redacted]''
      else ''upstream protocol error [details redacted]'')"
| "audit_message (ToolArgumentsInvalid _ _ _) =
     ''upstream tool arguments failed strict schema validation [value and validation paths redacted]''"
| "audit_message (Io _) = ''I/O error [details redacted]''"
| "audit_message (JsonError _) = ''JSON error [details redacted]''"

definition audit_safe_persisted_error :: "string \<Rightarrow> string" where
  "audit_safe_persisted_error message =
     (let normalized = to_ascii_lowercase message
      in if contains normalized ''timed out'' \<or> contains normalized ''timeout''
         then ''request failed: timeout [details redacted]''
         else if list_ex (contains normalized) balance_markers
         then ''request failed: insufficient balance [details redacted]''
         else if contains normalized ''rate limit'' \<or> contains normalized ''rate_limited''
         then ''request failed: rate limit [details redacted]''
         else if contains_tool_protocol_marker message \<or> contains normalized ''schema path''
         then ''request failed: tool protocol error [details redacted]''
         else if contains normalized ''authentication'' \<or> contains normalized ''authorization''
           \<or> contains normalized ''api key''
         then ''request failed: authentication or authorization [details redacted]''
         else if contains normalized ''configuration'' \<or> contains normalized ''missing secret''
         then ''request failed: configuration [details redacted]''
         else ''request failed [details redacted]'')"

section \<open>The error response\<close>

fun error_code :: "AppError \<Rightarrow> string" where
  "error_code Auth = ''auth_failed''"
| "error_code (Config _) = ''config_error''"
| "error_code (Database _) = ''database_error''"
| "error_code (Forbidden _) = ''forbidden''"
| "error_code (IdempotencyConflict _) = ''idempotency_conflict''"
| "error_code (StateConflict _) = ''state_conflict''"
| "error_code (QuotaExceeded _) = ''quota_exceeded''"
| "error_code (RateLimited _ _) = ''rate_limited''"
| "error_code (InvalidRequest _) = ''invalid_request''"
| "error_code (MissingSecret _) = ''missing_secret''"
| "error_code (NotReady _) = ''not_ready''"
| "error_code (NotFound _) = ''not_found''"
| "error_code (ProviderNotFound _) = ''provider_not_found''"
| "error_code (Transport _) = ''transport_error''"
| "error_code (Upstream _ _) = ''upstream_error''"
| "error_code (UpstreamProtocol _) = ''upstream_protocol_error''"
| "error_code (ToolArgumentsInvalid _ _ _) = ''tool_arguments_invalid''"
| "error_code (Io _) = ''io_error''"
| "error_code (JsonError _) = ''json_error''"

fun error_kind :: "AppError \<Rightarrow> string" where
  "error_kind Auth = ''authentication_error''"
| "error_kind (Forbidden _) = ''forbidden_error''"
| "error_kind (IdempotencyConflict _) = ''invalid_request_error''"
| "error_kind (StateConflict _) = ''invalid_request_error''"
| "error_kind (QuotaExceeded _) = ''quota_exceeded''"
| "error_kind (RateLimited _ _) = ''rate_limit_error''"
| "error_kind (InvalidRequest _) = ''invalid_request_error''"
| "error_kind (ProviderNotFound _) = ''invalid_request_error''"
| "error_kind (NotFound _) = ''not_found_error''"
| "error_kind (NotReady _) = ''server_error''"
| "error_kind (Transport _) = ''upstream_error''"
| "error_kind (Upstream _ _) = ''upstream_error''"
| "error_kind (UpstreamProtocol _) = ''upstream_error''"
| "error_kind (ToolArgumentsInvalid _ _ _) = ''upstream_error''"
| "error_kind (Config _) = ''server_error''"
| "error_kind (Database _) = ''server_error''"
| "error_kind (MissingSecret _) = ''server_error''"
| "error_kind (Io _) = ''server_error''"
| "error_kind (JsonError _) = ''server_error''"

datatype hint =
    HintAuth | HintConfig | HintDatabase | HintForbidden | HintIdempotency | HintStateConflict
  | HintQuota | HintRateLimited | HintInvalidRequest | HintProviderNotFound | HintNotReady
  | HintNotFound | HintUpstream | HintStorage

fun error_hint :: "AppError \<Rightarrow> hint" where
  "error_hint Auth = HintAuth"
| "error_hint (Config _) = HintConfig"
| "error_hint (MissingSecret _) = HintConfig"
| "error_hint (Database _) = HintDatabase"
| "error_hint (Forbidden _) = HintForbidden"
| "error_hint (IdempotencyConflict _) = HintIdempotency"
| "error_hint (StateConflict _) = HintStateConflict"
| "error_hint (QuotaExceeded _) = HintQuota"
| "error_hint (RateLimited _ _) = HintRateLimited"
| "error_hint (InvalidRequest _) = HintInvalidRequest"
| "error_hint (ProviderNotFound _) = HintProviderNotFound"
| "error_hint (NotReady _) = HintNotReady"
| "error_hint (NotFound _) = HintNotFound"
| "error_hint (Transport _) = HintUpstream"
| "error_hint (Upstream _ _) = HintUpstream"
| "error_hint (UpstreamProtocol _) = HintUpstream"
| "error_hint (ToolArgumentsInvalid _ _ _) = HintUpstream"
| "error_hint (Io _) = HintStorage"
| "error_hint (JsonError _) = HintStorage"

record ErrorDetail =
  kind :: string
  code :: string
  detail_status :: nat
  detail_message :: string
  detail_hint :: hint

record ErrorResponse =
  response_status :: nat
  response_detail :: ErrorDetail
  retry_after :: "string option"

definition into_response :: "AppError \<Rightarrow> ErrorResponse" where
  "into_response e =
     \<lparr>response_status = http_status e,
      response_detail =
        \<lparr>kind = error_kind e, code = error_code e, detail_status = http_status e,
         detail_message = display e, detail_hint = error_hint e\<rparr>,
      retry_after =
        (case e of RateLimited _ secs \<Rightarrow> Some (show_nat (max secs 1)) | _ \<Rightarrow> None)\<rparr>"

section \<open>Properties\<close>

text \<open>
  an error is never reported to the client as a success or a redirect: the status of its response
  is always in the 4xx or 5xx range, whatever status an upstream provider returned, the body repeats
  that status, and a \<^verbatim>\<open>Retry-After\<close> header is sent exactly for rate limiting.
\<close>

theorem error_response_status:
  "400 \<le> response_status (into_response e) \<and> response_status (into_response e) \<le> 599 \<and>
   detail_status (response_detail (into_response e)) = response_status (into_response e) \<and>
   (retry_after (into_response e) = None \<longleftrightarrow> error_code e \<noteq> ''rate_limited'')"
  by (cases e) (simp_all add: into_response_def http_status_def)

definition audit_catalogue :: "string list" where
  "audit_catalogue =
     [''client authentication failed'', ''configuration error [details redacted]'',
      ''database error [details redacted]'', ''forbidden [details redacted]'',
      ''idempotency conflict [details redacted]'', ''state conflict [details redacted]'',
      ''quota exceeded [details redacted]'', ''rate limited [details redacted]'',
      ''invalid request [details redacted]'',
      ''missing secret environment variable [name redacted]'',
      ''service not ready [details redacted]'', ''not found [details redacted]'',
      ''provider not found [details redacted]'',
      ''upstream transport timed out [details redacted]'',
      ''upstream transport error [details redacted]'',
      ''upstream tool protocol error [details redacted]'',
      ''upstream protocol error [details redacted]'',
      ''upstream tool arguments failed strict schema validation [value and validation paths redacted]'',
      ''I/O error [details redacted]'', ''JSON error [details redacted]'']"

definition upstream_categories :: "string list" where
  "upstream_categories =
     [''insufficient balance [body redacted]'',
      ''authentication or authorization failed [body redacted]'',
      ''rate limit [body redacted]'', ''body [redacted]'']"

definition persisted_catalogue :: "string list" where
  "persisted_catalogue =
     [''request failed: timeout [details redacted]'',
      ''request failed: insufficient balance [details redacted]'',
      ''request failed: rate limit [details redacted]'',
      ''request failed: tool protocol error [details redacted]'',
      ''request failed: authentication or authorization [details redacted]'',
      ''request failed: configuration [details redacted]'', ''request failed [details redacted]'']"

lemma upstream_audit_category_fixed: "upstream_audit_category status body \<in> set upstream_categories"
  by (simp add: upstream_audit_category_def upstream_categories_def Let_def)

lemma audit_safe_fixed: "audit_safe_persisted_error m \<in> set persisted_catalogue"
  by (simp add: audit_safe_persisted_error_def persisted_catalogue_def Let_def)

lemma audit_safe_catalogue: "list_all (\<lambda>m. audit_safe_persisted_error m = m) persisted_catalogue"
  by code_simp

text \<open>
  C22: no text of a request, a provider body or a storage diagnostic reaches an audit record: the audit
  message is one of twenty fixed texts, or, for an upstream HTTP error, the status number followed by
  one of four fixed categories.
\<close>

theorem audit_message_redacted:
  "audit_message e \<in> set audit_catalogue \<or>
   (\<exists>status body category. e = Upstream status body \<and> category \<in> set upstream_categories \<and>
      audit_message e = ''upstream returned HTTP '' @ show_nat status @ '': '' @ category)"
proof (cases "\<exists>status body. e = Upstream status body")
  case True
  then show ?thesis using upstream_audit_category_fixed by auto
next
  case False
  then show ?thesis by (cases e) (simp_all add: audit_catalogue_def)
qed

text \<open>
  redaction of a stored error text yields one of seven fixed texts, and redacting an already
  redacted text changes nothing, so records can be rewritten any number of times.
\<close>

theorem audit_safe_idempotent:
  "audit_safe_persisted_error m \<in> set persisted_catalogue \<and>
   audit_safe_persisted_error (audit_safe_persisted_error m) = audit_safe_persisted_error m"
  using audit_safe_fixed [of m] audit_safe_catalogue by (auto simp: list_all_iff)

end
