(* ===== verification/StreamLifecycle.thy ===== *)
theory StreamLifecycle
  imports AppErrors "HOL-Library.Multiset"
begin

text \<open>
  The lifecycle of a proxied stream, \<^verbatim>\<open>src/src/stream_lifecycle.rs\<close>. A lifecycle is shared between the
  task that reads the upstream and the one that writes to the client; each method holds the lock for
  its whole body, so an execution is a sequence of method calls. Only \<^verbatim>\<open>observe_response_fragment\<close> takes it
  twice, for the first-event mark and for the response; it is one call here, and neither half touches the
  state or the usage the theorems speak of. The clock reading of
  \<^verbatim>\<open>started_at.elapsed()\<close> is an argument.
\<close>

datatype UpstreamStreamState = Pending | Completed | Failed string

record ResponseObservation =
  tool_call_count :: nat
  text_present :: bool
  stop_reason :: "string option"

record StreamLifecycleInner =
  lc_state :: UpstreamStreamState
  lc_usage :: "TokenUsageBreakdown option"
  first_semantic_latency :: "nat option"
  response :: ResponseObservation

definition lifecycle_new :: StreamLifecycleInner where
  "lifecycle_new =
     \<lparr>lc_state = Pending, lc_usage = None, first_semantic_latency = None,
      response = \<lparr>tool_call_count = 0, text_present = False, stop_reason = None\<rparr>\<rparr>"

section \<open>Operations\<close>

definition mark_first_semantic_event :: "nat \<Rightarrow> StreamLifecycleInner \<Rightarrow> StreamLifecycleInner" where
  "mark_first_semantic_event elapsed l =
     l\<lparr>first_semantic_latency :=
         (case first_semantic_latency l of None \<Rightarrow> Some elapsed | Some t \<Rightarrow> Some t)\<rparr>"

definition merge_response ::
    "nat \<Rightarrow> bool \<Rightarrow> string option \<Rightarrow> StreamLifecycleInner \<Rightarrow> StreamLifecycleInner" where
  "merge_response calls text reason l =
     l\<lparr>response :=
         \<lparr>tool_call_count = max (tool_call_count (response l)) calls,
          text_present = (text_present (response l) \<or> text),
          stop_reason = (case reason of Some r \<Rightarrow> Some r | None \<Rightarrow> stop_reason (response l))\<rparr>\<rparr>"

definition observe_response_fragment ::
    "nat \<Rightarrow> nat \<Rightarrow> bool \<Rightarrow> string option \<Rightarrow> StreamLifecycleInner \<Rightarrow> StreamLifecycleInner" where
  "observe_response_fragment elapsed calls text reason l =
     merge_response calls text reason
       (if 0 < calls \<or> text then mark_first_semantic_event elapsed l else l)"

definition text_nonblank :: "json option \<Rightarrow> bool" where
  "text_nonblank v = (case Option.bind v as_str of Some t \<Rightarrow> trim t \<noteq> [] | None \<Rightarrow> False)"

definition observe_openai_response :: "json \<Rightarrow> StreamLifecycleInner \<Rightarrow> StreamLifecycleInner" where
  "observe_openai_response resp l =
     (case get_array resp ''choices'' of
        Some (choice # _) \<Rightarrow>
          let message = (case json_get choice ''message'' of Some m \<Rightarrow> m | None \<Rightarrow> JNull);
              calls = (case get_array message ''tool_calls'' of Some xs \<Rightarrow> length xs | None \<Rightarrow> 0)
                + (if (case json_get message ''function_call'' of Some f \<Rightarrow> is_object f | None \<Rightarrow> False)
                   then 1 else 0)
          in merge_response calls (text_nonblank (json_get message ''content''))
               (get_str choice ''finish_reason'') l
      | _ \<Rightarrow> l)"

definition observe_anthropic_response :: "json \<Rightarrow> StreamLifecycleInner \<Rightarrow> StreamLifecycleInner" where
  "observe_anthropic_response resp l =
     (let blocks = (case get_array resp ''content'' of Some xs \<Rightarrow> xs | None \<Rightarrow> []);
          calls = length (filter (\<lambda>b. get_str b ''type'' = Some ''tool_use'') blocks);
          text = list_ex (\<lambda>b. get_str b ''type'' = Some ''text'' \<and> text_nonblank (json_get b ''text'')) blocks
      in merge_response calls text (get_str resp ''stop_reason'') l)"

definition mark_completed :: "StreamLifecycleInner \<Rightarrow> StreamLifecycleInner" where
  "mark_completed l = (if lc_state l = Pending then l\<lparr>lc_state := Completed\<rparr> else l)"

definition mark_failed :: "string \<Rightarrow> StreamLifecycleInner \<Rightarrow> StreamLifecycleInner" where
  "mark_failed error l = (if lc_state l = Pending then l\<lparr>lc_state := Failed error\<rparr> else l)"

definition usage_max :: "TokenUsageBreakdown \<Rightarrow> TokenUsageBreakdown \<Rightarrow> TokenUsageBreakdown" where
  "usage_max u v =
     \<lparr>input_tokens = max (input_tokens u) (input_tokens v),
      output_tokens = max (output_tokens u) (output_tokens v),
      cache_write_tokens = max (cache_write_tokens u) (cache_write_tokens v),
      cache_read_tokens = max (cache_read_tokens u) (cache_read_tokens v)\<rparr>"

definition merge_usage :: "TokenUsageBreakdown \<Rightarrow> StreamLifecycleInner \<Rightarrow> StreamLifecycleInner" where
  "merge_usage u l =
     l\<lparr>lc_usage :=
         Some (usage_max (case lc_usage l of Some c \<Rightarrow> c | None \<Rightarrow> usage_default) u)\<rparr>"

section \<open>Terminal outcomes\<close>

datatype StreamTerminalOutcome =
    OutcomeCompleted
  | UpstreamFailed string
  | DeliveryFailed string
  | DownstreamCancelled UpstreamStreamState

definition after_eof :: "StreamLifecycleInner \<Rightarrow> StreamTerminalOutcome" where
  "after_eof l =
     (case lc_state l of
        Completed \<Rightarrow> OutcomeCompleted
      | Failed error \<Rightarrow> UpstreamFailed error
      | Pending \<Rightarrow> UpstreamFailed ''stream body ended without a protocol terminal signal'')"

definition after_body_error :: "StreamLifecycleInner \<Rightarrow> string \<Rightarrow> StreamTerminalOutcome" where
  "after_body_error l error =
     (case lc_state l of
        Failed upstream_error \<Rightarrow> UpstreamFailed upstream_error
      | _ \<Rightarrow> DeliveryFailed error)"

definition after_drop :: "StreamLifecycleInner \<Rightarrow> StreamTerminalOutcome" where
  "after_drop l = DownstreamCancelled (lc_state l)"

definition success :: "StreamTerminalOutcome \<Rightarrow> bool" where
  "success outcome \<longleftrightarrow> outcome = OutcomeCompleted"

fun error_message :: "StreamTerminalOutcome \<Rightarrow> string option" where
  "error_message OutcomeCompleted = None"
| "error_message (UpstreamFailed error) = Some error"
| "error_message (DeliveryFailed error) = Some error"
| "error_message (DownstreamCancelled (Failed error)) = Some error"
| "error_message (DownstreamCancelled _) =
     Some ''downstream cancelled before stream delivery completed''"

definition timed_out :: "StreamTerminalOutcome \<Rightarrow> bool" where
  "timed_out outcome =
     (case error_message outcome of
        Some message \<Rightarrow> contains (to_ascii_lowercase message) ''timed out''
      | None \<Rightarrow> False)"

fun stream_status_code :: "StreamTerminalOutcome \<Rightarrow> nat" where
  "stream_status_code OutcomeCompleted = 200"
| "stream_status_code (UpstreamFailed e) = (if timed_out (UpstreamFailed e) then 504 else 502)"
| "stream_status_code (DeliveryFailed _) = 502"
| "stream_status_code (DownstreamCancelled _) = 499"

fun terminal_reason :: "StreamTerminalOutcome \<Rightarrow> string" where
  "terminal_reason OutcomeCompleted = ''completed''"
| "terminal_reason (UpstreamFailed e) =
     (if timed_out (UpstreamFailed e) then ''upstream_timeout'' else ''upstream_error'')"
| "terminal_reason (DeliveryFailed _) = ''delivery_error''"
| "terminal_reason (DownstreamCancelled Completed) = ''downstream_cancelled_after_upstream_complete''"
| "terminal_reason (DownstreamCancelled _) = ''downstream_cancelled''"

definition audit_safe_stream_error :: "string \<Rightarrow> string" where
  "audit_safe_stream_error error =
     (let normalized = to_ascii_lowercase error
      in if contains normalized ''timed out''
         then ''upstream stream timed out [details redacted]''
         else if list_ex (contains normalized) balance_markers
         then ''upstream stream error: insufficient balance [details redacted]''
         else if contains normalized ''rate limit''
         then ''upstream stream error: rate limit [details redacted]''
         else if list_ex (contains normalized)
           [''tool'', ''function'', ''input_json'', ''tool_use'', ''tool_result'']
         then ''upstream tool stream protocol error [details redacted]''
         else ''upstream stream error [details redacted]'')"

fun audit_error_message :: "StreamTerminalOutcome \<Rightarrow> string option" where
  "audit_error_message OutcomeCompleted = None"
| "audit_error_message (UpstreamFailed error) = Some (audit_safe_stream_error error)"
| "audit_error_message (DeliveryFailed _) = Some ''stream delivery error [details redacted]''"
| "audit_error_message (DownstreamCancelled (Failed error)) = Some (audit_safe_stream_error error)"
| "audit_error_message (DownstreamCancelled _) =
     Some ''downstream cancelled before stream delivery completed''"

section \<open>Executions\<close>

text \<open>The calls that change a lifecycle, and the effect of a sequence of them.\<close>

datatype lifecycle_call =
    MarkFirst nat
  | ObserveFragment nat nat bool "string option"
  | ObserveOpenai json
  | ObserveAnthropic json
  | MarkCompleted
  | MarkFailed string
  | MergeUsage TokenUsageBreakdown

fun lifecycle_step :: "lifecycle_call \<Rightarrow> StreamLifecycleInner \<Rightarrow> StreamLifecycleInner" where
  "lifecycle_step (MarkFirst t) = mark_first_semantic_event t"
| "lifecycle_step (ObserveFragment t n b r) = observe_response_fragment t n b r"
| "lifecycle_step (ObserveOpenai v) = observe_openai_response v"
| "lifecycle_step (ObserveAnthropic v) = observe_anthropic_response v"
| "lifecycle_step MarkCompleted = mark_completed"
| "lifecycle_step (MarkFailed e) = mark_failed e"
| "lifecycle_step (MergeUsage u) = merge_usage u"

definition lifecycle_run :: "lifecycle_call list \<Rightarrow> StreamLifecycleInner \<Rightarrow> StreamLifecycleInner" where
  "lifecycle_run calls l = fold lifecycle_step calls l"

fun terminal_signal :: "lifecycle_call \<Rightarrow> UpstreamStreamState option" where
  "terminal_signal MarkCompleted = Some Completed"
| "terminal_signal (MarkFailed e) = Some (Failed e)"
| "terminal_signal _ = None"

fun usage_report :: "lifecycle_call \<Rightarrow> TokenUsageBreakdown option" where
  "usage_report (MergeUsage u) = Some u"
| "usage_report _ = None"

section \<open>Lemmas\<close>

lemma merge_response_fields [simp]:
  "lc_state (merge_response n b r l) = lc_state l"
  "lc_usage (merge_response n b r l) = lc_usage l"
  by (simp_all add: merge_response_def)

lemma observe_fields [simp]:
  "lc_state (observe_openai_response v l) = lc_state l"
  "lc_usage (observe_openai_response v l) = lc_usage l"
  "lc_state (observe_anthropic_response v l) = lc_state l"
  "lc_usage (observe_anthropic_response v l) = lc_usage l"
  by (simp_all add: observe_openai_response_def observe_anthropic_response_def Let_def
      split: option.split list.split)

lemmas lifecycle_defs =
  mark_first_semantic_event_def observe_response_fragment_def mark_completed_def mark_failed_def
  merge_usage_def

lemma step_state:
  "lc_state (lifecycle_step c l) =
     (if lc_state l = Pending then (case terminal_signal c of Some s \<Rightarrow> s | None \<Rightarrow> Pending)
      else lc_state l)"
  by (cases c) (simp_all add: lifecycle_defs)

lemma run_state:
  "lc_state (lifecycle_run calls l) =
     (if lc_state l = Pending
      then (case find_map terminal_signal calls of Some s \<Rightarrow> s | None \<Rightarrow> Pending)
      else lc_state l)"
proof (induction calls arbitrary: l)
  case (Cons c calls)
  have "s \<noteq> Pending" if "terminal_signal c = Some s" for s
    using that by (cases c) auto
  with Cons [of "lifecycle_step c l"] show ?case
    by (auto simp: lifecycle_run_def step_state split: option.splits)
qed (simp add: lifecycle_run_def)

lemma usage_max_comm: "usage_max (usage_max a b) c = usage_max (usage_max a c) b"
  by (simp add: usage_max_def max.commute max.left_commute)

lemma step_usage:
  "lc_usage (lifecycle_step c l) =
     (case usage_report c of
        Some u \<Rightarrow> Some (usage_max (case lc_usage l of Some a \<Rightarrow> a | None \<Rightarrow> usage_default) u)
      | None \<Rightarrow> lc_usage l)"
  by (cases c) (simp_all add: lifecycle_defs)

definition usage_total :: "TokenUsageBreakdown list \<Rightarrow> TokenUsageBreakdown" where
  "usage_total us = foldl usage_max usage_default us"

lemma run_usage_from:
  "lc_usage (lifecycle_run calls l) =
     (if List.map_filter usage_report calls = [] then lc_usage l
      else Some (foldl usage_max (case lc_usage l of Some a \<Rightarrow> a | None \<Rightarrow> usage_default)
                  (List.map_filter usage_report calls)))"
proof (induction calls arbitrary: l)
  case (Cons c calls)
  from Cons [of "lifecycle_step c l"] show ?case
    by (cases "usage_report c")
       (auto simp: lifecycle_run_def step_usage map_filter_simps)
qed (simp add: lifecycle_run_def map_filter_simps)

lemma usage_le_refl [simp]: "usage_le u u"
  by (simp add: usage_le_def)

lemma usage_le_trans: "usage_le u v \<Longrightarrow> usage_le v w \<Longrightarrow> usage_le u w"
  by (auto simp: usage_le_def intro: le_trans)

lemma usage_le_max: "usage_le u (usage_max u v)" "usage_le v (usage_max u v)"
  by (simp_all add: usage_le_def usage_max_def)

lemma usage_total_grows: "usage_le b (foldl usage_max b us)"
proof (induction us arbitrary: b)
  case (Cons u us)
  then show ?case using usage_le_trans [OF usage_le_max(1) Cons [of "usage_max b u"]] by simp
qed simp

lemma usage_total_upper:
  assumes "u \<in> set us"
  shows "usage_le u (foldl usage_max a us)"
  using assms
proof (induction us arbitrary: a)
  case (Cons v us)
  then show ?case
    using usage_le_trans [OF usage_le_max(2) usage_total_grows [of "usage_max a v" us]] by auto
qed simp

text \<open>
  C15: the first terminal signal of a stream decides its state. However reads, usage reports and
  further terminal signals are interleaved, the state is the one set by the first completion or
  failure, and a stream without any is still pending.
\<close>

theorem first_terminal_signal_wins:
  "lc_state (lifecycle_run calls lifecycle_new) =
     (case find_map terminal_signal calls of Some s \<Rightarrow> s | None \<Rightarrow> Pending)"
  by (simp add: run_state) (simp add: lifecycle_new_def)

text \<open>
  C16: usage reports of a stream may arrive in any order and more than once: the recorded usage depends
  only on the multiset of reports, it is an upper bound of each of them, and it is absent exactly when
  no report arrived.
\<close>

theorem stream_usage_order_independent:
  assumes "mset (List.map_filter usage_report calls) = mset (List.map_filter usage_report calls')"
  shows "lc_usage (lifecycle_run calls lifecycle_new) = lc_usage (lifecycle_run calls' lifecycle_new) \<and>
    (\<forall>u\<in>set (List.map_filter usage_report calls).
       \<exists>total. lc_usage (lifecycle_run calls lifecycle_new) = Some total \<and> usage_le u total) \<and>
    (lc_usage (lifecycle_run calls lifecycle_new) = None \<longleftrightarrow> List.map_filter usage_report calls = [])"
proof -
  let ?us = "List.map_filter usage_report calls" and ?vs = "List.map_filter usage_report calls'"
  have run: "lc_usage (lifecycle_run cs lifecycle_new) =
      (if List.map_filter usage_report cs = [] then None
       else Some (foldl usage_max usage_default (List.map_filter usage_report cs)))" for cs
    by (simp add: run_usage_from lifecycle_new_def)
  have "fold (\<lambda>u a. usage_max a u) ?us = fold (\<lambda>u a. usage_max a u) ?vs"
    by (rule fold_multiset_equiv) (use assms in \<open>auto simp: usage_max_comm fun_eq_iff\<close>)
  then have "foldl usage_max usage_default ?us = foldl usage_max usage_default ?vs"
    by (simp add: foldl_conv_fold)
  moreover have "?us = [] \<longleftrightarrow> ?vs = []" using assms by (metis mset_zero_iff)
  ultimately show ?thesis
    using usage_total_upper [of _ ?us usage_default] unfolding run by auto
qed

theorem stream_usage_order_independent_witness:
  "lc_usage (lifecycle_run [MergeUsage (sample_usage 3), MarkCompleted, MergeUsage (sample_usage 5)] lifecycle_new) =
   lc_usage (lifecycle_run [MergeUsage (sample_usage 5), MergeUsage (sample_usage 3)] lifecycle_new)"
  using stream_usage_order_independent
    [of "[MergeUsage (sample_usage 3), MarkCompleted, MergeUsage (sample_usage 5)]"
        "[MergeUsage (sample_usage 5), MergeUsage (sample_usage 3)]"]
  by (simp add: map_filter_simps)

text \<open>Nothing but a completion leaves the audit record without an error.\<close>

lemma audit_error_None: "audit_error_message outcome = None \<longleftrightarrow> outcome = OutcomeCompleted"
  by (cases outcome rule: audit_error_message.cases) simp_all

lemma pending_end_is_no_timeout:
  "\<not> timed_out (UpstreamFailed ''stream body ended without a protocol terminal signal'')"
  by code_simp

text \<open>
  C17: how a stream is accounted depends only on how it ended and on its first terminal signal, whatever
  calls came before and after that signal. A body that ended is 200 exactly when the first signal was a
  completion; an upstream failure is 504 when its message reports a timeout and 502 otherwise; a body
  error is never a success and never hides an earlier upstream failure; 499 is reported for a cancelled
  client and for nothing else. An audit error is stored exactly for the streams that are not a success.
\<close>

theorem stream_outcome_classification:
  "stream_status_code (after_eof (lifecycle_run calls lifecycle_new)) =
     (case find_map terminal_signal calls of
        Some Completed \<Rightarrow> 200
      | Some (Failed e) \<Rightarrow> if contains (to_ascii_lowercase e) ''timed out'' then 504 else 502
      | _ \<Rightarrow> 502) \<and>
   stream_status_code (after_body_error (lifecycle_run calls lifecycle_new) error) =
     (case find_map terminal_signal calls of
        Some (Failed e) \<Rightarrow> if contains (to_ascii_lowercase e) ''timed out'' then 504 else 502
      | _ \<Rightarrow> 502) \<and>
   (stream_status_code outcome = 499 \<longleftrightarrow> (\<exists>l. outcome = after_drop l)) \<and>
   (audit_error_message outcome = None \<longleftrightarrow> success outcome) \<and>
   (success outcome \<longleftrightarrow> stream_status_code outcome = 200)"
proof -
  let ?l = "lifecycle_run calls lifecycle_new"
  have state: "lc_state ?l = (case find_map terminal_signal calls of Some s \<Rightarrow> s | None \<Rightarrow> Pending)"
    by (simp add: run_state) (simp add: lifecycle_new_def)
  have "stream_status_code outcome = 499 \<longleftrightarrow> (\<exists>l. outcome = after_drop l)"
  proof (cases outcome)
    case (DownstreamCancelled s)
    then have "outcome = after_drop (lifecycle_new\<lparr>lc_state := s\<rparr>)" by (simp add: after_drop_def)
    then show ?thesis using DownstreamCancelled by (metis stream_status_code.simps(4))
  qed (simp_all add: after_drop_def)
  moreover have "success outcome \<longleftrightarrow> stream_status_code outcome = 200"
    by (cases outcome) (simp_all add: success_def)
  ultimately show ?thesis
    using pending_end_is_no_timeout
    by (simp add: audit_error_None success_def after_eof_def after_body_error_def state timed_out_def
        split: option.split UpstreamStreamState.split)
qed

end
