(* ===== verification/Usage.thy ===== *)
theory Usage
  imports Pricing
begin

text \<open>
  Quota increments and accounting periods, \<^verbatim>\<open>src/src/usage.rs\<close>: the calendar periods of a quota in UTC
  milliseconds and the civil-date conversions they use. Signed divisions truncate; the intermediate
  values stay far inside the 64-bit range for every input a millisecond clock can give, so they are
  unbounded integers here, with the saturating operations of the source written out.
\<close>

record UsageEstimate =
  est_input_tokens :: nat
  est_output_tokens :: nat
  est_cache_write_tokens :: nat
  est_cache_read_tokens :: nat
  est_cost_estimate :: f64

definition DAY_MS :: nat where
  "DAY_MS = 24 * 60 * 60 * 1000"

definition estimate_tokens :: "UsageEstimate \<Rightarrow> nat" where
  "estimate_tokens e =
     u64_add (u64_add (u64_add (est_input_tokens e) (est_output_tokens e))
       (est_cache_write_tokens e)) (est_cache_read_tokens e)"

definition quota_increment :: "string \<Rightarrow> UsageEstimate \<Rightarrow> f64" where
  "quota_increment quota_type estimate =
     (if quota_type = ''requests'' then Fin 1
      else if quota_type = ''tokens'' then f64_of_nat (estimate_tokens estimate)
      else if quota_type = ''cost'' then est_cost_estimate estimate
      else Fin 0)"

section \<open>Civil dates\<close>

definition civil_from_days :: "int \<Rightarrow> int \<times> nat \<times> nat" where
  "civil_from_days days_since_epoch =
     (let z = i64_add days_since_epoch 719468;
          era = tdiv (if 0 \<le> z then z else z - 146096) 146097;
          day_of_era = z - era * 146097;
          year_of_era = tdiv (day_of_era - tdiv day_of_era 1460 + tdiv day_of_era 36524
            - tdiv day_of_era 146096) 365;
          year = year_of_era + era * 400;
          day_of_year = day_of_era - (365 * year_of_era + tdiv year_of_era 4 - tdiv year_of_era 100);
          month_prime = tdiv (5 * day_of_year + 2) 153;
          day = day_of_year - tdiv (153 * month_prime + 2) 5 + 1;
          month = month_prime + (if month_prime < 10 then 3 else - 9)
      in (if month \<le> 2 then year + 1 else year, nat month, nat day))"

definition days_from_civil :: "int \<Rightarrow> nat \<Rightarrow> nat \<Rightarrow> int" where
  "days_from_civil year0 month0 day =
     (let year = year0 - (if month0 \<le> 2 then 1 else 0);
          era = tdiv (if 0 \<le> year then year else year - 399) 400;
          year_of_era = year - era * 400;
          month = int month0;
          day_of_year = tdiv (153 * (month + (if month > 2 then - 3 else 9)) + 2) 5 + int day - 1;
          day_of_era = year_of_era * 365 + tdiv year_of_era 4 - tdiv year_of_era 100 + day_of_year
      in era * 146097 + day_of_era - 719468)"

definition millis_from_civil :: "int \<Rightarrow> nat \<Rightarrow> nat \<Rightarrow> nat" where
  "millis_from_civil year month day =
     (let days = days_from_civil year month day
      in u64_mul (if 0 \<le> days then nat days else 0) DAY_MS)"

definition day_start :: "nat \<Rightarrow> nat" where
  "day_start now = (now div DAY_MS) * DAY_MS"

definition current_period :: "string \<Rightarrow> nat \<Rightarrow> nat \<times> nat" where
  "current_period period now =
     (if period = ''daily'' then
        (let start = day_start now in (start, u64_add start DAY_MS))
      else if period = ''weekly'' then
        (let days_since_epoch = now div DAY_MS;
             weekday_from_monday = u64_add days_since_epoch 3 mod 7;
             start = u64_mul (days_since_epoch - weekday_from_monday) DAY_MS
         in (start, u64_add start (DAY_MS * 7)))
      else if period = ''monthly'' then
        (let days_since_epoch = to_i64_sat (now div DAY_MS);
             (year, month, _) = civil_from_days days_since_epoch;
             (next_year, next_month) =
               (if month = 12 then (i64_add year 1, 1) else (year, month + 1))
         in (millis_from_civil year month 1, millis_from_civil next_year next_month 1))
      else (now, u64_add now DAY_MS))"

section \<open>The days of an era\<close>

text \<open>
  A year of an era starts in March at day \<open>year_start y\<close>; \<open>era_index\<close> is the numerator the source
  divides by 365 to find the year of a day. It is monotone, so its values at the 400 year boundaries
  decide it everywhere.
\<close>

definition era_index :: "int \<Rightarrow> int" where
  "era_index d = d - d div 1460 + d div 36524 - d div 146096"

definition year_start :: "int \<Rightarrow> int" where
  "year_start y = 365 * y + y div 4 - y div 100 + y div 400"

lemma era_index_boundaries:
  "list_all (\<lambda>y. 365 * y \<le> era_index (year_start y) \<and>
      era_index (year_start (y + 1) - 1) < 365 * (y + 1)) [0..399]"
  by code_simp

lemma sub_div_mono:
  fixes x y n :: int
  assumes "x \<le> y" "0 < n"
  shows "x - x div n \<le> y - y div n"
proof -
  have "(y - x) * 1 \<le> (y - x) * n" using assms by (intro mult_left_mono) auto
  then have "y div n \<le> (x + (y - x) * n) div n"
    using assms by (intro zdiv_mono1) auto
  then show ?thesis using assms by simp
qed

lemma era_index_mono: "a \<le> b \<Longrightarrow> era_index a \<le> era_index b"
proof -
  assume ab: "a \<le> b"
  have nested: "d div 146096 = (d div 36524) div 4" for d :: int
    by (simp add: zdiv_zmult2_eq [symmetric])
  have "a div 36524 \<le> b div 36524" using ab by (simp add: zdiv_mono1)
  then show ?thesis
    using sub_div_mono [OF ab, of 1460] sub_div_mono [of "a div 36524" "b div 36524" 4]
    by (simp add: era_index_def nested)
qed

lemma year_of_day:
  assumes "0 \<le> d" "d < 146097"
  defines "y \<equiv> era_index d div 365"
  shows "0 \<le> y" "y \<le> 399" "year_start y \<le> d" "d < year_start (y + 1)"
proof -
  have table: "365 * k \<le> era_index (year_start k)" "era_index (year_start (k + 1) - 1) < 365 * (k + 1)"
    if "0 \<le> k" "k \<le> 399" for k
    using era_index_boundaries that by (auto simp: list_all_iff)
  have "era_index 0 \<le> era_index d" "era_index d \<le> era_index 146096"
    using assms by (auto intro: era_index_mono)
  then have range: "0 \<le> era_index d" "era_index d \<le> 145999"
    by (simp_all add: era_index_def)
  then show y: "0 \<le> y" "y \<le> 399" by (auto simp: y_def)
  have bounds: "365 * y \<le> era_index d" "era_index d < 365 * (y + 1)"
    unfolding y_def by presburger+
  show "d < year_start (y + 1)"
  proof (rule ccontr)
    assume *: "\<not> d < year_start (y + 1)"
    show False
    proof (cases "y = 399")
      case True
      with * assms(2) show False by (simp add: year_start_def)
    next
      case False
      with y table(1) [of "y + 1"] have "365 * (y + 1) \<le> era_index (year_start (y + 1))" by simp
      also have "\<dots> \<le> era_index d" using * by (intro era_index_mono) simp
      finally show False using bounds by simp
    qed
  qed
  show "year_start y \<le> d"
  proof (rule ccontr)
    assume *: "\<not> year_start y \<le> d"
    with assms(1) have "y \<noteq> 0" by (auto simp: year_start_def)
    with y table(2) [of "y - 1"] have "era_index (year_start y - 1) < 365 * y" by simp
    moreover have "era_index d \<le> era_index (year_start y - 1)" using * by (intro era_index_mono) simp
    ultimately show False using bounds by simp
  qed
qed

definition month_start :: "int \<Rightarrow> int" where
  "month_start mp = (153 * mp + 2) div 5"

lemma month_table:
  "list_all (\<lambda>d. let mp = (5 * d + 2) div 153 in
     0 \<le> mp \<and> mp \<le> 11 \<and> month_start mp \<le> d \<and> d < month_start mp + 31 \<and>
     (mp < 11 \<longrightarrow> d < month_start (mp + 1))) [0..365]"
  by code_simp

lemma month_of_day:
  assumes "0 \<le> d" "d \<le> 365"
  defines "mp \<equiv> (5 * d + 2) div 153"
  shows "0 \<le> mp" "mp \<le> 11" "month_start mp \<le> d" "d < month_start mp + 31"
    "mp < 11 \<Longrightarrow> d < month_start (mp + 1)"
  using month_table assms(1,2) unfolding mp_def list_all_iff Let_def by (simp_all add: atLeastAtMost_iff)

lemma year_length: "year_start (y + 1) - year_start y \<le> 366"
proof -
  have nested: "d div 400 = (d div 100) div 4" for d :: int
    by (simp add: zdiv_zmult2_eq [symmetric])
  have "y div 100 \<le> (y + 1) div 100" by (simp add: zdiv_mono1)
  moreover have "(y + 1) div 4 \<le> y div 4 + 1" by presburger
  ultimately show ?thesis
    using sub_div_mono [of "y div 100" "(y + 1) div 100" 4] by (simp add: year_start_def nested)
qed

text \<open>The source adjusts negative numerators so that its truncated division rounds down.\<close>

lemma div_complement:
  fixes n z :: int
  assumes "0 < n"
  shows "(n - 1 - z) div n = - (z div n)"
proof -
  have "n - 1 - z = (n - 1 - z mod n) + n * (- (z div n))"
    using mult_div_mod_eq [of n z] by (simp add: algebra_simps)
  then have "(n - 1 - z) div n = - (z div n) + (n - 1 - z mod n) div n"
    using assms by (simp only: div_mult_self2)
  moreover have "(n - 1 - z mod n) div n = 0"
    using pos_mod_bound [OF assms, of z] pos_mod_sign [OF assms, of z]
    by (intro div_pos_pos_trivial) linarith+
  ultimately show ?thesis by simp
qed

lemma tdiv_era: "tdiv (if 0 \<le> z then z else z - 146096) 146097 = z div 146097"
proof (cases "0 \<le> z")
  case False
  then show ?thesis using div_complement [of 146097 z] by (simp add: tdiv_def)
qed (simp add: tdiv_nonneg)

lemma tdiv_400: "tdiv (if 0 \<le> z then z else z - 399) 400 = z div 400"
proof (cases "0 \<le> z")
  case False
  then show ?thesis using div_complement [of 400 z] by (simp add: tdiv_def)
qed (simp add: tdiv_nonneg)

text \<open>The conversion to a date in terms of the tables above.\<close>

lemma civil_from_days_eq:
  assumes "i64_range (d + 719468)"
  defines "z \<equiv> d + 719468"
  defines "doe \<equiv> z mod 146097"
  defines "yoe \<equiv> era_index doe div 365"
  defines "doy \<equiv> doe - year_start yoe"
  defines "mp \<equiv> (5 * doy + 2) div 153"
  shows "civil_from_days d =
    (yoe + z div 146097 * 400 + (if mp < 10 then 0 else 1),
     nat (if mp < 10 then mp + 3 else mp - 9), nat (doy - month_start mp + 1))"
    and "0 \<le> yoe" "yoe \<le> 399" "0 \<le> doy" "doy < year_start (yoe + 1) - year_start yoe" "doy \<le> 365"
    and "d = z div 146097 * 146097 + year_start yoe + doy - 719468"
proof -
  have doe: "0 \<le> doe" "doe < 146097" by (simp_all add: doe_def)
  note y = year_of_day [OF doe, folded yoe_def]
  show "0 \<le> yoe" "yoe \<le> 399" using y by simp_all
  show doy: "0 \<le> doy" "doy < year_start (yoe + 1) - year_start yoe" using y by (simp_all add: doy_def)
  show doy365: "doy \<le> 365" using doy year_length [of yoe] by linarith
  show "d = z div 146097 * 146097 + year_start yoe + doy - 719468"
    using mult_div_mod_eq [of 146097 z] by (simp add: doy_def doe_def z_def)
  have idx0: "0 \<le> era_index doe" using y(1) unfolding yoe_def by (simp add: pos_imp_zdiv_nonneg_iff)
  have zz: "i64_add d 719468 = z" using assms(1) by (simp add: i64_add_def z_def)
  have dd: "z - z div 146097 * 146097 = doe"
    by (simp add: doe_def minus_div_mult_eq_mod)
  have yy: "tdiv (doe - tdiv doe 1460 + tdiv doe 36524 - tdiv doe 146096) 365 = yoe"
    using idx0 doe by (simp add: tdiv_nonneg yoe_def era_index_def)
  have oo: "doe - (365 * yoe + tdiv yoe 4 - tdiv yoe 100) = doy"
    using y(1,2) by (simp add: tdiv_nonneg doy_def year_start_def)
  have mm: "tdiv (5 * doy + 2) 153 = mp" using doy by (simp add: tdiv_nonneg mp_def)
  note m = month_of_day [OF doy(1) doy365, folded mp_def]
  have ms: "tdiv (153 * mp + 2) 5 = month_start mp" using m(1) by (simp add: tdiv_nonneg month_start_def)
  show "civil_from_days d =
    (yoe + z div 146097 * 400 + (if mp < 10 then 0 else 1),
     nat (if mp < 10 then mp + 3 else mp - 9), nat (doy - month_start mp + 1))"
    using m(1,2) unfolding civil_from_days_def Let_def zz tdiv_era dd yy oo mm ms by auto
qed

text \<open>The day number of the first day of a month, by the month counted from March.\<close>

lemma days_from_civil_eq:
  assumes "0 \<le> yoe" "yoe \<le> 399" "0 \<le> mp" "mp \<le> 11" "1 \<le> day"
  shows "days_from_civil (yoe + era * 400 + (if mp < 10 then 0 else 1))
      (nat (if mp < 10 then mp + 3 else mp - 9)) (nat day) =
    era * 146097 + year_start yoe + month_start mp + day - 1 - 719468"
proof -
  let ?m = "nat (if mp < 10 then mp + 3 else mp - 9)"
  have m2: "?m \<le> 2 \<longleftrightarrow> \<not> mp < 10" using assms by auto
  have yr: "yoe + era * 400 + (if mp < 10 then 0 else 1) - (if ?m \<le> 2 then 1 else 0) = yoe + era * 400"
    unfolding m2 by simp
  have er: "(yoe + era * 400) div 400 = era" using assms by simp
  have mo: "int ?m + (if int ?m > 2 then - 3 else 9) = mp" using assms by auto
  have yo: "yoe + era * 400 - era * 400 = yoe" by simp
  show ?thesis
    unfolding days_from_civil_def Let_def yr tdiv_400 er mo yo
    using assms by (simp add: tdiv_nonneg month_start_def year_start_def)
qed

text \<open>The two conversions share one parametrisation of the days: era, year, month and day.\<close>

lemma civil_coordinates:
  assumes "i64_range (d + 719468)"
  obtains era yoe mp day where
    "civil_from_days d = (yoe + era * 400 + (if mp < 10 then 0 else 1),
       nat (if mp < 10 then mp + 3 else mp - 9), nat day)"
    "0 \<le> yoe" "yoe \<le> 399" "0 \<le> mp" "mp \<le> 11" "1 \<le> day" "day \<le> 31"
    "d = era * 146097 + year_start yoe + month_start mp + day - 1 - 719468"
    "mp < 11 \<Longrightarrow> month_start mp + day - 1 < month_start (mp + 1)"
    "month_start mp + day - 1 < year_start (yoe + 1) - year_start yoe"
proof -
  define z where "z = d + 719468"
  define doe where "doe = z mod 146097"
  define yoe where "yoe = era_index doe div 365"
  define doy where "doy = doe - year_start yoe"
  define mp where "mp = (5 * doy + 2) div 153"
  note c = civil_from_days_eq [OF assms, folded z_def, folded doe_def, folded yoe_def,
      folded doy_def, folded mp_def]
  note m = month_of_day [OF c(4,6), folded mp_def]
  show thesis
    by (rule that [OF c(1-3) m(1,2)]) (use c m in linarith)+
qed

section \<open>Periods contain the instant they are computed for\<close>

lemma day_ms_facts: "0 < DAY_MS" "DAY_MS = 86400000"
  by (simp_all add: DAY_MS_def)

lemma div_day: "(now div DAY_MS) * DAY_MS \<le> now" "now < (now div DAY_MS) * DAY_MS + DAY_MS"
  using dividend_less_div_times [of DAY_MS now] by (simp_all add: day_ms_facts(1) add.commute)

text \<open>Months numbered from March of year 0: month \<open>k\<close> starts at day \<open>mstart k\<close> of that count.\<close>

definition mstart :: "int \<Rightarrow> int" where
  "mstart k = year_start (k div 12) + month_start (k mod 12)"

lemma month_lengths:
  "list_all (\<lambda>mp. month_start mp < month_start (mp + 1) \<and> month_start (mp + 1) \<le> month_start mp + 31) [0..10]"
  by code_simp

lemma month_length:
  assumes "0 \<le> mp" "mp \<le> 10"
  shows "month_start mp < month_start (mp + 1)" "month_start (mp + 1) \<le> month_start mp + 31"
  using month_lengths assms unfolding list_all_iff by simp_all

lemma year_length_min: "year_start y + 364 \<le> year_start (y + 1)"
proof -
  have "(y + 1) div 100 \<le> (y + 100) div 100" by (rule zdiv_mono1) simp_all
  then have "(y + 1) div 100 \<le> y div 100 + 1" by simp
  moreover have "y div 4 \<le> (y + 1) div 4" "y div 400 \<le> (y + 1) div 400"
    by (simp_all add: zdiv_mono1)
  moreover have "365 * y + a - c + b + 364 \<le> 365 * (y + 1) + a' - c' + b'"
    if "c' \<le> c + 1" "a \<le> a'" "b \<le> b'" for a a' b b' c c' :: int
    using that by simp
  ultimately show ?thesis unfolding year_start_def by blast
qed

lemma mstart_step: "mstart k < mstart (k + 1)" "mstart (k + 1) \<le> mstart k + 31"
proof -
  have "mstart k < mstart (k + 1) \<and> mstart (k + 1) \<le> mstart k + 31"
  proof (cases "k mod 12 = 11")
    case True
    then have "k + 1 = 12 * (k div 12 + 1)" using mult_div_mod_eq [of 12 k] by simp
    then have next_month: "(k + 1) div 12 = k div 12 + 1" "(k + 1) mod 12 = 0"
      by (metis nonzero_mult_div_cancel_left zero_neq_numeral, metis mod_mult_self1_is_0)
    have "month_start 11 = 337" "month_start 0 = 0" by (simp_all add: month_start_def)
    then show ?thesis
      unfolding mstart_def next_month True
      using year_length_min [of "k div 12"] year_length [of "k div 12"] by simp
  next
    case False
    have "0 \<le> k mod 12" "k mod 12 < 12" by simp_all
    with False have mp: "0 \<le> k mod 12" "k mod 12 \<le> 10" by linarith+
    have split: "k + 1 = 12 * (k div 12) + (k mod 12 + 1)" using mult_div_mod_eq [of 12 k] by simp
    have next_month: "(k + 1) div 12 = k div 12" "(k + 1) mod 12 = k mod 12 + 1"
      using int_div_pos_eq [OF split] int_mod_pos_eq [OF split] mp by simp_all
    show ?thesis unfolding mstart_def next_month using month_length [OF mp] by simp
  qed
  then show "mstart k < mstart (k + 1)" "mstart (k + 1) \<le> mstart k + 31" by auto
qed

lemma mstart_mono: "k \<le> l \<Longrightarrow> mstart k \<le> mstart l"
  by (induction l rule: int_ge_induct) (use mstart_step(1) in \<open>auto intro: order_trans less_imp_le\<close>)

lemma mstart_unique:
  assumes "mstart k \<le> z" "z < mstart (k + 1)" "mstart l \<le> z" "z < mstart (l + 1)"
  shows "k = l"
  using mstart_mono [of "k + 1" l] mstart_mono [of "l + 1" k] assms by linarith

lemma year_start_era:
  assumes "0 \<le> r" "r \<le> 399"
  shows "year_start (r + q * 400) = q * 146097 + year_start r"
proof -
  have "r + q * 400 = r + (q * 100) * 4" by simp
  then have 4: "(r + q * 400) div 4 = q * 100 + r div 4"
    by (simp only: div_mult_self1 [OF zero_neq_numeral [symmetric]])
  have "r + q * 400 = r + (q * 4) * 100" by simp
  then have 100: "(r + q * 400) div 100 = q * 4 + r div 100"
    by (simp only: div_mult_self1 [OF zero_neq_numeral [symmetric]])
  have 400: "(r + q * 400) div 400 = q + r div 400"
    by (simp only: div_mult_self1 [OF zero_neq_numeral [symmetric]])
  have "365 * (r + q * 400) + (q * 100 + a) - (q * 4 + b) + (q + c) = q * 146097 + (365 * r + a - b + c)"
    for a b c by simp
  then show ?thesis unfolding year_start_def 4 100 400 .
qed

lemma euclid: "0 < n \<Longrightarrow> \<exists>q r. 0 \<le> r \<and> r < n \<and> y = r + q * (n :: int)"
  by (intro exI [of _ "y div n"] exI [of _ "y mod n"]) simp

lemma index12:
  assumes "0 \<le> mp" "mp \<le> 11"
  shows "(12 * y + mp) div 12 = y" "(12 * y + mp) mod 12 = (mp :: int)"
  using assms int_div_pos_eq [of "12 * y + mp" 12 y mp, OF refl]
    int_mod_pos_eq [of "12 * y + mp" 12 y mp, OF refl] by auto

text \<open>The month of a day, and the first days of that month and of the next one.\<close>

lemma days_from_civil_first:
  assumes "1 \<le> month" "month \<le> 12"
  shows "days_from_civil year month 1 = mstart (12 * year + int month - 3) - 719468"
proof -
  define y where "y = (if month \<le> 2 then year - 1 else year)"
  define mp where "mp = (if month \<le> 2 then int month + 9 else int month - 3)"
  have mp: "0 \<le> mp" "mp \<le> 11" "month \<le> 2 \<longleftrightarrow> \<not> mp < 10"
    using assms by (auto simp: mp_def)
  obtain q r where r: "0 \<le> r" "r < 400" "y = r + q * 400" using euclid [of 400 y] by auto
  then have r399: "r \<le> 399" by simp
  have "12 * year + int month - 3 = 12 * y + mp" by (simp add: y_def mp_def)
  then have ms: "mstart (12 * year + int month - 3) = year_start y + month_start mp"
    by (simp only: mstart_def index12 [OF mp(1,2)])
  have args: "r + q * 400 + (if mp < 10 then 0 else 1) = year"
    "nat (if mp < 10 then mp + 3 else mp - 9) = month"
    unfolding r(3) [symmetric] using assms by (cases "month \<le> 2"; simp add: y_def mp_def)+
  have "days_from_civil year month 1 = q * 146097 + year_start r + month_start mp - 719468"
    using days_from_civil_eq [OF r(1) r399 mp(1,2) order_refl, of q] unfolding args by simp
  then show ?thesis unfolding ms r(3) year_start_era [OF r(1) r399] by simp
qed

lemma civil_month:
  assumes "i64_range (d + 719468)" "civil_from_days d = (year, month, day)"
  defines "k \<equiv> 12 * year + int month - 3"
  shows "1 \<le> month" "month \<le> 12" "mstart k \<le> d + 719468" "d + 719468 < mstart (k + 1)"
proof -
  obtain era yoe mp dy where c:
    "civil_from_days d = (yoe + era * 400 + (if mp < 10 then 0 else 1),
       nat (if mp < 10 then mp + 3 else mp - 9), nat dy)"
    "0 \<le> yoe" "yoe \<le> 399" "0 \<le> mp" "mp \<le> 11" "1 \<le> dy"
    "d = era * 146097 + year_start yoe + month_start mp + dy - 1 - 719468"
    "mp < 11 \<Longrightarrow> month_start mp + dy - 1 < month_start (mp + 1)"
    "month_start mp + dy - 1 < year_start (yoe + 1) - year_start yoe"
    using civil_coordinates [OF assms(1)] by metis
  define y where "y = yoe + era * 400"
  have ym: "year = y + (if mp < 10 then 0 else 1)" "int month = (if mp < 10 then mp + 3 else mp - 9)"
    using c(1,4) assms(2) by (auto simp: y_def)
  show "1 \<le> month" "month \<le> 12" using ym(2) c(4,5) by (auto split: if_splits)
  have k: "k = 12 * y + mp" using ym by (simp add: k_def)
  have ys: "year_start y = era * 146097 + year_start yoe"
    using year_start_era [OF c(2,3)] by (simp add: y_def)
  have ms: "mstart k = era * 146097 + year_start yoe + month_start mp"
    by (simp only: mstart_def k index12 [OF c(4,5)] ys)
  show "mstart k \<le> d + 719468" using c(6,7) ms by linarith
  show "d + 719468 < mstart (k + 1)"
  proof (cases "mp < 11")
    case True
    then have mp1: "0 \<le> mp + 1" "mp + 1 \<le> 11" using c(4) by auto
    have "k + 1 = 12 * y + (mp + 1)" by (simp add: k)
    then have "mstart (k + 1) = era * 146097 + year_start yoe + month_start (mp + 1)"
      by (simp only: mstart_def index12 [OF mp1] ys)
    with c(7) c(8) [OF True] show ?thesis by linarith
  next
    case False
    with c(5) have "k + 1 = 12 * (y + 1) + 0" by (simp add: k)
    then have "mstart (k + 1) = year_start (y + 1) + month_start 0"
      by (simp only: mstart_def index12 [of 0, simplified]) simp
    moreover have "year_start (y + 1) = era * 146097 + year_start (yoe + 1)"
    proof (cases "yoe = 399")
      case True
      then have "y + 1 = 0 + (era + 1) * 400" by (simp add: y_def)
      with True year_start_era [of 0 "era + 1"] show ?thesis by (simp add: year_start_def)
    next
      case False
      then have "0 \<le> yoe + 1" "yoe + 1 \<le> 399" using c(2,3) by auto
      moreover have "y + 1 = (yoe + 1) + era * 400" by (simp add: y_def)
      ultimately show ?thesis by (simp only: year_start_era)
    qed
    moreover have "month_start 0 = 0" by (simp add: month_start_def)
    ultimately show ?thesis using c(7,9) by linarith
  qed
qed

text \<open>The three calendar periods in closed form, for instants away from the ends of the 64-bit range.\<close>

lemma u64_mul_exact: "a * b \<le> u64_max \<Longrightarrow> u64_mul a b = a * b"
  by (simp add: sat_simps)

lemma period_daily:
  assumes "now + 31 * DAY_MS \<le> u64_max"
  shows "current_period ''daily'' now = ((now div DAY_MS) * DAY_MS, (now div DAY_MS + 1) * DAY_MS)"
proof -
  have "(now div DAY_MS) * DAY_MS + DAY_MS \<le> u64_max" using assms div_day(1) [of now] by linarith
  then show ?thesis by (simp add: current_period_def Let_def day_start_def u64_add_exact)
qed

lemma period_weekly:
  assumes "now + 31 * DAY_MS \<le> u64_max"
  defines "w \<equiv> now div DAY_MS - (now div DAY_MS + 3) mod 7"
  shows "current_period ''weekly'' now = (w * DAY_MS, (w + 7) * DAY_MS)"
proof -
  have "3 \<le> 31 * DAY_MS" by (simp add: day_ms_facts(2))
  with assms(1) have "now div DAY_MS + 3 \<le> u64_max"
    using div_le_dividend [of now DAY_MS] by linarith
  moreover have "w * DAY_MS \<le> (now div DAY_MS) * DAY_MS" by (simp add: w_def)
  then have "w * DAY_MS \<le> now" using div_day(1) [of now] by linarith
  moreover from this assms(1) have "w * DAY_MS + DAY_MS * 7 \<le> u64_max" by linarith
  ultimately have "now div DAY_MS - u64_add (now div DAY_MS) 3 mod 7 = w" "u64_mul w DAY_MS = w * DAY_MS"
    "u64_add (w * DAY_MS) (DAY_MS * 7) = w * DAY_MS + DAY_MS * 7"
    by (simp_all add: w_def u64_add_exact u64_mul_exact)
  then show ?thesis by (simp add: current_period_def Let_def add_mult_distrib mult.commute [of DAY_MS])
qed

definition month_millis :: "int \<Rightarrow> nat" where
  "month_millis k = nat (mstart k - 719468) * DAY_MS"

lemma day_number_small: "n \<le> u64_max \<Longrightarrow> int (n div DAY_MS) \<le> 213503982334"
proof -
  assume "n \<le> u64_max"
  then have "n div DAY_MS \<le> u64_max div DAY_MS" by (rule div_le_mono)
  then show ?thesis by (simp add: u64_max_def day_ms_facts(2))
qed

lemma day_number_range:
  assumes "n \<le> u64_max"
  shows "to_i64_sat (n div DAY_MS) = int (n div DAY_MS)" "i64_range (int (n div DAY_MS) + 719468)"
  using day_number_small [OF assms]
  by (simp_all add: to_i64_sat_def i64_range_def i64_max_def i64_min_def)

lemma month_index_range:
  assumes "mstart k \<le> d + 719468" "d + 719468 < mstart (k + 1)" "0 \<le> d" "d \<le> 213503982334"
    and "12 * year - 2 \<le> k" "k \<le> 12 * year + 9"
  shows "i64_range (year + 1)"
proof -
  have "0 \<le> k"
  proof (rule ccontr)
    assume "\<not> 0 \<le> k"
    then have "mstart (k + 1) \<le> mstart 0" by (intro mstart_mono) simp
    also have "mstart 0 = 0" by (simp add: mstart_def year_start_def month_start_def)
    finally show False using assms by simp
  qed
  moreover have "k < 12000000000000"
  proof (rule ccontr)
    assume "\<not> k < 12000000000000"
    then have "mstart 12000000000000 \<le> mstart k" by (intro mstart_mono) simp
    moreover have "mstart 12000000000000 = 365242500000000" by (simp add: mstart_def year_start_def month_start_def)
    ultimately show False using assms by simp
  qed
  ultimately show ?thesis using assms(5,6) by (simp add: i64_range_def i64_min_def i64_max_def)
qed

lemma period_monthly:
  assumes "now + 31 * DAY_MS \<le> u64_max"
  obtains k where "current_period ''monthly'' now = (month_millis k, month_millis (k + 1))"
    "mstart k \<le> int (now div DAY_MS) + 719468" "int (now div DAY_MS) + 719468 < mstart (k + 1)"
proof -
  let ?d = "int (now div DAY_MS)"
  have now: "now \<le> u64_max" using assms by simp
  obtain year month day where c: "civil_from_days ?d = (year, month, day)" by (cases "civil_from_days ?d") auto
  define k where "k = 12 * year + int month - 3"
  note m = civil_month [OF day_number_range(2) [OF now] c, folded k_def]
  have fits: "nat (mstart l - 719468) * DAY_MS \<le> u64_max" if "mstart l \<le> ?d + 719468 + 31" for l
  proof -
    have "nat (mstart l - 719468) \<le> now div DAY_MS + 31" using that by simp
    then have "nat (mstart l - 719468) * DAY_MS \<le> (now div DAY_MS + 31) * DAY_MS" by (rule mult_le_mono1)
    also have "\<dots> \<le> now + 31 * DAY_MS" using div_day(1) [of now] by (simp add: algebra_simps)
    finally show ?thesis using assms by linarith
  qed
  have millis: "millis_from_civil y mo 1 = month_millis l"
    if "days_from_civil y mo 1 = mstart l - 719468" "mstart l \<le> ?d + 719468 + 31" for y mo l
    using that fits [OF that(2)]
    by (simp add: millis_from_civil_def month_millis_def Let_def u64_mul_exact)
  have start: "millis_from_civil year month 1 = month_millis k"
    using days_from_civil_first [OF m(1,2), of year] m(3) by (intro millis) (simp_all add: k_def)
  have le31: "mstart (k + 1) \<le> ?d + 719468 + 31" using mstart_step(2) [of k] m(3) by linarith
  let ?y' = "if month = 12 then year + 1 else year" and ?m' = "if month = 12 then 1 else month + 1"
  have "days_from_civil ?y' ?m' 1 = mstart (12 * ?y' + int ?m' - 3) - 719468"
    using m(1,2) by (intro days_from_civil_first) auto
  moreover have "12 * ?y' + int ?m' - 3 = k + 1" by (simp add: k_def)
  ultimately have finish: "millis_from_civil ?y' ?m' 1 = month_millis (k + 1)"
    using millis [OF _ le31] by simp
  have "i64_add year 1 = year + 1"
    using month_index_range [of k ?d] m day_number_small [OF now] by (simp add: k_def i64_add_def)
  with start finish c day_number_range(1) [OF now] have
    "current_period ''monthly'' now = (month_millis k, month_millis (k + 1))"
    by (cases "month = 12") (simp_all add: current_period_def)
  then show thesis using that m(3,4) by blast
qed

text \<open>An instant lies in a window of whole days exactly when its day number does.\<close>

lemma day_window: "a * DAY_MS \<le> x \<and> x < b * DAY_MS \<longleftrightarrow> a \<le> x div DAY_MS \<and> x div DAY_MS < b"
  using day_ms_facts(1) by (simp add: less_eq_div_iff_mult_less_eq div_less_iff_less_mult)

lemma week_of_day:
  fixes D :: nat
  assumes "4 \<le> D"
  shows "D - (D + 3) mod 7 + 3 = 7 * ((D + 3) div 7)"
proof -
  have "(D + 3) mod 7 < 7" "7 * ((D + 3) div 7) + (D + 3) mod 7 = D + 3" by simp_all
  moreover from this assms have "1 \<le> (D + 3) div 7" by (simp add: less_eq_div_iff_mult_less_eq)
  ultimately show ?thesis by linarith
qed

lemma week_unique:
  fixes D D' :: nat
  assumes "4 \<le> D" "D - (D + 3) mod 7 \<le> D'" "D' < D - (D + 3) mod 7 + 7"
  shows "D' - (D' + 3) mod 7 = D - (D + 3) mod 7"
proof -
  let ?w = "D - (D + 3) mod 7" and ?q = "(D + 3) div 7"
  have w: "?w + 3 = 7 * ?q" by (rule week_of_day [OF assms(1)])
  have "1 \<le> ?q" using assms(1) by (simp add: less_eq_div_iff_mult_less_eq)
  with w have "4 \<le> ?w" by linarith
  with assms(2) have D': "4 \<le> D'" by linarith
  have "7 * ?q \<le> D' + 3" "D' + 3 < 7 * ?q + 7" using assms(2,3) w by linarith+
  then have "(D' + 3) div 7 = ?q" by (intro div_nat_eqI) (simp_all add: mult.commute)
  with week_of_day [OF D'] w show ?thesis by linarith
qed

lemma near_instant:
  assumes "x div DAY_MS \<le> now div DAY_MS + 31" "now + 64 * DAY_MS \<le> u64_max"
  shows "x + 31 * DAY_MS \<le> u64_max"
proof -
  have "x div DAY_MS * DAY_MS \<le> now div DAY_MS * DAY_MS + 31 * DAY_MS"
    using mult_le_mono1 [OF assms(1), of DAY_MS] by (simp only: add_mult_distrib)
  then show ?thesis using div_day(2) [of x] div_day(1) [of now] assms(2) by linarith
qed

text \<open>A period given by day numbers that is the same for all its days is a window.\<close>

definition period_window :: "string \<Rightarrow> nat \<Rightarrow> bool" where
  "period_window period now \<longleftrightarrow>
     (case current_period period now of (s, e) \<Rightarrow> s \<le> now \<and> now < e \<and>
        (\<forall>x. s \<le> x \<and> x < e \<longrightarrow> current_period period x = (s, e)))"

lemma period_window_days:
  assumes "\<And>x. a \<le> x div DAY_MS \<Longrightarrow> x div DAY_MS < b \<Longrightarrow>
      current_period period x = (a * DAY_MS, b * DAY_MS)"
    and "a \<le> now div DAY_MS" "now div DAY_MS < b"
  shows "period_window period now"
  using assms by (simp add: period_window_def assms(1) [OF assms(2,3)] day_window)

lemma daily_window:
  assumes "now + 64 * DAY_MS \<le> u64_max"
  shows "period_window ''daily'' now"
proof (rule period_window_days [of "now div DAY_MS" "now div DAY_MS + 1"])
  fix x
  assume "now div DAY_MS \<le> x div DAY_MS" "x div DAY_MS < now div DAY_MS + 1"
  then have day: "x div DAY_MS = now div DAY_MS" by simp
  then show "current_period ''daily'' x = (now div DAY_MS * DAY_MS, (now div DAY_MS + 1) * DAY_MS)"
    using period_daily [of x] near_instant [OF _ assms, of x] by (simp only: day)
qed simp_all

lemma weekly_window:
  assumes "4 * DAY_MS \<le> now" "now + 64 * DAY_MS \<le> u64_max"
  shows "period_window ''weekly'' now"
proof -
  define D where "D = now div DAY_MS"
  define w where "w = D - (D + 3) mod 7"
  have D: "4 \<le> D" using assms(1) by (simp add: D_def less_eq_div_iff_mult_less_eq day_ms_facts(1))
  have "(D + 3) mod 7 < 7" by simp
  then have w: "w \<le> D" "D < w + 7" unfolding w_def by linarith+
  show ?thesis
  proof (rule period_window_days [of w "w + 7"])
    fix x
    assume x: "w \<le> x div DAY_MS" "x div DAY_MS < w + 7"
    then have week: "x div DAY_MS - (x div DAY_MS + 3) mod 7 = w"
      unfolding w_def by (rule week_unique [OF D])
    have "x div DAY_MS \<le> now div DAY_MS + 31" using x w by (simp add: D_def)
    from period_weekly [OF near_instant [OF this assms(2)]]
    show "current_period ''weekly'' x = (w * DAY_MS, (w + 7) * DAY_MS)" by (simp only: week)
  qed (use w in \<open>simp_all add: D_def\<close>)
qed

lemma monthly_window:
  assumes "now + 64 * DAY_MS \<le> u64_max"
  shows "period_window ''monthly'' now"
proof -
  have "now + 31 * DAY_MS \<le> u64_max" using assms by simp
  from period_monthly [OF this] obtain k where k:
    "mstart k \<le> int (now div DAY_MS) + 719468" "int (now div DAY_MS) + 719468 < mstart (k + 1)" by blast
  show ?thesis
  proof (rule period_window_days [of "nat (mstart k - 719468)" "nat (mstart (k + 1) - 719468)"])
    fix x
    assume "nat (mstart k - 719468) \<le> x div DAY_MS" "x div DAY_MS < nat (mstart (k + 1) - 719468)"
    then have day: "mstart k \<le> int (x div DAY_MS) + 719468" "int (x div DAY_MS) + 719468 < mstart (k + 1)"
      by auto
    have "x div DAY_MS \<le> now div DAY_MS + 31" using day k(1) mstart_step(2) [of k] by linarith
    from period_monthly [OF near_instant [OF this assms]] obtain l where l:
      "current_period ''monthly'' x = (month_millis l, month_millis (l + 1))"
      "mstart l \<le> int (x div DAY_MS) + 719468" "int (x div DAY_MS) + 719468 < mstart (l + 1)" by blast
    then have "l = k" using day mstart_unique by blast
    with l(1) show "current_period ''monthly'' x =
        (nat (mstart k - 719468) * DAY_MS, nat (mstart (k + 1) - 719468) * DAY_MS)"
      by (simp add: month_millis_def)
  qed (use k in auto)
qed

text \<open>
  C18: a daily, weekly or monthly accounting period contains the instant it is computed for, and every
  other instant of the period gives the same period. So a quota counter is reset exactly when a period
  ends, on day, Monday and month boundaries, with no gap and no overlap between periods.
\<close>

theorem current_period_window:
  assumes "period \<in> {''daily'', ''weekly'', ''monthly''}"
    and "4 * DAY_MS \<le> now" "now + 64 * DAY_MS \<le> u64_max"
    and "current_period period now = (s, e)"
  shows "s \<le> now \<and> now < e \<and>
    (\<forall>now'. s \<le> now' \<and> now' < e \<longrightarrow> current_period period now' = (s, e))"
proof -
  have "period_window period now"
    using assms(1-3) daily_window weekly_window monthly_window by auto
  with assms(4) show ?thesis by (simp add: period_window_def)
qed

theorem current_period_window_witness:
  "fst (current_period ''weekly'' 1700000000000) \<le> 1700000000000 \<and>
   1700000000000 < snd (current_period ''weekly'' 1700000000000)"
proof -
  have "4 * DAY_MS \<le> 1700000000000" "1700000000000 + 64 * DAY_MS \<le> u64_max"
    by (simp_all add: u64_max_def day_ms_facts(2))
  from current_period_window [OF _ this surjective_pairing, of "''weekly''"] show ?thesis by blast
qed

end
