(* ===== verification/Calendar.thy ===== *)
theory Calendar
  imports Usage
begin

text \<open>
  The conversion between day numbers and civil dates of \<^verbatim>\<open>src/src/usage.rs\<close> against the rules of the
  Gregorian calendar.
\<close>

section \<open>The Gregorian calendar\<close>

text \<open>The calendar by its rules: leap years, the lengths of the months and the day after a date.\<close>

definition leap_year :: "int \<Rightarrow> bool" where
  "leap_year y \<longleftrightarrow> 4 dvd y \<and> (100 dvd y \<longrightarrow> 400 dvd y)"

definition month_days :: "int \<Rightarrow> nat \<Rightarrow> nat" where
  "month_days y m =
     (if m = 2 then (if leap_year y then 29 else 28) else if m \<in> {4, 6, 9, 11} then 30 else 31)"

fun calendar_date :: "int \<times> nat \<times> nat \<Rightarrow> bool" where
  "calendar_date (y, m, d) \<longleftrightarrow> 1 \<le> m \<and> m \<le> 12 \<and> 1 \<le> d \<and> d \<le> month_days y m"

fun next_date :: "int \<times> nat \<times> nat \<Rightarrow> int \<times> nat \<times> nat" where
  "next_date (y, m, d) =
     (if d < month_days y m then (y, m, d + 1) else if m < 12 then (y, m + 1, 1) else (y + 1, 1, 1))"

lemma div_step:
  fixes y n :: int
  assumes "1 < n"
  shows "(y + 1) div n = y div n + (if n dvd y + 1 then 1 else 0)"
proof (cases "n dvd y + 1")
  case True
  then obtain q where q: "y + 1 = n * q" by (auto elim: dvdE)
  then have "y = n * (q - 1) + (n - 1)" by (simp add: algebra_simps)
  then have "y div n = q - 1" using int_div_pos_eq [of y n "q - 1" "n - 1"] assms by simp
  then show ?thesis using True q assms by simp
next
  case False
  then have "y mod n \<noteq> n - 1" using mult_div_mod_eq [of n y] by (metis add.assoc diff_add_cancel dvd_add dvd_refl dvd_triv_left)
  moreover have "0 \<le> y mod n" "y mod n < n" using assms by simp_all
  moreover have "y + 1 = n * (y div n) + (y mod n + 1)" by simp
  ultimately show ?thesis using int_div_pos_eq [of "y + 1" n "y div n" "y mod n + 1"] False by simp
qed

lemma year_leap: "year_start (y + 1) = year_start y + (if leap_year (y + 1) then 366 else 365)"
proof -
  have "(100 :: int) dvd 400" "(4 :: int) dvd 100" by simp_all
  note c = dvd_trans [OF this(1), of "y + 1"] and b = dvd_trans [OF this(2), of "y + 1"]
  have "(1 :: int) < 4" "(1 :: int) < 100" "(1 :: int) < 400" by simp_all
  note steps = div_step [OF this(1), of y] div_step [OF this(2), of y] div_step [OF this(3), of y]
  have sum: "365 * (y + 1) + (p + (if A then 1 else 0)) - (q + (if B then 1 else 0)) + (r + (if C then 1 else 0)) =
      365 * y + p - q + r + (if A \<and> (B \<longrightarrow> C) then 366 else 365)"
    if "C \<Longrightarrow> B" "B \<Longrightarrow> A" for p q r :: int and A B C
    using that by (cases A; cases B; cases C) simp_all
  show ?thesis unfolding year_start_def leap_year_def steps by (rule sum [OF c b])
qed

lemma month_table_30_31:
  "list_all (\<lambda>m. month_start (int m - 2) = month_start (int m - 3) + (if m \<in> {4, 6, 9, 11} then 30 else 31)) [3..<13]"
  by code_simp

lemma mstart_length:
  assumes "1 \<le> m" "m \<le> 12"
  shows "mstart (12 * y + int m - 3 + 1) = mstart (12 * y + int m - 3) + int (month_days y m)"
proof -
  have table: "month_start 0 = 0" "month_start 1 = 31" "month_start 2 = 61" "month_start 3 = 92" "month_start 4 = 122"
    "month_start 5 = 153" "month_start 6 = 184" "month_start 7 = 214" "month_start 8 = 245" "month_start 9 = 275"
    "month_start 10 = 306" "month_start 11 = 337" by (simp_all add: month_start_def)
  have at: "mstart (12 * x + mp) = year_start x + month_start mp" if "0 \<le> mp" "mp \<le> 11" for x mp
    by (simp only: mstart_def index12 [OF that])
  show ?thesis
  proof (cases "3 \<le> m")
    case True
    then have e: "12 * y + int m - 3 = 12 * y + (int m - 3)" "12 * y + (int m - 3) + 1 = 12 * y + (int m - 2)" by simp_all
    have "month_start (int m - 2) = month_start (int m - 3) + int (month_days y m)"
    proof -
      have "m \<in> set [3..<13]" unfolding set_upt using True assms by simp
      from month_table_30_31 [unfolded list_all_iff, rule_format, OF this] show ?thesis
        using True by (simp only: month_days_def) simp
    qed
    moreover have "mstart (12 * y + (int m - 2)) = year_start y + month_start (int m - 2)"
      "mstart (12 * y + (int m - 3)) = year_start y + month_start (int m - 3)"
      using True assms by (intro at; simp)+
    ultimately show ?thesis unfolding e by linarith
  next
    case False
    then consider "m = 1" | "m = 2" using assms by linarith
    then show ?thesis
    proof cases
      case 1
      have e: "12 * y + int m - 3 = 12 * (y - 1) + 10" "12 * (y - 1) + 10 + 1 = 12 * (y - 1) + (11 :: int)" by (simp_all add: 1)
      show ?thesis unfolding e using at [of 10 "y - 1"] at [of 11 "y - 1"] by (simp add: table month_days_def 1)
    next
      case 2
      have e: "12 * y + int m - 3 = 12 * (y - 1) + 11" "12 * (y - 1) + 11 + 1 = 12 * y + (0 :: int)" by (simp_all add: 2)
      show ?thesis
        unfolding e using at [of 11 "y - 1"] at [of 0 y] year_leap [of "y - 1"] by (simp add: table month_days_def 2)
    qed
  qed
qed

lemma days_from_civil_day: "days_from_civil y m d = days_from_civil y m 1 + int d - 1"
  by (simp add: days_from_civil_def Let_def)

lemma days_from_civil_mstart:
  "1 \<le> m \<Longrightarrow> m \<le> 12 \<Longrightarrow> days_from_civil y m d = mstart (12 * y + int m - 3) + int d - 1 - 719468"
  using days_from_civil_day [of y m d] days_from_civil_first [of m y] by simp

text \<open>Dates are determined by their day number.\<close>

lemma days_from_civil_inject:
  assumes "calendar_date (y, m, d)" "calendar_date (y', m', d')" "days_from_civil y m d = days_from_civil y' m' d'"
  shows "(y, m, d) = (y', m', d')"
proof -
  define k where "k = 12 * y + int m - 3"
  define k' where "k' = 12 * y' + int m' - 3"
  have b: "1 \<le> m" "m \<le> 12" "1 \<le> int d" "int d \<le> int (month_days y m)"
    "1 \<le> m'" "m' \<le> 12" "1 \<le> int d'" "int d' \<le> int (month_days y' m')" using assms(1,2) by simp_all
  note len = mstart_length [OF b(1,2), of y, folded k_def] mstart_length [OF b(5,6), of y', folded k'_def]
  have eq: "mstart k + int d = mstart k' + int d'"
    using assms(3) days_from_civil_mstart [OF b(1,2), of y d, folded k_def]
      days_from_civil_mstart [OF b(5,6), of y' d', folded k'_def] by linarith
  have "k = k'"
    by (rule mstart_unique [of _ "mstart k + int d - 1"]) (use b len eq in linarith)+
  then have k: "12 * y + int m = 12 * y' + int m'" unfolding k_def k'_def by simp
  have ib: "1 \<le> int m" "int m \<le> 12" "1 \<le> int m'" "int m' \<le> 12" using b(1,2,5,6) by simp_all
  have "\<not> y < y'" "\<not> y' < y" using k ib by linarith+
  then have "y = y'" by simp
  moreover from this have "int m = int m'" using k by simp
  moreover have "int d = int d'" using eq \<open>k = k'\<close> by simp
  ultimately show ?thesis by simp
qed

lemma next_date_day:
  assumes "calendar_date (y, m, d)"
  shows "calendar_date (next_date (y, m, d))"
    "(case next_date (y, m, d) of (y', m', d') \<Rightarrow> days_from_civil y' m' d') = days_from_civil y m d + 1"
proof -
  have "1 \<le> month_days x n" for x n by (simp add: month_days_def)
  then show "calendar_date (next_date (y, m, d))" using assms by auto
  have "12 * y + int m - 3 + 1 = 12 * (y + 1) + int 1 - 3" if "m = 12" using that by simp
  then show "(case next_date (y, m, d) of (y', m', d') \<Rightarrow> days_from_civil y' m' d') = days_from_civil y m d + 1"
    using assms mstart_length [of m y] by (auto simp: days_from_civil_mstart algebra_simps)
qed

lemma civil_date_valid:
  assumes "i64_range (d + 719468)" "civil_from_days d = (y, m, x)"
  shows "calendar_date (y, m, x)" "days_from_civil y m x = d"
proof -
  obtain era yoe mp day where c:
    "civil_from_days d = (yoe + era * 400 + (if mp < 10 then 0 else 1),
       nat (if mp < 10 then mp + 3 else mp - 9), nat day)"
    "0 \<le> yoe" "yoe \<le> 399" "0 \<le> mp" "mp \<le> 11" "1 \<le> day" "day \<le> 31"
    "d = era * 146097 + year_start yoe + month_start mp + day - 1 - 719468"
    using civil_coordinates [OF assms(1)] by metis
  have "days_from_civil (yoe + era * 400 + (if mp < 10 then 0 else 1))
      (nat (if mp < 10 then mp + 3 else mp - 9)) (nat day) = d"
    using days_from_civil_eq [OF c(2-6), of era] c(8) by simp
  then show days: "days_from_civil y m x = d" using c(1) assms(2) by simp
  note month = civil_month [OF assms]
  have "1 \<le> x" using c(1,6) assms(2) by auto
  moreover have "x \<le> month_days y m"
    using month mstart_length [OF month(1,2), of y] days_from_civil_mstart [OF month(1,2), of y x] days by simp
  ultimately show "calendar_date (y, m, x)" using month(1,2) by simp
qed

text \<open>
  C19: the conversion of day numbers to dates is the Gregorian calendar: day 0 is the first of January
  1970, every day number gives a date that exists (with the month lengths and the leap years of the
  calendar), the next day number gives the next date, and converting a date back gives its day number.
\<close>

theorem civil_date_roundtrip:
  assumes "i64_range (d + 719468)"
  shows "calendar_date (civil_from_days d) \<and>
    (case civil_from_days d of (year, month, day) \<Rightarrow> days_from_civil year month day = d) \<and>
    (i64_range (d + 1 + 719468) \<longrightarrow> civil_from_days (d + 1) = next_date (civil_from_days d)) \<and>
    civil_from_days 0 = (1970, 1, 1)"
proof -
  obtain y m x where c: "civil_from_days d = (y, m, x)" by (metis prod_cases3)
  note v = civil_date_valid [OF assms c]
  have "civil_from_days (d + 1) = next_date (y, m, x)" if r: "i64_range (d + 1 + 719468)"
  proof -
    obtain y' m' x' where c': "civil_from_days (d + 1) = (y', m', x')" by (metis prod_cases3)
    obtain y2 m2 x2 where n: "next_date (y, m, x) = (y2, m2, x2)" by (metis prod_cases3)
    show ?thesis
      using days_from_civil_inject [OF civil_date_valid(1) [OF r c'], of y2 m2 x2]
        civil_date_valid(2) [OF r c'] next_date_day [OF v(1)] v(2) by (simp only: n c' prod.case)
  qed
  moreover have "civil_from_days 0 = (1970, 1, 1)" by code_simp
  ultimately show ?thesis using v by (simp add: c)
qed

theorem civil_date_roundtrip_witness:
  "calendar_date (civil_from_days 20000) \<and> civil_from_days 20001 = next_date (civil_from_days 20000)"
  using civil_date_roundtrip [of 20000] by (simp add: i64_range_def i64_min_def i64_max_def)

end
