(* ===== verification/Net.thy ===== *)
theory Net
  imports AppErrors
begin

text \<open>
  IP addresses of the Rust standard library as far as the gateway uses them: \<^verbatim>\<open>IpAddr::from_str\<close> and
  \<^verbatim>\<open>Display\<close>. An IPv4 address is its 32-bit value, an IPv6 address its 128-bit value. A reader takes the
  remaining input and returns the value read and the rest, or nothing and consumes no input.
\<close>

datatype IpAddr = V4 nat | V6 nat

type_synonym 'a reader = "string \<Rightarrow> ('a \<times> string) option"

section \<open>Reading\<close>

definition hex_digit :: "char \<Rightarrow> nat option" where
  "hex_digit c =
     (let n = (of_char c :: int)
      in if 48 \<le> n \<and> n \<le> 57 then Some (nat (n - 48))
         else if 97 \<le> n \<and> n \<le> 102 then Some (nat (n - 87))
         else if 65 \<le> n \<and> n \<le> 70 then Some (nat (n - 55))
         else None)"

definition to_digit :: "nat \<Rightarrow> char \<Rightarrow> nat option" where
  "to_digit radix c =
     (case hex_digit c of Some d \<Rightarrow> (if d < radix then Some d else None) | None \<Rightarrow> None)"

text \<open>All leading digits, with their value and number.\<close>

fun read_digits :: "nat \<Rightarrow> nat \<Rightarrow> nat \<Rightarrow> string \<Rightarrow> nat \<times> nat \<times> string" where
  "read_digits radix acc count [] = (acc, count, [])"
| "read_digits radix acc count (c # cs) =
     (case to_digit radix c of
        Some d \<Rightarrow> read_digits radix (acc * radix + d) (Suc count) cs
      | None \<Rightarrow> (acc, count, c # cs))"

definition read_number :: "nat \<Rightarrow> nat \<Rightarrow> bool \<Rightarrow> nat \<Rightarrow> nat reader" where
  "read_number radix max_digits allow_zero_prefix bound s =
     (case read_digits radix 0 0 s of (v, count, rest) \<Rightarrow>
        if count = 0 \<or> max_digits < count \<or> bound < v \<or>
           \<not> allow_zero_prefix \<and> (case s of c # _ \<Rightarrow> c = CHR ''0'' | [] \<Rightarrow> False) \<and> 1 < count
        then None else Some (v, rest))"

definition read_given_char :: "char \<Rightarrow> unit reader" where
  "read_given_char c s = (case s of d # ds \<Rightarrow> if d = c then Some ((), ds) else None | [] \<Rightarrow> None)"

definition read_separator :: "char \<Rightarrow> nat \<Rightarrow> 'a reader \<Rightarrow> 'a reader" where
  "read_separator sep index inner s =
     (if 0 < index
      then (case read_given_char sep s of Some (_, rest) \<Rightarrow> inner rest | None \<Rightarrow> None)
      else inner s)"

fun read_octets :: "nat \<Rightarrow> nat \<Rightarrow> nat \<Rightarrow> nat reader" where
  "read_octets 0 index acc s = Some (acc, s)"
| "read_octets (Suc k) index acc s =
     (case read_separator CHR ''.'' index (read_number 10 3 False 255) s of
        Some (v, rest) \<Rightarrow> read_octets k (Suc index) (acc * 256 + v) rest
      | None \<Rightarrow> None)"

definition read_ipv4_addr :: "nat reader" where
  "read_ipv4_addr s = read_octets 4 0 0 s"

text \<open>
  Up to \<open>k\<close> groups of an IPv6 address from group \<open>index\<close> on: the groups read, whether the last two
  came from an embedded IPv4 address, and the rest.
\<close>

fun read_groups :: "nat \<Rightarrow> nat \<Rightarrow> string \<Rightarrow> nat list \<times> bool \<times> string" where
  "read_groups 0 index s = ([], False, s)"
| "read_groups (Suc k) index s =
     (case (if 0 < k then read_separator CHR '':'' index read_ipv4_addr s else None) of
        Some (v, rest) \<Rightarrow> ([v div 65536, v mod 65536], True, rest)
      | None \<Rightarrow>
          (case read_separator CHR '':'' index (read_number 16 4 True 65535) s of
             Some (g, rest) \<Rightarrow>
               (case read_groups k (Suc index) rest of (gs, v4, rest') \<Rightarrow> (g # gs, v4, rest'))
           | None \<Rightarrow> ([], False, s)))"

definition groups_value :: "nat list \<Rightarrow> nat" where
  "groups_value gs = foldl (\<lambda>acc g. acc * 65536 + g) 0 gs"

definition read_ipv6_addr :: "nat reader" where
  "read_ipv6_addr s =
     (case read_groups 8 0 s of (head, head_ipv4, rest) \<Rightarrow>
        if length head = 8 then Some (groups_value head, rest)
        else if head_ipv4 then None
        else (case read_given_char CHR '':'' rest of None \<Rightarrow> None | Some (_, rest1) \<Rightarrow>
               (case read_given_char CHR '':'' rest1 of None \<Rightarrow> None | Some (_, rest2) \<Rightarrow>
                  (case read_groups (8 - (length head + 1)) 0 rest2 of (tail, _, rest3) \<Rightarrow>
                     Some (groups_value
                       (head @ replicate (8 - length head - length tail) 0 @ tail), rest3)))))"

definition read_ip_addr :: "IpAddr reader" where
  "read_ip_addr s =
     (case read_ipv4_addr s of
        Some (v, rest) \<Rightarrow> Some (V4 v, rest)
      | None \<Rightarrow> (case read_ipv6_addr s of Some (v, rest) \<Rightarrow> Some (V6 v, rest) | None \<Rightarrow> None))"

text \<open>\<^verbatim>\<open>str::parse::<IpAddr>\<close>: the whole text must be read.\<close>

definition parse_ip :: "string \<Rightarrow> IpAddr option" where
  "parse_ip s = (case read_ip_addr s of Some (ip, []) \<Rightarrow> Some ip | _ \<Rightarrow> None)"

section \<open>Printing\<close>

definition show_ipv4 :: "nat \<Rightarrow> string" where
  "show_ipv4 v =
     show_nat (v div 16777216) @ ''.'' @ show_nat (v div 65536 mod 256) @ ''.'' @
     show_nat (v div 256 mod 256) @ ''.'' @ show_nat (v mod 256)"

definition hex_char :: "nat \<Rightarrow> char" where
  "hex_char d = (if d < 10 then char_of (48 + int d) else char_of (87 + int d))"

fun show_hex :: "nat \<Rightarrow> string" where
  "show_hex n = (if n < 16 then [hex_char n] else show_hex (n div 16) @ [hex_char (n mod 16)])"

declare show_hex.simps [simp del]

definition ipv6_segments :: "nat \<Rightarrow> nat list" where
  "ipv6_segments v = map (\<lambda>i. v div 65536 ^ (7 - i) mod 65536) [0..<8]"

text \<open>The first longest run of zero segments: its start and length.\<close>

fun longest_zero_run :: "nat \<Rightarrow> nat \<times> nat \<Rightarrow> nat \<times> nat \<Rightarrow> nat list \<Rightarrow> nat \<times> nat" where
  "longest_zero_run i current longest [] = longest"
| "longest_zero_run i (start, len) (lstart, llen) (seg # segs) =
     (if seg = 0
      then (let current = (if len = 0 then (i, 1) else (start, len + 1))
            in longest_zero_run (Suc i) current
                 (if llen < snd current then current else (lstart, llen)) segs)
      else longest_zero_run (Suc i) (0, 0) (lstart, llen) segs)"

definition show_segments :: "nat list \<Rightarrow> string" where
  "show_segments segs = join '':'' (map show_hex segs)"

definition show_ipv6 :: "nat \<Rightarrow> string" where
  "show_ipv6 v =
     (let segs = ipv6_segments v
      in if take 6 segs = [0, 0, 0, 0, 0, 65535] then ''::ffff:'' @ show_ipv4 (v mod 4294967296)
         else (case longest_zero_run 0 (0, 0) (0, 0) segs of (start, len) \<Rightarrow>
           if 1 < len
           then show_segments (take start segs) @ ''::'' @ show_segments (drop (start + len) segs)
           else show_segments segs))"

fun show_ip :: "IpAddr \<Rightarrow> string" where
  "show_ip (V4 v) = show_ipv4 v"
| "show_ip (V6 v) = show_ipv6 v"

text \<open>The loops unfold on numerals, so that the readers evaluate on concrete texts.\<close>

lemma read_octets_numeral:
  "read_octets (numeral w) index acc s =
     (case read_separator CHR ''.'' index (read_number 10 3 False 255) s of
        Some (v, rest) \<Rightarrow> read_octets (pred_numeral w) (Suc index) (acc * 256 + v) rest
      | None \<Rightarrow> None)"
  by (subst numeral_eq_Suc) (rule read_octets.simps)

lemma read_groups_numeral:
  "read_groups (numeral w) index s =
     (case (if 0 < (pred_numeral w :: nat) then read_separator CHR '':'' index read_ipv4_addr s else None) of
        Some (v, rest) \<Rightarrow> ([v div 65536, v mod 65536], True, rest)
      | None \<Rightarrow>
          (case read_separator CHR '':'' index (read_number 16 4 True 65535) s of
             Some (g, rest) \<Rightarrow>
               (case read_groups (pred_numeral w) (Suc index) rest of (gs, v4, rest') \<Rightarrow> (g # gs, v4, rest'))
           | None \<Rightarrow> ([], False, s)))"
  by (subst numeral_eq_Suc) (rule read_groups.simps)

lemmas ip_reader_defs =
  parse_ip_def read_ip_addr_def read_ipv4_addr_def read_ipv6_addr_def read_number_def
  read_separator_def read_given_char_def to_digit_def hex_digit_def
  read_octets_numeral read_groups_numeral

section \<open>Decimal printing and reading\<close>

definition ip_range :: "IpAddr \<Rightarrow> bool" where
  "ip_range ip = (case ip of V4 v \<Rightarrow> v < 2 ^ 32 | V6 v \<Rightarrow> v < 2 ^ 128)"

lemma digit_char_props:
  assumes "d < 10"
  shows "to_digit 10 (digit_char d) = Some d" "digit_char d = CHR ''0'' \<longleftrightarrow> d = 0" "digit_char d \<noteq> CHR ''.''"
proof -
  have "list_all (\<lambda>d. to_digit 10 (digit_char d) = Some d \<and> (digit_char d = CHR ''0'' \<longleftrightarrow> d = 0)
      \<and> digit_char d \<noteq> CHR ''.'') [0..<10]"
    by code_simp
  with assms show "to_digit 10 (digit_char d) = Some d" "digit_char d = CHR ''0'' \<longleftrightarrow> d = 0"
    "digit_char d \<noteq> CHR ''.''"
    by (auto simp: list_all_iff)
qed

definition not_digit :: "string \<Rightarrow> bool" where
  "not_digit s = (case s of c # _ \<Rightarrow> to_digit 10 c = None | [] \<Rightarrow> True)"

lemma read_digits_stop: "not_digit s \<Longrightarrow> read_digits 10 acc count s = (acc, count, s)"
  by (cases s) (auto simp: not_digit_def)

lemma show_nat_not_Nil [simp]: "show_nat n \<noteq> []"
  by (subst show_nat.simps) simp

lemma read_digits_show:
  "read_digits 10 acc count (show_nat n @ s) =
     read_digits 10 (acc * 10 ^ length (show_nat n) + n) (count + length (show_nat n)) s"
proof (induction n arbitrary: acc count s rule: show_nat.induct)
  case (1 n)
  show ?case
  proof (cases "n < 10")
    case True
    then show ?thesis by (simp add: show_nat.simps [of n] digit_char_props)
  next
    case False
    have d: "n mod 10 < 10" by simp
    have "show_nat n @ s = show_nat (n div 10) @ (digit_char (n mod 10) # s)"
      using False by (simp add: show_nat.simps [of n])
    moreover have "length (show_nat n) = Suc (length (show_nat (n div 10)))"
      using False by (simp add: show_nat.simps [of n])
    ultimately show ?thesis
      using 1 [OF False] digit_char_props(1) [OF d] by (simp add: algebra_simps)
  qed
qed

lemma show_nat_head: "n \<noteq> 0 \<Longrightarrow> \<exists>c cs. show_nat n = c # cs \<and> c \<noteq> CHR ''0''"
proof (induction n rule: show_nat.induct)
  case (1 n)
  then show ?case
  proof (cases "n < 10")
    case True
    with 1 show ?thesis by (simp add: show_nat.simps [of n] digit_char_props)
  next
    case False
    then have "n div 10 \<noteq> 0" by (simp add: div_eq_0_iff)
    with 1 False obtain c cs where "show_nat (n div 10) = c # cs" "c \<noteq> CHR ''0''" by blast
    with False show ?thesis by (simp add: show_nat.simps [of n])
  qed
qed

lemma length_show_nat: "n < 10 ^ k \<Longrightarrow> 0 < k \<Longrightarrow> length (show_nat n) \<le> k"
proof (induction n arbitrary: k rule: show_nat.induct)
  case (1 n)
  show ?case
  proof (cases "n < 10")
    case False
    with 1 obtain j where j: "k = Suc j" "0 < j" by (cases k; cases "k - 1") auto
    with 1 False have "length (show_nat (n div 10)) \<le> j" by (simp add: less_mult_imp_div_less mult.commute)
    with False j show ?thesis by (simp add: show_nat.simps [of n])
  qed (use 1 in \<open>simp add: show_nat.simps [of n]\<close>)
qed

lemma read_octet_show:
  assumes "v < 256" "not_digit s"
  shows "read_number 10 3 False 255 (show_nat v @ s) = Some (v, s)"
proof -
  have len: "length (show_nat v) \<le> 3" using assms(1) by (intro length_show_nat) simp_all
  have zero: "\<not> (hd (show_nat v) = CHR ''0'' \<and> 1 < length (show_nat v))"
  proof (cases "v = 0")
    case True
    then show ?thesis by (simp add: show_nat.simps)
  next
    case False
    then show ?thesis using show_nat_head [of v] by auto
  qed
  obtain c cs where cs: "show_nat v = c # cs" by (cases "show_nat v") auto
  show ?thesis
    using assms len zero read_digits_show [of 0 0 v s] cs
    by (auto simp: read_number_def read_digits_stop)
qed

lemma read_ipv4_unfold:
  "read_ipv4_addr s = read_octets (Suc (Suc (Suc (Suc 0)))) 0 0 s"
  by (simp add: read_ipv4_addr_def numeral_eq_Suc)

lemma octets_value:
  "((v div 16777216 * 256 + v div 65536 mod 256) * 256 + v div 256 mod 256) * 256 + v mod 256 = (v :: nat)"
proof -
  have "v div 16777216 * 256 + v div 65536 mod 256 = v div 65536"
    using div_mult_mod_eq [of "v div 65536" 256] by (simp add: div_mult2_eq [symmetric])
  moreover have "v div 65536 * 256 + v div 256 mod 256 = v div 256"
    using div_mult_mod_eq [of "v div 256" 256] by (simp add: div_mult2_eq [symmetric])
  ultimately show ?thesis by (simp only: div_mult_mod_eq)
qed

lemma read_ipv4_show:
  assumes "v < 2 ^ 32"
  shows "read_ipv4_addr (show_ipv4 v) = Some (v, [])"
proof -
  have octets: "v div 16777216 < 256" "v div 65536 mod 256 < 256" "v div 256 mod 256 < 256" "v mod 256 < 256"
    using assms by (simp_all add: less_mult_imp_div_less)
  have dot: "not_digit (CHR ''.'' # s)" "not_digit []" for s
    by (simp_all add: not_digit_def to_digit_def hex_digit_def)
  show ?thesis
    unfolding read_ipv4_unfold show_ipv4_def
    using octets dot read_octet_show [OF octets(4) dot(2)] octets_value [of v]
    by (simp add: read_separator_def read_given_char_def read_octet_show)
qed

text \<open>A parsed address is in the range of its type.\<close>

lemma read_number_bound: "read_number radix k z bound s = Some (v, rest) \<Longrightarrow> v \<le> bound"
  by (auto simp: read_number_def split: prod.splits if_splits)

lemma read_separator_Some:
  "read_separator c i inner s = Some (v, rest) \<Longrightarrow> \<exists>s'. inner s' = Some (v, rest)"
  by (auto simp: read_separator_def split: if_splits option.splits)

lemma read_octets_bound:
  "read_octets k i acc s = Some (v, rest) \<Longrightarrow> acc < 256 ^ j \<Longrightarrow> v < 256 ^ (j + k)"
proof (induction k i acc s arbitrary: j rule: read_octets.induct)
  case (2 k index acc s)
  from 2(2) obtain x r where x:
    "read_separator CHR ''.'' index (read_number 10 3 False 255) s = Some (x, r)"
    "read_octets k (Suc index) (acc * 256 + x) r = Some (v, rest)"
    by (auto split: option.splits)
  have "x \<le> 255" using read_separator_Some [OF x(1)] read_number_bound by blast
  moreover have "(acc + 1) * 256 \<le> 256 ^ j * 256" using 2(3) by (intro mult_le_mono1) simp
  ultimately have "acc * 256 + x < 256 ^ Suc j" by simp
  with 2(1) [OF x(1) _ x(2)] show ?case by fastforce
qed simp

lemma read_ipv4_bound: "read_ipv4_addr s = Some (v, rest) \<Longrightarrow> v < 2 ^ 32"
  using read_octets_bound [of 4 0 0 s v rest 0] by (simp add: read_ipv4_addr_def)

lemma read_groups_bound:
  "read_groups k i s = (gs, b, rest) \<Longrightarrow> (\<forall>g\<in>set gs. g < 65536) \<and> length gs \<le> k"
proof (induction k i s arbitrary: gs b rest rule: read_groups.induct)
  case (2 k index s)
  show ?case
  proof (cases "if 0 < k then read_separator CHR '':'' index read_ipv4_addr s else None")
    case (Some a)
    then obtain v r where v: "a = (v, r)" "0 < k" "read_separator CHR '':'' index read_ipv4_addr s = Some (v, r)"
      by (cases a) (auto split: if_splits)
    then have "v < 2 ^ 32" using read_separator_Some [OF v(3)] read_ipv4_bound by blast
    then have "v div 65536 < 65536" by (simp add: less_mult_imp_div_less)
    with 2(2) Some v show ?thesis by auto
  next
    case None
    show ?thesis
    proof (cases "read_separator CHR '':'' index (read_number 16 4 True 65535) s")
      case None2: None
      with None 2(2) show ?thesis by auto
    next
      case (Some a)
      then obtain g r where g: "a = (g, r)" by (cases a)
      obtain gs' b' rest' where rec: "read_groups k (Suc index) r = (gs', b', rest')"
        by (cases "read_groups k (Suc index) r") auto
      have "g \<le> 65535" using read_separator_Some [OF Some [unfolded g]] read_number_bound by blast
      moreover from 2(2) None Some g rec have "gs = g # gs'" by auto
      moreover have "(\<forall>g\<in>set gs'. g < 65536) \<and> length gs' \<le> k"
        using 2(1) [OF None Some g [symmetric] rec] .
      ultimately show ?thesis by auto
    qed
  qed
qed simp

lemma groups_value_bound:
  assumes "\<forall>g\<in>set gs. g < 65536"
  shows "groups_value gs < 65536 ^ length gs"
proof -
  have "foldl (\<lambda>acc g. acc * 65536 + g) a gs < 65536 ^ (j + length gs)" if "a < 65536 ^ j" for a j
    using assms that
  proof (induction gs arbitrary: a j)
    case (Cons g gs)
    have "(a + 1) * 65536 \<le> 65536 ^ j * 65536" using Cons.prems(2) by (intro mult_le_mono1) simp
    moreover have "g < 65536" using Cons.prems(1) by simp
    ultimately have "a * 65536 + g < 65536 ^ Suc j" by simp
    from Cons.IH [OF _ this] Cons.prems(1) show ?case by simp
  qed simp
  from this [of 0 0] show ?thesis by (simp add: groups_value_def)
qed

lemma read_ipv6_bound:
  assumes "read_ipv6_addr s = Some (v, rest)"
  shows "v < 2 ^ 128"
proof -
  obtain head b r where h: "read_groups 8 0 s = (head, b, r)" by (cases "read_groups 8 0 s") auto
  note hb = read_groups_bound [OF h]
  have "\<exists>gs. v = groups_value gs \<and> (\<forall>g\<in>set gs. g < 65536) \<and> length gs = 8"
  proof (cases "length head = 8")
    case True
    with assms h hb show ?thesis by (auto simp: read_ipv6_addr_def)
  next
    case False
    with assms h obtain r2 tail c r3 where t:
      "read_groups (8 - (length head + 1)) 0 r2 = (tail, c, r3)"
      "v = groups_value (head @ replicate (8 - length head - length tail) 0 @ tail)"
      by (auto simp: read_ipv6_addr_def split: if_splits option.splits prod.splits)
    note tb = read_groups_bound [OF t(1)]
    have "length head + length tail \<le> 8" using hb tb by linarith
    with hb tb t(2) show ?thesis
      by (intro exI [of _ "head @ replicate (8 - length head - length tail) 0 @ tail"]) auto
  qed
  then obtain gs where "v = groups_value gs" "\<forall>g\<in>set gs. g < 65536" "length gs = 8" by blast
  with groups_value_bound [of gs] show ?thesis by simp
qed

lemma parse_ip_range: "parse_ip s = Some ip \<Longrightarrow> ip_range ip"
  by (auto simp: parse_ip_def read_ip_addr_def ip_range_def dest: read_ipv4_bound read_ipv6_bound
      split: option.splits list.splits prod.splits)

text \<open>Printing an IPv4 address and parsing the text gives the same address.\<close>

lemma ipv4_print_parse:
  assumes "v < 2 ^ 32"
  shows "parse_ip (show_ip (V4 v)) = Some (V4 v)"
  using read_ipv4_show [OF assms] by (simp add: parse_ip_def read_ip_addr_def)

end
