(* ===== verification/Policy.thy ===== *)
theory Policy
  imports Net
begin

text \<open>
  Access policies of API keys, \<^verbatim>\<open>src/src/policy.rs\<close>: allow-lists of models and providers with wildcard
  rules, IP allow-lists with CIDR ranges, and spend limits. The set of values already seen by a
  normalisation loop always has the elements of its output, so the model keeps the output only.
\<close>

section \<open>Matching\<close>

definition policy_value_matches :: "string \<Rightarrow> string \<Rightarrow> bool" where
  "policy_value_matches rule0 v =
     (let rule = trim rule0
      in if rule = ''*'' then True
         else (case strip_suffix rule ''*'' of
                 Some pre \<Rightarrow> starts_with v pre
               | None \<Rightarrow> rule = v))"

definition policy_references_provider :: "string list \<Rightarrow> string \<Rightarrow> bool" where
  "policy_references_provider allowed_providers provider_id =
     list_ex (\<lambda>rule. policy_value_matches rule provider_id) allowed_providers"

definition parse_client_ip :: "string \<Rightarrow> IpAddr option" where
  "parse_client_ip v0 =
     (let v = trim v0
      in case parse_ip v of
           Some ip \<Rightarrow> Some ip
         | None \<Rightarrow> (case rsplit_once CHR '':'' v of Some (host, _) \<Rightarrow> parse_ip host | None \<Rightarrow> None))"

text \<open>Shifting a 128-bit value to the right drops its low bits.\<close>

definition cidr_matches :: "nat \<Rightarrow> nat \<Rightarrow> nat \<Rightarrow> nat \<Rightarrow> bool" where
  "cidr_matches base ip pre bits =
     (if pre = 0 then True
      else (let shift = bits - pre in drop_bit shift base = drop_bit shift ip))"

definition ip_rule_matches :: "string \<Rightarrow> IpAddr \<Rightarrow> bool" where
  "ip_rule_matches rule ip =
     (case parse_ip rule of
        Some exact \<Rightarrow> exact = ip
      | None \<Rightarrow>
          (case split_once CHR ''/'' rule of
             None \<Rightarrow> False
           | Some (base_text, prefix_text) \<Rightarrow>
               (case parse_ip base_text of
                  None \<Rightarrow> False
                | Some base \<Rightarrow>
                    (case parse_uint 255 prefix_text of
                       None \<Rightarrow> False
                     | Some pre \<Rightarrow>
                         (case (base, ip) of
                            (V4 b, V4 a) \<Rightarrow> pre \<le> 32 \<and> cidr_matches b a pre 32
                          | (V6 b, V6 a) \<Rightarrow> pre \<le> 128 \<and> cidr_matches b a pre 128
                          | _ \<Rightarrow> False)))))"

section \<open>Normalisation of allow-lists\<close>

fun normalize_policy_loop :: "string list \<Rightarrow> string list \<Rightarrow> string list result" where
  "normalize_policy_loop output [] = Inr output"
| "normalize_policy_loop output (v0 # vs) =
     (let v = trim v0
      in if v = [] then normalize_policy_loop output vs
         else if 160 < length v
         then Inl (InvalidRequest ''policy entries must be 160 characters or shorter'')
         else if v \<in> set output then normalize_policy_loop output vs
         else normalize_policy_loop (output @ [v]) vs)"

definition normalize_policy_list :: "string list \<Rightarrow> string list result" where
  "normalize_policy_list vs = normalize_policy_loop [] vs"

definition validate_ip_rule :: "string \<Rightarrow> unit result" where
  "validate_ip_rule v =
     (let invalid = InvalidRequest (''invalid IP allowlist entry: '' @ v)
      in if parse_ip v \<noteq> None then Inr ()
         else (case split_once CHR ''/'' v of
                 None \<Rightarrow> Inl invalid
               | Some (addr_text, prefix_text) \<Rightarrow>
                   (case parse_ip addr_text of
                      None \<Rightarrow> Inl invalid
                    | Some addr \<Rightarrow>
                        (case parse_uint 255 prefix_text of
                           None \<Rightarrow> Inl invalid
                         | Some pre \<Rightarrow>
                             let max_prefix = (case addr of V4 _ \<Rightarrow> 32 | V6 _ \<Rightarrow> 128)
                             in if max_prefix < pre then Inl invalid else Inr ()))))"

fun normalize_ip_loop :: "string list \<Rightarrow> string list \<Rightarrow> string list result" where
  "normalize_ip_loop rules [] = Inr rules"
| "normalize_ip_loop rules (v0 # vs) =
     (let v = trim v0
      in if v = [] then normalize_ip_loop rules vs
         else res_bind (validate_ip_rule v) (\<lambda>_.
           if v \<in> set rules then normalize_ip_loop rules vs
           else normalize_ip_loop (rules @ [v]) vs))"

definition normalize_ip_rules :: "string list \<Rightarrow> string list result" where
  "normalize_ip_rules vs = normalize_ip_loop [] vs"

section \<open>Enforcement\<close>

definition enforce_model_policy :: "string \<Rightarrow> string list \<Rightarrow> string \<Rightarrow> string \<Rightarrow> unit result" where
  "enforce_model_policy label allowed_models requested_model resolved_model =
     (if allowed_models = [] \<or>
         list_ex (\<lambda>rule. policy_value_matches rule requested_model \<or>
                          policy_value_matches rule resolved_model) allowed_models
      then Inr ()
      else Inl (Forbidden (label @ '' does not allow model '' @ requested_model)))"

definition enforce_provider_policy :: "string \<Rightarrow> string list \<Rightarrow> string \<Rightarrow> unit result" where
  "enforce_provider_policy label allowed_providers provider_id =
     (if allowed_providers = [] \<or>
         list_ex (\<lambda>rule. policy_value_matches rule provider_id) allowed_providers
      then Inr ()
      else Inl (Forbidden (label @ '' does not allow provider '' @ provider_id)))"

definition enforce_ip_policy :: "bool \<Rightarrow> string list \<Rightarrow> string option \<Rightarrow> unit result" where
  "enforce_ip_policy ip_restricted allowed_ips client_ip =
     (if \<not> ip_restricted then Inr ()
      else if allowed_ips = []
      then Inl (Forbidden ''API key IP restriction has no allowed IPs configured'')
      else (case client_ip of
              None \<Rightarrow> Inl (Forbidden ''client IP is required for this API key'')
            | Some text \<Rightarrow>
                (case parse_client_ip text of
                   None \<Rightarrow> Inl (Forbidden ''client IP is invalid for this API key'')
                 | Some ip \<Rightarrow>
                     if list_ex (\<lambda>rule. ip_rule_matches rule ip) allowed_ips then Inr ()
                     else Inl (Forbidden
                       (''client IP '' @ show_ip ip @ '' is not allowed for this API key'')))))"

text \<open>Formatting with four decimals, \<^verbatim>\<open>{:.4}\<close>: exact decimal rounding, halves to even.\<close>

definition pad4 :: "nat \<Rightarrow> string" where
  "pad4 n = (let ds = show_nat n in replicate (4 - length ds) CHR ''0'' @ ds)"

fun show_f64_4 :: "f64 \<Rightarrow> string" where
  "show_f64_4 NaN = ''NaN''"
| "show_f64_4 PInf = ''inf''"
| "show_f64_4 NInf = ''-inf''"
| "show_f64_4 NegZero = ''-0.0000''"
| "show_f64_4 (Fin r) =
     (let n = nat (round_even (\<bar>r\<bar> * 10000))
      in (if r < 0 then ''-'' else []) @ show_nat (n div 10000) @ ''.'' @ pad4 (n mod 10000))"

definition enforce_spend_limit :: "string \<Rightarrow> f64 \<Rightarrow> f64 \<Rightarrow> f64 \<Rightarrow> unit result" where
  "enforce_spend_limit label limit used incoming =
     (if f64_lt (Fin 0) limit \<and> f64_lt limit (f64_add used incoming)
      then Inl (QuotaExceeded (''API key '' @ label @ '' limit exceeded ('' @
             show_f64_4 (f64_add used incoming) @ '' / '' @ show_f64_4 limit @ '' USD)''))
      else Inr ())"

section \<open>Lemmas\<close>

text \<open>A CIDR range contains the addresses that agree with its base on the leading bits.\<close>

lemma bit_nat_large:
  assumes "n < 2 ^ k" "k \<le> i"
  shows "\<not> bit (n :: nat) i"
proof -
  have "(2 :: nat) ^ k \<le> 2 ^ i" using assms(2) by (rule power_increasing) simp
  with assms(1) have "n div 2 ^ i = 0" by (intro div_less) linarith
  then show ?thesis by (simp add: bit_iff_odd)
qed

lemma cidr_matches_bits:
  assumes "base < 2 ^ bits" "ip < 2 ^ bits" "pre \<le> bits"
  shows "cidr_matches base ip pre bits \<longleftrightarrow> (\<forall>i. bits - pre \<le> i \<longrightarrow> bit base i = bit ip i)"
proof (cases "pre = 0")
  case True
  then show ?thesis using assms bit_nat_large by (auto simp: cidr_matches_def)
next
  case False
  have "drop_bit s base = drop_bit s ip \<longleftrightarrow> (\<forall>i. s \<le> i \<longrightarrow> bit base i = bit ip i)" for s
  proof -
    have "(\<forall>n. bit base (s + n) = bit ip (s + n)) \<longleftrightarrow> (\<forall>i. s \<le> i \<longrightarrow> bit base i = bit ip i)"
      by (metis le_add1 le_Suc_ex)
    then show ?thesis by (simp add: bit_eq_iff bit_drop_bit_eq)
  qed
  with False show ?thesis by (simp add: cidr_matches_def)
qed

lemma policy_value_matches_iff:
  "policy_value_matches rule v \<longleftrightarrow>
     trim rule = v \<and> (\<forall>p. trim rule \<noteq> p @ ''*'') \<or> (\<exists>p. trim rule = p @ ''*'' \<and> prefix p v)"
proof (cases "strip_suffix (trim rule) ''*''")
  case None
  have no: "trim rule \<noteq> p @ ''*''" for p
    using strip_suffix_Some [of "trim rule" "''*''" p] None by simp
  have "trim rule \<noteq> ''*''" using no [of "[]"] by simp
  with None no show ?thesis by (simp add: policy_value_matches_def Let_def)
next
  case (Some p)
  then have p: "trim rule = p @ ''*''" by (simp only: strip_suffix_Some)
  have "policy_value_matches rule v \<longleftrightarrow> prefix p v"
    unfolding policy_value_matches_def Let_def p Some [unfolded p] option.case starts_with_prefix by auto
  then show ?thesis unfolding p by simp
qed

text \<open>What a normalisation loop returns, and that it leaves normalised lists alone.\<close>

lemma normalize_ip_loop_sound:
  assumes "normalize_ip_loop rules vs = Inr out" "distinct rules"
  shows "distinct out \<and> set out = set rules \<union> {v \<in> trim ` set vs. v \<noteq> []} \<and>
    (\<forall>v\<in>set vs. trim v \<noteq> [] \<longrightarrow> validate_ip_rule (trim v) = Inr ())"
  using assms
proof (induction rules vs rule: normalize_ip_loop.induct)
  case (2 rules v0 vs)
  consider "trim v0 = []" | "trim v0 \<noteq> []" "trim v0 \<in> set rules" | "trim v0 \<noteq> []" "trim v0 \<notin> set rules"
    by blast
  then show ?case
  proof cases
    case 1
    with 2 show ?thesis by (auto simp: Let_def)
  next
    case c: 2
    with "2.prems" have "validate_ip_rule (trim v0) = Inr ()" "normalize_ip_loop rules vs = Inr out"
      by (auto simp: Let_def res_bind_Inr_iff)
    with "2.IH"(2) [OF refl c] "2.prems"(2) c show ?thesis by auto
  next
    case c: 3
    with "2.prems" have "validate_ip_rule (trim v0) = Inr ()"
      "normalize_ip_loop (rules @ [trim v0]) vs = Inr out"
      by (auto simp: Let_def res_bind_Inr_iff)
    with "2.IH"(3) [OF refl c] "2.prems"(2) c show ?thesis by auto
  qed
qed simp

lemma normalize_ip_loop_fixed:
  assumes "\<forall>v\<in>set vs. trim v = v \<and> v \<noteq> [] \<and> validate_ip_rule v = Inr ()" "distinct (rules @ vs)"
  shows "normalize_ip_loop rules vs = Inr (rules @ vs)"
  using assms
proof (induction vs arbitrary: rules)
  case (Cons v vs)
  then show ?case using Cons.IH [of "rules @ [v]"] by (simp add: Let_def)
qed simp

lemma ip_rule_matches_cidr:
  assumes "parse_ip rule = None" "split_once CHR ''/'' rule = Some (base_text, prefix_text)"
    and "parse_ip base_text = Some base" "parse_uint 255 prefix_text = Some pre"
  shows "ip_rule_matches rule ip =
    (case (base, ip) of
       (V4 b, V4 a) \<Rightarrow> pre \<le> 32 \<and> cidr_matches b a pre 32
     | (V6 b, V6 a) \<Rightarrow> pre \<le> 128 \<and> cidr_matches b a pre 128
     | _ \<Rightarrow> False)"
  using assms by (simp add: ip_rule_matches_def)

section \<open>Properties\<close>

text \<open>
  C20: a CIDR rule of an IPv4 or IPv6 range with prefix length \<open>pre\<close> admits exactly the addresses of
  the same family whose leading \<open>pre\<close> bits are those of the base address.
\<close>

theorem cidr_rule_semantics:
  assumes "parse_ip rule = None" "split_once CHR ''/'' rule = Some (base_text, prefix_text)"
    and "parse_ip base_text = Some base" "parse_uint 255 prefix_text = Some pre"
    and "validate_ip_rule rule = Inr ()" "ip_range ip"
  shows "ip_rule_matches rule ip \<longleftrightarrow>
    (case (base, ip) of
       (V4 b, V4 a) \<Rightarrow> \<forall>i. 32 - pre \<le> i \<longrightarrow> bit b i = bit a i
     | (V6 b, V6 a) \<Rightarrow> \<forall>i. 128 - pre \<le> i \<longrightarrow> bit b i = bit a i
     | _ \<Rightarrow> False)"
proof -
  have pre: "pre \<le> (case base of V4 _ \<Rightarrow> 32 | V6 _ \<Rightarrow> 128)"
    using assms(1-5) by (auto simp: validate_ip_rule_def Let_def split: if_splits IpAddr.splits)
  have base: "ip_range base" using parse_ip_range [OF assms(3)] .
  show ?thesis
  proof (cases base)
    case b: (V4 b)
    show ?thesis
    proof (cases ip)
      case (V4 a)
      then have "cidr_matches b a pre 32 \<longleftrightarrow> (\<forall>i. 32 - pre \<le> i \<longrightarrow> bit b i = bit a i)"
        using b pre base assms(6) by (intro cidr_matches_bits) (simp_all add: ip_range_def)
      with b V4 pre show ?thesis by (simp add: ip_rule_matches_cidr [OF assms(1-4)])
    qed (use b in \<open>simp add: ip_rule_matches_cidr [OF assms(1-4)]\<close>)
  next
    case b: (V6 b)
    show ?thesis
    proof (cases ip)
      case (V6 a)
      then have "cidr_matches b a pre 128 \<longleftrightarrow> (\<forall>i. 128 - pre \<le> i \<longrightarrow> bit b i = bit a i)"
        using b pre base assms(6) by (intro cidr_matches_bits) (simp_all add: ip_range_def)
      with b V6 pre show ?thesis by (simp add: ip_rule_matches_cidr [OF assms(1-4)])
    qed (use b in \<open>simp add: ip_rule_matches_cidr [OF assms(1-4)]\<close>)
  qed
qed

theorem cidr_rule_semantics_witness:
  "ip_rule_matches ''10.0.0.0/8'' (V4 167772161) \<longleftrightarrow>
     (\<forall>i. 24 \<le> i \<longrightarrow> bit (167772160 :: nat) i = bit (167772161 :: nat) i)"
proof -
  have rule: "parse_ip ''10.0.0.0/8'' = None"
    "split_once CHR ''/'' ''10.0.0.0/8'' = Some (''10.0.0.0'', ''8'')"
    "parse_ip ''10.0.0.0'' = Some (V4 167772160)" "parse_uint 255 ''8'' = Some 8"
    by (simp_all add: ip_reader_defs parse_uint_def is_ascii_digit_def digit_value_def)
  moreover from this have "validate_ip_rule ''10.0.0.0/8'' = Inr ()"
    by (simp add: validate_ip_rule_def del: split_once.simps)
  ultimately show ?thesis
    using cidr_rule_semantics [of "''10.0.0.0/8''" _ _ _ _ "V4 167772161"] by (simp add: ip_range_def)
qed

text \<open>
  a normalised IP allow-list has no duplicates, holds exactly the non-blank entries of the input
  without surrounding white space, each of them a valid address or range, and normalising it again
  changes nothing.
\<close>

theorem ip_rules_normal_form:
  assumes "normalize_ip_rules vs = Inr out"
  shows "distinct out \<and> set out = {v \<in> trim ` set vs. v \<noteq> []} \<and>
    (\<forall>rule\<in>set out. validate_ip_rule rule = Inr ()) \<and> normalize_ip_rules out = Inr out"
proof -
  have out: "distinct out" "set out = {v \<in> trim ` set vs. v \<noteq> []}"
    "\<forall>v\<in>set vs. trim v \<noteq> [] \<longrightarrow> validate_ip_rule (trim v) = Inr ()"
    using normalize_ip_loop_sound [OF assms [unfolded normalize_ip_rules_def]] by simp_all
  then have valid: "\<forall>rule\<in>set out. trim rule = rule \<and> rule \<noteq> [] \<and> validate_ip_rule rule = Inr ()"
    by auto
  from normalize_ip_loop_fixed [OF this, of "[]"] out(1) have "normalize_ip_rules out = Inr out"
    by (simp add: normalize_ip_rules_def)
  with out valid show ?thesis by blast
qed

theorem ip_rules_normal_form_witness:
  "distinct [''::1''] \<and> normalize_ip_rules [''::1''] = Inr [''::1'']"
proof -
  have "normalize_ip_rules [''  ::1 '', '' '', ''::1''] = Inr [''::1'']"
    by (simp add: normalize_ip_rules_def trim_def trim_start_def trim_end_def is_continuation_def
        white_space_def validate_ip_rule_def ip_reader_defs groups_value_def)
  from ip_rules_normal_form [OF this] show ?thesis by blast
qed

end
