(* ===== verification/Domain.thy ===== *)
theory Domain
  imports AppErrors
begin

text \<open>
  Identifiers and the request context, \<^verbatim>\<open>src/src/domain.rs\<close>. The newtypes around strings are strings;
  a freshly generated identifier is an argument that holds the random part.
\<close>

record TenantScope =
  scope_organization_id :: string
  scope_project_id :: string
  scope_environment_id :: string

datatype ClientProtocol = AnthropicMessages | OpenAiChatCompletions

record RequestContext =
  ctx_request_id :: string
  ctx_tenant :: TenantScope
  ctx_principal_id :: string
  ctx_protocol :: ClientProtocol

definition valid_tenant_identifier :: "string \<Rightarrow> bool" where
  "valid_tenant_identifier v \<longleftrightarrow>
     v \<noteq> [] \<and> length v \<le> 128 \<and>
     list_all (\<lambda>b. is_ascii_alphanumeric b \<or> b \<in> set ''._:-'') v"

definition request_id_new :: "string \<Rightarrow> string" where
  "request_id_new uuid = ''req_'' @ uuid"

definition request_id_from_external_or_new :: "string \<Rightarrow> string option \<Rightarrow> string" where
  "request_id_from_external_or_new uuid v =
     (case v of
        Some s \<Rightarrow> (if trim s \<noteq> [] \<and> length (trim s) \<le> 256 then trim s else request_id_new uuid)
      | None \<Rightarrow> request_id_new uuid)"

definition attempt_id_new :: "string \<Rightarrow> string" where
  "attempt_id_new uuid = ''att_'' @ uuid"

definition legacy_local :: TenantScope where
  "legacy_local =
     \<lparr>scope_organization_id = ''org_local'', scope_project_id = ''prj_default'',
      scope_environment_id = ''env_default''\<rparr>"

fun protocol_as_str :: "ClientProtocol \<Rightarrow> string" where
  "protocol_as_str AnthropicMessages = ''anthropic-messages''"
| "protocol_as_str OpenAiChatCompletions = ''openai-chat-completions''"

text \<open>A request identifier is never empty, and an external one is bounded.\<close>

lemma request_id_bounds:
  "request_id_from_external_or_new uuid v \<noteq> []"
  "length uuid \<le> 252 \<Longrightarrow> length (request_id_from_external_or_new uuid v) \<le> 256"
  by (auto simp: request_id_from_external_or_new_def request_id_new_def split: option.splits)

end
