(* ===== verification/LedgerTypes.thy ===== *)
theory LedgerTypes
  imports Domain Usage Net
begin

text \<open>
  Data of the enterprise request ledger, \<^verbatim>\<open>src/src/enterprise_ledger.rs\<close>: records, outcomes, budget
  accounts and events, the validators of their inputs and the conversions between them. The hash of an
  idempotency key and generated identifiers are arguments; an instant of the monotonic clock is a
  number of milliseconds.
\<close>

section \<open>Records\<close>

record TenantKey =
  organization_id :: string
  project_id :: string
  environment_id :: string

record MemoryBudgetAccount =
  limit_microunits :: "int option"
  reserved_microunits :: int
  settled_microunits :: int
  account_version :: int
  account_updated_at_ms :: int

record MemoryBudgetReservation =
  rs_reservation_id :: string
  rs_tenant :: TenantKey
  rs_request_ledger_id :: string
  rs_attempt_id :: string
  rs_reserved_microunits :: int
  rs_settled_microunits :: int
  rs_state :: string
  rs_updated_at_ms :: int
  rs_terminal_at_ms :: "int option"

record MemoryRecord =
  mr_tenant :: TenantKey
  mr_request_ledger_id :: string
  mr_terminal :: bool
  mr_lease_owner :: string
  mr_lease_expires_at :: nat
  mr_lease_expires_at_ms :: int
  mr_state :: string
  mr_status_code :: "int option"
  mr_terminal_reason :: "string option"
  mr_error_message :: "string option"
  mr_input_tokens :: int
  mr_output_tokens :: int
  mr_cache_write_tokens :: int
  mr_cache_read_tokens :: int
  mr_cost_amount_microunits :: int
  mr_billing_mode :: "string option"
  mr_chargeable :: bool
  mr_latency_ms :: int
  mr_first_byte_latency_ms :: "int option"
  mr_tool_outcome :: string
  mr_tool_repair_attempted :: bool
  mr_tool_repair_recovered :: bool
  mr_retry_count :: int
  mr_fallback_from_provider :: "string option"
  mr_created_at_ms :: int
  mr_updated_at_ms :: int
  mr_completed_at_ms :: "int option"
  mr_provider_id :: "string option"
  mr_resolved_model :: "string option"
  mr_provider_protocol :: "string option"

record RoutingDecisionEvidence =
  decision_id :: string
  group_id :: "string option"
  decision_profile :: string
  policy_version :: string
  decision_mode :: string
  candidate_count :: nat
  selected_provider :: string
  selected_model :: string
  recommended_provider :: string
  recommended_model :: string
  selected_score :: f64
  recommended_score :: f64
  reason_codes :: "string list"
  session_affinity :: bool
  shadow_disagreement :: bool

record MemoryRequestRecord =
  rq_record :: MemoryRecord
  rq_request_id :: string
  rq_principal_id :: string
  rq_username :: string
  rq_api_key_id :: "string option"
  rq_api_key_name :: "string option"
  rq_api_key_group :: "string option"
  rq_team_id :: "string option"
  rq_team_name :: "string option"
  rq_client_ip :: "string option"
  rq_client_protocol :: string
  rq_requested_model :: string
  rq_request_path :: string
  rq_traffic_class :: string
  rq_tool_use_requested :: bool
  rq_provider_id :: "string option"
  rq_resolved_model :: "string option"
  rq_provider_protocol :: "string option"
  rq_last_attempt_id :: "string option"
  rq_model_pricing :: "json option"
  rq_stream :: bool
  rq_routing_decision :: "RoutingDecisionEvidence option"
  rq_idempotency_key_hash :: "string option"
  rq_request_fingerprint :: string

record LedgerRequest =
  lr_ledger_id :: string
  lr_tenant :: TenantKey
  lr_lease_owner :: string

record LedgerAttempt =
  la_attempt_id :: string
  la_request_ledger_id :: string
  la_reservation_id :: string
  la_tenant :: TenantKey
  la_lease_owner :: string

record LedgerRequestMetadata =
  md_request_path :: string
  md_traffic_class :: string
  md_tool_use_requested :: bool
  md_username :: string
  md_api_key_id :: "string option"
  md_api_key_name :: "string option"
  md_api_key_group :: "string option"
  md_team_id :: "string option"
  md_team_name :: "string option"
  md_client_ip :: "string option"
  md_routing_decision :: "RoutingDecisionEvidence option"

record EnterpriseBudgetEvent =
  be_event_id :: string
  be_organization_id :: string
  be_project_id :: string
  be_environment_id :: string
  be_currency :: string
  be_reservation_id :: "string option"
  be_request_ledger_id :: "string option"
  be_attempt_id :: "string option"
  be_event_type :: string
  be_reserved_delta_microunits :: int
  be_settled_delta_microunits :: int
  be_evidence_source :: string
  be_billing_mode :: "string option"
  be_reason :: "string option"
  be_actor_id :: "string option"
  be_input_tokens :: int
  be_output_tokens :: int
  be_cache_write_tokens :: int
  be_cache_read_tokens :: int
  be_created_at_ms :: int

record AuditEventInput =
  in_activity_type :: string
  in_actor_id :: string
  in_actor_name :: string
  in_target :: string
  in_message :: string
  in_severity :: string

record EnterpriseAuditEvent =
  ae_id :: string
  ae_timestamp :: string
  ae_activity_type :: string
  ae_actor_id :: string
  ae_actor :: string
  ae_target :: string
  ae_message :: string
  ae_severity :: string

record LedgerOutcome =
  lo_state :: string
  lo_status_code :: nat
  lo_terminal_reason :: string
  lo_error_message :: "string option"
  lo_estimate :: UsageEstimate
  lo_billing_mode :: string
  lo_chargeable :: bool
  lo_latency_ms :: int
  lo_first_byte_latency_ms :: "int option"
  lo_tool_outcome :: string
  lo_tool_repair_attempted :: bool
  lo_tool_repair_recovered :: bool
  lo_retry_count :: int
  lo_fallback_from_provider :: "string option"

record UsageEventInput =
  ue_request_id :: "string option"
  ue_attempt_id :: "string option"
  ue_resolved_model :: string
  ue_provider :: string
  ue_protocol :: string
  ue_tool_use_requested :: bool
  ue_tool_outcome :: string
  ue_traffic_class :: string
  ue_tool_repair_attempted :: bool
  ue_tool_repair_recovered :: bool
  ue_success :: bool
  ue_timed_out :: bool
  ue_status_code :: nat
  ue_terminal_reason :: string
  ue_estimate :: UsageEstimate
  ue_model_pricing :: "ModelPricing option"
  ue_billing_mode :: string
  ue_chargeable :: bool
  ue_latency_ms :: nat
  ue_first_byte_latency_ms :: "nat option"
  ue_retry_count :: nat
  ue_fallback_from_provider :: "string option"
  ue_error_message :: "string option"

record EnterpriseBudgetScopeQuery =
  sq_organization_id :: "string option"
  sq_project_id :: "string option"
  sq_environment_id :: "string option"

record EnterpriseBudgetUpdate =
  bu_organization_id :: string
  bu_project_id :: string
  bu_environment_id :: string
  bu_limit_microunits :: "int option"
  bu_unlimited :: bool

record EnterpriseBudgetAdjustmentInput =
  ba_organization_id :: string
  ba_project_id :: string
  ba_environment_id :: string
  ba_delta_microunits :: int
  ba_reason :: string
  ba_evidence_reference :: string

record EnterpriseBudgetAccount =
  eb_organization_id :: string
  eb_project_id :: string
  eb_environment_id :: string
  eb_currency :: string
  eb_limit_microunits :: "int option"
  eb_reserved_microunits :: int
  eb_settled_microunits :: int
  eb_available_microunits :: "int option"
  eb_utilization_basis_points :: "int option"
  eb_warning_threshold_reached :: bool
  eb_hard_limit_reached :: bool
  eb_version :: int
  eb_updated_at_ms :: int

record EnterpriseBudgetView =
  bv_account :: EnterpriseBudgetAccount
  bv_recent_events :: "EnterpriseBudgetEvent list"

record ReconcileResult =
  rr_requests :: nat
  rr_attempts :: nat

section \<open>Conversions\<close>

definition to_i64 :: "nat \<Rightarrow> int" where
  "to_i64 v = to_i64_sat v"

definition duration_millis_i64 :: "nat \<Rightarrow> int" where
  "duration_millis_i64 ms = to_i64_sat ms"

definition to_i32_sat :: "nat \<Rightarrow> int" where
  "to_i32_sat n = min (int n) 2147483647"

text \<open>A cost in dollars as integral micro-units: not a number, infinite and negative costs are zero.\<close>

definition cost_microunits :: "f64 \<Rightarrow> int" where
  "cost_microunits v =
     (if \<not> is_finite v \<or> f64_le v (Fin 0) then 0
      else f64_to_i64 (f64_min (f64_round (f64_mul v (Fin 1000000))) (f64_of_int i64_max)))"

definition tenant_key_from :: "TenantScope \<Rightarrow> TenantKey" where
  "tenant_key_from t =
     \<lparr>organization_id = scope_organization_id t, project_id = scope_project_id t,
      environment_id = scope_environment_id t\<rparr>"

definition tenant_key_local :: TenantKey where
  "tenant_key_local =
     \<lparr>organization_id = ''org_local'', project_id = ''prj_default'', environment_id = ''env_default''\<rparr>"

definition account_default :: MemoryBudgetAccount where
  "account_default =
     \<lparr>limit_microunits = None, reserved_microunits = 0, settled_microunits = 0,
      account_version = 0, account_updated_at_ms = 0\<rparr>"

definition estimate_default :: UsageEstimate where
  "estimate_default =
     \<lparr>est_input_tokens = 0, est_output_tokens = 0, est_cache_write_tokens = 0,
      est_cache_read_tokens = 0, est_cost_estimate = Fin 0\<rparr>"

definition metadata_default :: LedgerRequestMetadata where
  "metadata_default =
     \<lparr>md_request_path = ''/v1/messages'', md_traffic_class = ''business'',
      md_tool_use_requested = False, md_username = ''local-admin'', md_api_key_id = None,
      md_api_key_name = None, md_api_key_group = None, md_team_id = None, md_team_name = None,
      md_client_ip = None, md_routing_decision = None\<rparr>"

definition json_f64 :: "f64 \<Rightarrow> json" where
  "json_f64 x = (if is_finite x then JNumber (Float x) else JNull)"

definition model_pricing_value :: "ModelPricing \<Rightarrow> json" where
  "model_pricing_value p =
     json_object
       [(''inputPerMillion'', json_f64 (input_per_million p)),
        (''outputPerMillion'', json_f64 (output_per_million p)),
        (''cacheWritePerMillion'', json_f64 (cache_write_per_million p)),
        (''cacheReadPerMillion'', json_f64 (cache_read_per_million p))]"

definition record_started ::
    "int \<Rightarrow> nat \<Rightarrow> TenantKey \<Rightarrow> string \<Rightarrow> string \<Rightarrow> nat \<Rightarrow> (string \<times> string \<times> string) option \<Rightarrow> MemoryRecord" where
  "record_started now inst tenant request_ledger_id lease_owner lease_ttl provider =
     \<lparr>mr_tenant = tenant, mr_request_ledger_id = request_ledger_id, mr_terminal = False,
      mr_lease_owner = lease_owner, mr_lease_expires_at = inst + lease_ttl,
      mr_lease_expires_at_ms = i64_add now (duration_millis_i64 lease_ttl),
      mr_state = ''started'', mr_status_code = None, mr_terminal_reason = None,
      mr_error_message = None, mr_input_tokens = 0, mr_output_tokens = 0,
      mr_cache_write_tokens = 0, mr_cache_read_tokens = 0, mr_cost_amount_microunits = 0,
      mr_billing_mode = None, mr_chargeable = False, mr_latency_ms = 0,
      mr_first_byte_latency_ms = None, mr_tool_outcome = ''not_requested'',
      mr_tool_repair_attempted = False, mr_tool_repair_recovered = False, mr_retry_count = 0,
      mr_fallback_from_provider = None, mr_created_at_ms = now, mr_updated_at_ms = now,
      mr_completed_at_ms = None, mr_provider_id = map_option fst provider,
      mr_resolved_model = map_option (fst \<circ> snd) provider,
      mr_provider_protocol = map_option (snd \<circ> snd) provider\<rparr>"

definition record_finalize :: "int \<Rightarrow> LedgerOutcome \<Rightarrow> MemoryRecord \<Rightarrow> MemoryRecord" where
  "record_finalize now outcome r =
     r\<lparr>mr_terminal := True, mr_state := lo_state outcome,
       mr_status_code := Some (int (lo_status_code outcome)),
       mr_terminal_reason := Some (lo_terminal_reason outcome),
       mr_error_message := lo_error_message outcome,
       mr_input_tokens := to_i64 (est_input_tokens (lo_estimate outcome)),
       mr_output_tokens := to_i64 (est_output_tokens (lo_estimate outcome)),
       mr_cache_write_tokens := to_i64 (est_cache_write_tokens (lo_estimate outcome)),
       mr_cache_read_tokens := to_i64 (est_cache_read_tokens (lo_estimate outcome)),
       mr_cost_amount_microunits := cost_microunits (est_cost_estimate (lo_estimate outcome)),
       mr_billing_mode := Some (lo_billing_mode outcome),
       mr_chargeable := lo_chargeable outcome, mr_latency_ms := lo_latency_ms outcome,
       mr_first_byte_latency_ms := lo_first_byte_latency_ms outcome,
       mr_tool_outcome := lo_tool_outcome outcome,
       mr_tool_repair_attempted := lo_tool_repair_attempted outcome,
       mr_tool_repair_recovered := lo_tool_repair_recovered outcome,
       mr_retry_count := lo_retry_count outcome,
       mr_fallback_from_provider := lo_fallback_from_provider outcome,
       mr_updated_at_ms := now, mr_completed_at_ms := Some now\<rparr>"

definition mark_unreconciled :: "int \<Rightarrow> bool \<Rightarrow> MemoryRecord \<Rightarrow> MemoryRecord" where
  "mark_unreconciled now provider_attempt r =
     r\<lparr>mr_terminal := True, mr_state := ''failed'', mr_status_code := Some 500,
       mr_terminal_reason := Some ''lease_expired_unreconciled'',
       mr_error_message := Some
         (if provider_attempt
          then ''ledger lease expired before a terminal Provider outcome was persisted''
          else ''ledger lease expired before a terminal request outcome was persisted''),
       mr_billing_mode := Some ''unreconciled'', mr_chargeable := False,
       mr_latency_ms := i64_sub now (mr_created_at_ms r),
       mr_updated_at_ms := now, mr_completed_at_ms := Some now\<rparr>"

section \<open>Outcomes\<close>

definition outcome_provider_attempt ::
    "bool \<Rightarrow> nat \<Rightarrow> string option \<Rightarrow> UsageEstimate \<Rightarrow> string \<Rightarrow> nat \<Rightarrow> LedgerOutcome" where
  "outcome_provider_attempt ok status error estimate billing_mode latency =
     \<lparr>lo_state = (if ok then ''completed'' else ''failed''), lo_status_code = status,
      lo_terminal_reason = (if ok then ''completed'' else ''failed_before_response''),
      lo_error_message = error, lo_estimate = estimate, lo_billing_mode = billing_mode,
      lo_chargeable = True, lo_latency_ms = duration_millis_i64 latency,
      lo_first_byte_latency_ms = None, lo_tool_outcome = ''not_requested'',
      lo_tool_repair_attempted = False, lo_tool_repair_recovered = False, lo_retry_count = 0,
      lo_fallback_from_provider = None\<rparr>"

definition outcome_from_usage_with_latency :: "UsageEventInput \<Rightarrow> nat \<Rightarrow> LedgerOutcome" where
  "outcome_from_usage_with_latency usage latency =
     \<lparr>lo_state = (if ue_success usage then ''completed''
        else if contains (ue_terminal_reason usage) ''cancel'' then ''cancelled'' else ''failed''),
      lo_status_code = ue_status_code usage, lo_terminal_reason = ue_terminal_reason usage,
      lo_error_message = ue_error_message usage, lo_estimate = ue_estimate usage,
      lo_billing_mode = ue_billing_mode usage, lo_chargeable = ue_chargeable usage,
      lo_latency_ms = duration_millis_i64 latency,
      lo_first_byte_latency_ms = map_option duration_millis_i64 (ue_first_byte_latency_ms usage),
      lo_tool_outcome = ue_tool_outcome usage,
      lo_tool_repair_attempted = ue_tool_repair_attempted usage,
      lo_tool_repair_recovered = ue_tool_repair_recovered usage,
      lo_retry_count = to_i32_sat (ue_retry_count usage),
      lo_fallback_from_provider = ue_fallback_from_provider usage\<rparr>"

definition outcome_from_usage :: "UsageEventInput \<Rightarrow> LedgerOutcome" where
  "outcome_from_usage usage = outcome_from_usage_with_latency usage (ue_latency_ms usage)"

definition outcome_evidence_source :: "LedgerOutcome \<Rightarrow> string" where
  "outcome_evidence_source outcome =
     (if lo_billing_mode outcome = ''upstream-returned'' then ''provider-usage'' else ''local-estimate'')"

section \<open>Budget events\<close>

definition budget_event ::
    "string \<Rightarrow> int \<Rightarrow> LedgerAttempt \<Rightarrow> string \<Rightarrow> int \<Rightarrow> int \<Rightarrow> string \<Rightarrow> string option \<Rightarrow> string option
     \<Rightarrow> string option \<Rightarrow> UsageEstimate \<Rightarrow> EnterpriseBudgetEvent" where
  "budget_event uuid now attempt event_type reserved_delta settled_delta source billing_mode reason actor estimate =
     \<lparr>be_event_id = ''bev_'' @ uuid,
      be_organization_id = organization_id (la_tenant attempt),
      be_project_id = project_id (la_tenant attempt),
      be_environment_id = environment_id (la_tenant attempt),
      be_currency = ''USD'', be_reservation_id = Some (la_reservation_id attempt),
      be_request_ledger_id = Some (la_request_ledger_id attempt),
      be_attempt_id = Some (la_attempt_id attempt), be_event_type = event_type,
      be_reserved_delta_microunits = reserved_delta, be_settled_delta_microunits = settled_delta,
      be_evidence_source = source, be_billing_mode = billing_mode, be_reason = reason,
      be_actor_id = actor, be_input_tokens = to_i64 (est_input_tokens estimate),
      be_output_tokens = to_i64 (est_output_tokens estimate),
      be_cache_write_tokens = to_i64 (est_cache_write_tokens estimate),
      be_cache_read_tokens = to_i64 (est_cache_read_tokens estimate), be_created_at_ms = now\<rparr>"

definition adjustment_event ::
    "string \<Rightarrow> int \<Rightarrow> TenantKey \<Rightarrow> EnterpriseBudgetAdjustmentInput \<Rightarrow> string \<Rightarrow> EnterpriseBudgetEvent" where
  "adjustment_event uuid now tenant input actor =
     \<lparr>be_event_id = ''bev_'' @ uuid,
      be_organization_id = organization_id tenant, be_project_id = project_id tenant,
      be_environment_id = environment_id tenant, be_currency = ''USD'', be_reservation_id = None,
      be_request_ledger_id = None, be_attempt_id = None, be_event_type = ''adjustment'',
      be_reserved_delta_microunits = 0, be_settled_delta_microunits = ba_delta_microunits input,
      be_evidence_source = trim (ba_evidence_reference input), be_billing_mode = None,
      be_reason = Some (trim (ba_reason input)), be_actor_id = Some actor, be_input_tokens = 0,
      be_output_tokens = 0, be_cache_write_tokens = 0, be_cache_read_tokens = 0,
      be_created_at_ms = now\<rparr>"

definition event_matches_tenant :: "EnterpriseBudgetEvent \<Rightarrow> TenantKey \<Rightarrow> bool" where
  "event_matches_tenant event tenant \<longleftrightarrow>
     be_organization_id event = organization_id tenant \<and>
     be_project_id event = project_id tenant \<and>
     be_environment_id event = environment_id tenant"

section \<open>Errors and validation\<close>

definition budget_exceeded :: "MemoryBudgetAccount \<Rightarrow> int \<Rightarrow> AppError" where
  "budget_exceeded account requested =
     (let available =
        i64_sub (i64_sub (case limit_microunits account of Some l \<Rightarrow> l | None \<Rightarrow> i64_max)
          (settled_microunits account)) (reserved_microunits account)
      in QuotaExceeded (''enterprise budget has '' @ show_int available @
           '' microunits available; reservation requires '' @ show_int requested))"

definition idempotency_conflict :: "bool \<Rightarrow> bool \<Rightarrow> AppError" where
  "idempotency_conflict same_request terminal =
     IdempotencyConflict
       (if same_request \<and> \<not> terminal then ''the original request is still in progress''
        else if same_request
        then ''the original request is terminal; response replay is not available in this release''
        else ''the key was already used with a different request body'')"

definition missing_scoped_record :: AppError where
  "missing_scoped_record =
     Database ''ledger record does not exist in the supplied tenant and lease scope''"

definition validated_tenant_id :: "string \<Rightarrow> string \<Rightarrow> string result" where
  "validated_tenant_id field v0 =
     (let v = trim v0
      in if v = [] \<or> 128 < length v \<or> has_control v
         then Inl (InvalidRequest (''budget '' @ field @ '' must contain 1-128 non-control bytes''))
         else Inr v)"

definition tenant_from_parts :: "string \<Rightarrow> string \<Rightarrow> string \<Rightarrow> TenantKey result" where
  "tenant_from_parts org prj env =
     res_bind (validated_tenant_id ''organizationId'' org) (\<lambda>org'.
     res_bind (validated_tenant_id ''projectId'' prj) (\<lambda>prj'.
     res_bind (validated_tenant_id ''environmentId'' env) (\<lambda>env'.
       Inr \<lparr>organization_id = org', project_id = prj', environment_id = env'\<rparr>)))"

definition scope_query_tenant :: "EnterpriseBudgetScopeQuery \<Rightarrow> TenantKey result" where
  "scope_query_tenant q =
     (case (sq_organization_id q, sq_project_id q, sq_environment_id q) of
        (None, None, None) \<Rightarrow> Inr tenant_key_local
      | (Some o', Some p', Some e') \<Rightarrow> tenant_from_parts o' p' e'
      | _ \<Rightarrow> Inl (InvalidRequest
          ''organizationId, projectId, and environmentId must be supplied together''))"

definition scope_query_from :: "TenantKey \<Rightarrow> EnterpriseBudgetScopeQuery" where
  "scope_query_from t = \<lparr>sq_organization_id = Some (organization_id t),
     sq_project_id = Some (project_id t), sq_environment_id = Some (environment_id t)\<rparr>"

definition update_tenant :: "EnterpriseBudgetUpdate \<Rightarrow> TenantKey result" where
  "update_tenant u = tenant_from_parts (bu_organization_id u) (bu_project_id u) (bu_environment_id u)"

definition validated_limit :: "EnterpriseBudgetUpdate \<Rightarrow> int option result" where
  "validated_limit u =
     (case (bu_unlimited u, bu_limit_microunits u) of
        (True, None) \<Rightarrow> Inr None
      | (True, Some _) \<Rightarrow>
          Inl (InvalidRequest ''unlimited budget cannot also provide limitMicrounits'')
      | (False, Some limit) \<Rightarrow>
          if 0 \<le> limit then Inr (Some limit)
          else Inl (InvalidRequest
            ''a non-negative limitMicrounits value is required unless unlimited is true'')
      | (False, None) \<Rightarrow>
          Inl (InvalidRequest
            ''a non-negative limitMicrounits value is required unless unlimited is true''))"

definition adjustment_tenant :: "EnterpriseBudgetAdjustmentInput \<Rightarrow> TenantKey result" where
  "adjustment_tenant a = tenant_from_parts (ba_organization_id a) (ba_project_id a) (ba_environment_id a)"

definition validate_evidence_text :: "string \<Rightarrow> string \<Rightarrow> nat \<Rightarrow> unit result" where
  "validate_evidence_text field v0 max_len =
     (let v = trim v0
      in if v = [] \<or> max_len < length v \<or> has_control v
         then Inl (InvalidRequest (''budget adjustment '' @ field @ '' must contain 1-'' @
                show_nat max_len @ '' non-control bytes''))
         else Inr ())"

definition validate_adjustment :: "EnterpriseBudgetAdjustmentInput \<Rightarrow> unit result" where
  "validate_adjustment a =
     (if ba_delta_microunits a = 0
      then Inl (InvalidRequest ''budget adjustment deltaMicrounits must not be zero'')
      else res_bind (validate_evidence_text ''reason'' (ba_reason a) 500) (\<lambda>_.
             validate_evidence_text ''evidenceReference'' (ba_evidence_reference a) 500))"

definition validate_metadata_text :: "string \<Rightarrow> string option \<Rightarrow> bool \<Rightarrow> unit result" where
  "validate_metadata_text field v required =
     (if required \<and> (case v of None \<Rightarrow> True | Some s \<Rightarrow> s = [])
      then Inl (InvalidRequest (field @ '' metadata is required''))
      else if (case v of None \<Rightarrow> False | Some s \<Rightarrow> 256 < length s \<or> has_control s)
      then Inl (InvalidRequest (field @ '' metadata must not exceed 256 non-control bytes''))
      else Inr ())"

definition bounded_text :: "nat \<Rightarrow> string \<Rightarrow> bool" where
  "bounded_text max_len v \<longleftrightarrow> v \<noteq> [] \<and> length v \<le> max_len \<and> \<not> has_control v"

definition unit_interval_2 :: "f64 \<Rightarrow> bool" where
  "unit_interval_2 x \<longleftrightarrow> is_finite x \<and> f64_le (Fin 0) x \<and> f64_le x (Fin 2)"

definition validate_routing_decision :: "RoutingDecisionEvidence \<Rightarrow> unit result" where
  "validate_routing_decision d =
     res_bind (res_each (\<lambda>(field, v, max_len).
         ensure (bounded_text max_len v)
           (InvalidRequest (''routing '' @ field @ '' must contain 1-'' @ show_nat max_len @ '' non-control bytes'')))
       [(''decisionId'', decision_id d, 80), (''routingProfile'', decision_profile d, 32),
        (''routingMode'', decision_mode d, 32), (''policyVersion'', policy_version d, 64),
        (''selectedProvider'', selected_provider d, 80), (''selectedModel'', selected_model d, 240),
        (''recommendedProvider'', recommended_provider d, 80),
        (''recommendedModel'', recommended_model d, 240)]) (\<lambda>_.
     ensure ((case group_id d of None \<Rightarrow> True | Some g \<Rightarrow> bounded_text 80 g) \<and>
         1 \<le> candidate_count d \<and> candidate_count d \<le> 256 \<and>
         unit_interval_2 (selected_score d) \<and> unit_interval_2 (recommended_score d) \<and>
         length (reason_codes d) \<le> 16 \<and> list_all (bounded_text 80) (reason_codes d))
       (InvalidRequest ''routing decision evidence is outside supported bounds''))"

definition validate_request_metadata :: "LedgerRequestMetadata \<Rightarrow> unit result" where
  "validate_request_metadata md =
     res_bind (validate_metadata_text ''username'' (Some (md_username md)) True) (\<lambda>_.
     res_bind (res_each (\<lambda>(field, v). validate_metadata_text field v False)
       [(''apiKeyId'', md_api_key_id md), (''apiKeyName'', md_api_key_name md),
        (''apiKeyGroup'', md_api_key_group md), (''teamId'', md_team_id md),
        (''teamName'', md_team_name md)]) (\<lambda>_.
     res_bind (ensure (case md_client_ip md of None \<Rightarrow> True | Some ip \<Rightarrow> parse_ip ip \<noteq> None)
       (InvalidRequest ''client IP metadata must be an IPv4 or IPv6 address'')) (\<lambda>_.
     (case md_routing_decision md of
        None \<Rightarrow> Inr ()
      | Some d \<Rightarrow> validate_routing_decision d))))"

definition validate_audit_event :: "AuditEventInput \<Rightarrow> unit result" where
  "validate_audit_event input =
     (if in_severity input \<notin> {''info'', ''warning'', ''error''}
      then Inl (InvalidRequest ''audit severity must be info, warning, or error'')
      else res_each (\<lambda>(field, v, max_len).
         ensure (bounded_text max_len v)
           (InvalidRequest (''audit '' @ field @ '' must contain 1-'' @ show_nat max_len @ '' non-control bytes'')))
       [(''type'', in_activity_type input, 80), (''actorId'', in_actor_id input, 160),
        (''actorName'', in_actor_name input, 160), (''target'', in_target input, 500),
        (''message'', in_message input, 1000)])"

section \<open>Budget views\<close>

text \<open>The quotient is computed with 128 bits and saturates when it does not fit 64 bits.\<close>

definition utilization_bps :: "int \<Rightarrow> int \<Rightarrow> int" where
  "utilization_bps consumed limit =
     (if limit = 0 then (if consumed = 0 then 0 else i64_max)
      else (let q = tdiv (consumed * 10000) limit in if i64_range q then q else i64_max))"

definition budget_account ::
    "TenantKey \<Rightarrow> int option \<Rightarrow> int \<Rightarrow> int \<Rightarrow> int \<Rightarrow> int \<Rightarrow> EnterpriseBudgetAccount" where
  "budget_account tenant limit reserved settled version updated =
     (let consumed = i64_add reserved settled;
          bps = map_option (utilization_bps consumed) limit
      in \<lparr>eb_organization_id = organization_id tenant, eb_project_id = project_id tenant,
          eb_environment_id = environment_id tenant, eb_currency = ''USD'',
          eb_limit_microunits = limit, eb_reserved_microunits = reserved,
          eb_settled_microunits = settled,
          eb_available_microunits = map_option (\<lambda>l. i64_sub l consumed) limit,
          eb_utilization_basis_points = bps,
          eb_warning_threshold_reached = (case bps of Some v \<Rightarrow> 8000 \<le> v | None \<Rightarrow> False),
          eb_hard_limit_reached = (case bps of Some v \<Rightarrow> 10000 \<le> v | None \<Rightarrow> False),
          eb_version = version, eb_updated_at_ms = updated\<rparr>)"

definition memory_budget_account :: "TenantKey \<Rightarrow> MemoryBudgetAccount \<Rightarrow> EnterpriseBudgetAccount" where
  "memory_budget_account tenant a =
     budget_account tenant (limit_microunits a) (reserved_microunits a) (settled_microunits a)
       (account_version a) (account_updated_at_ms a)"

definition empty_budget_account :: "int \<Rightarrow> TenantKey \<Rightarrow> EnterpriseBudgetAccount" where
  "empty_budget_account now tenant = budget_account tenant None 0 0 0 now"

section \<open>Properties\<close>

lemma cost_microunits_nonneg: "0 \<le> cost_microunits v"
proof (cases "is_finite v \<and> \<not> f64_le v (Fin 0)")
  case True
  then obtain r where v: "v = Fin r" "0 < r" by (cases v) (auto simp: is_finite_def)
  have "f64_nonneg (f64_mul v (Fin 1000000))"
    using v by (intro f64_nonneg_mul) (simp_all add: is_finite_def)
  then have "f64_nonneg (f64_round (f64_mul v (Fin 1000000)))"
    by (cases rule: f64_nonneg_cases) (simp_all add: round_away_def)
  moreover have "f64_nonneg (f64_of_int i64_max)"
    by (simp add: f64_of_int_def i64_max_def f64_of_rat_nonneg)
  ultimately have "f64_nonneg (f64_min (f64_round (f64_mul v (Fin 1000000))) (f64_of_int i64_max))"
    by (simp add: f64_min_def)
  moreover have "0 \<le> f64_to_i64 x" if "f64_nonneg x" for x
    using that by (cases rule: f64_nonneg_cases) (simp_all add: i64_max_def rat_trunc_def i64_clamp_def i64_min_def)
  ultimately show ?thesis by (simp add: cost_microunits_def)
qed (auto simp: cost_microunits_def)

lemma cost_microunits_le: "cost_microunits v \<le> i64_max"
  using f64_to_i64_range by (simp add: cost_microunits_def i64_range_def i64_max_def)

lemma validated_tenant_id_idem:
  "validated_tenant_id f v = Inr w \<Longrightarrow> validated_tenant_id g w = Inr w"
  by (auto simp: validated_tenant_id_def Let_def split: if_splits)

lemma tenant_from_parts_idem:
  assumes "tenant_from_parts a b c = Inr t"
  shows "scope_query_tenant (scope_query_from t) = Inr t"
proof -
  from assms have "validated_tenant_id ''organizationId'' a = Inr (organization_id t)"
    and "validated_tenant_id ''projectId'' b = Inr (project_id t)"
    and "validated_tenant_id ''environmentId'' c = Inr (environment_id t)"
    by (auto simp: tenant_from_parts_def res_simps)
  note valid = this [THEN validated_tenant_id_idem]
  show ?thesis
    unfolding scope_query_tenant_def scope_query_from_def tenant_from_parts_def
    by (simp add: valid)
qed

lemma event_matches_iff:
  "event_matches_tenant e t \<longleftrightarrow>
     t = \<lparr>organization_id = be_organization_id e, project_id = be_project_id e,
          environment_id = be_environment_id e\<rparr>"
  by (cases t) (auto simp: event_matches_tenant_def)

end
