(* ===== verification/BudgetSpec.thy ===== *)
theory BudgetSpec
  imports LedgerTypes
begin

text \<open>
  What the budget of the request ledger promises, whatever its storage: per tenant an optional limit
  and a settled amount, the open reservations by Provider Attempt, and the log of balance changes. The
  balance "reserved" is not state of the specification, it is the sum of the open reservations. The
  locale \<open>budget_backend\<close> is the contract of a storage backend: each of its steps is a step of the
  specification, or leaves the specification's state alone.
\<close>

record budget_spec =
  bs_limit :: "TenantKey \<Rightarrow> int option"
  bs_settled :: "TenantKey \<Rightarrow> int"
  bs_open :: "string \<rightharpoonup> TenantKey \<times> int"
  bs_log :: "(TenantKey \<times> int \<times> int) list"

definition open_amount :: "TenantKey \<Rightarrow> (TenantKey \<times> int) option \<Rightarrow> int" where
  "open_amount t e = (case e of Some (t', c) \<Rightarrow> if t' = t then c else 0 | None \<Rightarrow> 0)"

definition open_total :: "(string \<rightharpoonup> TenantKey \<times> int) \<Rightarrow> TenantKey \<Rightarrow> int" where
  "open_total m t = (\<Sum>k\<in>dom m. open_amount t (m k))"

definition bs_reserved :: "budget_spec \<Rightarrow> TenantKey \<Rightarrow> int" where
  "bs_reserved s t = open_total (bs_open s) t"

definition within_limit :: "int option \<Rightarrow> int \<Rightarrow> bool" where
  "within_limit limit amount \<longleftrightarrow>
     (case limit of Some l \<Rightarrow> if l < i64_max then amount \<le> l else True | None \<Rightarrow> True)"

inductive budget_step :: "budget_spec \<Rightarrow> budget_spec \<Rightarrow> bool" where
  reserve: "bs_open s k = None \<Longrightarrow> 0 \<le> c \<Longrightarrow>
    within_limit (bs_limit s t) (bs_settled s t + bs_reserved s t + c) \<Longrightarrow>
    budget_step s (s\<lparr>bs_open := (bs_open s)(k \<mapsto> (t, c)), bs_log := bs_log s @ [(t, c, 0)]\<rparr>)"
| settle: "bs_open s k = Some (t, c) \<Longrightarrow> 0 \<le> d \<Longrightarrow>
    budget_step s (s\<lparr>bs_open := (bs_open s)(k := None),
      bs_settled := (bs_settled s)(t := bs_settled s t + d), bs_log := bs_log s @ [(t, - c, d)]\<rparr>)"
| release: "bs_open s k = Some (t, c) \<Longrightarrow>
    budget_step s (s\<lparr>bs_open := (bs_open s)(k := None), bs_log := bs_log s @ [(t, - c, 0)]\<rparr>)"
| adjust: "0 \<le> bs_settled s t + d \<Longrightarrow>
    budget_step s (s\<lparr>bs_settled := (bs_settled s)(t := bs_settled s t + d),
      bs_log := bs_log s @ [(t, 0, d)]\<rparr>)"
| set_limit: "budget_step s (s\<lparr>bs_limit := (bs_limit s)(t := l)\<rparr>)"

definition log_reserved :: "budget_spec \<Rightarrow> TenantKey \<Rightarrow> int" where
  "log_reserved s t = sum_list (map (\<lambda>(t', r, _). if t' = t then r else 0) (bs_log s))"

definition log_settled :: "budget_spec \<Rightarrow> TenantKey \<Rightarrow> int" where
  "log_settled s t = sum_list (map (\<lambda>(t', _, d). if t' = t then d else 0) (bs_log s))"

definition budget_wf :: "budget_spec \<Rightarrow> bool" where
  "budget_wf s \<longleftrightarrow> finite (dom (bs_open s)) \<and> (\<forall>k t c. bs_open s k = Some (t, c) \<longrightarrow> 0 \<le> c) \<and>
     (\<forall>t. 0 \<le> bs_settled s t \<and> log_reserved s t = bs_reserved s t \<and> log_settled s t = bs_settled s t)"

definition budget_init :: budget_spec where
  "budget_init = \<lparr>bs_limit = Map.empty, bs_settled = (\<lambda>_. 0), bs_open = Map.empty, bs_log = []\<rparr>"

section \<open>Laws of the specification\<close>

named_theorems budget_simps \<open>sums over open reservations and the log\<close>

lemma open_amount_simps [budget_simps]:
  "open_amount t None = 0" "open_amount t (Some (t', c)) = (if t' = t then c else 0)"
  by (simp_all add: open_amount_def)

lemma open_total_update:
  assumes "finite (dom m)"
  shows "open_total (m(k := e)) t = open_total m t - open_amount t (m k) + open_amount t e"
proof -
  let ?A = "insert k (dom m)"
  have old: "open_total m t = (\<Sum>i\<in>?A. open_amount t (m i))"
    unfolding open_total_def using assms
    by (intro sum.mono_neutral_left) (auto simp: open_amount_def split: option.splits)
  have new: "open_total (m(k := e)) t = (\<Sum>i\<in>?A. open_amount t ((m(k := e)) i))"
    unfolding open_total_def using assms
    by (intro sum.mono_neutral_left) (auto simp: open_amount_def split: if_splits option.splits)
  show ?thesis
    unfolding old new using assms by (simp add: sum.remove [of ?A k] sum.insert_remove)
qed

lemma bs_reserved_update [budget_simps]:
  "finite (dom (bs_open s)) \<Longrightarrow> bs_reserved (s\<lparr>bs_open := (bs_open s)(k := e)\<rparr>) t =
    bs_reserved s t - open_amount t (bs_open s k) + open_amount t e"
  by (simp add: bs_reserved_def open_total_update)

lemma bs_reserved_other [budget_simps]:
  "bs_reserved (s\<lparr>bs_limit := a\<rparr>) = bs_reserved s"
  "bs_reserved (s\<lparr>bs_settled := b\<rparr>) = bs_reserved s"
  "bs_reserved (s\<lparr>bs_log := c\<rparr>) = bs_reserved s"
  by (simp_all add: bs_reserved_def fun_eq_iff)

lemma log_sums [budget_simps]:
  "log_reserved (s\<lparr>bs_log := l @ [(t', r, d)]\<rparr>) t = log_reserved (s\<lparr>bs_log := l\<rparr>) t + (if t' = t then r else 0)"
  "log_settled (s\<lparr>bs_log := l @ [(t', r, d)]\<rparr>) t = log_settled (s\<lparr>bs_log := l\<rparr>) t + (if t' = t then d else 0)"
  "log_reserved (s\<lparr>bs_limit := a\<rparr>) = log_reserved s" "log_settled (s\<lparr>bs_limit := a\<rparr>) = log_settled s"
  "log_reserved (s\<lparr>bs_settled := b\<rparr>) = log_reserved s" "log_settled (s\<lparr>bs_settled := b\<rparr>) = log_settled s"
  "log_reserved (s\<lparr>bs_open := e\<rparr>) = log_reserved s" "log_settled (s\<lparr>bs_open := e\<rparr>) = log_settled s"
  by (simp_all add: log_reserved_def log_settled_def fun_eq_iff)

lemma budget_wf_init: "budget_wf budget_init"
  by (simp add: budget_wf_def budget_init_def bs_reserved_def open_total_def log_reserved_def log_settled_def)

lemma budget_step_wf:
  assumes "budget_step s s'" "budget_wf s"
  shows "budget_wf s'"
  using assms
proof (induction rule: budget_step.induct)
  case (reserve s k c t)
  then show ?case
    by (auto simp: budget_wf_def budget_simps)
next
  case (settle s k t c d)
  then show ?case by (auto simp: budget_wf_def budget_simps)
next
  case (release s k t c)
  then show ?case by (auto simp: budget_wf_def budget_simps)
next
  case (adjust s t d)
  then show ?case by (auto simp: budget_wf_def budget_simps)
next
  case (set_limit s t l)
  then show ?case by (auto simp: budget_wf_def budget_simps)
qed

lemma budget_steps_wf: "budget_step\<^sup>*\<^sup>* s s' \<Longrightarrow> budget_wf s \<Longrightarrow> budget_wf s'"
  by (induction rule: rtranclp_induct) (auto intro: budget_step_wf)

lemma bs_reserved_nonneg: "budget_wf s \<Longrightarrow> 0 \<le> bs_reserved s t"
  unfolding bs_reserved_def open_total_def budget_wf_def
  by (intro sum_nonneg) (auto simp: open_amount_def split: option.splits)

section \<open>The contract of a backend\<close>

text \<open>A backend has a state, an invariant on it, steps, the balance it stores as reserved and the
  specification state it stands for.\<close>

locale budget_backend =
  fixes bk_init :: 's
    and bk_step :: "'s \<Rightarrow> 's \<Rightarrow> bool"
    and bk_inv :: "'s \<Rightarrow> bool"
    and bk_abs :: "'s \<Rightarrow> budget_spec"
    and bk_reserved :: "'s \<Rightarrow> TenantKey \<Rightarrow> int"
  assumes init_inv: "bk_inv bk_init"
    and init_abs: "bk_abs bk_init = budget_init"
    and step_inv: "bk_step x y \<Longrightarrow> bk_inv x \<Longrightarrow> bk_inv y"
    and step_abs: "bk_step x y \<Longrightarrow> bk_inv x \<Longrightarrow> budget_step\<^sup>*\<^sup>* (bk_abs x) (bk_abs y)"
    and reserved_abs: "bk_inv x \<Longrightarrow> bk_reserved x t = bs_reserved (bk_abs x) t"
begin

lemma reachable: "bk_step\<^sup>*\<^sup>* bk_init x \<Longrightarrow> bk_inv x \<and> budget_step\<^sup>*\<^sup>* budget_init (bk_abs x)"
proof (induction rule: rtranclp_induct)
  case base
  then show ?case by (simp add: init_inv init_abs)
next
  case (step y z)
  then show ?case by (meson step_inv step_abs rtranclp_trans)
qed

lemma reachable_wf: "bk_step\<^sup>*\<^sup>* bk_init x \<Longrightarrow> budget_wf (bk_abs x)"
  using reachable budget_steps_wf budget_wf_init by blast

lemma reachable_balances:
  assumes "bk_step\<^sup>*\<^sup>* bk_init x"
  shows "bk_reserved x t = bs_reserved (bk_abs x) t" "0 \<le> bk_reserved x t"
    "bk_reserved x t = log_reserved (bk_abs x) t"
    "bs_settled (bk_abs x) t = log_settled (bk_abs x) t" "0 \<le> bs_settled (bk_abs x) t"
  using reachable [OF assms] reachable_wf [OF assms] bs_reserved_nonneg [OF reachable_wf [OF assms]]
  unfolding budget_wf_def by (simp_all add: reserved_abs del: all_simps)

end

end
