(* ===== verification/Ledger.thy ===== *)
theory Ledger
  imports LedgerTypes BudgetSpec
begin

text \<open>
  The in-memory backend of the request ledger, \<^verbatim>\<open>src/src/enterprise_ledger.rs\<close>. Every operation holds
  the ledger's mutex for its whole body, so it is a function on the ledger state that also returns a
  result; an operation that fails half-way keeps the changes made so far, as the source does. The
  clocks are read once per operation: \<open>now\<close> is the wall clock in milliseconds, \<open>inst\<close> the monotonic
  clock. Generated identifiers are arguments.
\<close>

record MemoryLedger =
  requests :: "(string, MemoryRequestRecord) hmap"
  attempts :: "(string, MemoryRecord) hmap"
  budget_accounts :: "(TenantKey, MemoryBudgetAccount) hmap"
  budget_reservations :: "(string, MemoryBudgetReservation) hmap"
  budget_events :: "EnterpriseBudgetEvent list"
  audit_events :: "EnterpriseAuditEvent list"

type_synonym 'a ledger_op = "MemoryLedger \<Rightarrow> 'a result \<times> MemoryLedger"

definition ledger_empty :: MemoryLedger where
  "ledger_empty =
     \<lparr>requests = [], attempts = [], budget_accounts = [], budget_reservations = [],
      budget_events = [], audit_events = []\<rparr>"

text \<open>\<^verbatim>\<open>entry(tenant).or_insert_with(..)\<close>: the account of a tenant, created when it is missing.\<close>

definition account_entry :: "int \<Rightarrow> TenantKey \<Rightarrow> MemoryLedger \<Rightarrow> MemoryBudgetAccount" where
  "account_entry now t l =
     (case map_of (budget_accounts l) t of
        Some a \<Rightarrow> a
      | None \<Rightarrow> account_default\<lparr>account_updated_at_ms := now\<rparr>)"

definition put_account :: "TenantKey \<Rightarrow> MemoryBudgetAccount \<Rightarrow> MemoryLedger \<Rightarrow> MemoryLedger" where
  "put_account t a l = l\<lparr>budget_accounts := AList.update t a (budget_accounts l)\<rparr>"

section \<open>Requests\<close>

text \<open>The row of a new request.\<close>

definition started_request ::
    "nat \<Rightarrow> int \<Rightarrow> nat \<Rightarrow> LedgerRequest \<Rightarrow> RequestContext \<Rightarrow> string \<Rightarrow> bool \<Rightarrow> string option \<Rightarrow> string
     \<Rightarrow> LedgerRequestMetadata \<Rightarrow> MemoryRequestRecord" where
  "started_request lease_ttl now inst request ctx requested_model stream key_hash request_fingerprint md =
     \<lparr>rq_record = record_started now inst (lr_tenant request) (lr_ledger_id request)
        (lr_lease_owner request) lease_ttl None,
      rq_request_id = ctx_request_id ctx, rq_principal_id = ctx_principal_id ctx,
      rq_username = md_username md, rq_api_key_id = md_api_key_id md,
      rq_api_key_name = md_api_key_name md, rq_api_key_group = md_api_key_group md,
      rq_team_id = md_team_id md, rq_team_name = md_team_name md, rq_client_ip = md_client_ip md,
      rq_client_protocol = protocol_as_str (ctx_protocol ctx),
      rq_requested_model = requested_model, rq_request_path = md_request_path md,
      rq_traffic_class = md_traffic_class md, rq_tool_use_requested = md_tool_use_requested md,
      rq_provider_id = None, rq_resolved_model = None, rq_provider_protocol = None,
      rq_last_attempt_id = None, rq_model_pricing = None, rq_stream = stream,
      rq_routing_decision = md_routing_decision md, rq_idempotency_key_hash = key_hash,
      rq_request_fingerprint = request_fingerprint\<rparr>"

definition idempotent_existing ::
    "TenantKey \<Rightarrow> string option \<Rightarrow> MemoryLedger \<Rightarrow> MemoryRequestRecord option" where
  "idempotent_existing tenant key_hash l =
     (case key_hash of
        None \<Rightarrow> None
      | Some h \<Rightarrow> List.find (\<lambda>r. mr_tenant (rq_record r) = tenant \<and> rq_idempotency_key_hash r = Some h)
          (map_values (requests l)))"

text \<open>The checks made before the backend is chosen.\<close>

definition begin_request_checks :: "string \<Rightarrow> LedgerRequestMetadata \<Rightarrow> unit result" where
  "begin_request_checks request_fingerprint md =
     (if md_request_path md \<noteq> ''/v1/messages'' \<and> md_request_path md \<noteq> ''/v1/chat/completions''
      then Inl (InvalidRequest ''unsupported request path for enterprise ledger'')
      else if md_traffic_class md \<noteq> ''business'' \<and> md_traffic_class md \<noteq> ''synthetic'' \<and>
              md_traffic_class md \<noteq> ''diagnostic''
      then Inl (InvalidRequest ''unsupported traffic class for enterprise ledger'')
      else res_bind (validate_request_metadata md) (\<lambda>_.
        if length request_fingerprint \<noteq> 64
        then Inl (Database ''request fingerprint must be a SHA-256 hex digest'') else Inr ()))"

definition begin_request_with_metadata ::
    "(string \<Rightarrow> string) \<Rightarrow> string \<Rightarrow> nat \<Rightarrow> int \<Rightarrow> nat \<Rightarrow> string \<Rightarrow> RequestContext \<Rightarrow> string \<Rightarrow> bool
     \<Rightarrow> string option \<Rightarrow> string \<Rightarrow> LedgerRequestMetadata \<Rightarrow> LedgerRequest ledger_op" where
  "begin_request_with_metadata hash_idempotency_key instance_id lease_ttl now inst uuid ctx
       requested_model stream idempotency_key request_fingerprint md l =
     (case begin_request_checks request_fingerprint md of
        Inl e \<Rightarrow> (Inl e, l)
      | Inr _ \<Rightarrow>
          let key_hash = map_option hash_idempotency_key idempotency_key;
              request = \<lparr>lr_ledger_id = ''grq_'' @ uuid, lr_tenant = tenant_key_from (ctx_tenant ctx),
                         lr_lease_owner = instance_id\<rparr>
          in case idempotent_existing (lr_tenant request) key_hash l of
               Some existing \<Rightarrow>
                 (Inl (idempotency_conflict (rq_request_fingerprint existing = request_fingerprint)
                    (mr_terminal (rq_record existing))), l)
             | None \<Rightarrow>
                 (Inr request, l\<lparr>requests := AList.update (lr_ledger_id request)
                   (started_request lease_ttl now inst request ctx requested_model stream key_hash
                      request_fingerprint md) (requests l)\<rparr>))"

text \<open>A record looked up by key and accepted only inside its tenant and lease scope.\<close>

definition scoped_request :: "LedgerRequest \<Rightarrow> MemoryLedger \<Rightarrow> MemoryRequestRecord option" where
  "scoped_request request l =
     (case map_of (requests l) (lr_ledger_id request) of
        Some r \<Rightarrow> (if mr_tenant (rq_record r) = lr_tenant request \<and>
                       mr_lease_owner (rq_record r) = lr_lease_owner request then Some r else None)
      | None \<Rightarrow> None)"

definition scoped_attempt :: "LedgerAttempt \<Rightarrow> MemoryLedger \<Rightarrow> MemoryRecord option" where
  "scoped_attempt attempt l =
     (case map_of (attempts l) (la_attempt_id attempt) of
        Some r \<Rightarrow> (if mr_tenant r = la_tenant attempt \<and> mr_lease_owner r = la_lease_owner attempt
                    then Some r else None)
      | None \<Rightarrow> None)"

definition finalized_request :: "int \<Rightarrow> UsageEventInput \<Rightarrow> MemoryRequestRecord \<Rightarrow> MemoryRequestRecord" where
  "finalized_request now usage r =
     (let r1 = r\<lparr>rq_record := record_finalize now (outcome_from_usage usage) (rq_record r)\<rparr>;
          r2 = (case ue_attempt_id usage of
                  Some attempt_id \<Rightarrow>
                    r1\<lparr>rq_provider_id := Some (ue_provider usage),
                       rq_resolved_model := Some (ue_resolved_model usage),
                       rq_provider_protocol := Some (ue_protocol usage),
                       rq_last_attempt_id := Some attempt_id\<rparr>
                | None \<Rightarrow> r1)
      in r2\<lparr>rq_model_pricing := map_option model_pricing_value (ue_model_pricing usage)\<rparr>)"

definition finalize_request_usage :: "int \<Rightarrow> LedgerRequest \<Rightarrow> UsageEventInput \<Rightarrow> unit ledger_op" where
  "finalize_request_usage now request usage l =
     (case scoped_request request l of
        None \<Rightarrow> (Inl missing_scoped_record, l)
      | Some r \<Rightarrow>
          (Inr (), l\<lparr>requests := AList.update (lr_ledger_id request) (finalized_request now usage r)
             (requests l)\<rparr>))"

section \<open>Attempts and budget reservations\<close>

definition begin_attempt ::
    "nat \<Rightarrow> int \<Rightarrow> nat \<Rightarrow> string \<Rightarrow> string \<Rightarrow> LedgerRequest \<Rightarrow> string \<Rightarrow> string \<Rightarrow> string \<Rightarrow> string
     \<Rightarrow> UsageEstimate \<Rightarrow> LedgerAttempt ledger_op" where
  "begin_attempt lease_ttl now inst reservation_uuid event_uuid request attempt_id provider_id
       resolved_model provider_protocol estimate l =
     (let cost = cost_microunits (est_cost_estimate estimate);
          attempt = \<lparr>la_attempt_id = attempt_id, la_request_ledger_id = lr_ledger_id request,
                     la_reservation_id = ''brs_'' @ reservation_uuid, la_tenant = lr_tenant request,
                     la_lease_owner = lr_lease_owner request\<rparr>
      in if \<not> (case scoped_request request l of
                  Some r \<Rightarrow> \<not> mr_terminal (rq_record r) | None \<Rightarrow> False)
         then (Inl (Database ''request ledger scope is invalid or already terminal''), l)
         else if map_of (attempts l) attempt_id \<noteq> None \<or>
                 map_of (budget_reservations l) attempt_id \<noteq> None
         then (Inl (Database ''Provider Attempt already exists in enterprise ledger''), l)
         else
           let account = account_entry now (la_tenant attempt) l
           in if (case limit_microunits account of
                    Some limit \<Rightarrow> limit < i64_add (i64_add (settled_microunits account)
                      (reserved_microunits account)) cost
                  | None \<Rightarrow> False)
              then (Inl (budget_exceeded account cost), put_account (la_tenant attempt) account l)
              else (Inr attempt,
                (put_account (la_tenant attempt)
                   (account\<lparr>reserved_microunits := i64_add (reserved_microunits account) cost,
                            account_version := i64_add (account_version account) 1,
                            account_updated_at_ms := now\<rparr>) l)
                \<lparr>attempts := AList.update attempt_id
                    (record_started now inst (la_tenant attempt) (la_request_ledger_id attempt)
                       (la_lease_owner attempt) lease_ttl
                       (Some (provider_id, resolved_model, provider_protocol))) (attempts l),
                 budget_reservations := AList.update attempt_id
                    \<lparr>rs_reservation_id = la_reservation_id attempt, rs_tenant = la_tenant attempt,
                     rs_request_ledger_id = la_request_ledger_id attempt,
                     rs_attempt_id = attempt_id, rs_reserved_microunits = cost,
                     rs_settled_microunits = 0, rs_state = ''reserved'', rs_updated_at_ms = now,
                     rs_terminal_at_ms = None\<rparr> (budget_reservations l),
                 budget_events := budget_events l @
                   [budget_event event_uuid now attempt ''reservation_created'' cost 0
                      ''local-estimate'' None (Some ''Provider Attempt budget reservation'') None
                      estimate]\<rparr>))"

definition settle_memory_budget ::
    "int \<Rightarrow> string \<Rightarrow> LedgerAttempt \<Rightarrow> LedgerOutcome \<Rightarrow> unit ledger_op" where
  "settle_memory_budget now event_uuid attempt outcome l =
     (let cost = cost_microunits (est_cost_estimate (lo_estimate outcome))
      in case map_of (budget_reservations l) (la_attempt_id attempt) of
           None \<Rightarrow> (Inl (Database ''budget reservation is missing''), l)
         | Some r \<Rightarrow>
             if rs_state r \<noteq> ''reserved'' then (Inr (), l)
             else
               let l1 = l\<lparr>budget_reservations := AList.update (la_attempt_id attempt)
                     (r\<lparr>rs_state := ''settled'', rs_settled_microunits := cost,
                        rs_updated_at_ms := now, rs_terminal_at_ms := Some now\<rparr>)
                     (budget_reservations l)\<rparr>
               in case map_of (budget_accounts l1) (la_tenant attempt) of
                    None \<Rightarrow> (Inl (Database ''budget account is missing''), l1)
                  | Some a \<Rightarrow>
                      (case i64_checked_sub (reserved_microunits a) (rs_reserved_microunits r) of
                         None \<Rightarrow> (Inl (Database ''budget reserved balance underflow''), l1)
                       | Some reserved \<Rightarrow>
                           let a1 = a\<lparr>reserved_microunits := reserved\<rparr>
                           in case i64_checked_add (settled_microunits a) cost of
                                None \<Rightarrow> (Inl (Database ''budget settled balance overflow''),
                                         put_account (la_tenant attempt) a1 l1)
                              | Some settled \<Rightarrow>
                                  (Inr (), (put_account (la_tenant attempt)
                                     (a1\<lparr>settled_microunits := settled,
                                         account_version := i64_add (account_version a) 1,
                                         account_updated_at_ms := now\<rparr>) l1)
                                   \<lparr>budget_events := budget_events l @
                                     [budget_event event_uuid now attempt ''settled''
                                        (- rs_reserved_microunits r) cost
                                        (outcome_evidence_source outcome)
                                        (Some (lo_billing_mode outcome))
                                        (Some (lo_terminal_reason outcome)) None
                                        (lo_estimate outcome)]\<rparr>)))"

definition finalize_attempt :: "int \<Rightarrow> string \<Rightarrow> LedgerAttempt \<Rightarrow> LedgerOutcome \<Rightarrow> unit ledger_op" where
  "finalize_attempt now event_uuid attempt outcome l =
     (case scoped_attempt attempt l of
        None \<Rightarrow> (Inl missing_scoped_record, l)
      | Some r \<Rightarrow>
          if mr_terminal r then (Inr (), l)
          else settle_memory_budget now event_uuid attempt outcome
                 (l\<lparr>attempts := AList.update (la_attempt_id attempt)
                     (record_finalize now outcome r) (attempts l)\<rparr>))"

definition release_memory_budget :: "int \<Rightarrow> string \<Rightarrow> string \<Rightarrow> unit ledger_op" where
  "release_memory_budget now event_uuid attempt_id l =
     (case map_of (budget_reservations l) attempt_id of
        None \<Rightarrow> (Inl (Database ''budget reservation is missing''), l)
      | Some r \<Rightarrow>
          if rs_state r \<noteq> ''reserved'' then (Inr (), l)
          else
            let l1 = l\<lparr>budget_reservations := AList.update attempt_id
                  (r\<lparr>rs_state := ''released'', rs_updated_at_ms := now, rs_terminal_at_ms := Some now\<rparr>)
                  (budget_reservations l)\<rparr>;
                attempt = \<lparr>la_attempt_id = rs_attempt_id r,
                  la_request_ledger_id = rs_request_ledger_id r,
                  la_reservation_id = rs_reservation_id r, la_tenant = rs_tenant r,
                  la_lease_owner = []\<rparr>
            in case map_of (budget_accounts l1) (la_tenant attempt) of
                 None \<Rightarrow> (Inl (Database ''budget account is missing''), l1)
               | Some a \<Rightarrow>
                   (case i64_checked_sub (reserved_microunits a) (rs_reserved_microunits r) of
                      None \<Rightarrow> (Inl (Database ''budget reserved balance underflow''), l1)
                    | Some reserved \<Rightarrow>
                        (Inr (), (put_account (la_tenant attempt)
                           (a\<lparr>reserved_microunits := reserved,
                              account_version := i64_add (account_version a) 1,
                              account_updated_at_ms := now\<rparr>) l1)
                         \<lparr>budget_events := budget_events l @
                           [budget_event event_uuid now attempt ''released''
                              (- rs_reserved_microunits r) 0 ''lease-expired''
                              (Some ''unreconciled'')
                              (Some ''expired Provider Attempt lease released its budget reservation'')
                              None estimate_default]\<rparr>)))"

section \<open>Leases\<close>

definition renew_record :: "int \<Rightarrow> nat \<Rightarrow> nat \<Rightarrow> MemoryRecord \<Rightarrow> MemoryRecord" where
  "renew_record now inst lease_ttl r =
     r\<lparr>mr_lease_expires_at := inst + lease_ttl,
       mr_lease_expires_at_ms := i64_add now (duration_millis_i64 lease_ttl),
       mr_updated_at_ms := now\<rparr>"

definition renew_attempt :: "int \<Rightarrow> nat \<Rightarrow> nat \<Rightarrow> LedgerRequest \<Rightarrow> MemoryRecord \<Rightarrow> MemoryRecord" where
  "renew_attempt now inst lease_ttl request r =
     (if mr_tenant r = lr_tenant request \<and> mr_request_ledger_id r = lr_ledger_id request \<and>
         mr_lease_owner r = lr_lease_owner request \<and> \<not> mr_terminal r
      then renew_record now inst lease_ttl r else r)"

definition renew_request :: "int \<Rightarrow> nat \<Rightarrow> nat \<Rightarrow> LedgerRequest \<Rightarrow> MemoryLedger \<Rightarrow> MemoryLedger" where
  "renew_request now inst lease_ttl request l =
     (case scoped_request request l of
        Some r \<Rightarrow>
          (if mr_terminal (rq_record r) then l
           else l\<lparr>requests := AList.update (lr_ledger_id request)
                  (r\<lparr>rq_record := renew_record now inst lease_ttl (rq_record r)\<rparr>) (requests l)\<rparr>)
      | None \<Rightarrow> l)"

definition renew_lease :: "nat \<Rightarrow> int \<Rightarrow> nat \<Rightarrow> LedgerRequest \<Rightarrow> unit ledger_op" where
  "renew_lease lease_ttl now inst request l =
     (let l1 = renew_request now inst lease_ttl request l
      in (Inr (), l1\<lparr>attempts :=
            map (\<lambda>(k, r). (k, renew_attempt now inst lease_ttl request r)) (attempts l1)\<rparr>))"

definition lease_expired :: "nat \<Rightarrow> MemoryRecord \<Rightarrow> bool" where
  "lease_expired inst r \<longleftrightarrow> \<not> mr_terminal r \<and> mr_lease_expires_at r \<le> inst"

text \<open>The loop over the expired attempts; it stops at the first error.\<close>

fun reconcile_attempts :: "int \<Rightarrow> (string \<times> string) list \<Rightarrow> nat \<Rightarrow> nat ledger_op" where
  "reconcile_attempts now [] count l = (Inr count, l)"
| "reconcile_attempts now ((attempt_id, event_uuid) # ids) count l =
     (let l1 = (case map_of (attempts l) attempt_id of
                  Some r \<Rightarrow> l\<lparr>attempts := AList.update attempt_id (mark_unreconciled now True r) (attempts l)\<rparr>
                | None \<Rightarrow> l)
      in case release_memory_budget now event_uuid attempt_id l1 of
           (Inl e, l2) \<Rightarrow> (Inl e, l2)
         | (Inr _, l2) \<Rightarrow> reconcile_attempts now ids (count + 1) l2)"

definition reconcile_request :: "int \<Rightarrow> nat \<Rightarrow> MemoryRequestRecord \<Rightarrow> MemoryRequestRecord" where
  "reconcile_request now inst r =
     (if lease_expired inst (rq_record r)
      then r\<lparr>rq_record := (mark_unreconciled now False (rq_record r))
         \<lparr>mr_tool_outcome := (if rq_tool_use_requested r then ''upstream_or_delivery_error''
                              else ''not_requested'')\<rparr>\<rparr>
      else r)"

text \<open>The identifiers of the events written for the released reservations are given as a function.\<close>

definition reconcile_expired :: "(string \<Rightarrow> string) \<Rightarrow> int \<Rightarrow> nat \<Rightarrow> ReconcileResult ledger_op" where
  "reconcile_expired event_uuid now inst l =
     (let ids = map fst (filter (\<lambda>(_, r). lease_expired inst r) (attempts l))
      in case reconcile_attempts now (map (\<lambda>k. (k, event_uuid k)) ids) 0 l of
           (Inl e, l1) \<Rightarrow> (Inl e, l1)
         | (Inr n, l1) \<Rightarrow>
             (Inr \<lparr>rr_requests =
                    length (filter (\<lambda>(_, r). lease_expired inst (rq_record r)) (requests l1)),
                   rr_attempts = n\<rparr>,
              l1\<lparr>requests := map (\<lambda>(k, r). (k, reconcile_request now inst r)) (requests l1)\<rparr>))"

section \<open>Budgets and audit events\<close>

definition budget_view :: "int \<Rightarrow> EnterpriseBudgetScopeQuery \<Rightarrow> EnterpriseBudgetView ledger_op" where
  "budget_view now scope l =
     (case scope_query_tenant scope of
        Inl e \<Rightarrow> (Inl e, l)
      | Inr tenant \<Rightarrow>
          let a = account_entry now tenant l
          in (Inr \<lparr>bv_account = memory_budget_account tenant a,
                   bv_recent_events =
                     take 50 (filter (\<lambda>e. event_matches_tenant e tenant) (rev (budget_events l)))\<rparr>,
              put_account tenant a l))"

definition update_budget :: "int \<Rightarrow> EnterpriseBudgetUpdate \<Rightarrow> EnterpriseBudgetView ledger_op" where
  "update_budget now input l =
     (case update_tenant input of
        Inl e \<Rightarrow> (Inl e, l)
      | Inr tenant \<Rightarrow>
          (case validated_limit input of
             Inl e \<Rightarrow> (Inl e, l)
           | Inr limit \<Rightarrow>
               let a = account_entry now tenant l
               in budget_view now (scope_query_from tenant)
                    (put_account tenant
                       (a\<lparr>limit_microunits := limit, account_version := i64_add (account_version a) 1,
                          account_updated_at_ms := now\<rparr>) l)))"

definition adjust_budget ::
    "int \<Rightarrow> string \<Rightarrow> EnterpriseBudgetAdjustmentInput \<Rightarrow> string \<Rightarrow> EnterpriseBudgetView ledger_op" where
  "adjust_budget now event_uuid input actor l =
     (case adjustment_tenant input of
        Inl e \<Rightarrow> (Inl e, l)
      | Inr tenant \<Rightarrow>
          (case validate_adjustment input of
             Inl e \<Rightarrow> (Inl e, l)
           | Inr _ \<Rightarrow>
               let a = account_entry now tenant l
               in case i64_checked_add (settled_microunits a) (ba_delta_microunits input) of
                    Some settled \<Rightarrow>
                      (if 0 \<le> settled
                       then budget_view now (scope_query_from tenant)
                         ((put_account tenant
                             (a\<lparr>settled_microunits := settled,
                                account_version := i64_add (account_version a) 1,
                                account_updated_at_ms := now\<rparr>) l)
                          \<lparr>budget_events := budget_events l @ [adjustment_event event_uuid now tenant input actor]\<rparr>)
                       else (Inl (InvalidRequest ''budget adjustment cannot make settled spend negative''),
                             put_account tenant a l))
                  | None \<Rightarrow>
                      (Inl (InvalidRequest ''budget adjustment cannot make settled spend negative''),
                       put_account tenant a l)))"

definition record_audit_event :: "int \<Rightarrow> string \<Rightarrow> AuditEventInput \<Rightarrow> unit ledger_op" where
  "record_audit_event now uuid input l =
     (case validate_audit_event input of
        Inl e \<Rightarrow> (Inl e, l)
      | Inr _ \<Rightarrow>
          (Inr (), l\<lparr>audit_events := audit_events l @
             [\<lparr>ae_id = ''aev_'' @ uuid, ae_timestamp = show_int now,
               ae_activity_type = in_activity_type input, ae_actor_id = in_actor_id input,
               ae_actor = in_actor_name input, ae_target = in_target input,
               ae_message = in_message input, ae_severity = in_severity input\<rparr>]\<rparr>))"

section \<open>The budget the ledger stands for\<close>

definition event_tenant :: "EnterpriseBudgetEvent \<Rightarrow> TenantKey" where
  "event_tenant e = \<lparr>organization_id = be_organization_id e, project_id = be_project_id e,
     environment_id = be_environment_id e\<rparr>"

definition open_reservation :: "MemoryBudgetReservation option \<Rightarrow> (TenantKey \<times> int) option" where
  "open_reservation r = (case r of
     Some r \<Rightarrow> if rs_state r = ''reserved'' then Some (rs_tenant r, rs_reserved_microunits r) else None
   | None \<Rightarrow> None)"

definition event_deltas :: "EnterpriseBudgetEvent \<Rightarrow> TenantKey \<times> int \<times> int" where
  "event_deltas e = (event_tenant e, be_reserved_delta_microunits e, be_settled_delta_microunits e)"

definition account_of :: "MemoryLedger \<Rightarrow> TenantKey \<Rightarrow> MemoryBudgetAccount" where
  "account_of l t = account_entry 0 t l"

definition memory_abs :: "MemoryLedger \<Rightarrow> budget_spec" where
  "memory_abs l =
     \<lparr>bs_limit = (\<lambda>t. limit_microunits (account_of l t)),
      bs_settled = (\<lambda>t. settled_microunits (account_of l t)),
      bs_open = (\<lambda>k. open_reservation (map_of (budget_reservations l) k)),
      bs_log = map event_deltas (budget_events l)\<rparr>"

text \<open>Every reservation belongs to a Provider Attempt of the same tenant with an account, and is open
  exactly as long as that attempt is not terminal.\<close>

definition reservation_ok ::
    "(string \<rightharpoonup> MemoryRecord) \<Rightarrow> (TenantKey \<rightharpoonup> MemoryBudgetAccount) \<Rightarrow> string \<Rightarrow> MemoryBudgetReservation \<Rightarrow> bool" where
  "reservation_ok att acc k r \<longleftrightarrow>
     0 \<le> rs_reserved_microunits r \<and> acc (rs_tenant r) \<noteq> None \<and>
     (\<exists>a. att k = Some a \<and> mr_tenant a = rs_tenant r \<and>
          (rs_state r = ''reserved'' \<longleftrightarrow> \<not> mr_terminal a))"

definition idempotent_requests :: "(string, MemoryRequestRecord) hmap \<Rightarrow> bool" where
  "idempotent_requests m \<longleftrightarrow>
     (\<forall>k k' r r' h. map_of m k = Some r \<longrightarrow> map_of m k' = Some r' \<longrightarrow>
        mr_tenant (rq_record r) = mr_tenant (rq_record r') \<longrightarrow>
        rq_idempotency_key_hash r = Some h \<longrightarrow> rq_idempotency_key_hash r' = Some h \<longrightarrow> k = k')"

definition ledger_inv :: "MemoryLedger \<Rightarrow> bool" where
  "ledger_inv l \<longleftrightarrow>
     hm_distinct (requests l) \<and> hm_distinct (attempts l) \<and> hm_distinct (budget_accounts l) \<and>
     hm_distinct (budget_reservations l) \<and> idempotent_requests (requests l) \<and>
     (\<forall>k r. map_of (budget_reservations l) k = Some r \<longrightarrow>
        reservation_ok (map_of (attempts l)) (map_of (budget_accounts l)) k r) \<and>
     (\<forall>k. map_of (attempts l) k \<noteq> None \<longleftrightarrow> map_of (budget_reservations l) k \<noteq> None) \<and>
     (\<forall>t. bs_reserved (memory_abs l) t = reserved_microunits (account_of l t) \<and>
          reserved_microunits (account_of l t) \<le> i64_max \<and>
          0 \<le> settled_microunits (account_of l t) \<and> settled_microunits (account_of l t) \<le> i64_max)"

lemma event_tenant_simps [simp]:
  "event_tenant (budget_event u now a ty r d src bm rea act est) = la_tenant a"
  "event_tenant (adjustment_event u now t i actor) = t"
  "event_deltas (budget_event u now a ty r d src bm rea act est) = (la_tenant a, r, d)"
  "event_deltas (adjustment_event u now t i actor) = (t, 0, ba_delta_microunits i)"
  by (simp_all add: event_tenant_def event_deltas_def budget_event_def adjustment_event_def)

lemma account_of_put [simp]:
  "account_of (put_account t a l) = (account_of l)(t := a)"
  by (simp add: account_of_def account_entry_def put_account_def update_conv' fun_eq_iff)

lemma account_of_cong [simp]:
  "account_of (l\<lparr>requests := a\<rparr>) = account_of l" "account_of (l\<lparr>attempts := b\<rparr>) = account_of l"
  "account_of (l\<lparr>budget_reservations := c\<rparr>) = account_of l"
  "account_of (l\<lparr>budget_events := d\<rparr>) = account_of l" "account_of (l\<lparr>audit_events := e\<rparr>) = account_of l"
  by (simp_all add: account_of_def account_entry_def fun_eq_iff)

lemma account_entry_fields [simp]:
  "limit_microunits (account_entry now t l) = limit_microunits (account_of l t)"
  "reserved_microunits (account_entry now t l) = reserved_microunits (account_of l t)"
  "settled_microunits (account_entry now t l) = settled_microunits (account_of l t)"
  by (simp_all add: account_of_def account_entry_def split: option.splits)

lemma account_of_Some: "map_of (budget_accounts l) t = Some a \<Longrightarrow> account_of l t = a"
  by (simp add: account_of_def account_entry_def)

lemma put_account_fields [simp]:
  "requests (put_account t a l) = requests l" "attempts (put_account t a l) = attempts l"
  "budget_reservations (put_account t a l) = budget_reservations l"
  "budget_events (put_account t a l) = budget_events l"
  "budget_accounts (put_account t a l) = AList.update t a (budget_accounts l)"
  by (simp_all add: put_account_def)

lemma open_reservation_simps [simp]:
  "open_reservation None = None"
  "open_reservation (Some r) =
     (if rs_state r = ''reserved'' then Some (rs_tenant r, rs_reserved_microunits r) else None)"
  by (simp_all add: open_reservation_def)

lemma memory_abs_simps [simp]:
  "bs_limit (memory_abs l) t = limit_microunits (account_of l t)"
  "bs_settled (memory_abs l) t = settled_microunits (account_of l t)"
  "bs_open (memory_abs l) k = open_reservation (map_of (budget_reservations l) k)"
  "bs_log (memory_abs l) = map event_deltas (budget_events l)"
  by (simp_all add: memory_abs_def)

lemma finite_open [simp]: "finite (dom (bs_open (memory_abs l)))"
proof (rule finite_subset)
  show "dom (bs_open (memory_abs l)) \<subseteq> dom (map_of (budget_reservations l))"
    by (auto simp: open_reservation_def split: option.splits)
qed (simp add: finite_dom_map_of)

lemma ledger_inv_empty: "ledger_inv ledger_empty"
  by (simp add: ledger_inv_def ledger_empty_def idempotent_requests_def bs_reserved_def open_total_def
      account_of_def account_entry_def account_default_def memory_abs_def i64_max_def)

lemma memory_abs_empty: "memory_abs ledger_empty = budget_init"
  by (simp add: memory_abs_def ledger_empty_def budget_init_def account_of_def account_entry_def
      account_default_def fun_eq_iff)

section \<open>Each operation is a step of the specification\<close>

text \<open>What the invariant reads of a Provider Attempt.\<close>

definition attempt_core :: "MemoryRecord \<Rightarrow> TenantKey \<times> bool" where
  "attempt_core r = (mr_tenant r, mr_terminal r)"

lemma ledger_inv_cong:
  assumes inv: "ledger_inv l"
    and res: "budget_reservations l' = budget_reservations l"
    and acc: "\<And>t. limit_microunits (account_of l' t) = limit_microunits (account_of l t)"
      "\<And>t. reserved_microunits (account_of l' t) = reserved_microunits (account_of l t)"
      "\<And>t. settled_microunits (account_of l' t) = settled_microunits (account_of l t)"
      "\<And>t. map_of (budget_accounts l) t \<noteq> None \<Longrightarrow> map_of (budget_accounts l') t \<noteq> None"
    and att: "\<And>k. map_option attempt_core (map_of (attempts l') k) = map_option attempt_core (map_of (attempts l) k)"
    and ev: "budget_events l' = budget_events l"
    and dist: "hm_distinct (requests l')" "hm_distinct (attempts l')" "hm_distinct (budget_accounts l')"
    and idem: "idempotent_requests (requests l')"
  shows "ledger_inv l'" and "memory_abs l' = memory_abs l"
proof -
  show abs: "memory_abs l' = memory_abs l"
    by (simp add: memory_abs_def res acc ev)
  have att_None: "map_of (attempts l') k = None \<longleftrightarrow> map_of (attempts l) k = None" for k
    using att [of k] by (metis map_option_is_None)
  have ok: "reservation_ok (map_of (attempts l')) (map_of (budget_accounts l')) k r"
    if "reservation_ok (map_of (attempts l)) (map_of (budget_accounts l)) k r" for k r
  proof -
    from that obtain a where a: "map_of (attempts l) k = Some a" "mr_tenant a = rs_tenant r"
      "rs_state r = ''reserved'' \<longleftrightarrow> \<not> mr_terminal a" and "map_of (budget_accounts l) (rs_tenant r) \<noteq> None"
      "0 \<le> rs_reserved_microunits r"
      by (auto simp: reservation_ok_def)
    moreover from att [of k] a obtain a' where "map_of (attempts l') k = Some a'"
      "attempt_core a' = attempt_core a" by auto
    ultimately show ?thesis
      using acc(4) [of "rs_tenant r"] by (auto simp: reservation_ok_def attempt_core_def)
  qed
  from inv show "ledger_inv l'"
    unfolding ledger_inv_def abs res acc att_None by (simp add: dist idem ok)
qed

lemma reserve_step:
  assumes inv: "ledger_inv l"
    and fresh: "map_of (budget_reservations l) k = None"
    and amount: "0 \<le> c" "reserved_microunits (account_of l t) + c \<le> i64_max"
    and guard: "within_limit (limit_microunits (account_of l t))
      (settled_microunits (account_of l t) + reserved_microunits (account_of l t) + c)"
    and account: "limit_microunits b = limit_microunits (account_of l t)"
      "settled_microunits b = settled_microunits (account_of l t)"
      "reserved_microunits b = reserved_microunits (account_of l t) + c"
    and attempt: "attempt_core a = (t, False)"
    and reservation: "rs_state r = ''reserved''" "rs_tenant r = t" "rs_reserved_microunits r = c"
    and event: "event_deltas e = (t, c, 0)"
    and l': "l' = (put_account t b l)\<lparr>attempts := AList.update k a (attempts l),
      budget_reservations := AList.update k r (budget_reservations l),
      budget_events := budget_events l @ [e]\<rparr>"
  shows "ledger_inv l'" and "budget_step (memory_abs l) (memory_abs l')"
proof -
  have abs: "memory_abs l' = memory_abs l\<lparr>bs_open := (bs_open (memory_abs l))(k \<mapsto> (t, c)),
      bs_log := bs_log (memory_abs l) @ [(t, c, 0)]\<rparr>"
    using account reservation event
    by (auto simp: l' memory_abs_def update_conv' fun_eq_iff)
  have res: "bs_reserved (memory_abs l') t' = bs_reserved (memory_abs l) t' + (if t' = t then c else 0)" for t'
    unfolding abs using fresh by (simp add: budget_simps)
  from inv have "reservation_ok (map_of (attempts l')) (map_of (budget_accounts l')) k' r'"
    if "map_of (budget_reservations l') k' = Some r'" for k' r'
    using that amount attempt reservation
    by (fastforce simp: l' update_conv' ledger_inv_def reservation_ok_def attempt_core_def split: if_splits)
  with inv amount account show "ledger_inv l'"
    unfolding ledger_inv_def res
    by (simp add: l' update_conv')
  show "budget_step (memory_abs l) (memory_abs l')"
    unfolding abs using fresh amount guard inv
    by (intro reserve) (simp_all add: ledger_inv_def)
qed

lemma ledger_reservationD:
  assumes "ledger_inv l" "map_of (budget_reservations l) k = Some r"
  obtains a b where "map_of (attempts l) k = Some a" "mr_tenant a = rs_tenant r"
    "rs_state r = ''reserved'' \<longleftrightarrow> \<not> mr_terminal a"
    "map_of (budget_accounts l) (rs_tenant r) = Some b" "0 \<le> rs_reserved_microunits r"
proof -
  from assms have "reservation_ok (map_of (attempts l)) (map_of (budget_accounts l)) k r"
    by (simp add: ledger_inv_def)
  with that show thesis by (auto simp: reservation_ok_def)
qed

text \<open>An open reservation is part of the reserved balance, so subtracting it cannot underflow.\<close>

lemma open_reservation_le:
  assumes inv: "ledger_inv l" and r: "map_of (budget_reservations l) k = Some r" "rs_state r = ''reserved''"
  shows "rs_reserved_microunits r \<le> reserved_microunits (account_of l (rs_tenant r))"
proof -
  let ?m = "bs_open (memory_abs l)" and ?t = "rs_tenant r"
  have nonneg: "0 \<le> open_amount ?t (?m k')" for k'
    using ledger_reservationD [OF inv] by (auto simp: open_amount_def open_reservation_def split: option.splits)
  have "open_amount ?t (?m k) \<le> open_total ?m ?t"
    unfolding open_total_def using r nonneg
    by (intro member_le_sum finite_open) (simp_all add: domIff)
  with r inv show ?thesis
    by (simp add: budget_simps ledger_inv_def bs_reserved_def)
qed

text \<open>Closing an open reservation, with \<open>d\<close> the amount settled; a release settles nothing.\<close>

lemma close_step:
  assumes inv: "ledger_inv l"
    and r: "map_of (budget_reservations l) k = Some r" "rs_state r = ''reserved''"
    and amount: "0 \<le> d" "settled_microunits (account_of l (rs_tenant r)) + d \<le> i64_max"
    and account: "limit_microunits b = limit_microunits (account_of l (rs_tenant r))"
      "settled_microunits b = settled_microunits (account_of l (rs_tenant r)) + d"
      "reserved_microunits b = reserved_microunits (account_of l (rs_tenant r)) - rs_reserved_microunits r"
    and attempt: "attempt_core a = (rs_tenant r, True)"
    and reservation: "rs_state r' \<noteq> ''reserved''" "rs_tenant r' = rs_tenant r"
      "rs_reserved_microunits r' = rs_reserved_microunits r"
    and event: "event_deltas e = (rs_tenant r, - rs_reserved_microunits r, d)"
    and l': "l' = (put_account (rs_tenant r) b l)\<lparr>attempts := AList.update k a (attempts l),
      budget_reservations := AList.update k r' (budget_reservations l),
      budget_events := budget_events l @ [e]\<rparr>"
  shows "ledger_inv l'" and "budget_step (memory_abs l) (memory_abs l')"
proof -
  let ?t = "rs_tenant r" and ?c = "rs_reserved_microunits r"
  have abs: "memory_abs l' = memory_abs l\<lparr>bs_open := (bs_open (memory_abs l))(k := None),
      bs_settled := (bs_settled (memory_abs l))(?t := bs_settled (memory_abs l) ?t + d),
      bs_log := bs_log (memory_abs l) @ [(?t, - ?c, d)]\<rparr>"
    using account reservation event
    by (auto simp: l' memory_abs_def update_conv' fun_eq_iff)
  have res: "bs_reserved (memory_abs l') t' = bs_reserved (memory_abs l) t' - (if t' = ?t then ?c else 0)" for t'
    unfolding abs using r by (simp add: budget_simps)
  have c: "0 \<le> ?c" using ledger_reservationD [OF inv r(1)] by blast
  from inv have "reservation_ok (map_of (attempts l')) (map_of (budget_accounts l')) k' r''"
    if "map_of (budget_reservations l') k' = Some r''" for k' r''
    using that amount attempt reservation c
    by (fastforce simp: l' update_conv' ledger_inv_def reservation_ok_def attempt_core_def split: if_splits)
  moreover from inv have "reserved_microunits (account_of l ?t) \<le> i64_max" by (simp add: ledger_inv_def)
  with c have "reserved_microunits (account_of l ?t) - ?c \<le> i64_max" by linarith
  ultimately show "ledger_inv l'"
    using inv amount account r unfolding ledger_inv_def res
    by (simp add: l' update_conv')
  show "budget_step (memory_abs l) (memory_abs l')"
    unfolding abs using r amount by (intro settle) simp_all
qed

subsection \<open>Operations on requests\<close>

lemma attempt_core_simps [simp]:
  "attempt_core (record_started now inst t k owner ttl p) = (t, False)"
  "attempt_core (record_finalize now outcome r) = (mr_tenant r, True)"
  "attempt_core (mark_unreconciled now b r) = (mr_tenant r, True)"
  "attempt_core (renew_record now inst ttl r) = attempt_core r"
  "attempt_core (r\<lparr>mr_tool_outcome := x\<rparr>) = attempt_core r"
  by (simp_all add: attempt_core_def record_started_def record_finalize_def mark_unreconciled_def
      renew_record_def Let_def split: option.splits)

lemma attempt_core_eqs [simp]:
  "mr_tenant (record_started now inst t k owner ttl p) = t"
  "mr_tenant (record_finalize now outcome r) = mr_tenant r"
  "mr_tenant (mark_unreconciled now b r) = mr_tenant r"
  "mr_tenant (renew_record now inst ttl r) = mr_tenant r"
  "mr_terminal (record_started now inst t k owner ttl p) = False"
  "mr_terminal (record_finalize now outcome r) = True"
  "mr_terminal (mark_unreconciled now b r) = True"
  "mr_terminal (renew_record now inst ttl r) = mr_terminal r"
  using attempt_core_simps unfolding attempt_core_def by simp_all

lemma scoped_request_Some:
  "scoped_request q l = Some r \<longleftrightarrow> map_of (requests l) (lr_ledger_id q) = Some r \<and>
     mr_tenant (rq_record r) = lr_tenant q \<and> mr_lease_owner (rq_record r) = lr_lease_owner q"
  by (auto simp: scoped_request_def split: option.splits)

lemma scoped_attempt_Some:
  "scoped_attempt q l = Some r \<longleftrightarrow> map_of (attempts l) (la_attempt_id q) = Some r \<and>
     mr_tenant r = la_tenant q \<and> mr_lease_owner r = la_lease_owner q"
  by (auto simp: scoped_attempt_def split: option.splits)

lemma ledger_inv_requests:
  assumes "ledger_inv l" "hm_distinct m" "idempotent_requests m"
  shows "ledger_inv (l\<lparr>requests := m\<rparr>)" "memory_abs (l\<lparr>requests := m\<rparr>) = memory_abs l"
  using ledger_inv_cong [OF assms(1), of "l\<lparr>requests := m\<rparr>"] assms by (auto simp: ledger_inv_def)

lemma idempotent_update_same:
  assumes "idempotent_requests m" "map_of m k = Some r" "mr_tenant (rq_record r') = mr_tenant (rq_record r)"
    "rq_idempotency_key_hash r' = rq_idempotency_key_hash r"
  shows "idempotent_requests (AList.update k r' m)"
  using assms unfolding idempotent_requests_def by (simp add: update_conv') metis

lemma find_NoneD: "List.find P xs = None \<Longrightarrow> x \<in> set xs \<Longrightarrow> \<not> P x"
  by (auto simp: find_None_iff)

lemma idempotent_update_new:
  assumes "idempotent_requests m"
    and "\<And>h k r. rq_idempotency_key_hash r' = Some h \<Longrightarrow> map_of m k = Some r \<Longrightarrow>
      \<not> (mr_tenant (rq_record r) = mr_tenant (rq_record r') \<and> rq_idempotency_key_hash r = Some h)"
  shows "idempotent_requests (AList.update k r' m)"
  using assms unfolding idempotent_requests_def by (simp add: update_conv') metis

lemma idempotent_existing_None:
  assumes "idempotent_existing t kh l = None" "kh = Some h" "map_of (requests l) k = Some r"
  shows "\<not> (mr_tenant (rq_record r) = t \<and> rq_idempotency_key_hash r = Some h)"
proof -
  from assms(3) have "r \<in> set (map_values (requests l))" by (force dest: map_of_SomeD)
  with assms(1, 2) show ?thesis by (auto simp: idempotent_existing_def find_None_iff)
qed

lemma begin_request_inv:
  assumes "begin_request_with_metadata hash inst_id ttl now inst uuid ctx model stream ikey fp md l = (r, l')"
    and inv: "ledger_inv l"
  shows "ledger_inv l' \<and> memory_abs l' = memory_abs l"
proof (cases r)
  case (Inl e)
  with assms show ?thesis
    by (auto simp: begin_request_with_metadata_def Let_def split: sum.splits option.splits)
next
  case (Inr q)
  with assms(1) have q: "lr_tenant q = tenant_key_from (ctx_tenant ctx)"
    and none: "idempotent_existing (lr_tenant q) (map_option hash ikey) l = None"
    and l': "l' = l\<lparr>requests := AList.update (lr_ledger_id q)
      (started_request ttl now inst q ctx model stream (map_option hash ikey) fp md) (requests l)\<rparr>"
    by (auto simp: begin_request_with_metadata_def Let_def split: sum.splits option.splits)
  have "idempotent_requests (requests l')"
    unfolding l' using inv idempotent_existing_None [OF none]
    by (auto simp: started_request_def ledger_inv_def intro!: idempotent_update_new)
  with inv l' show ?thesis by (simp add: ledger_inv_requests ledger_inv_def)
qed

lemma finalized_request_simps [simp]:
  "mr_tenant (rq_record (finalized_request now u r)) = mr_tenant (rq_record r)"
  "rq_idempotency_key_hash (finalized_request now u r) = rq_idempotency_key_hash r"
  by (simp_all add: finalized_request_def Let_def split: option.splits)

lemma ledger_inv_update_request:
  assumes "ledger_inv l" "map_of (requests l) k = Some r"
    "mr_tenant (rq_record r') = mr_tenant (rq_record r)"
    "rq_idempotency_key_hash r' = rq_idempotency_key_hash r"
  shows "ledger_inv (l\<lparr>requests := AList.update k r' (requests l)\<rparr>)"
    "memory_abs (l\<lparr>requests := AList.update k r' (requests l)\<rparr>) = memory_abs l"
  using ledger_inv_requests [OF assms(1)] idempotent_update_same [OF _ assms(2-4)] assms(1)
  by (auto simp: ledger_inv_def)

lemma finalize_request_usage_inv:
  "finalize_request_usage now q u l = (r, l') \<Longrightarrow> ledger_inv l \<Longrightarrow> ledger_inv l' \<and> memory_abs l' = memory_abs l"
  by (auto simp: finalize_request_usage_def scoped_request_Some ledger_inv_update_request
      split: option.splits)

text \<open>Rewriting the records of a map in place.\<close>

lemma map_of_map_snd: "map_of (map (\<lambda>(k, r). (k, f r)) m) k = map_option f (map_of m k)"
  by (simp add: map_of_map)

lemma hm_distinct_map_snd [simp]: "hm_distinct (map (\<lambda>(k, r). (k, f r)) m) = hm_distinct m"
  by (simp add: hm_distinct_def comp_def case_prod_unfold)

lemma idempotent_map:
  assumes "idempotent_requests m" "\<And>r. mr_tenant (rq_record (f r)) = mr_tenant (rq_record r)"
    "\<And>r. rq_idempotency_key_hash (f r) = rq_idempotency_key_hash r"
  shows "idempotent_requests (map (\<lambda>(k, r). (k, f r)) m)"
  using assms unfolding idempotent_requests_def map_of_map_snd by auto

lemma ledger_inv_attempts:
  assumes "ledger_inv l" "\<And>r. attempt_core (f r) = attempt_core r"
  shows "ledger_inv (l\<lparr>attempts := map (\<lambda>(k, r). (k, f r)) (attempts l)\<rparr>)"
    "memory_abs (l\<lparr>attempts := map (\<lambda>(k, r). (k, f r)) (attempts l)\<rparr>) = memory_abs l"
  using ledger_inv_cong [OF assms(1), of "l\<lparr>attempts := map (\<lambda>(k, r). (k, f r)) (attempts l)\<rparr>"] assms
  by (auto simp: ledger_inv_def map_of_map_snd option.map_comp comp_def)

lemma renew_lease_inv:
  assumes "renew_lease ttl now inst q l = (r, l')" and inv: "ledger_inv l"
  shows "ledger_inv l' \<and> memory_abs l' = memory_abs l"
proof -
  let ?l1 = "renew_request now inst ttl q l"
  have "ledger_inv ?l1 \<and> memory_abs ?l1 = memory_abs l"
    using inv by (auto simp: renew_request_def scoped_request_Some ledger_inv_update_request split: option.splits)
  with assms(1) show ?thesis
    using ledger_inv_attempts [of ?l1 "renew_attempt now inst ttl q"]
    by (auto simp: renew_lease_def Let_def renew_attempt_def)
qed

subsection \<open>Operations on the budget\<close>

lemma account_created_inv:
  assumes "ledger_inv l"
  shows "ledger_inv (put_account t (account_entry now t l) l)"
    "memory_abs (put_account t (account_entry now t l) l) = memory_abs l"
  using ledger_inv_cong [OF assms, of "put_account t (account_entry now t l) l"] assms
  by (auto simp: ledger_inv_def update_conv')

lemma saturating_guard:
  assumes "0 \<le> a" "0 \<le> b" "0 \<le> c"
  shows "(case limit of Some l \<Rightarrow> l < i64_add (i64_add a b) c | None \<Rightarrow> False)
    \<longleftrightarrow> \<not> within_limit limit (a + b + c)"
  using assms by (auto simp: within_limit_def i64_add_def i64_clamp_def i64_min_def i64_max_def split: option.splits)

lemma ledger_balances:
  assumes "ledger_inv l"
  shows "0 \<le> reserved_microunits (account_of l t)" "reserved_microunits (account_of l t) \<le> i64_max"
    "0 \<le> settled_microunits (account_of l t)" "settled_microunits (account_of l t) \<le> i64_max"
proof -
  have "0 \<le> bs_reserved (memory_abs l) t"
    unfolding bs_reserved_def open_total_def
    by (rule sum_nonneg)
      (use ledger_reservationD [OF assms] in \<open>auto simp: open_amount_def open_reservation_def split: option.splits\<close>)
  with assms show "0 \<le> reserved_microunits (account_of l t)" "reserved_microunits (account_of l t) \<le> i64_max"
    "0 \<le> settled_microunits (account_of l t)" "settled_microunits (account_of l t) \<le> i64_max"
    by (simp_all add: ledger_inv_def)
qed

lemma begin_attempt_inv:
  assumes "begin_attempt ttl now inst ru eu q k p m pr est l = (r, l')"
    and inv: "ledger_inv l"
    and headroom: "reserved_microunits (account_of l (lr_tenant q)) + cost_microunits (est_cost_estimate est) \<le> i64_max"
  shows "ledger_inv l' \<and>
    (if is_ok r then budget_step (memory_abs l) (memory_abs l') else memory_abs l' = memory_abs l)"
proof (cases r)
  case (Inl e)
  with assms show ?thesis
    by (auto simp: begin_attempt_def Let_def account_created_inv split: if_splits)
next
  case (Inr x)
  let ?t = "lr_tenant q" and ?c = "cost_microunits (est_cost_estimate est)"
  let ?a = "account_of l ?t"
  have fresh: "map_of (budget_reservations l) k = None"
    and guard: "within_limit (limit_microunits ?a) (settled_microunits ?a + reserved_microunits ?a + ?c)"
    using assms(1) Inr ledger_balances [OF inv] cost_microunits_nonneg
    by (auto simp: begin_attempt_def Let_def saturating_guard split: if_splits)
  have add: "i64_add (reserved_microunits ?a) ?c = reserved_microunits ?a + ?c"
    using headroom ledger_balances(1) [OF inv, of ?t] cost_microunits_nonneg [of "est_cost_estimate est"]
    by (simp add: i64_add_def i64_clamp_def i64_min_def)
  note step = reserve_step [OF inv fresh cost_microunits_nonneg headroom guard]
  from Inr assms(1) have l': "l' = (put_account ?t
       ((account_entry now ?t l)\<lparr>reserved_microunits := reserved_microunits ?a + ?c,
         account_version := i64_add (account_version (account_entry now ?t l)) 1,
         account_updated_at_ms := now\<rparr>) l)
     \<lparr>attempts := AList.update k (record_started now inst ?t (lr_ledger_id q) (lr_lease_owner q) ttl (Some (p, m, pr))) (attempts l),
      budget_reservations := AList.update k
        \<lparr>rs_reservation_id = ''brs_'' @ ru, rs_tenant = ?t, rs_request_ledger_id = lr_ledger_id q,
         rs_attempt_id = k, rs_reserved_microunits = ?c, rs_settled_microunits = 0,
         rs_state = ''reserved'', rs_updated_at_ms = now, rs_terminal_at_ms = None\<rparr> (budget_reservations l),
      budget_events := budget_events l @ [budget_event eu now x ''reservation_created'' ?c 0
         ''local-estimate'' None (Some ''Provider Attempt budget reservation'') None est]\<rparr>"
    and x: "la_tenant x = ?t"
    by (auto simp: begin_attempt_def Let_def add split: if_splits)
  show ?thesis
    using step [OF _ _ _ _ _ _ _ _ l'] Inr x by simp
qed

text \<open>The reservation of an attempt that is still running.\<close>

lemma running_attempt:
  assumes inv: "ledger_inv l" and a: "map_of (attempts l) k = Some a" "\<not> mr_terminal a"
  obtains r b where "map_of (budget_reservations l) k = Some r" "rs_state r = ''reserved''"
    "rs_tenant r = mr_tenant a" "map_of (budget_accounts l) (mr_tenant a) = Some b"
    "account_of l (mr_tenant a) = b" "rs_reserved_microunits r \<le> reserved_microunits b"
    "0 \<le> rs_reserved_microunits r"
proof -
  from inv have "map_of (attempts l) k \<noteq> None \<longleftrightarrow> map_of (budget_reservations l) k \<noteq> None"
    unfolding ledger_inv_def by blast
  with a obtain r where r: "map_of (budget_reservations l) k = Some r" by auto
  obtain a' b where b: "map_of (attempts l) k = Some a'" "mr_tenant a' = rs_tenant r"
    "rs_state r = ''reserved'' \<longleftrightarrow> \<not> mr_terminal a'"
    "map_of (budget_accounts l) (rs_tenant r) = Some b" "0 \<le> rs_reserved_microunits r"
    by (rule ledger_reservationD [OF inv r])
  with a have "a' = a" "rs_state r = ''reserved''" by auto
  with b open_reservation_le [OF inv r] account_of_Some [OF b(4)] show thesis
    by (intro that [OF r, of b]) simp_all
qed

lemma finalize_attempt_running:
  assumes fin: "finalize_attempt now eu x oc l = (res, l')" and inv: "ledger_inv l"
    and a: "scoped_attempt x l = Some a" "\<not> mr_terminal a"
    and headroom: "settled_microunits (account_of l (la_tenant x)) + cost_microunits (est_cost_estimate (lo_estimate oc)) \<le> i64_max"
  shows "res = Inr () \<and> ledger_inv l' \<and> budget_step (memory_abs l) (memory_abs l') \<and>
    map_of (attempts l') = (map_of (attempts l))(la_attempt_id x \<mapsto> record_finalize now oc a)"
proof -
  let ?k = "la_attempt_id x" and ?t = "la_tenant x" and ?d = "cost_microunits (est_cost_estimate (lo_estimate oc))"
  from a have k: "map_of (attempts l) ?k = Some a" and t: "mr_tenant a = ?t" by (auto simp: scoped_attempt_Some)
  obtain r b where r: "map_of (budget_reservations l) ?k = Some r"
    "rs_state r = ''reserved''" "rs_tenant r = ?t" "map_of (budget_accounts l) ?t = Some b"
    "account_of l ?t = b" "rs_reserved_microunits r \<le> reserved_microunits b" "0 \<le> rs_reserved_microunits r"
    by (rule running_attempt [OF inv k a(2), unfolded t])
  have rng: "i64_range (reserved_microunits b - rs_reserved_microunits r)" "i64_range (settled_microunits b + ?d)"
    using ledger_balances [OF inv, of ?t] headroom cost_microunits_nonneg [of "est_cost_estimate (lo_estimate oc)"]
      r(5, 6, 7) by (auto simp: i64_range_def i64_min_def)
  have l': "l' = (put_account (rs_tenant r)
      (b\<lparr>reserved_microunits := reserved_microunits b - rs_reserved_microunits r,
         settled_microunits := settled_microunits b + ?d,
         account_version := i64_add (account_version b) 1, account_updated_at_ms := now\<rparr>) l)
     \<lparr>attempts := AList.update ?k (record_finalize now oc a) (attempts l),
      budget_reservations := AList.update ?k
        (r\<lparr>rs_state := ''settled'', rs_settled_microunits := ?d,
            rs_updated_at_ms := now, rs_terminal_at_ms := Some now\<rparr>) (budget_reservations l),
      budget_events := budget_events l @
        [budget_event eu now x ''settled'' (- rs_reserved_microunits r) ?d (outcome_evidence_source oc)
           (Some (lo_billing_mode oc)) (Some (lo_terminal_reason oc)) None (lo_estimate oc)]\<rparr>"
    and ok: "res = Inr ()"
    using fin a r rng
    by (auto simp: finalize_attempt_def settle_memory_budget_def Let_def i64_checked_sub_def
        i64_checked_add_def put_account_def)
  show ?thesis
    using close_step [OF inv r(1, 2) cost_microunits_nonneg _ _ _ _ _ _ _ _ _ l'] headroom r t ok
    by (simp add: l' update_conv')
qed

lemma finalize_attempt_inv:
  assumes fin: "finalize_attempt now eu x oc l = (r, l')" and inv: "ledger_inv l"
    and headroom: "settled_microunits (account_of l (la_tenant x)) + cost_microunits (est_cost_estimate (lo_estimate oc)) \<le> i64_max"
  shows "ledger_inv l' \<and> budget_step\<^sup>*\<^sup>* (memory_abs l) (memory_abs l')"
proof (cases "\<exists>a. scoped_attempt x l = Some a \<and> \<not> mr_terminal a")
  case True
  with finalize_attempt_running [OF fin inv] headroom show ?thesis by blast
next
  case False
  with fin inv show ?thesis by (auto simp: finalize_attempt_def split: option.splits)
qed

lemma release_running:
  assumes inv: "ledger_inv l" and a: "map_of (attempts l) k = Some a" "\<not> mr_terminal a"
    and rel: "release_memory_budget now eu k
      (l\<lparr>attempts := AList.update k (mark_unreconciled now True a) (attempts l)\<rparr>) = (res, l')"
  shows "res = Inr () \<and> ledger_inv l' \<and> budget_step (memory_abs l) (memory_abs l') \<and>
    requests l' = requests l \<and>
    map_of (attempts l') = (map_of (attempts l))(k \<mapsto> mark_unreconciled now True a)"
proof -
  obtain r b where r: "map_of (budget_reservations l) k = Some r"
    "rs_state r = ''reserved''" "rs_tenant r = mr_tenant a" "map_of (budget_accounts l) (mr_tenant a) = Some b"
    "account_of l (mr_tenant a) = b" "rs_reserved_microunits r \<le> reserved_microunits b"
    "0 \<le> rs_reserved_microunits r" by (rule running_attempt [OF inv a])
  have rng: "i64_range (reserved_microunits b - rs_reserved_microunits r)"
    using ledger_balances [OF inv, of "mr_tenant a"] r by (auto simp: i64_range_def i64_min_def)
  let ?x = "\<lparr>la_attempt_id = rs_attempt_id r, la_request_ledger_id = rs_request_ledger_id r,
    la_reservation_id = rs_reservation_id r, la_tenant = rs_tenant r, la_lease_owner = []\<rparr>"
  have l': "l' = (put_account (rs_tenant r)
      (b\<lparr>reserved_microunits := reserved_microunits b - rs_reserved_microunits r,
         account_version := i64_add (account_version b) 1, account_updated_at_ms := now\<rparr>) l)
     \<lparr>attempts := AList.update k (mark_unreconciled now True a) (attempts l),
      budget_reservations := AList.update k
        (r\<lparr>rs_state := ''released'', rs_updated_at_ms := now, rs_terminal_at_ms := Some now\<rparr>) (budget_reservations l),
      budget_events := budget_events l @
        [budget_event eu now ?x ''released'' (- rs_reserved_microunits r) 0 ''lease-expired''
           (Some ''unreconciled'') (Some ''expired Provider Attempt lease released its budget reservation'')
           None estimate_default]\<rparr>"
    and ok: "res = Inr ()"
    using rel r rng by (auto simp: release_memory_budget_def Let_def i64_checked_sub_def put_account_def)
  show ?thesis
    using close_step [where d = 0, OF inv r(1, 2) order_refl _ _ _ _ _ _ _ _ _ l'] ledger_balances [OF inv, of "mr_tenant a"] r ok
    by (simp add: l' update_conv')
qed

text \<open>The loop over expired attempts: it cannot fail, and closes exactly the attempts it is given.\<close>

lemma reconcile_attempts_ok:
  assumes "reconcile_attempts now ids n l = (res, l')" "ledger_inv l" "distinct (map fst ids)"
    and "\<forall>k\<in>fst ` set ids. \<exists>a. map_of (attempts l) k = Some a \<and> \<not> mr_terminal a"
  shows "res = Inr (n + length ids) \<and> ledger_inv l' \<and> budget_step\<^sup>*\<^sup>* (memory_abs l) (memory_abs l') \<and>
    requests l' = requests l \<and>
    (\<forall>k. map_of (attempts l') k = (if k \<in> fst ` set ids
       then map_option (mark_unreconciled now True) (map_of (attempts l) k) else map_of (attempts l) k))"
  using assms
proof (induction ids arbitrary: n l)
  case Nil
  then show ?case by simp
next
  case (Cons x ids)
  obtain k eu where x: "x = (k, eu)" by (cases x)
  from Cons.prems(4) x obtain a where a: "map_of (attempts l) k = Some a" "\<not> mr_terminal a" by auto
  obtain r l2 where rel: "release_memory_budget now eu k
      (l\<lparr>attempts := AList.update k (mark_unreconciled now True a) (attempts l)\<rparr>) = (r, l2)"
    by (metis surj_pair)
  note one = release_running [OF Cons.prems(2) a rel]
  from one x a rel Cons.prems(1) have rest: "reconcile_attempts now ids (n + 1) l2 = (res, l')" by simp
  have open2: "\<forall>k'\<in>fst ` set ids. \<exists>a. map_of (attempts l2) k' = Some a \<and> \<not> mr_terminal a"
    using Cons.prems(3, 4) one x by auto
  note IH = Cons.IH [OF rest _ _ open2]
  from IH one Cons.prems(3) x a show ?case
    by (auto intro: converse_rtranclp_into_rtranclp)
qed

lemma lease_expired_reconcile:
  "\<not> lease_expired inst (mark_unreconciled now b r)"
  "\<not> lease_expired inst (rq_record (reconcile_request now inst q))"
  by (simp_all add: lease_expired_def reconcile_request_def)

lemma map_of_filter_keys:
  assumes "hm_distinct m"
  shows "k \<in> fst ` set (filter (\<lambda>(_, r). P r) m) \<longleftrightarrow> (\<exists>r. map_of m k = Some r \<and> P r)"
  using assms by (force simp: hm_distinct_def)

lemma reconcile_expired_ok:
  assumes rec: "reconcile_expired eu now inst l = (res, l')" and inv: "ledger_inv l"
  shows "res = Inr \<lparr>rr_requests = length (filter (\<lambda>(_, r). lease_expired inst (rq_record r)) (requests l)),
      rr_attempts = length (filter (\<lambda>(_, r). lease_expired inst r) (attempts l))\<rparr>"
    "ledger_inv l'" "budget_step\<^sup>*\<^sup>* (memory_abs l) (memory_abs l')"
    "map_of (attempts l') k = map_option (\<lambda>r. if lease_expired inst r then mark_unreconciled now True r else r)
      (map_of (attempts l) k)"
    "map_of (requests l') k = map_option (reconcile_request now inst) (map_of (requests l) k)"
    "length (requests l') = length (requests l)"
proof -
  let ?ids = "map (\<lambda>k. (k, eu k)) (map fst (filter (\<lambda>(_, r). lease_expired inst r) (attempts l)))"
  obtain r l1 where loop: "reconcile_attempts now ?ids 0 l = (r, l1)" by (metis surj_pair)
  have keys: "k \<in> fst ` set ?ids \<longleftrightarrow> (\<exists>a. map_of (attempts l) k = Some a \<and> lease_expired inst a)" for k
    using map_of_filter_keys [of "attempts l" k "lease_expired inst"] inv
    by (force simp: ledger_inv_def image_image)
  have dist: "distinct (map fst ?ids)"
    using inv by (simp add: ledger_inv_def hm_distinct_def comp_def distinct_map_filter)
  have running: "\<forall>k\<in>fst ` set ?ids. \<exists>a. map_of (attempts l) k = Some a \<and> \<not> mr_terminal a"
    using keys unfolding lease_expired_def by blast
  note closed = reconcile_attempts_ok [OF loop inv dist running]
  let ?m = "map (\<lambda>(k, r). (k, reconcile_request now inst r)) (requests l1)"
  from closed rec loop have l': "l' = l1\<lparr>requests := ?m\<rparr>"
    and res: "res = Inr \<lparr>rr_requests = length (filter (\<lambda>(_, r). lease_expired inst (rq_record r)) (requests l)),
      rr_attempts = length (filter (\<lambda>(_, r). lease_expired inst r) (attempts l))\<rparr>"
    by (auto simp: reconcile_expired_def)
  have m: "hm_distinct ?m" "idempotent_requests ?m"
    using closed inv by (auto simp: ledger_inv_def intro!: idempotent_map)
      (auto simp: reconcile_request_def)
  show "res = Inr \<lparr>rr_requests = length (filter (\<lambda>(_, r). lease_expired inst (rq_record r)) (requests l)),
      rr_attempts = length (filter (\<lambda>(_, r). lease_expired inst r) (attempts l))\<rparr>" by (rule res)
  show "ledger_inv l'" "budget_step\<^sup>*\<^sup>* (memory_abs l) (memory_abs l')"
    unfolding l' using closed ledger_inv_requests [OF _ m] by auto
  show "map_of (attempts l') k = map_option (\<lambda>r. if lease_expired inst r then mark_unreconciled now True r else r)
      (map_of (attempts l) k)"
    using closed keys [of k] by (cases "map_of (attempts l) k") (auto simp: l')
  show "map_of (requests l') k = map_option (reconcile_request now inst) (map_of (requests l) k)"
    using closed by (simp add: l' map_of_map_snd)
  show "length (requests l') = length (requests l)" using closed by (simp add: l')
qed

lemma budget_view_inv:
  "budget_view now q l = (r, l') \<Longrightarrow> ledger_inv l \<Longrightarrow> ledger_inv l' \<and> memory_abs l' = memory_abs l"
  by (auto simp: budget_view_def Let_def account_created_inv split: sum.splits)

lemma record_audit_event_inv:
  assumes "record_audit_event now u i l = (r, l')" "ledger_inv l"
  shows "ledger_inv l' \<and> memory_abs l' = memory_abs l"
proof -
  from assms(1) obtain e where "l' = l\<lparr>audit_events := e\<rparr> \<or> l' = l"
    by (auto simp: record_audit_event_def split: sum.splits)
  then show ?thesis
    using assms(2) by (elim disjE) (simp_all add: ledger_inv_def memory_abs_def)
qed

text \<open>Changing an account's limit or settled amount.\<close>

lemma account_step:
  assumes inv: "ledger_inv l"
    and account: "reserved_microunits b = reserved_microunits (account_of l t)"
      "0 \<le> settled_microunits b" "settled_microunits b \<le> i64_max"
    and l': "l' = (put_account t b l)\<lparr>budget_events := ev\<rparr>"
  shows "ledger_inv l'"
    "memory_abs l' = memory_abs l\<lparr>bs_limit := (bs_limit (memory_abs l))(t := limit_microunits b),
       bs_settled := (bs_settled (memory_abs l))(t := settled_microunits b), bs_log := map event_deltas ev\<rparr>"
proof -
  show abs: "memory_abs l' = memory_abs l\<lparr>bs_limit := (bs_limit (memory_abs l))(t := limit_microunits b),
       bs_settled := (bs_settled (memory_abs l))(t := settled_microunits b), bs_log := map event_deltas ev\<rparr>"
    by (auto simp: l' memory_abs_def fun_eq_iff)
  have "reservation_ok (map_of (attempts l)) (map_of (budget_accounts l')) k r"
    if "reservation_ok (map_of (attempts l)) (map_of (budget_accounts l)) k r" for k r
    using that by (auto simp: reservation_ok_def l' update_conv')
  with inv account show "ledger_inv l'"
    unfolding ledger_inv_def abs by (simp add: l' budget_simps)
qed

lemma update_budget_inv:
  assumes up: "update_budget now i l = (r, l')" and inv: "ledger_inv l"
  shows "ledger_inv l' \<and> budget_step\<^sup>*\<^sup>* (memory_abs l) (memory_abs l')"
proof (cases "\<exists>t m. update_tenant i = Inr t \<and> validated_limit i = Inr m")
  case True
  then obtain t m where t: "update_tenant i = Inr t" "validated_limit i = Inr m" by blast
  let ?a = "(account_entry now t l)\<lparr>limit_microunits := m,
    account_version := i64_add (account_version (account_entry now t l)) 1, account_updated_at_ms := now\<rparr>"
  let ?l1 = "put_account t ?a l"
  have step: "ledger_inv ?l1" "budget_step (memory_abs l) (memory_abs ?l1)"
  proof -
    note acc = account_step [OF inv, of ?a t ?l1 "budget_events l"]
    show "ledger_inv ?l1" using acc ledger_balances [OF inv] by simp
    have "memory_abs ?l1 = memory_abs l\<lparr>bs_limit := (bs_limit (memory_abs l))(t := m)\<rparr>"
      by (auto simp: memory_abs_def fun_eq_iff)
    then show "budget_step (memory_abs l) (memory_abs ?l1)" using budget_step.set_limit by simp
  qed
  from up t have "budget_view now (scope_query_from t) ?l1 = (r, l')"
    by (simp add: update_budget_def Let_def)
  with step budget_view_inv show ?thesis by (metis r_into_rtranclp)
next
  case False
  with up inv show ?thesis by (auto simp: update_budget_def split: sum.splits)
qed

lemma adjust_budget_cases:
  assumes adj: "adjust_budget now eu i actor l = (r, l')"
  obtains (rejected) e where "r = Inl e" "l' = l \<or> (\<exists>t. l' = put_account t (account_entry now t l) l)"
  | (adjusted) t where "adjustment_tenant i = Inr t"
      "i64_range (settled_microunits (account_of l t) + ba_delta_microunits i)"
      "0 \<le> settled_microunits (account_of l t) + ba_delta_microunits i"
      "budget_view now (scope_query_from t)
         ((put_account t ((account_entry now t l)
             \<lparr>settled_microunits := settled_microunits (account_of l t) + ba_delta_microunits i,
              account_version := i64_add (account_version (account_entry now t l)) 1,
              account_updated_at_ms := now\<rparr>) l)
          \<lparr>budget_events := budget_events l @ [adjustment_event eu now t i actor]\<rparr>) = (r, l')"
  using adj by (auto simp: adjust_budget_def Let_def i64_checked_add_def split: sum.splits if_splits)

lemma adjust_budget_inv:
  assumes adj: "adjust_budget now eu i actor l = (r, l')" and inv: "ledger_inv l"
  shows "ledger_inv l' \<and> budget_step\<^sup>*\<^sup>* (memory_abs l) (memory_abs l')"
  using adj
proof (cases rule: adjust_budget_cases)
  case (rejected e)
  with inv show ?thesis by (auto simp: account_created_inv)
next
  case (adjusted t)
  let ?d = "ba_delta_microunits i"
  let ?a = "(account_entry now t l)\<lparr>settled_microunits := settled_microunits (account_of l t) + ?d,
    account_version := i64_add (account_version (account_entry now t l)) 1, account_updated_at_ms := now\<rparr>"
  let ?l1 = "(put_account t ?a l)\<lparr>budget_events := budget_events l @ [adjustment_event eu now t i actor]\<rparr>"
  have inv1: "ledger_inv ?l1"
    using account_step(1) [OF inv, of ?a t ?l1] adjusted by (simp add: i64_range_def)
  have "memory_abs ?l1 = memory_abs l\<lparr>bs_settled := (bs_settled (memory_abs l))(t := bs_settled (memory_abs l) t + ?d),
      bs_log := bs_log (memory_abs l) @ [(t, 0, ?d)]\<rparr>"
    by (auto simp: memory_abs_def fun_eq_iff)
  moreover have "budget_step (memory_abs l) \<dots>" using adjusted by (intro budget_step.adjust) simp
  ultimately have "budget_step (memory_abs l) (memory_abs ?l1)" by simp
  with inv1 adjusted(4) budget_view_inv show ?thesis by (metis r_into_rtranclp)
qed

section \<open>Runs of the ledger\<close>

text \<open>
  One operation of the ledger, with any arguments. The balances are 64-bit: a reservation has to leave
  room in the reserved balance and a settlement in the settled balance, since the code saturates the
  first and fails half-way through on the second.
\<close>

inductive ledger_step :: "MemoryLedger \<Rightarrow> MemoryLedger \<Rightarrow> bool" where
  step_begin_request:
    "begin_request_with_metadata hash inst_id ttl now inst uuid ctx model stream ikey fp md l = (r, l')
     \<Longrightarrow> ledger_step l l'"
| step_finalize_request: "finalize_request_usage now q u l = (r', l') \<Longrightarrow> ledger_step l l'"
| step_begin_attempt:
    "begin_attempt ttl now inst ru eu q k p m pr est l = (r'', l') \<Longrightarrow>
     reserved_microunits (account_of l (lr_tenant q)) + cost_microunits (est_cost_estimate est) \<le> i64_max
     \<Longrightarrow> ledger_step l l'"
| step_finalize_attempt:
    "finalize_attempt now eu x oc l = (r', l') \<Longrightarrow>
     settled_microunits (account_of l (la_tenant x)) + cost_microunits (est_cost_estimate (lo_estimate oc)) \<le> i64_max
     \<Longrightarrow> ledger_step l l'"
| step_renew_lease: "renew_lease ttl now inst q l = (r', l') \<Longrightarrow> ledger_step l l'"
| step_reconcile: "reconcile_expired eus now inst l = (rr, l') \<Longrightarrow> ledger_step l l'"
| step_budget_view: "budget_view now sq l = (rv, l') \<Longrightarrow> ledger_step l l'"
| step_update_budget: "update_budget now bu l = (rv, l') \<Longrightarrow> ledger_step l l'"
| step_adjust_budget: "adjust_budget now eu ba actor l = (rv, l') \<Longrightarrow> ledger_step l l'"
| step_audit: "record_audit_event now u ai l = (r', l') \<Longrightarrow> ledger_step l l'"

lemma ledger_step_refines:
  assumes "ledger_step l l'" "ledger_inv l"
  shows "ledger_inv l' \<and> budget_step\<^sup>*\<^sup>* (memory_abs l) (memory_abs l')"
  using assms
proof cases
  case step_begin_request
  with assms(2) show ?thesis using begin_request_inv by (metis rtranclp.rtrancl_refl)
next
  case step_finalize_request
  with assms(2) show ?thesis using finalize_request_usage_inv by (metis rtranclp.rtrancl_refl)
next
  case step_begin_attempt
  with assms(2) show ?thesis using begin_attempt_inv by (metis rtranclp.rtrancl_refl r_into_rtranclp)
next
  case step_finalize_attempt
  with assms(2) show ?thesis using finalize_attempt_inv by blast
next
  case step_renew_lease
  with assms(2) show ?thesis using renew_lease_inv by (metis rtranclp.rtrancl_refl)
next
  case step_reconcile
  with assms(2) show ?thesis using reconcile_expired_ok(2, 3) by blast
next
  case step_budget_view
  with assms(2) show ?thesis using budget_view_inv by (metis rtranclp.rtrancl_refl)
next
  case step_update_budget
  with assms(2) show ?thesis using update_budget_inv by blast
next
  case step_adjust_budget
  with assms(2) show ?thesis using adjust_budget_inv by blast
next
  case step_audit
  with assms(2) show ?thesis using record_audit_event_inv by (metis rtranclp.rtrancl_refl)
qed

interpretation memory: budget_backend ledger_empty ledger_step ledger_inv memory_abs
  "\<lambda>l t. reserved_microunits (account_of l t)"
proof
  show "ledger_inv ledger_empty" by (rule ledger_inv_empty)
  show "memory_abs ledger_empty = budget_init" by (rule memory_abs_empty)
  show "ledger_inv y" if "ledger_step x y" "ledger_inv x" for x y
    using ledger_step_refines [OF that] by simp
  show "budget_step\<^sup>*\<^sup>* (memory_abs x) (memory_abs y)" if "ledger_step x y" "ledger_inv x" for x y
    using ledger_step_refines [OF that] by simp
  show "reserved_microunits (account_of x t) = bs_reserved (memory_abs x) t" if "ledger_inv x" for x t
    using that by (simp add: ledger_inv_def)
qed

section \<open>Balances as sums over the ledger's lists\<close>

definition reserved_total :: "MemoryLedger \<Rightarrow> TenantKey \<Rightarrow> int" where
  "reserved_total l t = sum_list (map (\<lambda>(k, r).
     if rs_tenant r = t \<and> rs_state r = ''reserved'' then rs_reserved_microunits r else 0) (budget_reservations l))"

lemma open_total_list:
  assumes "hm_distinct (budget_reservations l)"
  shows "bs_reserved (memory_abs l) t = reserved_total l t"
proof -
  let ?m = "budget_reservations l"
  let ?f = "\<lambda>(k, r). if rs_tenant r = t \<and> rs_state r = ''reserved'' then rs_reserved_microunits r else 0"
  let ?g = "\<lambda>k. open_amount t (open_reservation (map_of ?m k))"
  from assms have d: "distinct (map fst ?m)" by (simp add: hm_distinct_def)
  have "reserved_total l t = sum ?f (set ?m)"
    using d by (simp add: reserved_total_def sum_list_distinct_conv_sum_set distinct_map)
  also have "\<dots> = sum (\<lambda>x. ?g (fst x)) (set ?m)"
    using d by (intro sum.cong) (auto simp: open_amount_def)
  also have "\<dots> = sum ?g (fst ` set ?m)"
    using d by (simp add: sum.reindex distinct_map)
  also have "\<dots> = sum ?g (dom (bs_open (memory_abs l)))"
  proof (rule sum.mono_neutral_right)
    have "dom (bs_open (memory_abs l)) \<subseteq> dom (map_of ?m)"
      by (auto simp: open_reservation_def split: option.splits)
    then show "dom (bs_open (memory_abs l)) \<subseteq> fst ` set ?m" by (simp add: dom_map_of_conv_image_fst)
  qed (auto simp: open_amount_def split: option.splits)
  finally show ?thesis by (simp add: bs_reserved_def open_total_def)
qed

lemma log_sums_events:
  "log_reserved (memory_abs l) t =
     sum_list (map be_reserved_delta_microunits (filter (\<lambda>e. event_matches_tenant e t) (budget_events l)))"
  "log_settled (memory_abs l) t =
     sum_list (map be_settled_delta_microunits (filter (\<lambda>e. event_matches_tenant e t) (budget_events l)))"
proof -
  have match: "event_matches_tenant e t \<longleftrightarrow> event_tenant e = t" for e
    by (auto simp: event_matches_iff event_tenant_def)
  have "sum_list (map (\<lambda>(t', r, _). if t' = t then r else 0) (map event_deltas ev)) =
      sum_list (map be_reserved_delta_microunits (filter (\<lambda>e. event_matches_tenant e t) ev))"
    "sum_list (map (\<lambda>(t', _, d). if t' = t then d else 0) (map event_deltas ev)) =
      sum_list (map be_settled_delta_microunits (filter (\<lambda>e. event_matches_tenant e t) ev))" for ev
    by (induction ev) (auto simp: match event_deltas_def)
  then show "log_reserved (memory_abs l) t =
     sum_list (map be_reserved_delta_microunits (filter (\<lambda>e. event_matches_tenant e t) (budget_events l)))"
  "log_settled (memory_abs l) t =
     sum_list (map be_settled_delta_microunits (filter (\<lambda>e. event_matches_tenant e t) (budget_events l)))"
    by (simp_all add: log_reserved_def log_settled_def)
qed

end
