(* ===== verification/LedgerProps.thy ===== *)
theory LedgerProps
  imports Ledger
begin

text \<open>
  What holds of the in-memory request ledger: its balances in every reachable state, admission of an
  attempt against the budget, settlement exactly once, lease reconciliation and the budget view.
\<close>

section \<open>A concrete run\<close>

text \<open>A run used by the witnesses: a limit is set, a request begins, an attempt reserves 2500000 microunits.\<close>

definition ex_tenant :: TenantKey where
  "ex_tenant = \<lparr>organization_id = ''o'', project_id = ''p'', environment_id = ''e''\<rparr>"

definition ex_ctx :: RequestContext where
  "ex_ctx = \<lparr>ctx_request_id = ''r'', ctx_tenant = \<lparr>scope_organization_id = ''o'', scope_project_id = ''p'',
     scope_environment_id = ''e''\<rparr>, ctx_principal_id = ''u'', ctx_protocol = AnthropicMessages\<rparr>"

definition ex_limited :: MemoryLedger where
  "ex_limited = snd (update_budget 10 \<lparr>bu_organization_id = ''o'', bu_project_id = ''p'',
     bu_environment_id = ''e'', bu_limit_microunits = Some 4000000, bu_unlimited = False\<rparr> ledger_empty)"

definition ex_begin :: "LedgerRequest result \<times> MemoryLedger" where
  "ex_begin = begin_request_with_metadata (\<lambda>k. k) ''i'' 60 20 100 ''1'' ex_ctx ''m'' False (Some ''key'')
     (replicate 64 CHR ''a'') metadata_default ex_limited"

definition ex_request :: LedgerRequest where
  "ex_request = \<lparr>lr_ledger_id = ''grq_1'', lr_tenant = ex_tenant, lr_lease_owner = ''i''\<rparr>"

definition ex_estimate :: "f64 \<Rightarrow> UsageEstimate" where
  "ex_estimate cost = estimate_default\<lparr>est_cost_estimate := cost\<rparr>"

definition ex_attempt :: "LedgerAttempt result \<times> MemoryLedger" where
  "ex_attempt = begin_attempt 60 30 100 ''2'' ''3'' ex_request ''att_1'' ''prov'' ''m'' ''openai''
     (ex_estimate (Fin 2)) (snd ex_begin)"

lemma ex_cost: "cost_microunits (Fin 2) = 2000000"
proof -
  have "f64_mul (Fin 2) (Fin 1000000) = Fin 2000000"
    using f64_of_rat_int [of 2000000] by (simp add: f64_mul_def is_finite_def is_nan_def sign_bit_def Let_def)
  moreover have "f64_le (Fin 2000000) (f64_of_int i64_max)"
    using f64_of_rat_mono [of 2000000 "of_int i64_max"] f64_of_rat_int [of 2000000]
    by (simp add: f64_of_int_def i64_max_def)
  moreover have "\<lfloor>(4000001 :: rat) / 2\<rfloor> = 2000000" by (rule floor_unique) simp_all
  ultimately show ?thesis
    by (simp add: cost_microunits_def is_finite_def f64_min_def is_nan_def round_away_def rat_trunc_def
        i64_clamp_def i64_max_def i64_min_def f64_of_int_def)
qed

lemma ex_limited_accounts: "budget_accounts ex_limited = [(ex_tenant, \<lparr>limit_microunits = Some 4000000,
    reserved_microunits = 0, settled_microunits = 0, account_version = 1, account_updated_at_ms = 10\<rparr>)]"
  by code_simp

lemma ex_begin_ok: "fst ex_begin = Inr ex_request" "budget_accounts (snd ex_begin) = budget_accounts ex_limited"
  "map_option (\<lambda>r. mr_terminal (rq_record r)) (scoped_request ex_request (snd ex_begin)) = Some False"
  by code_simp+


lemma ex_attempt_accounts: "account_of (snd ex_begin) ex_tenant = \<lparr>limit_microunits = Some 4000000,
    reserved_microunits = 0, settled_microunits = 0, account_version = 1, account_updated_at_ms = 10\<rparr>"
  by (simp add: account_of_def account_entry_def ex_begin_ok ex_limited_accounts)

lemma ex_reachable: "ledger_step\<^sup>*\<^sup>* ledger_empty ex_limited" "ledger_step\<^sup>*\<^sup>* ledger_empty (snd ex_begin)"
  "ledger_step\<^sup>*\<^sup>* ledger_empty (snd ex_attempt)"
proof -
  have "ledger_step ledger_empty ex_limited"
    unfolding ex_limited_def by (rule step_update_budget [OF prod.collapse [symmetric]])
  then show 1: "ledger_step\<^sup>*\<^sup>* ledger_empty ex_limited" by blast
  have "ledger_step ex_limited (snd ex_begin)"
    unfolding ex_begin_def by (rule step_begin_request [OF prod.collapse [symmetric]])
  with 1 show 2: "ledger_step\<^sup>*\<^sup>* ledger_empty (snd ex_begin)" by simp
  have "ledger_step (snd ex_begin) (snd ex_attempt)"
    unfolding ex_attempt_def
    by (rule step_begin_attempt [OF prod.collapse [symmetric]])
      (simp add: ex_request_def ex_attempt_accounts ex_estimate_def ex_cost i64_max_def)
  with 2 show "ledger_step\<^sup>*\<^sup>* ledger_empty (snd ex_attempt)" by simp
qed

section \<open>Balances\<close>

text \<open>
  C1: in every state the in-memory ledger can reach, a tenant's reserved balance is the sum of its
  open reservations, both balances are what its budget events add up to, and neither is negative.
\<close>

theorem ledger_balances_replay:
  assumes "ledger_step\<^sup>*\<^sup>* ledger_empty l"
  shows "reserved_microunits (account_of l t) = reserved_total l t \<and>
    reserved_microunits (account_of l t) =
      sum_list (map be_reserved_delta_microunits (filter (\<lambda>e. event_matches_tenant e t) (budget_events l))) \<and>
    settled_microunits (account_of l t) =
      sum_list (map be_settled_delta_microunits (filter (\<lambda>e. event_matches_tenant e t) (budget_events l))) \<and>
    0 \<le> reserved_microunits (account_of l t) \<and> 0 \<le> settled_microunits (account_of l t)"
proof -
  have "hm_distinct (budget_reservations l)"
    using memory.reachable [OF assms] by (simp add: ledger_inv_def)
  note sums = open_total_list [OF this, of t] log_sums_events [of l t]
  note balances = memory.reachable_balances [OF assms, of t]
  from balances [unfolded sums memory_abs_simps] balances(2, 5) show ?thesis by simp
qed

theorem ledger_balances_replay_witness:
  "reserved_microunits (account_of (snd ex_attempt) ex_tenant) = reserved_total (snd ex_attempt) ex_tenant"
  using ledger_balances_replay [OF ex_reachable(3)] by blast

text \<open>
  C2: the in-memory ledger refines the budget specification: each of its runs is a run of the
  specification on the abstracted states, and the stored reserved balance is the specification's.
\<close>

theorem memory_ledger_refines_budget:
  assumes "ledger_step\<^sup>*\<^sup>* ledger_empty l"
  shows "budget_step\<^sup>*\<^sup>* budget_init (memory_abs l) \<and>
    reserved_microunits (account_of l t) = bs_reserved (memory_abs l) t"
  using memory.reachable [OF assms] memory.reachable_balances(1) [OF assms] by blast

theorem memory_ledger_refines_budget_witness:
  "budget_step\<^sup>*\<^sup>* budget_init (memory_abs (snd ex_attempt))"
  using memory_ledger_refines_budget [OF ex_reachable(3)] by blast

section \<open>Admission of an attempt\<close>

text \<open>
  C3: an attempt of a running request is admitted exactly when its cost fits under the tenant's limit
  next to what is settled and reserved; then its cost is added to the reserved balance and a limited
  tenant is still within its limit. A refused attempt reports the budget error and reserves nothing.
\<close>

theorem begin_attempt_admission:
  assumes "ledger_step\<^sup>*\<^sup>* ledger_empty l"
    and "scoped_request q l = Some r" "\<not> mr_terminal (rq_record r)" "map_of (attempts l) k = None"
    and "limit_microunits (account_of l (lr_tenant q)) = Some m" "m < i64_max"
    and "begin_attempt ttl now inst ru eu q k p mo pr est l = (res, l')"
  defines "a \<equiv> account_of l (lr_tenant q)" and "b \<equiv> account_of l' (lr_tenant q)"
    and "c \<equiv> cost_microunits (est_cost_estimate est)"
  shows "if settled_microunits a + reserved_microunits a + c \<le> m
    then is_ok res \<and> reserved_microunits b = reserved_microunits a + c \<and>
      settled_microunits b = settled_microunits a \<and> settled_microunits b + reserved_microunits b \<le> m
    else res = Inl (budget_exceeded a c) \<and> reserved_microunits b = reserved_microunits a \<and>
      settled_microunits b = settled_microunits a"
proof -
  have inv: "ledger_inv l" using memory.reachable [OF assms(1)] by blast
  note bal = ledger_balances [OF inv, of "lr_tenant q"]
  have fresh: "map_of (budget_reservations l) k = None"
    using inv assms(4) unfolding ledger_inv_def by blast
  have guard: "m < i64_add (i64_add (settled_microunits a) (reserved_microunits a)) c \<longleftrightarrow>
      \<not> settled_microunits a + reserved_microunits a + c \<le> m"
    using saturating_guard [of "settled_microunits a" "reserved_microunits a" c "Some m"] bal assms(6)
    by (simp add: a_def c_def cost_microunits_nonneg within_limit_def)
  have add: "i64_add (reserved_microunits a) c = reserved_microunits a + c"
    if "settled_microunits a + reserved_microunits a + c \<le> m"
    using that bal assms(6) cost_microunits_nonneg [of "est_cost_estimate est"]
    by (simp add: a_def c_def i64_add_def i64_clamp_def i64_min_def)
  have exceeded: "budget_exceeded (account_entry now (lr_tenant q) l) c = budget_exceeded a c"
    by (simp add: budget_exceeded_def a_def)
  show ?thesis
    using assms(2-5) assms(7) [symmetric] fresh guard add exceeded
    by (auto simp: begin_attempt_def Let_def a_def [symmetric] c_def [symmetric] b_def)
qed

theorem begin_attempt_admission_witness:
  "is_ok (fst ex_attempt) \<and> reserved_microunits (account_of (snd ex_attempt) ex_tenant) = 2000000"
proof -
  obtain r where r: "scoped_request ex_request (snd ex_begin) = Some r" "\<not> mr_terminal (rq_record r)"
    using ex_begin_ok(3) by auto
  have fresh: "map_of (attempts (snd ex_begin)) ''att_1'' = None" by code_simp
  have t: "lr_tenant ex_request = ex_tenant" by (simp add: ex_request_def)
  have acc: "limit_microunits (account_of (snd ex_begin) (lr_tenant ex_request)) = Some 4000000"
    by (simp add: t ex_attempt_accounts)
  have lt: "(4000000 :: int) < i64_max" by (simp add: i64_max_def)
  show ?thesis
    using begin_attempt_admission [OF ex_reachable(2) r fresh acc lt
        ex_attempt_def [symmetric, THEN trans, OF prod.collapse [symmetric]]]
    by (simp add: t ex_attempt_accounts ex_estimate_def ex_cost)
qed

section \<open>Settlement\<close>

text \<open>
  C4: finalizing a running attempt succeeds, moves its reservation out of the reserved balance and its
  cost into the settled balance, and makes it terminal; finalizing it again, with any outcome, succeeds
  and changes nothing.
\<close>

theorem finalize_attempt_exactly_once:
  assumes "ledger_step\<^sup>*\<^sup>* ledger_empty l"
    and "scoped_attempt x l = Some a" "\<not> mr_terminal a"
    and "settled_microunits (account_of l (la_tenant x)) +
      cost_microunits (est_cost_estimate (lo_estimate oc)) \<le> i64_max"
    and "finalize_attempt now eu x oc l = (res, l')"
  shows "res = Inr () \<and>
    settled_microunits (account_of l' (la_tenant x)) =
      settled_microunits (account_of l (la_tenant x)) + cost_microunits (est_cost_estimate (lo_estimate oc)) \<and>
    (\<exists>r. map_of (budget_reservations l) (la_attempt_id x) = Some r \<and>
      reserved_microunits (account_of l' (la_tenant x)) =
        reserved_microunits (account_of l (la_tenant x)) - rs_reserved_microunits r) \<and>
    finalize_attempt now' eu' x oc' l' = (Inr (), l')"
proof -
  let ?t = "la_tenant x" and ?k = "la_attempt_id x"
  have inv: "ledger_inv l" using memory.reachable [OF assms(1)] by blast
  from finalize_attempt_running [OF assms(5) inv assms(2-4)] have fin: "res = Inr ()"
    "map_of (attempts l') = (map_of (attempts l))(?k \<mapsto> record_finalize now oc a)" by auto
  from assms(2) have a: "map_of (attempts l) ?k = Some a" "mr_tenant a = ?t" "mr_lease_owner a = la_lease_owner x"
    by (auto simp: scoped_attempt_Some)
  obtain r b where r: "map_of (budget_reservations l) ?k = Some r" "rs_state r = ''reserved''"
    "rs_tenant r = mr_tenant a" "map_of (budget_accounts l) (mr_tenant a) = Some b"
    "account_of l (mr_tenant a) = b" "rs_reserved_microunits r \<le> reserved_microunits b"
    "0 \<le> rs_reserved_microunits r" by (rule running_attempt [OF inv a(1) assms(3)])
  have "i64_range (reserved_microunits b - rs_reserved_microunits r)"
    "i64_range (settled_microunits b + cost_microunits (est_cost_estimate (lo_estimate oc)))"
    using ledger_balances [OF inv, of ?t] assms(4) r a cost_microunits_nonneg [of "est_cost_estimate (lo_estimate oc)"]
    by (auto simp: i64_range_def i64_min_def)
  with assms(2, 3, 5) r a have "settled_microunits (account_of l' ?t) =
      settled_microunits (account_of l ?t) + cost_microunits (est_cost_estimate (lo_estimate oc))"
    "reserved_microunits (account_of l' ?t) = reserved_microunits (account_of l ?t) - rs_reserved_microunits r"
    by (auto simp: finalize_attempt_def settle_memory_budget_def Let_def i64_checked_sub_def i64_checked_add_def)
  moreover have "mr_lease_owner (record_finalize now oc a) = mr_lease_owner a"
    by (simp add: record_finalize_def Let_def)
  with fin a have "scoped_attempt x l' = Some (record_finalize now oc a)" by (simp add: scoped_attempt_Some)
  then have "finalize_attempt now' eu' x oc' l' = (Inr (), l')" by (simp add: finalize_attempt_def)
  ultimately show ?thesis using fin r by blast
qed

definition ex_ledger_attempt :: LedgerAttempt where
  "ex_ledger_attempt = \<lparr>la_attempt_id = ''att_1'', la_request_ledger_id = ''grq_1'',
     la_reservation_id = ''brs_2'', la_tenant = ex_tenant, la_lease_owner = ''i''\<rparr>"

definition ex_outcome :: LedgerOutcome where
  "ex_outcome = \<lparr>lo_state = ''succeeded'', lo_status_code = 200, lo_terminal_reason = ''completed'',
     lo_error_message = None, lo_estimate = ex_estimate (Fin 2), lo_billing_mode = ''provider_reported'',
     lo_chargeable = True, lo_latency_ms = 5, lo_first_byte_latency_ms = None, lo_tool_outcome = ''none'',
     lo_tool_repair_attempted = False, lo_tool_repair_recovered = False, lo_retry_count = 0,
     lo_fallback_from_provider = None\<rparr>"

lemma ex_request_simps: "lr_tenant ex_request = ex_tenant" "lr_lease_owner ex_request = ''i''"
  "lr_ledger_id ex_request = ''grq_1''"
  by (simp_all add: ex_request_def)

lemma ex_attempt_state:
  "budget_accounts (snd ex_attempt) = [(ex_tenant, \<lparr>limit_microunits = Some 4000000,
    reserved_microunits = 2000000, settled_microunits = 0, account_version = 2, account_updated_at_ms = 30\<rparr>)]"
  "map_option mr_terminal (scoped_attempt ex_ledger_attempt (snd ex_attempt)) = Some False"
  "map_of (attempts (snd ex_attempt)) ''att_1'' = Some
     (record_started 30 100 ex_tenant ''grq_1'' ''i'' 60 (Some (''prov'', ''m'', ''openai'')))"
  "requests (snd ex_attempt) = requests (snd ex_begin)"
proof -
  obtain r where r: "scoped_request ex_request (snd ex_begin) = Some r" "\<not> mr_terminal (rq_record r)"
    using ex_begin_ok(3) by auto
  have empty: "attempts (snd ex_begin) = []" "budget_reservations (snd ex_begin) = []" by code_simp+
  have acc: "account_entry 30 ex_tenant (snd ex_begin) = account_of (snd ex_begin) ex_tenant"
    by (simp add: account_of_def account_entry_def ex_begin_ok ex_limited_accounts)
  show "budget_accounts (snd ex_attempt) = [(ex_tenant, \<lparr>limit_microunits = Some 4000000,
    reserved_microunits = 2000000, settled_microunits = 0, account_version = 2, account_updated_at_ms = 30\<rparr>)]"
    "map_option mr_terminal (scoped_attempt ex_ledger_attempt (snd ex_attempt)) = Some False"
    "map_of (attempts (snd ex_attempt)) ''att_1'' = Some
       (record_started 30 100 ex_tenant ''grq_1'' ''i'' 60 (Some (''prov'', ''m'', ''openai'')))"
    "requests (snd ex_attempt) = requests (snd ex_begin)"
    using r
    by (simp_all add: ex_attempt_def begin_attempt_def Let_def empty acc ex_attempt_accounts ex_estimate_def
        ex_cost ex_begin_ok(2) ex_limited_accounts ex_request_simps i64_add_def i64_clamp_def
        i64_min_def i64_max_def scoped_attempt_def ex_ledger_attempt_def record_started_def)
qed

theorem finalize_attempt_exactly_once_witness:
  "finalize_attempt 50 ''5'' ex_ledger_attempt ex_outcome
     (snd (finalize_attempt 40 ''4'' ex_ledger_attempt ex_outcome (snd ex_attempt))) =
   (Inr (), snd (finalize_attempt 40 ''4'' ex_ledger_attempt ex_outcome (snd ex_attempt)))"
proof -
  obtain a where a: "scoped_attempt ex_ledger_attempt (snd ex_attempt) = Some a" "\<not> mr_terminal a"
    using ex_attempt_state(2) by auto
  have room: "settled_microunits (account_of (snd ex_attempt) (la_tenant ex_ledger_attempt)) +
      cost_microunits (est_cost_estimate (lo_estimate ex_outcome)) \<le> i64_max"
    by (simp add: account_of_def account_entry_def ex_attempt_state ex_ledger_attempt_def ex_outcome_def
        ex_estimate_def ex_cost i64_max_def)
  show ?thesis
    using finalize_attempt_exactly_once [OF ex_reachable(3) a room prod.collapse [symmetric]] by blast
qed

section \<open>Leases\<close>

lemma reconcile_closes:
  assumes "ledger_step\<^sup>*\<^sup>* ledger_empty l" and "reconcile_expired eu now inst l = (res, l')"
  shows "is_ok res \<and>
    (case map_of (attempts l) k of
       Some a \<Rightarrow> if lease_expired inst a
         then map_of (attempts l') k = Some (mark_unreconciled now True a) \<and>
           open_reservation (map_of (budget_reservations l') k) = None
         else map_of (attempts l') k = Some a
     | None \<Rightarrow> map_of (attempts l') k = None) \<and>
    (case map_of (requests l) k of
       Some r \<Rightarrow> if lease_expired inst (rq_record r)
         then map_of (requests l') k \<noteq> Some r \<and>
           map_option (\<lambda>r. mr_terminal (rq_record r)) (map_of (requests l') k) = Some True
         else map_of (requests l') k = Some r
     | None \<Rightarrow> map_of (requests l') k = None)"
proof -
  have inv: "ledger_inv l" using memory.reachable [OF assms(1)] by blast
  note rec = reconcile_expired_ok [OF assms(2) inv]
  have closed: "open_reservation (map_of (budget_reservations l') k) = None"
    if "map_of (attempts l') k = Some a" "mr_terminal a" for a
  proof (cases "map_of (budget_reservations l') k")
    case (Some r)
    obtain a' b where "map_of (attempts l') k = Some a'" "mr_tenant a' = rs_tenant r"
      "rs_state r = ''reserved'' \<longleftrightarrow> \<not> mr_terminal a'"
      "map_of (budget_accounts l') (rs_tenant r) = Some b" "0 \<le> rs_reserved_microunits r"
      by (rule ledger_reservationD [OF rec(2) Some])
    with that Some show ?thesis by simp
  qed simp
  show ?thesis
    using rec(1) rec(4, 5) [of k] closed
    by (cases "map_of (attempts l) k"; cases "map_of (requests l) k")
      (auto simp: reconcile_request_def lease_expired_def dest: arg_cong [of _ _ "\<lambda>r. mr_terminal (rq_record r)"])
qed

text \<open>
  C5: reconciliation of a reachable ledger cannot fail. Afterwards no request and no attempt is past
  its lease, no reservation of an attempt that was past its lease is open, and the records whose lease
  is still live are as they were.
\<close>

theorem reconcile_closes_expired:
  assumes "ledger_step\<^sup>*\<^sup>* ledger_empty l" and "reconcile_expired eu now inst l = (res, l')"
  shows "is_ok res \<and>
    (case map_of (attempts l) k of
       Some a \<Rightarrow> if \<not> mr_terminal a \<and> mr_lease_expires_at a \<le> inst
         then map_of (attempts l') k = Some (mark_unreconciled now True a) \<and>
           open_reservation (map_of (budget_reservations l') k) = None
         else map_of (attempts l') k = Some a
     | None \<Rightarrow> map_of (attempts l') k = None) \<and>
    (case map_of (requests l) k of
       Some r \<Rightarrow> if \<not> mr_terminal (rq_record r) \<and> mr_lease_expires_at (rq_record r) \<le> inst
         then map_of (requests l') k \<noteq> Some r \<and>
           map_option (\<lambda>r. mr_terminal (rq_record r)) (map_of (requests l') k) = Some True
         else map_of (requests l') k = Some r
     | None \<Rightarrow> map_of (requests l') k = None)"
  using reconcile_closes [OF assms] unfolding lease_expired_def .

theorem reconcile_closes_expired_witness:
  "is_ok (fst (reconcile_expired (\<lambda>k. k) 50 200 (snd ex_attempt))) \<and>
   open_reservation (map_of (budget_reservations
     (snd (reconcile_expired (\<lambda>k. k) 50 200 (snd ex_attempt)))) ''att_1'') = None"
  using reconcile_closes_expired [OF ex_reachable(3) prod.collapse [symmetric], of "\<lambda>k. k" 50 200 "''att_1''"]
  by (simp add: ex_attempt_state) (simp add: record_started_def)

text \<open>
  C6: after a lease is renewed at time \<open>inst\<close>, reconciliation before \<open>inst + ttl\<close> leaves the renewed
  request and every attempt of it alone.
\<close>

theorem renewed_lease_survives:
  assumes "ledger_step\<^sup>*\<^sup>* ledger_empty l" and "inst' < inst + ttl"
    and "scoped_request q l = Some r"
    and "renew_lease ttl now inst q l = (u, l1)" "reconcile_expired eu now' inst' l1 = (v, l2)"
    and "map_of (attempts l) k = Some a" "mr_tenant a = lr_tenant q"
      "mr_request_ledger_id a = lr_ledger_id q" "mr_lease_owner a = lr_lease_owner q"
  shows "map_of (requests l2) (lr_ledger_id q) = map_of (requests l1) (lr_ledger_id q) \<and>
    map_of (attempts l2) k = map_of (attempts l1) k"
proof -
  have "ledger_inv l" using memory.reachable [OF assms(1)] by blast
  from renew_lease_inv [OF assms(4) this] have inv: "ledger_inv l1" by blast
  note rec = reconcile_expired_ok(4, 5) [OF assms(5) inv]
  have req: "map_of (requests l1) (lr_ledger_id q) = Some (if mr_terminal (rq_record r) then r
      else r\<lparr>rq_record := renew_record now inst ttl (rq_record r)\<rparr>)"
    using assms(3, 4) iffD1 [OF scoped_request_Some assms(3)]
    by (auto simp: renew_lease_def Let_def renew_request_def update_conv')
  have att: "map_of (attempts l1) k = Some (if mr_terminal a then a else renew_record now inst ttl a)"
    using assms(4, 6-9) by (auto simp: renew_lease_def Let_def renew_request_def map_of_map_snd renew_attempt_def
        split: option.splits)
  show ?thesis
    using rec(2) [of "lr_ledger_id q"] rec(1) [of k] req att assms(2)
    by (auto simp: reconcile_request_def lease_expired_def renew_record_def)
qed

theorem renewed_lease_survives_witness:
  "map_of (attempts (snd (reconcile_expired (\<lambda>k. k) 60 150
     (snd (renew_lease 60 40 120 ex_request (snd ex_attempt)))))) ''att_1'' =
   map_of (attempts (snd (renew_lease 60 40 120 ex_request (snd ex_attempt)))) ''att_1''"
proof -
  have lt: "(150 :: nat) < 120 + 60" by simp
  obtain r where r: "scoped_request ex_request (snd ex_attempt) = Some r"
    using ex_begin_ok(3) by (auto simp: scoped_request_def ex_attempt_state)
  show ?thesis
    using renewed_lease_survives [OF ex_reachable(3) lt r prod.collapse [symmetric] prod.collapse [symmetric]
        ex_attempt_state(3)]
    by (simp add: ex_request_simps) (simp add: record_started_def)
qed

section \<open>The budget view\<close>

lemma le_div_iff:
  assumes "0 < m"
  shows "(k :: int) \<le> n div m \<longleftrightarrow> k * m \<le> n"
proof
  assume "k \<le> n div m"
  with assms have "k * m \<le> n div m * m" by simp
  with div_mult_mod_eq [of n m] pos_mod_sign [OF assms, of n] show "k * m \<le> n" by linarith
next
  assume "k * m \<le> n"
  with zdiv_mono1 [OF this assms] assms show "k \<le> n div m" by simp
qed

lemma utilization_threshold:
  assumes "0 \<le> c" "0 < m" "k \<le> i64_max" "0 \<le> k"
  shows "k \<le> utilization_bps c m \<longleftrightarrow> k * m \<le> c * 10000"
proof -
  have q: "tdiv (c * 10000) m = c * 10000 div m" using assms by (simp add: tdiv_nonneg)
  have "0 \<le> c * 10000 div m" using assms by (simp add: pos_imp_zdiv_nonneg_iff)
  with assms q le_div_iff [OF assms(2), of k "c * 10000"] show ?thesis
    by (auto simp: utilization_bps_def Let_def i64_range_def i64_min_def)
qed

text \<open>
  C8: the budget view of a tenant with a positive limit reports exactly what is left (negative once
  overspent), warns from four fifths of the limit on and reports the hard limit from the limit on.
\<close>

theorem budget_thresholds:
  assumes "0 \<le> reserved" "0 \<le> settled" "reserved + settled \<le> i64_max" "0 < m" "m \<le> i64_max"
    and a_def: "a = budget_account t (Some m) reserved settled v u"
  shows "eb_available_microunits a = Some (m - (reserved + settled)) \<and>
    (eb_warning_threshold_reached a \<longleftrightarrow> 4 * m \<le> 5 * (reserved + settled)) \<and>
    (eb_hard_limit_reached a \<longleftrightarrow> m \<le> reserved + settled)"
proof -
  have c: "i64_add reserved settled = reserved + settled"
    using assms by (simp add: i64_add_def i64_clamp_def i64_min_def)
  have "i64_sub m (reserved + settled) = m - (reserved + settled)"
    using assms by (simp add: i64_sub_def i64_clamp_def i64_min_def i64_max_def)
  with c utilization_threshold [of "reserved + settled" m 8000] utilization_threshold [of "reserved + settled" m 10000]
    assms show ?thesis
    by (simp add: a_def budget_account_def Let_def i64_max_def) linarith
qed

theorem budget_thresholds_witness:
  "eb_warning_threshold_reached (budget_account ex_tenant (Some 100) 30 50 1 0) \<and>
   eb_available_microunits (budget_account ex_tenant (Some 100) 30 50 1 0) = Some 20"
  using budget_thresholds [of 30 50 100 "budget_account ex_tenant (Some 100) 30 50 1 0" ex_tenant 1 0] by (simp add: i64_max_def)

end
