(* ===== verification/LedgerRuns.thy ===== *)
theory LedgerRuns
  imports LedgerProps
begin

text \<open>
  Runs of the in-memory request ledger that start from a recorded request or concern other tenants:
  an idempotency key stays used whatever happens to its request, and the books of a tenant are
  untouched by everything done for the others.
\<close>

section \<open>Idempotency keys\<close>

text \<open>
  A step of the ledger in which a new request gets an identifier no recorded request has, as the random
  identifiers of the code do. All other operations are as in \<open>ledger_step\<close>.
\<close>

inductive fresh_step :: "MemoryLedger \<Rightarrow> MemoryLedger \<Rightarrow> bool" where
  fresh_begin_request:
    "begin_request_with_metadata hash inst_id ttl now inst uuid ctx model stream ikey fp md l = (r, l') \<Longrightarrow>
     map_of (requests l) (''grq_'' @ uuid) = None \<Longrightarrow> fresh_step l l'"
| fresh_finalize_request: "finalize_request_usage now q u l = (r', l') \<Longrightarrow> fresh_step l l'"
| fresh_begin_attempt:
    "begin_attempt ttl now inst ru eu q k p m pr est l = (r'', l') \<Longrightarrow>
     reserved_microunits (account_of l (lr_tenant q)) + cost_microunits (est_cost_estimate est) \<le> i64_max
     \<Longrightarrow> fresh_step l l'"
| fresh_finalize_attempt:
    "finalize_attempt now eu x oc l = (r', l') \<Longrightarrow>
     settled_microunits (account_of l (la_tenant x)) + cost_microunits (est_cost_estimate (lo_estimate oc)) \<le> i64_max
     \<Longrightarrow> fresh_step l l'"
| fresh_renew_lease: "renew_lease ttl now inst q l = (r', l') \<Longrightarrow> fresh_step l l'"
| fresh_reconcile: "reconcile_expired eus now inst l = (rr, l') \<Longrightarrow> fresh_step l l'"
| fresh_budget_view: "budget_view now sq l = (rv, l') \<Longrightarrow> fresh_step l l'"
| fresh_update_budget: "update_budget now bu l = (rv, l') \<Longrightarrow> fresh_step l l'"
| fresh_adjust_budget: "adjust_budget now eu ba actor l = (rv, l') \<Longrightarrow> fresh_step l l'"
| fresh_audit: "record_audit_event now u ai l = (r', l') \<Longrightarrow> fresh_step l l'"

lemma fresh_step_ledger: "fresh_step l l' \<Longrightarrow> ledger_step l l'"
  by (cases rule: fresh_step.cases) (auto intro: ledger_step.intros)

lemma fresh_run_ledger: "fresh_step\<^sup>*\<^sup>* l l' \<Longrightarrow> ledger_step\<^sup>*\<^sup>* l l'"
  by (rule mono_rtranclp[rule_format, of fresh_step ledger_step]) (auto intro: fresh_step_ledger)

text \<open>The tenant, the key and the fingerprint of a recorded request.\<close>

definition request_core :: "MemoryRequestRecord \<Rightarrow> TenantKey \<times> string option \<times> string" where
  "request_core r = (mr_tenant (rq_record r), rq_idempotency_key_hash r, rq_request_fingerprint r)"

definition cores :: "MemoryLedger \<Rightarrow> string \<Rightarrow> (TenantKey \<times> string option \<times> string) option" where
  "cores l k = map_option request_core (map_of (requests l) k)"

lemma request_core_record [simp]:
  "request_core (finalized_request now u r) = request_core r"
  "request_core (reconcile_request now inst r) = request_core r"
  "request_core (r\<lparr>rq_record := renew_record now inst ttl (rq_record r)\<rparr>) = request_core r"
  by (simp_all add: request_core_def finalized_request_def reconcile_request_def renew_record_def
      mark_unreconciled_def Let_def split: option.split)

lemma cores_same: "requests l' = requests l \<Longrightarrow> cores l' = cores l"
  by (simp add: cores_def fun_eq_iff)

lemma cores_update:
  "map_of (requests l) k = Some r \<Longrightarrow> request_core r' = request_core r \<Longrightarrow>
   cores (l\<lparr>requests := AList.update k r' (requests l)\<rparr>) = cores l"
  by (auto simp: cores_def update_conv' fun_eq_iff)

lemma requests_settle: "requests (snd (settle_memory_budget now eu x oc l)) = requests l"
  by (simp add: settle_memory_budget_def Let_def split: option.split)

lemma requests_release: "requests (snd (release_memory_budget now eu k l)) = requests l"
  by (simp add: release_memory_budget_def Let_def split: option.split)

lemma requests_reconcile_attempts: "requests (snd (reconcile_attempts now ids n l)) = requests l"
proof (induction now ids n l rule: reconcile_attempts.induct)
  case (2 now k eu ids count l)
  let ?l1 = "case map_of (attempts l) k of
      Some r \<Rightarrow> l\<lparr>attempts := AList.update k (mark_unreconciled now True r) (attempts l)\<rparr> | None \<Rightarrow> l"
  have l1: "requests ?l1 = requests l" by (simp split: option.split)
  obtain res l2 where rel: "release_memory_budget now eu k ?l1 = (res, l2)" by fastforce
  have l2: "requests l2 = requests l" using requests_release[of now eu k ?l1] l1 by (simp add: rel)
  show ?case
  proof (cases res)
    case (Inl e)
    then show ?thesis using l2 rel by (simp add: Let_def)
  next
    case (Inr u)
    have "requests (snd (reconcile_attempts now ids (count + 1) l2)) = requests l2"
      by (rule 2[OF refl rel[symmetric] Inr])
    then show ?thesis using l2 rel Inr by (simp add: Let_def)
  qed
qed simp

lemma requests_budget:
  "requests (snd (budget_view now sq l)) = requests l"
  "requests (snd (update_budget now bu l)) = requests l"
  "requests (snd (adjust_budget now eu ba actor l)) = requests l"
  "requests (snd (record_audit_event now u ai l)) = requests l"
  by (simp_all add: budget_view_def update_budget_def adjust_budget_def record_audit_event_def Let_def
      split: sum.split option.split)

lemma requests_attempt:
  "requests (snd (begin_attempt ttl now inst ru eu q k p m pr est l)) = requests l"
  "requests (snd (finalize_attempt now eu x oc l)) = requests l"
  by (simp_all add: begin_attempt_def finalize_attempt_def requests_settle Let_def split: option.split)

lemma cores_reconcile: "cores (snd (reconcile_expired eus now inst l)) = cores l"
proof -
  let ?ids = "map (\<lambda>k. (k, eus k)) (map fst (filter (\<lambda>(_, r). lease_expired inst r) (attempts l)))"
  obtain res l1 where rec: "reconcile_attempts now ?ids 0 l = (res, l1)" by fastforce
  have l1: "requests l1 = requests l" using requests_reconcile_attempts[of now ?ids 0 l] unfolding rec by simp
  have "cores (l1\<lparr>requests := map (\<lambda>(k, r). (k, reconcile_request now inst r)) (requests l1)\<rparr>) = cores l1"
    by (simp add: cores_def fun_eq_iff map_of_map_snd option.map_comp comp_def)
  then show ?thesis
    using cores_same[OF l1] by (cases res) (simp_all add: reconcile_expired_def Let_def rec[simplified])
qed

lemma cores_renew: "cores (snd (renew_lease ttl now inst q l)) = cores l"
proof -
  have "cores (renew_request now inst ttl q l) = cores l"
    by (auto simp: renew_request_def scoped_request_Some split: option.split intro!: cores_update)
  then show ?thesis by (simp add: renew_lease_def Let_def cores_def fun_eq_iff)
qed

lemma cores_finalize: "cores (snd (finalize_request_usage now q u l)) = cores l"
  by (auto simp: finalize_request_usage_def scoped_request_Some split: option.split intro!: cores_update)

text \<open>No step forgets the key of a recorded request.\<close>

lemma fresh_step_cores:
  assumes "fresh_step l l'" "cores l k = Some c"
  shows "cores l' k = Some c"
  using assms(1)
proof cases
  case (fresh_begin_request hash inst_id ttl now inst uuid ctx model stream ikey fp md r)
  have "k \<noteq> ''grq_'' @ uuid" using assms(2) fresh_begin_request(2) by (auto simp: cores_def)
  then show ?thesis
    using assms(2) fresh_begin_request(1)
    by (auto simp: begin_request_with_metadata_def Let_def cores_def update_conv' split: sum.splits option.splits)
next
  case (fresh_finalize_request now q u r')
  then show ?thesis using cores_finalize[of now q u l] assms(2) by simp
next
  case (fresh_begin_attempt ttl now inst ru eu q k' p m pr est r'')
  then show ?thesis using cores_same[OF requests_attempt(1)[of ttl now inst ru eu q k' p m pr est l]] assms(2) by simp
next
  case (fresh_finalize_attempt now eu x oc r')
  then show ?thesis using cores_same[OF requests_attempt(2)[of now eu x oc l]] assms(2) by simp
next
  case (fresh_renew_lease ttl now inst q r')
  then show ?thesis using cores_renew[of ttl now inst q l] assms(2) by simp
next
  case (fresh_reconcile eus now inst rr)
  then show ?thesis using cores_reconcile[of eus now inst l] assms(2) by simp
next
  case (fresh_budget_view now sq rv)
  then show ?thesis using cores_same[OF requests_budget(1)[of now sq l]] assms(2) by simp
next
  case (fresh_update_budget now bu rv)
  then show ?thesis using cores_same[OF requests_budget(2)[of now bu l]] assms(2) by simp
next
  case (fresh_adjust_budget now eu ba actor rv)
  then show ?thesis using cores_same[OF requests_budget(3)[of now eu ba actor l]] assms(2) by simp
next
  case (fresh_audit now u ai r')
  then show ?thesis using cores_same[OF requests_budget(4)[of now u ai l]] assms(2) by simp
qed

lemma fresh_run_cores: "fresh_step\<^sup>*\<^sup>* l l' \<Longrightarrow> cores l k = Some c \<Longrightarrow> cores l' k = Some c"
  by (induction rule: rtranclp_induct) (auto dest: fresh_step_cores)

text \<open>A recorded key is found again, at its own request.\<close>

lemma recorded_key_found:
  assumes inv: "ledger_inv l" and r: "map_of (requests l) k = Some r"
    "mr_tenant (rq_record r) = t" "rq_idempotency_key_hash r = Some h"
  shows "idempotent_existing t (Some h) l = Some r"
proof (cases "idempotent_existing t (Some h) l")
  case None
  with idempotent_existing_None [OF None refl r(1)] r show ?thesis by simp
next
  case (Some x)
  then have x: "x \<in> set (map_values (requests l))" "mr_tenant (rq_record x) = t" "rq_idempotency_key_hash x = Some h"
    by (auto simp: idempotent_existing_def dest: find_SomeD)
  then obtain k' where "(k', x) \<in> set (requests l)" by auto
  then have k': "map_of (requests l) k' = Some x" using inv by (simp add: ledger_inv_def hm_distinct_def)
  with inv r x have "k' = k" unfolding ledger_inv_def idempotent_requests_def by metis
  with k' r(1) Some show ?thesis by simp
qed

text \<open>
  C7: a used idempotency key stays used. Once a request with the key is recorded, and whatever happens
  to it and around it (attempts, finalization, expiry, other requests with identifiers of their own), a
  second request of the same tenant with that key is refused and records nothing, whatever else it asks
  for. The conflict says whether the two requests are the same and whether the recorded one has ended.
\<close>

theorem idempotency_key_conflicts:
  assumes "ledger_step\<^sup>*\<^sup>* ledger_empty l"
    and "begin_request_with_metadata hash i ttl now inst u ctx model stream (Some key) fp md l = (Inr q, l1)"
    and "fresh_step\<^sup>*\<^sup>* l1 l2"
    and "ctx_tenant ctx' = ctx_tenant ctx" "begin_request_checks fp' md' = Inr ()"
  shows "\<exists>r. map_of (requests l2) (lr_ledger_id q) = Some r \<and>
    begin_request_with_metadata hash i' ttl' now' inst' u' ctx' model' stream' (Some key) fp' md' l2 =
      (Inl (idempotency_conflict (fp = fp') (mr_terminal (rq_record r))), l2)"
proof -
  let ?t = "tenant_key_from (ctx_tenant ctx)"
  have "cores l1 (lr_ledger_id q) = Some (?t, Some (hash key), fp)"
    using assms(2) by (auto simp: begin_request_with_metadata_def Let_def cores_def request_core_def
        started_request_def update_conv' split: sum.splits option.splits)
  from fresh_run_cores[OF assms(3) this] obtain r where r: "map_of (requests l2) (lr_ledger_id q) = Some r"
    "mr_tenant (rq_record r) = ?t" "rq_idempotency_key_hash r = Some (hash key)" "rq_request_fingerprint r = fp"
    by (auto simp: cores_def request_core_def)
  have "ledger_step\<^sup>*\<^sup>* ledger_empty l1"
    using assms(1) step_begin_request[OF assms(2)] by (rule rtranclp.rtrancl_into_rtrancl)
  then have "ledger_step\<^sup>*\<^sup>* ledger_empty l2" using fresh_run_ledger[OF assms(3)] by (rule rtranclp_trans)
  then have "ledger_inv l2" using memory.reachable by blast
  from recorded_key_found[OF this r(1-3)] r assms(4,5) show ?thesis
    by (simp add: begin_request_with_metadata_def Let_def)
qed

definition ex_expired :: MemoryLedger where
  "ex_expired = snd (reconcile_expired (\<lambda>k. k) 60 1000 (snd ex_begin))"

theorem idempotency_key_conflicts_witness:
  "begin_request_with_metadata (\<lambda>k. k) ''j'' 60 21 101 ''9'' ex_ctx ''other'' True (Some ''key'')
     (replicate 64 CHR ''b'') metadata_default ex_expired =
   (Inl (idempotency_conflict (replicate 64 CHR ''a'' = replicate 64 CHR ''b'') True), ex_expired)"
proof -
  have ok: "begin_request_checks (replicate 64 CHR ''b'') metadata_default = Inr ()" by code_simp
  have begun: "ex_begin = (Inr ex_request, snd ex_begin)" using ex_begin_ok(1) by (metis prod.collapse)
  have run: "fresh_step\<^sup>*\<^sup>* (snd ex_begin) ex_expired"
    unfolding ex_expired_def by (rule r_into_rtranclp[where r = fresh_step], rule fresh_reconcile[OF prod.collapse[symmetric]])
  have ended: "map_option (\<lambda>r. mr_terminal (rq_record r)) (map_of (requests ex_expired) (lr_ledger_id ex_request)) = Some True"
    by code_simp
  show ?thesis
    using idempotency_key_conflicts [OF ex_reachable(1) begun [unfolded ex_begin_def] run[unfolded ex_begin_def] refl ok,
        of "''j''" 60 21 101 "''9''" "''other''" True] ended by auto
qed

section \<open>Tenants\<close>

text \<open>
  The books of a tenant: its account and its budget events. A step that is not for a tenant: requests and
  leases of anyone, attempts and budgets of other tenants, and a reconciliation that releases no
  reservation of the tenant.
\<close>

definition books :: "TenantKey \<Rightarrow> MemoryLedger \<Rightarrow> MemoryBudgetAccount \<times> EnterpriseBudgetEvent list" where
  "books t l = (account_of l t, filter (\<lambda>e. event_matches_tenant e t) (budget_events l))"

inductive foreign_step :: "TenantKey \<Rightarrow> MemoryLedger \<Rightarrow> MemoryLedger \<Rightarrow> bool" for t where
  foreign_begin_request:
    "begin_request_with_metadata hash inst_id ttl now inst uuid ctx model stream ikey fp md l = (r, l') \<Longrightarrow>
     foreign_step t l l'"
| foreign_finalize_request: "finalize_request_usage now q u l = (r', l') \<Longrightarrow> foreign_step t l l'"
| foreign_begin_attempt:
    "begin_attempt ttl now inst ru eu q k p m pr est l = (r'', l') \<Longrightarrow> lr_tenant q \<noteq> t \<Longrightarrow> foreign_step t l l'"
| foreign_finalize_attempt:
    "finalize_attempt now eu x oc l = (r', l') \<Longrightarrow> la_tenant x \<noteq> t \<Longrightarrow> foreign_step t l l'"
| foreign_renew_lease: "renew_lease ttl now inst q l = (r', l') \<Longrightarrow> foreign_step t l l'"
| foreign_reconcile:
    "reconcile_expired eus now inst l = (rr, l') \<Longrightarrow>
     (\<And>k a r. (k, a) \<in> set (attempts l) \<Longrightarrow> lease_expired inst a \<Longrightarrow> map_of (budget_reservations l) k = Some r \<Longrightarrow>
        rs_tenant r \<noteq> t) \<Longrightarrow> foreign_step t l l'"
| foreign_budget_view: "budget_view now sq l = (rv, l') \<Longrightarrow> scope_query_tenant sq \<noteq> Inr t \<Longrightarrow> foreign_step t l l'"
| foreign_update_budget: "update_budget now bu l = (rv, l') \<Longrightarrow> update_tenant bu \<noteq> Inr t \<Longrightarrow> foreign_step t l l'"
| foreign_adjust_budget:
    "adjust_budget now eu ba actor l = (rv, l') \<Longrightarrow> adjustment_tenant ba \<noteq> Inr t \<Longrightarrow> foreign_step t l l'"
| foreign_audit: "record_audit_event now u ai l = (r', l') \<Longrightarrow> foreign_step t l l'"

lemma event_of_tenant [simp]:
  "event_matches_tenant (budget_event u now a ty rd sd src bm rea act est) t \<longleftrightarrow> la_tenant a = t"
  "event_matches_tenant (adjustment_event u now t' ba actor) t \<longleftrightarrow> t' = t"
  by (auto simp: event_matches_tenant_def budget_event_def adjustment_event_def intro: TenantKey.equality)

lemma books_put [simp]: "t' \<noteq> t \<Longrightarrow> books t (put_account t' a l) = books t l"
  by (simp add: books_def)

lemma books_cong [simp]:
  "books t (l\<lparr>requests := a\<rparr>) = books t l" "books t (l\<lparr>attempts := b\<rparr>) = books t l"
  "books t (l\<lparr>budget_reservations := c\<rparr>) = books t l" "books t (l\<lparr>audit_events := e\<rparr>) = books t l"
  by (simp_all add: books_def)

lemma books_event [simp]:
  "\<not> event_matches_tenant e t \<Longrightarrow> budget_events l = es \<Longrightarrow> books t (l\<lparr>budget_events := es @ [e]\<rparr>) = books t l"
  by (simp add: books_def)

lemma books_view: "scope_query_tenant sq \<noteq> Inr t \<Longrightarrow> books t (snd (budget_view now sq l)) = books t l"
  by (auto simp: budget_view_def Let_def split: sum.split)

lemma books_update: "update_tenant bu \<noteq> Inr t \<Longrightarrow> books t (snd (update_budget now bu l)) = books t l"
  by (auto simp: update_budget_def Let_def update_tenant_def books_view tenant_from_parts_idem split: sum.split)

lemma books_adjust: "adjustment_tenant ba \<noteq> Inr t \<Longrightarrow> books t (snd (adjust_budget now eu ba actor l)) = books t l"
  by (auto simp: adjust_budget_def Let_def adjustment_tenant_def books_view tenant_from_parts_idem split: sum.split option.split)

lemma books_settle: "la_tenant x \<noteq> t \<Longrightarrow> books t (snd (settle_memory_budget now eu x oc l)) = books t l"
  by (auto simp: settle_memory_budget_def Let_def split: option.split)

lemma books_attempt:
  "lr_tenant q \<noteq> t \<Longrightarrow> books t (snd (begin_attempt ttl now inst ru eu q k p m pr est l)) = books t l"
  "la_tenant x \<noteq> t \<Longrightarrow> books t (snd (finalize_attempt now eu x oc l)) = books t l"
  by (auto simp: begin_attempt_def finalize_attempt_def books_settle Let_def split: option.split)

lemma books_release:
  assumes "\<And>r. map_of (budget_reservations l) k = Some r \<Longrightarrow> rs_tenant r \<noteq> t"
  shows "books t (snd (release_memory_budget now eu k l)) = books t l"
  using assms by (auto simp: release_memory_budget_def Let_def split: option.split)

lemma release_tenants:
  "map_option rs_tenant (map_of (budget_reservations (snd (release_memory_budget now eu k l))) j) =
   map_option rs_tenant (map_of (budget_reservations l) j)"
  by (auto simp: release_memory_budget_def Let_def update_conv' split: option.split)

lemma books_reconcile_attempts:
  assumes "\<And>k r. k \<in> fst ` set ids \<Longrightarrow> map_of (budget_reservations l) k = Some r \<Longrightarrow> rs_tenant r \<noteq> t"
  shows "books t (snd (reconcile_attempts now ids n l)) = books t l"
  using assms
proof (induction now ids n l rule: reconcile_attempts.induct)
  case (2 now k eu ids count l)
  let ?l1 = "case map_of (attempts l) k of
      Some r \<Rightarrow> l\<lparr>attempts := AList.update k (mark_unreconciled now True r) (attempts l)\<rparr> | None \<Rightarrow> l"
  have l1: "books t ?l1 = books t l" "budget_reservations ?l1 = budget_reservations l" by (simp_all split: option.split)
  obtain res l2 where rel: "release_memory_budget now eu k ?l1 = (res, l2)" by fastforce
  have "books t l2 = books t ?l1" using books_release[of ?l1 k t now eu] 2(2)[of k] l1(2) by (simp add: rel)
  then have l2: "books t l2 = books t l" using l1(1) by simp
  have tn: "map_option rs_tenant (map_of (budget_reservations l2) j) = map_option rs_tenant (map_of (budget_reservations l) j)" for j
    using release_tenants[of now eu k ?l1 j] l1(2) by (simp add: rel)
  have others: "rs_tenant r \<noteq> t" if "j \<in> fst ` set ids" "map_of (budget_reservations l2) j = Some r" for j r
    using tn[of j] 2(2)[of j] that by (cases "map_of (budget_reservations l) j") auto
  show ?case
  proof (cases res)
    case (Inl e)
    then show ?thesis using l2 rel by (simp add: Let_def)
  next
    case (Inr u)
    have "books t (snd (reconcile_attempts now ids (count + 1) l2)) = books t l2"
      by (rule 2(1)[OF refl rel[symmetric] Inr others])
    then show ?thesis using l2 rel Inr by (simp add: Let_def)
  qed
qed simp

lemma books_reconcile:
  assumes "\<And>k a r. (k, a) \<in> set (attempts l) \<Longrightarrow> lease_expired inst a \<Longrightarrow> map_of (budget_reservations l) k = Some r \<Longrightarrow>
    rs_tenant r \<noteq> t"
  shows "books t (snd (reconcile_expired eus now inst l)) = books t l"
proof -
  let ?ids = "map (\<lambda>k. (k, eus k)) (map fst (filter (\<lambda>(_, r). lease_expired inst r) (attempts l)))"
  obtain res l1 where rec: "reconcile_attempts now ?ids 0 l = (res, l1)" by fastforce
  have "books t (snd (reconcile_attempts now ?ids 0 l)) = books t l"
    by (rule books_reconcile_attempts) (use assms in \<open>fastforce split: prod.splits\<close>)
  then have "books t l1 = books t l" unfolding rec by simp
  then show ?thesis by (cases res) (simp_all add: reconcile_expired_def Let_def rec[simplified])
qed

lemma books_request:
  "books t (snd (begin_request_with_metadata hash i ttl now inst uuid ctx model stream ikey fp md l)) = books t l"
  "books t (snd (finalize_request_usage now q u l)) = books t l"
  "books t (snd (renew_lease ttl now inst q l)) = books t l"
  "books t (snd (record_audit_event now uuid ai l)) = books t l"
  by (simp_all add: begin_request_with_metadata_def finalize_request_usage_def renew_lease_def renew_request_def
      record_audit_event_def Let_def split: option.split sum.split)

lemma foreign_step_books:
  assumes "foreign_step t l l'" shows "books t l' = books t l"
  using assms
proof cases
  case (foreign_begin_request hash inst_id ttl now inst uuid ctx model stream ikey fp md r)
  then show ?thesis using books_request(1)[of t hash inst_id ttl now inst uuid ctx model stream ikey fp md l] by simp
next
  case (foreign_finalize_request now q u r')
  then show ?thesis using books_request(2)[of t now q u l] by simp
next
  case (foreign_begin_attempt ttl now inst ru eu q k p m pr est r'')
  then show ?thesis using books_attempt(1)[of q t ttl now inst ru eu k p m pr est l] by simp
next
  case (foreign_finalize_attempt now eu x oc r')
  then show ?thesis using books_attempt(2)[of x t now eu oc l] by simp
next
  case (foreign_renew_lease ttl now inst q r')
  then show ?thesis using books_request(3)[of t ttl now inst q l] by simp
next
  case (foreign_reconcile eus now inst rr)
  then show ?thesis using books_reconcile[of l inst t eus now] by simp
next
  case (foreign_budget_view now sq rv)
  then show ?thesis using books_view[of sq t now l] by simp
next
  case (foreign_update_budget now bu rv)
  then show ?thesis using books_update[of bu t now l] by simp
next
  case (foreign_adjust_budget now eu ba actor rv)
  then show ?thesis using books_adjust[of ba t now eu actor l] by simp
next
  case (foreign_audit now u ai r')
  then show ?thesis using books_request(4)[of t now u ai l] by simp
qed

text \<open>
  C9: tenants are isolated. However long the ledger runs on requests, attempts, budget changes and
  adjustments of other tenants and on reconciliations that release nothing of this tenant, the tenant's
  account, limit, balances and version, and its list of budget events stay exactly as they were.
\<close>

theorem budget_tenant_isolation:
  assumes "(foreign_step t)\<^sup>*\<^sup>* l l'"
  shows "account_of l' t = account_of l t \<and>
    filter (\<lambda>e. event_matches_tenant e t) (budget_events l') = filter (\<lambda>e. event_matches_tenant e t) (budget_events l)"
proof -
  have "books t l' = books t l" using assms by induction (auto dest: foreign_step_books)
  then show ?thesis by (simp add: books_def)
qed

definition ex_adjustment :: EnterpriseBudgetAdjustmentInput where
  "ex_adjustment = \<lparr>ba_organization_id = ''o'', ba_project_id = ''p'', ba_environment_id = ''e'',
     ba_delta_microunits = 5, ba_reason = ''r'', ba_evidence_reference = ''s''\<rparr>"

theorem budget_tenant_isolation_witness:
  "account_of (snd (adjust_budget 40 ''4'' ex_adjustment ''a'' (snd ex_attempt))) tenant_key_local =
   account_of (snd ex_begin) tenant_key_local"
proof -
  have 1: "foreign_step tenant_key_local (snd ex_begin) (snd ex_attempt)"
    unfolding ex_attempt_def by (rule foreign_begin_attempt[OF prod.collapse[symmetric]]) code_simp
  have 2: "foreign_step tenant_key_local (snd ex_attempt) (snd (adjust_budget 40 ''4'' ex_adjustment ''a'' (snd ex_attempt)))"
    by (rule foreign_adjust_budget[OF prod.collapse[symmetric]]) code_simp
  show ?thesis
    using budget_tenant_isolation[OF rtranclp.rtrancl_into_rtrancl[where r = "foreign_step tenant_key_local",
          OF r_into_rtranclp[where r = "foreign_step tenant_key_local", OF 1] 2]] by blast
qed

end
