(* ===== verification/LedgerReports.thy ===== *)
theory LedgerReports
  imports LedgerProps Policy
begin

text \<open>
  Reading the request ledger, \<^verbatim>\<open>src/src/enterprise_ledger.rs\<close>: request lists with their filters and
  pages, request details, the overview, audit events, spend totals and quotas, the usage policy check
  made before an attempt, and the lease configuration. \<^verbatim>\<open>str::to_lowercase\<close>, the Unicode case mapping,
  is an argument of the search.
\<close>

section \<open>Queries\<close>

record EnterpriseLedgerQuery =
  lq_page :: "nat option"
  lq_page_size :: "nat option"
  lq_state :: "string option"
  lq_protocol :: "string option"
  lq_traffic_class :: "string option"
  lq_organization_id :: "string option"
  lq_project_id :: "string option"
  lq_environment_id :: "string option"
  lq_search :: "string option"

record NormalizedLedgerQuery =
  nq_page :: nat
  nq_page_size :: nat
  nq_state :: "string option"
  nq_protocol :: "string option"
  nq_traffic_class :: "string option"
  nq_organization_id :: "string option"
  nq_project_id :: "string option"
  nq_environment_id :: "string option"
  nq_search :: "string option"

definition normalized_filter :: "string option \<Rightarrow> string \<Rightarrow> nat \<Rightarrow> string option result" where
  "normalized_filter v field max_len =
     (let w = (case map_option trim v of Some s \<Rightarrow> if s = [] then None else Some s | None \<Rightarrow> None)
      in case w of
           Some s \<Rightarrow>
             (if max_len < length s \<or> has_control s
              then Inl (InvalidRequest (''enterprise ledger '' @ field @ '' is invalid or exceeds '' @
                     show_nat max_len @ '' bytes''))
              else Inr (Some s))
         | None \<Rightarrow> Inr None)"

definition one_of :: "string list \<Rightarrow> string option \<Rightarrow> bool" where
  "one_of vs v = (case v of Some s \<Rightarrow> s \<in> set vs | None \<Rightarrow> True)"

definition normalized :: "EnterpriseLedgerQuery \<Rightarrow> NormalizedLedgerQuery result" where
  "normalized q =
     (let page = (case lq_page q of Some n \<Rightarrow> n | None \<Rightarrow> 1);
          page_size = (case lq_page_size q of Some n \<Rightarrow> n | None \<Rightarrow> 25)
      in if page = 0 \<or> 1000000 < page
         then Inl (InvalidRequest ''enterprise ledger page must be between 1 and 1000000'')
         else if page_size < 1 \<or> 100 < page_size
         then Inl (InvalidRequest ''enterprise ledger pageSize must be between 1 and 100'')
         else
           res_bind (normalized_filter (lq_state q) ''state'' 32) (\<lambda>state.
           res_bind (ensure (one_of [''started'', ''completed'', ''failed'', ''cancelled''] state)
             (InvalidRequest ''enterprise ledger state must be started, completed, failed, or cancelled'')) (\<lambda>_.
           res_bind (normalized_filter (lq_protocol q) ''protocol'' 64) (\<lambda>protocol.
           res_bind (ensure (one_of [''anthropic-messages'', ''openai-chat-completions''] protocol)
             (InvalidRequest ''enterprise ledger protocol must be anthropic-messages or openai-chat-completions'')) (\<lambda>_.
           res_bind (normalized_filter (lq_traffic_class q) ''trafficClass'' 32) (\<lambda>traffic_class.
           res_bind (ensure (one_of [''business'', ''synthetic'', ''diagnostic''] traffic_class)
             (InvalidRequest ''enterprise ledger trafficClass must be business, synthetic, or diagnostic'')) (\<lambda>_.
           res_bind (normalized_filter (lq_organization_id q) ''organizationId'' 128) (\<lambda>org.
           res_bind (normalized_filter (lq_project_id q) ''projectId'' 128) (\<lambda>prj.
           res_bind (normalized_filter (lq_environment_id q) ''environmentId'' 128) (\<lambda>env.
           res_bind (normalized_filter (lq_search q) ''search'' 200) (\<lambda>search.
             Inr \<lparr>nq_page = page, nq_page_size = page_size, nq_state = state, nq_protocol = protocol,
                  nq_traffic_class = traffic_class, nq_organization_id = org, nq_project_id = prj,
                  nq_environment_id = env, nq_search = search\<rparr>)))))))))))"

definition offset :: "NormalizedLedgerQuery \<Rightarrow> nat" where
  "offset q = u64_mul (nq_page q - 1) (nq_page_size q)"

definition differs :: "string option \<Rightarrow> string \<Rightarrow> bool" where
  "differs f v = (case f of Some s \<Rightarrow> v \<noteq> s | None \<Rightarrow> False)"

definition matches_memory ::
    "(string \<Rightarrow> string) \<Rightarrow> NormalizedLedgerQuery \<Rightarrow> MemoryRequestRecord \<Rightarrow> bool" where
  "matches_memory to_lowercase q request =
     (let record = rq_record request; tenant = mr_tenant record
      in if differs (nq_state q) (mr_state record) \<or>
            differs (nq_protocol q) (rq_client_protocol request) \<or>
            differs (nq_traffic_class q) (rq_traffic_class request) \<or>
            differs (nq_organization_id q) (organization_id tenant) \<or>
            differs (nq_project_id q) (project_id tenant) \<or>
            differs (nq_environment_id q) (environment_id tenant)
         then False
         else case nq_search q of
           None \<Rightarrow> True
         | Some search \<Rightarrow>
             list_ex (\<lambda>v. contains (to_lowercase v) (to_lowercase search))
               [mr_request_ledger_id record, rq_request_id request, rq_principal_id request,
                rq_requested_model request, organization_id tenant, project_id tenant,
                environment_id tenant,
                (case mr_terminal_reason record of Some v \<Rightarrow> v | None \<Rightarrow> []),
                (case mr_error_message record of Some v \<Rightarrow> v | None \<Rightarrow> [])])"

section \<open>Rows\<close>

record EnterpriseRequestRow =
  er_ledger_id :: string
  er_request_id :: string
  er_organization_id :: string
  er_project_id :: string
  er_environment_id :: string
  er_principal_id :: string
  er_username :: string
  er_api_key_id :: "string option"
  er_api_key_name :: "string option"
  er_api_key_group :: "string option"
  er_team_id :: "string option"
  er_team_name :: "string option"
  er_client_ip :: "string option"
  er_client_protocol :: string
  er_requested_model :: string
  er_request_path :: string
  er_traffic_class :: string
  er_tool_use_requested :: bool
  er_provider_id :: "string option"
  er_resolved_model :: "string option"
  er_provider_protocol :: "string option"
  er_last_attempt_id :: "string option"
  er_model_pricing :: "json option"
  er_stream :: bool
  er_state :: string
  er_status_code :: "int option"
  er_terminal_reason :: "string option"
  er_error_message :: "string option"
  er_input_tokens :: int
  er_output_tokens :: int
  er_cache_write_tokens :: int
  er_cache_read_tokens :: int
  er_cost_amount_microunits :: int
  er_currency :: string
  er_billing_mode :: "string option"
  er_chargeable :: bool
  er_latency_ms :: int
  er_first_byte_latency_ms :: "int option"
  er_tool_outcome :: string
  er_tool_repair_attempted :: bool
  er_tool_repair_recovered :: bool
  er_retry_count :: int
  er_fallback_from_provider :: "string option"
  er_routing_decision :: "RoutingDecisionEvidence option"
  er_has_idempotency_key :: bool
  er_lease_owner :: string
  er_lease_expires_at_ms :: int
  er_created_at_ms :: int
  er_updated_at_ms :: int
  er_completed_at_ms :: "int option"
  er_attempt_count :: int

record EnterpriseAttemptRow =
  ar_attempt_id :: string
  ar_request_ledger_id :: string
  ar_organization_id :: string
  ar_project_id :: string
  ar_environment_id :: string
  ar_provider_id :: string
  ar_resolved_model :: string
  ar_provider_protocol :: string
  ar_state :: string
  ar_status_code :: "int option"
  ar_terminal_reason :: "string option"
  ar_error_message :: "string option"
  ar_input_tokens :: int
  ar_output_tokens :: int
  ar_cache_write_tokens :: int
  ar_cache_read_tokens :: int
  ar_cost_amount_microunits :: int
  ar_currency :: string
  ar_billing_mode :: "string option"
  ar_chargeable :: bool
  ar_latency_ms :: int
  ar_first_byte_latency_ms :: "int option"
  ar_lease_owner :: string
  ar_lease_expires_at_ms :: int
  ar_created_at_ms :: int
  ar_updated_at_ms :: int
  ar_completed_at_ms :: "int option"

record EnterpriseRequestPage =
  rp_requests :: "EnterpriseRequestRow list"
  rp_total :: int
  rp_page :: nat
  rp_page_size :: nat

record EnterpriseRequestDetail =
  rd_request :: EnterpriseRequestRow
  rd_attempts :: "EnterpriseAttemptRow list"

definition memory_request_row :: "string \<Rightarrow> MemoryRequestRecord \<Rightarrow> int \<Rightarrow> EnterpriseRequestRow" where
  "memory_request_row ledger_id request attempt_count =
     (let record = rq_record request
      in \<lparr>er_ledger_id = ledger_id, er_request_id = rq_request_id request,
           er_organization_id = organization_id (mr_tenant record),
           er_project_id = project_id (mr_tenant record),
           er_environment_id = environment_id (mr_tenant record),
           er_principal_id = rq_principal_id request, er_username = rq_username request,
           er_api_key_id = rq_api_key_id request, er_api_key_name = rq_api_key_name request,
           er_api_key_group = rq_api_key_group request, er_team_id = rq_team_id request,
           er_team_name = rq_team_name request, er_client_ip = rq_client_ip request,
           er_client_protocol = rq_client_protocol request,
           er_requested_model = rq_requested_model request,
           er_request_path = rq_request_path request,
           er_traffic_class = rq_traffic_class request,
           er_tool_use_requested = rq_tool_use_requested request,
           er_provider_id = rq_provider_id request,
           er_resolved_model = rq_resolved_model request,
           er_provider_protocol = rq_provider_protocol request,
           er_last_attempt_id = rq_last_attempt_id request,
           er_model_pricing = rq_model_pricing request, er_stream = rq_stream request,
           er_state = mr_state record, er_status_code = mr_status_code record,
           er_terminal_reason = mr_terminal_reason record,
           er_error_message = mr_error_message record, er_input_tokens = mr_input_tokens record,
           er_output_tokens = mr_output_tokens record,
           er_cache_write_tokens = mr_cache_write_tokens record,
           er_cache_read_tokens = mr_cache_read_tokens record,
           er_cost_amount_microunits = mr_cost_amount_microunits record, er_currency = ''USD'',
           er_billing_mode = mr_billing_mode record, er_chargeable = mr_chargeable record,
           er_latency_ms = mr_latency_ms record,
           er_first_byte_latency_ms = mr_first_byte_latency_ms record,
           er_tool_outcome = mr_tool_outcome record,
           er_tool_repair_attempted = mr_tool_repair_attempted record,
           er_tool_repair_recovered = mr_tool_repair_recovered record,
           er_retry_count = mr_retry_count record,
           er_fallback_from_provider = mr_fallback_from_provider record,
           er_routing_decision = rq_routing_decision request,
           er_has_idempotency_key = (rq_idempotency_key_hash request \<noteq> None),
           er_lease_owner = mr_lease_owner record,
           er_lease_expires_at_ms = mr_lease_expires_at_ms record,
           er_created_at_ms = mr_created_at_ms record,
           er_updated_at_ms = mr_updated_at_ms record,
           er_completed_at_ms = mr_completed_at_ms record,
           er_attempt_count = attempt_count\<rparr>)"

definition memory_attempt_row :: "string \<Rightarrow> MemoryRecord \<Rightarrow> EnterpriseAttemptRow" where
  "memory_attempt_row attempt_id record =
        (\<lparr>ar_attempt_id = attempt_id, ar_request_ledger_id = mr_request_ledger_id record,
           ar_organization_id = organization_id (mr_tenant record),
           ar_project_id = project_id (mr_tenant record),
           ar_environment_id = environment_id (mr_tenant record),
           ar_provider_id = (case mr_provider_id record of Some v \<Rightarrow> v | None \<Rightarrow> []),
           ar_resolved_model = (case mr_resolved_model record of Some v \<Rightarrow> v | None \<Rightarrow> []),
           ar_provider_protocol = (case mr_provider_protocol record of Some v \<Rightarrow> v | None \<Rightarrow> []),
           ar_state = mr_state record, ar_status_code = mr_status_code record,
           ar_terminal_reason = mr_terminal_reason record,
           ar_error_message = mr_error_message record, ar_input_tokens = mr_input_tokens record,
           ar_output_tokens = mr_output_tokens record,
           ar_cache_write_tokens = mr_cache_write_tokens record,
           ar_cache_read_tokens = mr_cache_read_tokens record,
           ar_cost_amount_microunits = mr_cost_amount_microunits record, ar_currency = ''USD'',
           ar_billing_mode = mr_billing_mode record, ar_chargeable = mr_chargeable record,
           ar_latency_ms = mr_latency_ms record,
           ar_first_byte_latency_ms = mr_first_byte_latency_ms record,
           ar_lease_owner = mr_lease_owner record,
           ar_lease_expires_at_ms = mr_lease_expires_at_ms record,
           ar_created_at_ms = mr_created_at_ms record,
           ar_updated_at_ms = mr_updated_at_ms record,
           ar_completed_at_ms = mr_completed_at_ms record\<rparr>)"

section \<open>Request lists\<close>

definition attempt_count :: "MemoryLedger \<Rightarrow> string \<Rightarrow> int" where
  "attempt_count l ledger_id =
     to_i64_sat (length (filter (\<lambda>a. mr_request_ledger_id a = ledger_id) (map_values (attempts l))))"

text \<open>Newest first, ledger identifiers descending among equals.\<close>

definition row_before :: "EnterpriseRequestRow \<Rightarrow> EnterpriseRequestRow \<Rightarrow> bool" where
  "row_before x y \<longleftrightarrow> er_created_at_ms y < er_created_at_ms x \<or>
     er_created_at_ms y = er_created_at_ms x \<and> er_ledger_id y \<le> er_ledger_id x"

definition matching_rows ::
    "(string \<Rightarrow> string) \<Rightarrow> NormalizedLedgerQuery \<Rightarrow> MemoryLedger \<Rightarrow> EnterpriseRequestRow list" where
  "matching_rows to_lowercase q l =
     sort_by row_before (map (\<lambda>(k, r). memory_request_row k r (attempt_count l k))
       (filter (\<lambda>(_, r). matches_memory to_lowercase q r) (requests l)))"

definition list_requests ::
    "(string \<Rightarrow> string) \<Rightarrow> EnterpriseLedgerQuery \<Rightarrow> MemoryLedger \<Rightarrow> EnterpriseRequestPage result" where
  "list_requests to_lowercase query l =
     res_bind (normalized query) (\<lambda>q.
       let rows = matching_rows to_lowercase q l;
           start = min (offset q) (length rows);
           stop = min (u64_add start (nq_page_size q)) (length rows)
       in Inr \<lparr>rp_requests = take (stop - start) (drop start rows),
               rp_total = to_i64_sat (length rows), rp_page = nq_page q,
               rp_page_size = nq_page_size q\<rparr>)"

definition request_detail :: "string \<Rightarrow> MemoryLedger \<Rightarrow> EnterpriseRequestDetail option" where
  "request_detail ledger_id l =
     (case map_of (requests l) ledger_id of
        None \<Rightarrow> None
      | Some request \<Rightarrow>
          let rows = sort_by (\<lambda>x y. ar_created_at_ms x \<le> ar_created_at_ms y)
                (map (\<lambda>(k, a). memory_attempt_row k a)
                  (filter (\<lambda>(_, a). mr_request_ledger_id a = ledger_id) (attempts l)))
          in Some \<lparr>rd_request = memory_request_row ledger_id request (to_i64_sat (length rows)),
                   rd_attempts = rows\<rparr>)"

definition recent_audit_events :: "nat \<Rightarrow> MemoryLedger \<Rightarrow> EnterpriseAuditEvent list \<times> int" where
  "recent_audit_events limit l =
     (take (max 1 (min limit 1000)) (rev (audit_events l)), to_i64_sat (length (audit_events l)))"

section \<open>Overview\<close>

record EnterpriseLedgerOverview =
  ov_backend :: string
  ov_location :: string
  ov_lease_ttl_secs :: nat
  ov_reconcile_interval_secs :: nat
  ov_total_requests :: int
  ov_started_requests :: int
  ov_completed_requests :: int
  ov_failed_requests :: int
  ov_cancelled_requests :: int
  ov_unreconciled_requests :: int
  ov_idempotent_requests :: int
  ov_active_leases :: int
  ov_expired_leases :: int
  ov_chargeable_requests :: int
  ov_total_cost_microunits :: int
  ov_organization_count :: int
  ov_project_count :: int
  ov_environment_count :: int

text \<open>The loop over the requests, without the three sets; the counters cannot overflow.\<close>

definition overview_request ::
    "nat \<Rightarrow> MemoryRequestRecord \<Rightarrow> EnterpriseLedgerOverview \<Rightarrow> EnterpriseLedgerOverview" where
  "overview_request inst request ov =
     (let record = rq_record request;
          bump = (\<lambda>b n. if b then n + 1 else n)
      in ov\<lparr>ov_total_requests := ov_total_requests ov + 1,
            ov_started_requests := bump (mr_state record = ''started'') (ov_started_requests ov),
            ov_completed_requests := bump (mr_state record = ''completed'') (ov_completed_requests ov),
            ov_failed_requests := bump (mr_state record = ''failed'') (ov_failed_requests ov),
            ov_cancelled_requests := bump (mr_state record = ''cancelled'') (ov_cancelled_requests ov),
            ov_unreconciled_requests :=
              bump (mr_terminal_reason record = Some ''lease_expired_unreconciled'') (ov_unreconciled_requests ov),
            ov_idempotent_requests :=
              bump (rq_idempotency_key_hash request \<noteq> None) (ov_idempotent_requests ov),
            ov_active_leases :=
              bump (\<not> mr_terminal record \<and> inst < mr_lease_expires_at record) (ov_active_leases ov),
            ov_expired_leases :=
              bump (\<not> mr_terminal record \<and> mr_lease_expires_at record \<le> inst) (ov_expired_leases ov),
            ov_chargeable_requests := bump (mr_chargeable record) (ov_chargeable_requests ov),
            ov_total_cost_microunits :=
              i64_add (ov_total_cost_microunits ov) (mr_cost_amount_microunits record)\<rparr>)"

definition overview_init :: "string \<Rightarrow> nat \<Rightarrow> nat \<Rightarrow> EnterpriseLedgerOverview" where
  "overview_init location lease_ttl_secs reconcile_interval_secs =
     \<lparr>ov_backend = ''memory'', ov_location = location,
      ov_lease_ttl_secs = lease_ttl_secs, ov_reconcile_interval_secs = reconcile_interval_secs,
      ov_total_requests = 0, ov_started_requests = 0, ov_completed_requests = 0,
      ov_failed_requests = 0, ov_cancelled_requests = 0, ov_unreconciled_requests = 0,
      ov_idempotent_requests = 0, ov_active_leases = 0, ov_expired_leases = 0,
      ov_chargeable_requests = 0, ov_total_cost_microunits = 0, ov_organization_count = 0,
      ov_project_count = 0, ov_environment_count = 0\<rparr>"

definition overview :: "string \<Rightarrow> nat \<Rightarrow> nat \<Rightarrow> nat \<Rightarrow> MemoryLedger \<Rightarrow> EnterpriseLedgerOverview" where
  "overview location lease_ttl_secs reconcile_interval_secs inst l =
     (let tenants = map (\<lambda>r. mr_tenant (rq_record r)) (map_values (requests l));
          ov = fold (overview_request inst) (map_values (requests l))
            (overview_init location lease_ttl_secs reconcile_interval_secs)
      in ov\<lparr>ov_organization_count := to_i64_sat (length (remdups (map organization_id tenants))),
            ov_project_count :=
              to_i64_sat (length (remdups (map (\<lambda>t. (organization_id t, project_id t)) tenants))),
            ov_environment_count := to_i64_sat (length (remdups tenants))\<rparr>)"

section \<open>Spend and quotas\<close>

record ApiKeyPolicy =
  pol_team_id :: "string option"
  pol_ip_restricted :: bool
  pol_allowed_ips :: "string list"
  pol_allowed_models :: "string list"
  pol_allowed_providers :: "string list"
  pol_team_allowed_models :: "string list"
  pol_team_allowed_providers :: "string list"
  pol_team_daily_limit_usd :: f64
  pol_team_monthly_limit_usd :: f64
  pol_spend_limit_usd :: f64
  pol_rate_limited :: bool
  pol_five_hour_limit_usd :: f64
  pol_daily_limit_usd :: f64
  pol_weekly_limit_usd :: f64
  pol_monthly_limit_usd :: f64

record UsageQuotaLimit =
  ql_id :: string
  ql_user_id :: string
  ql_quota_type :: string
  ql_limit :: f64
  ql_period_start_ms :: nat

record UsagePolicySnapshot =
  up_user_id :: string
  up_username :: string
  up_api_key_id :: "string option"
  up_team_id :: "string option"
  up_api_key_policy :: ApiKeyPolicy
  up_quotas :: "UsageQuotaLimit list"

record UsageSpendTotals =
  st_api_key_all_time :: f64
  st_api_key_five_hours :: f64
  st_api_key_day :: f64
  st_api_key_week :: f64
  st_api_key_month :: f64
  st_team_day :: f64
  st_team_month :: f64

definition nonnegative_u64 :: "int \<Rightarrow> nat" where
  "nonnegative_u64 v = nat (max v 0)"

definition microunits_usd :: "int \<Rightarrow> f64" where
  "microunits_usd v = f64_div (f64_of_int (max v 0)) (Fin 1000000)"

definition request_total_tokens :: "MemoryRecord \<Rightarrow> nat" where
  "request_total_tokens r =
     u64_add (u64_add (u64_add (nonnegative_u64 (mr_input_tokens r)) (nonnegative_u64 (mr_output_tokens r)))
       (nonnegative_u64 (mr_cache_write_tokens r))) (nonnegative_u64 (mr_cache_read_tokens r))"

definition quota_value_from_totals :: "string \<Rightarrow> nat \<Rightarrow> nat \<Rightarrow> int \<Rightarrow> f64" where
  "quota_value_from_totals quota_type reqs tokens cost =
     (if quota_type = ''requests'' then f64_of_nat reqs
      else if quota_type = ''tokens'' then f64_of_nat tokens
      else if quota_type = ''cost'' then microunits_usd cost
      else Fin 0)"

definition bump_cost :: "bool \<Rightarrow> f64 \<Rightarrow> f64 \<Rightarrow> f64" where
  "bump_cost b cost total_cost = (if b then f64_add total_cost cost else total_cost)"

definition spend_request ::
    "int \<Rightarrow> UsagePolicySnapshot \<Rightarrow> MemoryRequestRecord \<Rightarrow> UsageSpendTotals \<Rightarrow> UsageSpendTotals" where
  "spend_request now p request totals =
     (let cost = microunits_usd (mr_cost_amount_microunits (rq_record request));
          age = i64_sub now (mr_created_at_ms (rq_record request));
          key = (rq_api_key_id request = up_api_key_id p \<and> up_api_key_id p \<noteq> None);
          team = (rq_team_id request = up_team_id p \<and> up_team_id p \<noteq> None)
      in \<lparr>st_api_key_all_time = bump_cost key cost (st_api_key_all_time totals),
          st_api_key_five_hours =
            bump_cost (key \<and> age \<le> 5 * 60 * 60 * 1000) cost (st_api_key_five_hours totals),
          st_api_key_day = bump_cost (key \<and> age \<le> 24 * 60 * 60 * 1000) cost (st_api_key_day totals),
          st_api_key_week = bump_cost (key \<and> age \<le> 7 * 24 * 60 * 60 * 1000) cost (st_api_key_week totals),
          st_api_key_month = bump_cost (key \<and> age \<le> 30 * 24 * 60 * 60 * 1000) cost (st_api_key_month totals),
          st_team_day = bump_cost (team \<and> age \<le> 24 * 60 * 60 * 1000) cost (st_team_day totals),
          st_team_month = bump_cost (team \<and> age \<le> 30 * 24 * 60 * 60 * 1000) cost (st_team_month totals)\<rparr>)"

definition usage_spend_totals :: "int \<Rightarrow> UsagePolicySnapshot \<Rightarrow> MemoryLedger \<Rightarrow> UsageSpendTotals" where
  "usage_spend_totals now p l =
     fold (spend_request now p)
       (filter (\<lambda>r. mr_terminal (rq_record r) \<and> mr_chargeable (rq_record r)) (map_values (requests l)))
       \<lparr>st_api_key_all_time = Fin 0, st_api_key_five_hours = Fin 0, st_api_key_day = Fin 0,
        st_api_key_week = Fin 0, st_api_key_month = Fin 0, st_team_day = Fin 0, st_team_month = Fin 0\<rparr>"

definition quota_request :: "MemoryRequestRecord \<Rightarrow> nat \<times> nat \<times> int \<Rightarrow> nat \<times> nat \<times> int" where
  "quota_request request = (\<lambda>(reqs, tokens, cost).
     let r = rq_record request
     in (u64_add reqs 1,
         u64_add (u64_add (u64_add (u64_add tokens (nonnegative_u64 (mr_input_tokens r)))
           (nonnegative_u64 (mr_output_tokens r))) (nonnegative_u64 (mr_cache_write_tokens r)))
           (nonnegative_u64 (mr_cache_read_tokens r)),
         i64_add cost (max (mr_cost_amount_microunits r) 0)))"

definition quota_value :: "UsageQuotaLimit \<Rightarrow> MemoryLedger \<Rightarrow> f64" where
  "quota_value quota l =
     (case fold quota_request
        (filter (\<lambda>r. mr_terminal (rq_record r) \<and> mr_chargeable (rq_record r) \<and>
            rq_principal_id r = ql_user_id quota \<and>
            to_i64_sat (ql_period_start_ms quota) \<le> mr_created_at_ms (rq_record r))
          (map_values (requests l))) (0, 0, 0) of
        (reqs, tokens, cost) \<Rightarrow> quota_value_from_totals (ql_quota_type quota) reqs tokens cost)"

definition check_quota ::
    "UsagePolicySnapshot \<Rightarrow> UsageEstimate \<Rightarrow> MemoryLedger \<Rightarrow> UsageQuotaLimit \<Rightarrow> unit result" where
  "check_quota p estimate l quota =
     (let used = quota_value quota l; increment = quota_increment (ql_quota_type quota) estimate
      in if f64_lt (Fin 0) increment \<and> f64_lt (ql_limit quota) (f64_add used increment)
         then Inl (QuotaExceeded (ql_quota_type quota @ '' quota exceeded for user '' @ up_username p))
         else Inr ())"

definition check_usage_policy ::
    "int \<Rightarrow> UsagePolicySnapshot \<Rightarrow> UsageEstimate \<Rightarrow> MemoryLedger \<Rightarrow> unit result" where
  "check_usage_policy now p estimate l =
     (if up_user_id p = [] then Inr ()
      else
        let spend = usage_spend_totals now p l; limits = up_api_key_policy p;
            cost = est_cost_estimate estimate
        in res_bind (enforce_spend_limit ''total spend'' (pol_spend_limit_usd limits)
             (st_api_key_all_time spend) cost) (\<lambda>_.
           res_bind (if pol_rate_limited limits
             then res_each (\<lambda>(label, limit, used). enforce_spend_limit label limit used cost)
               [(''5 hour spend'', pol_five_hour_limit_usd limits, st_api_key_five_hours spend),
                (''daily spend'', pol_daily_limit_usd limits, st_api_key_day spend),
                (''7 day spend'', pol_weekly_limit_usd limits, st_api_key_week spend),
                (''monthly spend'', pol_monthly_limit_usd limits, st_api_key_month spend)]
             else Inr ()) (\<lambda>_.
           res_bind (enforce_spend_limit ''team daily spend'' (pol_team_daily_limit_usd limits)
             (st_team_day spend) cost) (\<lambda>_.
           res_bind (enforce_spend_limit ''team monthly spend'' (pol_team_monthly_limit_usd limits)
             (st_team_month spend) cost) (\<lambda>_.
           res_each (check_quota p estimate l) (up_quotas p))))))"

definition quota_usage_values :: "UsageQuotaLimit list \<Rightarrow> MemoryLedger \<Rightarrow> (string, f64) hmap" where
  "quota_usage_values quotas l =
     fold (\<lambda>q m. AList.update (ql_id q) (quota_value q l) m) quotas []"

section \<open>Lease configuration\<close>

definition env_seconds :: "(string \<Rightarrow> string option) \<Rightarrow> string \<Rightarrow> nat \<Rightarrow> nat \<Rightarrow> nat result" where
  "env_seconds env name dflt minimum =
     res_bind (case env name of
         Some v \<Rightarrow> ok_or (parse_uint u64_max (trim v))
           (Config (name @ '' must be an integer number of seconds''))
       | None \<Rightarrow> Inr dflt) (\<lambda>seconds.
       if seconds < minimum \<or> 2147483647 < seconds
       then Inl (Config (name @ '' must be between '' @ show_nat minimum @ '' and 2147483647 seconds''))
       else Inr seconds)"

definition validate_lease_durations :: "nat \<Rightarrow> nat \<Rightarrow> unit result" where
  "validate_lease_durations lease_ttl reconcile_interval =
     (if lease_ttl \<le> reconcile_interval
      then Inl (Config ''MODELPORT_LEDGER_RECONCILE_INTERVAL_SECS must be smaller than MODELPORT_LEDGER_LEASE_TTL_SECS'')
      else Inr ())"

definition lease_config :: "(string \<Rightarrow> string option) \<Rightarrow> (nat \<times> nat) result" where
  "lease_config env =
     res_bind (env_seconds env ''MODELPORT_LEDGER_LEASE_TTL_SECS'' 300 30) (\<lambda>lease_ttl.
     res_bind (env_seconds env ''MODELPORT_LEDGER_RECONCILE_INTERVAL_SECS'' 60 5) (\<lambda>reconcile_interval.
     res_bind (validate_lease_durations lease_ttl reconcile_interval) (\<lambda>_.
       Inr (lease_ttl, reconcile_interval))))"

section \<open>Lemmas\<close>

lemma nonneg_microunits [simp]: "f64_nonneg (microunits_usd v)"
proof -
  have "f64_nonneg (f64_of_int (max v 0))" by (simp add: f64_of_int_def f64_of_rat_nonneg)
  then show ?thesis
    unfolding microunits_usd_def
    by (elim f64_nonneg_cases)
      (auto simp: f64_div_def is_nan_def is_finite_def sign_bit_def signed_inf_def signed_zero_def f64_of_rat_nonneg)
qed

definition window_le :: "f64 \<Rightarrow> f64 \<Rightarrow> bool" where
  "window_le x y \<longleftrightarrow> f64_nonneg x \<and> f64_nonneg y \<and> representable x \<and> representable y \<and> f64_le x y"

lemma window_le_zero [simp]: "window_le (Fin 0) (Fin 0)"
  by (simp add: window_le_def representable_def)

text \<open>A wider window keeps at least the narrower one's total.\<close>

lemma window_le_bump:
  assumes "window_le x y" "f64_nonneg c" "a \<longrightarrow> b"
  shows "window_le (bump_cost a c x) (bump_cost b c y)"
proof -
  from assms have nn: "f64_nonneg (f64_add x c)" "f64_nonneg (f64_add y c)"
    "representable (f64_add x c)" "representable (f64_add y c)"
    by (auto simp: window_le_def intro: f64_nonneg_add representable_add)
  have "c \<noteq> NaN" using assms(2) by auto
  then have "f64_le (f64_add x c) (f64_add y c)"
    using assms by (auto simp: window_le_def intro: f64_add_mono f64_le_refl)
  moreover have "f64_le x (f64_add y c)"
    using assms f64_add_grows [of y c] by (auto simp: window_le_def intro: f64_le_trans)
  ultimately show ?thesis
    using assms nn by (auto simp: bump_cost_def window_le_def)
qed

definition spend_nested :: "UsageSpendTotals \<Rightarrow> bool" where
  "spend_nested s \<longleftrightarrow>
     window_le (st_api_key_five_hours s) (st_api_key_day s) \<and> window_le (st_api_key_day s) (st_api_key_week s) \<and>
     window_le (st_api_key_week s) (st_api_key_month s) \<and>
     window_le (st_api_key_month s) (st_api_key_all_time s) \<and> window_le (st_team_day s) (st_team_month s)"

lemma spend_nested_request: "spend_nested s \<Longrightarrow> spend_nested (spend_request now p r s)"
  unfolding spend_nested_def spend_request_def Let_def UsageSpendTotals.simps
  by (intro conjI window_le_bump) auto

lemma spend_nested_fold: "spend_nested s \<Longrightarrow> spend_nested (fold (spend_request now p) rs s)"
  by (induction rs arbitrary: s) (simp_all add: spend_nested_request)

section \<open>Properties\<close>

text \<open>
  C10: the spend totals of a usage policy are nested: a longer window never reports less than a shorter
  one, and no window reports more than the total, with the rounding of floating-point addition
  included.
\<close>

theorem spend_windows_nested:
  "f64_le (st_api_key_five_hours (usage_spend_totals now p l)) (st_api_key_day (usage_spend_totals now p l)) \<and>
   f64_le (st_api_key_day (usage_spend_totals now p l)) (st_api_key_week (usage_spend_totals now p l)) \<and>
   f64_le (st_api_key_week (usage_spend_totals now p l)) (st_api_key_month (usage_spend_totals now p l)) \<and>
   f64_le (st_api_key_month (usage_spend_totals now p l)) (st_api_key_all_time (usage_spend_totals now p l)) \<and>
   f64_le (st_team_day (usage_spend_totals now p l)) (st_team_month (usage_spend_totals now p l))"
proof -
  have "spend_nested (usage_spend_totals now p l)"
    unfolding usage_spend_totals_def by (rule spend_nested_fold) (simp add: spend_nested_def)
  then show ?thesis by (simp add: spend_nested_def window_le_def)
qed

text \<open>Request lists.\<close>

lemma distinct_map_sort_by: "distinct (map f (sort_by le xs)) \<longleftrightarrow> distinct (map f xs)"
  by (simp add: distinct_map)

lemma row_before_order: "transp row_before" "totalp row_before" "reflp row_before"
  unfolding transp_def totalp_on_def reflp_def row_before_def by auto

lemma memory_request_row_simps [simp]:
  "er_ledger_id (memory_request_row k r n) = k"
  "er_created_at_ms (memory_request_row k r n) = mr_created_at_ms (rq_record r)"
  by (simp_all add: memory_request_row_def Let_def)

lemma normalized_fields:
  assumes "normalized q = Inr n"
  shows "nq_page n = (case lq_page q of Some i \<Rightarrow> i | None \<Rightarrow> 1)"
    "nq_page_size n = (case lq_page_size q of Some i \<Rightarrow> i | None \<Rightarrow> 25)"
    "1 \<le> nq_page n" "nq_page n \<le> 1000000" "1 \<le> nq_page_size n" "nq_page_size n \<le> 100"
    "1 \<le> i \<Longrightarrow> i \<le> 1000000 \<Longrightarrow> normalized (q\<lparr>lq_page := Some i\<rparr>) = Inr (n\<lparr>nq_page := i\<rparr>)"
  using assms by (auto simp: normalized_def Let_def res_bind_Inr_iff split: if_splits)

lemma matching_rows_page [simp]: "matching_rows lower (n\<lparr>nq_page := i\<rparr>) l = matching_rows lower n l"
  by (simp add: matching_rows_def matches_memory_def Let_def)

lemma list_requests_page:
  assumes "normalized q = Inr n" "length (matching_rows lower n l) \<le> u64_max - 100"
  shows "list_requests lower q l = Inr
    \<lparr>rp_requests = take (nq_page_size n) (drop ((nq_page n - 1) * nq_page_size n) (matching_rows lower n l)),
     rp_total = to_i64_sat (length (matching_rows lower n l)), rp_page = nq_page n,
     rp_page_size = nq_page_size n\<rparr>"
proof -
  note f = normalized_fields [OF assms(1)]
  let ?rows = "matching_rows lower n l" and ?p = "(nq_page n - 1) * nq_page_size n"
  have "?p \<le> 1000000 * 100" using f by (intro mult_mono) auto
  then have off: "offset n = ?p" by (simp add: offset_def u64_mul_def u64_max_def)
  have add: "u64_add (min ?p (length ?rows)) (nq_page_size n) = min ?p (length ?rows) + nq_page_size n"
    using assms(2) f by (intro u64_add_exact) (simp add: u64_max_def min_def)
  have cut: "take (min (min o' (length xs) + s) (length xs) - min o' (length xs)) (drop (min o' (length xs)) xs) =
      take s (drop o' xs)" for o' s and xs :: "EnterpriseRequestRow list"
    by (cases "o' \<le> length xs") (auto simp: min_def)
  show ?thesis
    unfolding list_requests_def assms(1) res_bind_simps Let_def off add cut by (rule refl)
qed

lemma concat_pages:
  "concat (map (\<lambda>i. take s (drop (i * s) xs)) [0..<n]) = take (n * s) xs"
proof (induction n)
  case (Suc n)
  have "take (n * s + s) xs = take (n * s) xs @ take s (drop (n * s) xs)" by (rule take_add)
  with Suc show ?case by (simp add: add.commute)
qed simp

text \<open>
  C11: the pages of a request list, put one after the other, are the matching requests: every one of
  them exactly once, newest first.
\<close>

theorem request_pages_partition:
  assumes "normalized q = Inr n" "hm_distinct (requests l)"
    and "length (requests l) \<le> u64_max - 100"
    and "N \<le> 1000000" "length (requests l) \<le> N * nq_page_size n"
  shows "let rows = concat (map (\<lambda>i. case list_requests lower (q\<lparr>lq_page := Some i\<rparr>) l of
        Inr page \<Rightarrow> rp_requests page | Inl _ \<Rightarrow> []) [1..<Suc N])
    in sorted_wrt row_before rows \<and> distinct (map er_ledger_id rows) \<and>
       (\<forall>row. row \<in> set rows \<longleftrightarrow> (\<exists>k r. map_of (requests l) k = Some r \<and> matches_memory lower n r \<and>
          row = memory_request_row k r (attempt_count l k)))"
proof -
  let ?rows = "matching_rows lower n l"
  let ?hits = "filter (\<lambda>(_, r). matches_memory lower n r) (requests l)"
  have len: "length ?rows \<le> length (requests l)" by (simp add: matching_rows_def)
  have page: "(case list_requests lower (q\<lparr>lq_page := Some i\<rparr>) l of Inr page \<Rightarrow> rp_requests page | Inl _ \<Rightarrow> []) =
      take (nq_page_size n) (drop ((i - 1) * nq_page_size n) ?rows)" if "i \<in> set [1..<Suc N]" for i
  proof -
    from that assms(4) have "1 \<le> i" "i \<le> 1000000" by auto
    then have nm: "normalized (q\<lparr>lq_page := Some i\<rparr>) = Inr (n\<lparr>nq_page := i\<rparr>)"
      by (rule normalized_fields(7) [OF assms(1)])
    show ?thesis using list_requests_page [OF nm, of lower l] len assms(3) by simp
  qed
  have "concat (map (\<lambda>i. case list_requests lower (q\<lparr>lq_page := Some i\<rparr>) l of
        Inr page \<Rightarrow> rp_requests page | Inl _ \<Rightarrow> []) [1..<Suc N]) =
      concat (map (\<lambda>i. take (nq_page_size n) (drop ((i - 1) * nq_page_size n) ?rows)) [1..<Suc N])"
    using page by (intro arg_cong [of _ _ concat] map_cong) auto
  also have "\<dots> = concat (map (\<lambda>i. take (nq_page_size n) (drop (i * nq_page_size n) ?rows)) [0..<N])"
    by (simp add: map_Suc_upt [symmetric] comp_def del: upt_Suc map_Suc_upt)
  also have "\<dots> = ?rows" using len assms(5) by (simp add: concat_pages)
  finally have all: "concat (map (\<lambda>i. case list_requests lower (q\<lparr>lq_page := Some i\<rparr>) l of
        Inr page \<Rightarrow> rp_requests page | Inl _ \<Rightarrow> []) [1..<Suc N]) = ?rows" .
  have "distinct (map fst ?hits)" using assms(2) by (simp add: hm_distinct_def distinct_map_filter)
  then have "distinct (map er_ledger_id (map (\<lambda>(k, r). memory_request_row k r (attempt_count l k)) ?hits))"
    by (simp add: comp_def case_prod_unfold)
  then have "distinct (map er_ledger_id ?rows)"
    unfolding matching_rows_def distinct_map_sort_by .
  moreover have "row \<in> set ?rows \<longleftrightarrow> (\<exists>k r. map_of (requests l) k = Some r \<and> matches_memory lower n r \<and>
      row = memory_request_row k r (attempt_count l k))" for row
    using assms(2) unfolding matching_rows_def by (force simp: hm_distinct_def)
  moreover have "sorted_wrt row_before ?rows"
    unfolding matching_rows_def by (intro sorted_wrt_sort_by row_before_order)
  ultimately show ?thesis unfolding all Let_def by blast
qed

definition ex_query :: EnterpriseLedgerQuery where
  "ex_query = \<lparr>lq_page = None, lq_page_size = Some 10, lq_state = None, lq_protocol = None,
     lq_traffic_class = None, lq_organization_id = Some ''o'', lq_project_id = None,
     lq_environment_id = None, lq_search = None\<rparr>"

definition ex_normalized :: NormalizedLedgerQuery where
  "ex_normalized = \<lparr>nq_page = 1, nq_page_size = 10, nq_state = None, nq_protocol = None,
     nq_traffic_class = None, nq_organization_id = Some ''o'', nq_project_id = None,
     nq_environment_id = None, nq_search = None\<rparr>"

lemma ex_query_normalized: "normalized ex_query = Inr ex_normalized"
proof -
  have filters: "normalized_filter None f m = Inr None" for f m by (simp add: normalized_filter_def)
  have org: "normalized_filter (Some ''o'') ''organizationId'' 128 = Inr (Some ''o'')" by code_simp
  show ?thesis by (simp add: normalized_def ex_query_def ex_normalized_def filters org one_of_def ensure_def)
qed

theorem request_pages_partition_witness:
  "sorted_wrt row_before (concat (map (\<lambda>i. case list_requests to_ascii_lowercase (ex_query\<lparr>lq_page := Some i\<rparr>) (snd ex_begin) of
     Inr page \<Rightarrow> rp_requests page | Inl _ \<Rightarrow> []) [1..<Suc 1]))"
proof -
  have "hm_distinct (requests (snd ex_begin))" using memory.reachable [OF ex_reachable(2)] by (simp add: ledger_inv_def)
  moreover have len: "length (requests (snd ex_begin)) = 1" by code_simp
  ultimately show ?thesis
    using request_pages_partition [OF ex_query_normalized, of "snd ex_begin" 1 to_ascii_lowercase]
    by (simp add: Let_def u64_max_def ex_normalized_def del: upt_Suc One_nat_def)
qed

section \<open>Quotas\<close>

definition quota_hits :: "UsageQuotaLimit \<Rightarrow> MemoryLedger \<Rightarrow> MemoryRequestRecord list" where
  "quota_hits quota l = filter (\<lambda>r. mr_terminal (rq_record r) \<and> mr_chargeable (rq_record r) \<and>
     rq_principal_id r = ql_user_id quota \<and>
     to_i64_sat (ql_period_start_ms quota) \<le> mr_created_at_ms (rq_record r)) (map_values (requests l))"

lemma quota_request_count:
  "n + length rs \<le> u64_max \<Longrightarrow> fst (fold quota_request rs (n, t, c)) = n + length rs"
proof (induction rs arbitrary: n t c)
  case (Cons r rs)
  then have "u64_add n 1 = n + 1" by (intro u64_add_exact) simp
  with Cons show ?case by (simp add: quota_request_def Let_def)
qed simp

lemma f64_of_nat_exact: "n < 2 ^ 53 \<Longrightarrow> f64_of_nat n = Fin (of_nat n)"
  using f64_of_rat_int [of "int n"] by (cases "n = 0") (simp_all add: f64_of_nat_def)

text \<open>
  C12: a request quota of \<open>n\<close> admits another request exactly while fewer than \<open>n\<close> chargeable requests
  of the user ended in the period; the floating-point comparison is exact below \<open>2 ^ 52\<close>.
\<close>

theorem request_quota_exact:
  assumes "ql_quota_type quota = ''requests''" "ql_limit quota = f64_of_nat n"
    and "n < 2 ^ 52" "length (quota_hits quota l) < 2 ^ 52"
  shows "is_ok (check_quota p est l quota) \<longleftrightarrow> length (quota_hits quota l) < n"
proof -
  let ?c = "length (quota_hits quota l)"
  have "fst (fold quota_request (quota_hits quota l) (0, 0, 0)) = ?c"
    using quota_request_count [of 0 "quota_hits quota l"] assms(4) by (simp add: u64_max_def)
  then have val: "quota_value quota l = Fin (of_nat ?c)"
    using f64_of_nat_exact [of ?c] assms(1, 4)
    by (auto simp: quota_value_def quota_hits_def [symmetric] quota_value_from_totals_def split: prod.splits)
  have "f64_add (Fin (of_nat ?c)) (Fin 1) = Fin (of_nat (?c + 1))"
    using f64_of_nat_exact [of "?c + 1"] assms(4) by (simp add: f64_of_nat_def add.commute)
  moreover have "ql_limit quota = Fin (of_nat n)" using f64_of_nat_exact [of n] assms(2, 3) by simp
  ultimately show ?thesis
    using assms(1) by (auto simp: check_quota_def Let_def val quota_increment_def f64_lt_def)
qed

definition ex_quota :: "nat \<Rightarrow> UsageQuotaLimit" where
  "ex_quota n = \<lparr>ql_id = ''q'', ql_user_id = ''u'', ql_quota_type = ''requests'',
     ql_limit = f64_of_nat n, ql_period_start_ms = 0\<rparr>"

definition ex_policy :: UsagePolicySnapshot where
  "ex_policy = \<lparr>up_user_id = ''u'', up_username = ''user'', up_api_key_id = None, up_team_id = None,
     up_api_key_policy = \<lparr>pol_team_id = None, pol_ip_restricted = False, pol_allowed_ips = [],
       pol_allowed_models = [], pol_allowed_providers = [], pol_team_allowed_models = [],
       pol_team_allowed_providers = [], pol_team_daily_limit_usd = Fin 0, pol_team_monthly_limit_usd = Fin 0,
       pol_spend_limit_usd = Fin 0, pol_rate_limited = False, pol_five_hour_limit_usd = Fin 0,
       pol_daily_limit_usd = Fin 0, pol_weekly_limit_usd = Fin 0, pol_monthly_limit_usd = Fin 0\<rparr>,
     up_quotas = []\<rparr>"

theorem request_quota_exact_witness:
  "is_ok (check_quota ex_policy (ex_estimate (Fin 2)) (snd ex_begin) (ex_quota 5)) \<and>
   \<not> is_ok (check_quota ex_policy (ex_estimate (Fin 2)) (snd ex_begin) (ex_quota 0))"
proof -
  have none: "quota_hits (ex_quota n) (snd ex_begin) = []" for n
  proof -
    have "map (\<lambda>r. mr_terminal (rq_record r)) (map_values (requests (snd ex_begin))) = [False]" by code_simp
    then show ?thesis by (auto simp: quota_hits_def filter_empty_conv)
  qed
  show ?thesis
    using request_quota_exact [of "ex_quota 5" 5 "snd ex_begin" ex_policy "ex_estimate (Fin 2)"]
      request_quota_exact [of "ex_quota 0" 0 "snd ex_begin" ex_policy "ex_estimate (Fin 2)"]
    by (simp add: none) (simp add: ex_quota_def)
qed

section \<open>Overview\<close>

lemma overview_counts:
  fixes rs :: "MemoryRequestRecord list"
  shows "ov_total_requests (fold (overview_request inst) rs ov) = ov_total_requests ov + int (length rs)"
    "ov_expired_leases (fold (overview_request inst) rs ov) =
       ov_expired_leases ov + int (length (filter (\<lambda>r. lease_expired inst (rq_record r)) rs))"
    "ov_active_leases (fold (overview_request inst) rs ov) + ov_expired_leases (fold (overview_request inst) rs ov) =
       ov_active_leases ov + ov_expired_leases ov + int (length (filter (\<lambda>r. \<not> mr_terminal (rq_record r)) rs))"
  by (induction rs arbitrary: ov) (auto simp: overview_request_def Let_def lease_expired_def)

text \<open>
  C13: the overview counts every request, and splits the unfinished ones into those with a live lease
  and those past it. The latter are exactly the requests the next reconciliation reports as closed,
  and none of them is left afterwards.
\<close>

theorem overview_predicts_reconciliation:
  assumes "ledger_step\<^sup>*\<^sup>* ledger_empty l" and "reconcile_expired eu now inst l = (res, l')"
    and ov: "ov = overview loc ttl ri inst l" "ov' = overview loc ttl ri inst l'"
  shows "ov_total_requests ov = int (length (requests l)) \<and>
    ov_active_leases ov + ov_expired_leases ov =
      int (length (filter (\<lambda>r. \<not> mr_terminal (rq_record r)) (map_values (requests l)))) \<and>
    (\<exists>rr. res = Inr rr \<and> int (rr_requests rr) = ov_expired_leases ov) \<and>
    ov_expired_leases ov' = 0 \<and> ov_total_requests ov' = ov_total_requests ov"
proof -
  have inv: "ledger_inv l" using memory.reachable [OF assms(1)] by blast
  note rec = reconcile_expired_ok [OF assms(2) inv]
  have keys: "length (filter (\<lambda>(_, r). lease_expired inst (rq_record r)) (requests l)) =
      length (filter (\<lambda>r. lease_expired inst (rq_record r)) (map_values (requests l)))"
    by (simp add: filter_map comp_def case_prod_unfold)
  have inv': "ledger_inv l'" by (rule rec(2))
  have "\<not> lease_expired inst (rq_record r)" if "r \<in> set (map_values (requests l'))" for r
  proof -
    from that obtain k where "(k, r) \<in> set (requests l')" by auto
    then have "map_of (requests l') k = Some r" using inv' by (simp add: ledger_inv_def hm_distinct_def)
    with rec(5) [of k] obtain r0 where "r = reconcile_request now inst r0"
      by (cases "map_of (requests l) k") auto
    then show ?thesis by (simp add: lease_expired_reconcile)
  qed
  then have none: "filter (\<lambda>r. lease_expired inst (rq_record r)) (map_values (requests l')) = []"
    by (simp add: filter_empty_conv)
  have "ov_total_requests ov = int (length (requests l))"
    "ov_active_leases ov + ov_expired_leases ov =
      int (length (filter (\<lambda>r. \<not> mr_terminal (rq_record r)) (map_values (requests l))))"
    "ov_expired_leases ov = int (length (filter (\<lambda>r. lease_expired inst (rq_record r)) (map_values (requests l))))"
    "ov_total_requests ov' = int (length (requests l'))" "ov_expired_leases ov' = 0"
    using overview_counts(3) [of inst "map_values (requests l)" "overview_init loc ttl ri"] none
    by (simp_all add: ov overview_def Let_def overview_counts(1, 2)) (simp_all add: overview_init_def)
  with rec(1, 6) keys show ?thesis by simp
qed

theorem overview_predicts_reconciliation_witness:
  "ov_expired_leases (overview ''memory'' 60 30 200
     (snd (reconcile_expired (\<lambda>k. k) 50 200 (snd ex_attempt)))) = 0"
  using overview_predicts_reconciliation [OF ex_reachable(3) prod.collapse [symmetric] refl refl] by blast

section \<open>Lease configuration\<close>

text \<open>
  C14: a lease configuration that is accepted leaves room for reconciliation: both durations are within
  their bounds and the reconciliation interval is shorter than the lease. With nothing configured the
  defaults are accepted.
\<close>

theorem lease_config_bounds:
  "(case lease_config env of
      Inr (ttl, interval) \<Rightarrow> 30 \<le> ttl \<and> ttl \<le> 2147483647 \<and> 5 \<le> interval \<and> interval < ttl
    | Inl e \<Rightarrow> status_code e = 500) \<and>
   lease_config (\<lambda>_. None) = Inr (300, 60)"
proof -
  have secs: "m \<le> v \<and> v \<le> 2147483647" if "env_seconds env n d m = Inr v" for n d m v
    using that by (auto simp: env_seconds_def res_bind_Inr_iff split: if_splits)
  have err: "status_code e = 500" if "env_seconds env n d m = Inl e" for n d m e
    using that by (auto simp: env_seconds_def res_bind_Inl_iff split: if_splits option.splits sum.splits)
  have "30 \<le> ttl \<and> ttl \<le> 2147483647 \<and> 5 \<le> i \<and> i < ttl" if "lease_config env = Inr (ttl, i)" for ttl i
    using that secs by (auto simp: lease_config_def res_bind_Inr_iff validate_lease_durations_def split: if_splits)
  moreover have "status_code e = 500" if "lease_config env = Inl e" for e
    using that err by (auto simp: lease_config_def res_bind_Inl_iff validate_lease_durations_def split: if_splits)
  moreover have "lease_config (\<lambda>_. None) = Inr (300, 60)"
    by (simp add: lease_config_def env_seconds_def validate_lease_durations_def)
  ultimately show ?thesis by (auto split: sum.splits)
qed

end
