(* ===== verification/ConfigTypes.thy ===== *)
theory ConfigTypes
  imports Net
begin

text \<open>
  The data of the gateway's configuration, \<^verbatim>\<open>src/src/config.rs\<close>: providers and their runtime options,
  smart-routing groups, the loaded configuration, the sections of the configuration file, and the
  built-in provider specifications with their defaults.
\<close>

section \<open>Providers\<close>

datatype ProviderProtocol = Anthropic | OpenaiCompat

datatype MaxTokensField = MaxCompletionTokens | MaxTokens | Both

datatype FidelityMode = Strict | BestEffort | Stability

datatype ReasoningMode = ReasoningNone | ReasoningLlamaCpp

record ReasoningConfig =
  rc_mode :: ReasoningMode
  rc_default_enabled :: "bool option"
  rc_model_enabled :: "(string, bool) hmap"
  rc_default_budget_tokens :: "nat option"
  rc_model_budget_tokens :: "(string, nat) hmap"

definition reasoning_default :: ReasoningConfig where
  "reasoning_default =
    \<lparr>rc_mode = ReasoningNone, rc_default_enabled = None, rc_model_enabled = [],
     rc_default_budget_tokens = None, rc_model_budget_tokens = []\<rparr>"

datatype SamplingMode = SamplingNone | SamplingLlamaCpp

record SamplingProfile =
  temperature :: "f64 option"
  top_p :: "f64 option"
  top_k :: "nat option"
  min_p :: "f64 option"
  presence_penalty :: "f64 option"
  repeat_penalty :: "f64 option"

record SamplingConfig =
  sc_mode :: SamplingMode
  sc_profiles :: "(string, SamplingProfile) hmap"

definition sampling_default :: SamplingConfig where
  "sampling_default = \<lparr>sc_mode = SamplingNone, sc_profiles = []\<rparr>"

datatype TokenCountingMode = CountingNone | CountingAnthropic

record TokenCountingConfig =
  tc_mode :: TokenCountingMode
  tc_context_tokens :: "nat option"
  tc_recommended_reasoning_input_tokens :: "nat option"
  tc_model_recommended_input_tokens :: "(string, nat) hmap"
  tc_max_output_tokens :: "nat option"
  tc_model_max_output_tokens :: "(string, nat) hmap"

definition token_counting_default :: TokenCountingConfig where
  "token_counting_default =
    \<lparr>tc_mode = CountingNone, tc_context_tokens = None,
     tc_recommended_reasoning_input_tokens = None, tc_model_recommended_input_tokens = [],
     tc_max_output_tokens = None, tc_model_max_output_tokens = []\<rparr>"

datatype ToolArgumentMode = Native | Delta | Cumulative | ArgumentsBestEffort

datatype ToolResponseValidation = ValidationBestEffort | ValidationStrict

record ToolUseConfig =
  tu_supported :: bool
  tu_tool_choice :: bool
  tu_parallel_tool_calls :: bool
  tu_streaming_arguments :: ToolArgumentMode
  tu_response_validation :: ToolResponseValidation
  tu_repair_invalid_arguments :: bool

record ProviderConfig =
  pc_display_name :: string
  pc_protocol :: ProviderProtocol
  pc_base_url :: string
  pc_api_key_env :: "string option"
  pc_api_key :: "string option"
  pc_api_key_required :: bool
  pc_default_model :: string
  pc_models :: "string list"
  pc_model_prefixes :: "string list"
  pc_passthrough_unknown_models :: bool
  pc_max_tokens_field :: MaxTokensField
  pc_deduplicate_stream_text :: bool
  pc_buffer_stream_text :: bool
  pc_fidelity_mode :: FidelityMode
  pc_tool_use :: ToolUseConfig
  pc_reasoning :: ReasoningConfig
  pc_sampling :: SamplingConfig
  pc_token_counting :: TokenCountingConfig
  pc_pricing :: "ModelPricing option"

record ResolvedProvider =
  rp_provider_id :: string
  rp_provider :: ProviderConfig
  rp_model :: string

section \<open>Smart routing\<close>

datatype SmartRoutingMode = Off | Shadow | Active

fun routing_mode_as_str :: "SmartRoutingMode \<Rightarrow> string" where
  "routing_mode_as_str Off = ''off''"
| "routing_mode_as_str Shadow = ''shadow''"
| "routing_mode_as_str Active = ''active''"

datatype RoutingProfile = Quality | Balanced | Economy | Latency

fun profile_as_str :: "RoutingProfile \<Rightarrow> string" where
  "profile_as_str Quality = ''quality''"
| "profile_as_str Balanced = ''balanced''"
| "profile_as_str Economy = ''economy''"
| "profile_as_str Latency = ''latency''"

definition profile_parse :: "string \<Rightarrow> RoutingProfile option" where
  "profile_parse value =
     (let v = to_ascii_lowercase (trim value)
      in if v = ''quality'' then Some Quality
         else if v = ''balanced'' then Some Balanced
         else if v = ''economy'' then Some Economy
         else if v = ''latency'' then Some Latency
         else None)"

record RouteCandidateConfig =
  cand_provider :: string
  cand_model :: string
  cand_quality :: f64
  cand_latency_hint_ms :: nat
  cand_enabled :: bool

record RouteGroupConfig =
  group_aliases :: "string list"
  group_default_profile :: "RoutingProfile option"
  group_candidates :: "RouteCandidateConfig list"

record SmartRoutingConfig =
  sr_mode :: SmartRoutingMode
  sr_default_profile :: RoutingProfile
  sr_policy_version :: string
  sr_activation_percent :: nat
  sr_groups :: "(string, RouteGroupConfig) hmap"

definition default_routing_policy_version :: string where
  "default_routing_policy_version = ''builtin-v1''"

definition default_routing_activation_percent :: nat where
  "default_routing_activation_percent = 0"

definition smart_routing_default :: SmartRoutingConfig where
  "smart_routing_default =
    \<lparr>sr_mode = Off, sr_default_profile = Balanced,
     sr_policy_version = default_routing_policy_version,
     sr_activation_percent = default_routing_activation_percent, sr_groups = []\<rparr>"

section \<open>The loaded configuration and the configuration file\<close>

text \<open>A socket address is an IP address and a port.\<close>

type_synonym socket_addr = "IpAddr \<times> nat"

record AppConfig =
  cfg_bind_addr :: socket_addr
  cfg_max_request_body_bytes :: nat
  cfg_max_concurrent_requests :: nat
  cfg_auth_token :: "string option"
  cfg_default_provider :: string
  cfg_provider_order :: "string list"
  cfg_providers :: "(string, ProviderConfig) hmap"
  cfg_aliases :: "(string, string) hmap"
  cfg_smart_routing :: SmartRoutingConfig

record ServerSection =
  sec_bind :: "string option"
  sec_max_request_body_bytes :: "nat option"
  sec_max_concurrent_requests :: "nat option"

record AuthSection =
  sec_token_env :: "string option"

record ProviderSection =
  ps_display_name :: "string option"
  ps_protocol :: ProviderProtocol
  ps_base_url :: "string option"
  ps_base_url_env :: "string option"
  ps_base_url_env_fallbacks :: "string list option"
  ps_api_key_env :: "string option"
  ps_api_key_required :: "bool option"
  ps_default_model :: "string option"
  ps_models :: "string list option"
  ps_model_prefixes :: "string list option"
  ps_passthrough_unknown_models :: "bool option"
  ps_max_tokens_field :: "MaxTokensField option"
  ps_deduplicate_stream_text :: "bool option"
  ps_buffer_stream_text :: "bool option"
  ps_fidelity_mode :: "FidelityMode option"
  ps_tool_use :: "ToolUseConfig option"
  ps_reasoning :: "ReasoningConfig option"
  ps_sampling :: "SamplingConfig option"
  ps_token_counting :: "TokenCountingConfig option"
  ps_pricing :: "ModelPricing option"

record FileConfig =
  fc_server :: "ServerSection option"
  fc_auth :: "AuthSection option"
  fc_default_provider :: "string option"
  fc_provider_order :: "string list option"
  fc_providers :: "(string, ProviderSection) hmap option"
  fc_aliases :: "(string, string) hmap option"
  fc_routing :: "SmartRoutingConfig option"

section \<open>Built-in providers\<close>

record ProviderSpec =
  sp_id :: string
  sp_display_name :: string
  sp_protocol :: ProviderProtocol
  sp_base_url_env :: string
  sp_base_url_env_fallbacks :: "string list"
  sp_default_base_url :: string
  sp_api_key_env :: "string option"
  sp_api_key_env_fallbacks :: "string list"
  sp_api_key_required :: bool
  sp_default_model_env :: string
  sp_default_model :: string
  sp_models_env :: string
  sp_models :: "string list"
  sp_model_prefixes :: "string list"
  sp_passthrough_unknown_models :: bool
  sp_max_tokens_field :: MaxTokensField
  sp_deduplicate_stream_text :: bool

definition DEEPSEEK_SPEC :: ProviderSpec where
  "DEEPSEEK_SPEC =
    \<lparr>sp_id = ''deepseek'',
     sp_display_name = ''DeepSeek'',
     sp_protocol = Anthropic,
     sp_base_url_env = ''DEEPSEEK_ANTHROPIC_BASE_URL'',
     sp_base_url_env_fallbacks = [],
     sp_default_base_url = ''https://api.deepseek.com/anthropic'',
     sp_api_key_env = Some ''DEEPSEEK_ANTHROPIC_AUTH_TOKEN'',
     sp_api_key_env_fallbacks = [''DEEPSEEK_API_KEY''],
     sp_api_key_required = True,
     sp_default_model_env = ''DEEPSEEK_MODEL'',
     sp_default_model = ''deepseek-v4-flash'',
     sp_models_env = ''DEEPSEEK_MODELS'',
     sp_models =
       [''deepseek-v4-pro'', ''deepseek-v4-flash'', ''deepseek-chat'',
        ''deepseek-reasoner''],
     sp_model_prefixes = [''deepseek-''],
     sp_passthrough_unknown_models = False,
     sp_max_tokens_field = MaxTokens,
     sp_deduplicate_stream_text = True\<rparr>"

definition MIMO_SPEC :: ProviderSpec where
  "MIMO_SPEC =
    \<lparr>sp_id = ''mimo'',
     sp_display_name = [CHR 0xE5, CHR 0xB0, CHR 0x8F, CHR 0xE7, CHR 0xB1, CHR 0xB3] @ '' MiMo'',
     sp_protocol = OpenaiCompat,
     sp_base_url_env = ''MIMO_OPENAI_BASE_URL'',
     sp_base_url_env_fallbacks = [''BASE_URL''],
     sp_default_base_url = ''https://api.xiaomimimo.com/v1'',
     sp_api_key_env = Some ''MIMO_OPENAI_API_KEY'',
     sp_api_key_env_fallbacks = [],
     sp_api_key_required = True,
     sp_default_model_env = ''MIMO_MODEL'',
     sp_default_model = ''mimo-v2.5-pro'',
     sp_models_env = ''MIMO_MODELS'',
     sp_models = [''mimo-v2.5-pro''],
     sp_model_prefixes = [''mimo-''],
     sp_passthrough_unknown_models = False,
     sp_max_tokens_field = MaxCompletionTokens,
     sp_deduplicate_stream_text = False\<rparr>"

definition cpa_codex_spec :: ProviderSpec where
  "cpa_codex_spec =
    \<lparr>sp_id = ''cpa_codex'',
     sp_display_name = ''CPA '' @ [CHR 0xC2, CHR 0xB7] @ '' OpenAI Codex'',
     sp_protocol = OpenaiCompat,
     sp_base_url_env = ''CPA_CODEX_BASE_URL'',
     sp_base_url_env_fallbacks = [],
     sp_default_base_url = ''http://127.0.0.1:8317/v1'',
     sp_api_key_env = Some ''CPA_CODEX_API_KEY'',
     sp_api_key_env_fallbacks = [],
     sp_api_key_required = True,
     sp_default_model_env = ''CPA_CODEX_MODEL'',
     sp_default_model = ''gpt-5.3-codex'',
     sp_models_env = ''CPA_CODEX_MODELS'',
     sp_models = [''gpt-5.3-codex''],
     sp_model_prefixes = [],
     sp_passthrough_unknown_models = False,
     sp_max_tokens_field = MaxCompletionTokens,
     sp_deduplicate_stream_text = False\<rparr>"

definition cpa_claude_spec :: ProviderSpec where
  "cpa_claude_spec =
    \<lparr>sp_id = ''cpa_claude'',
     sp_display_name = ''CPA '' @ [CHR 0xC2, CHR 0xB7] @ '' Claude Code'',
     sp_protocol = Anthropic,
     sp_base_url_env = ''CPA_CLAUDE_BASE_URL'',
     sp_base_url_env_fallbacks = [],
     sp_default_base_url = ''http://127.0.0.1:8317'',
     sp_api_key_env = Some ''CPA_CLAUDE_API_KEY'',
     sp_api_key_env_fallbacks = [],
     sp_api_key_required = True,
     sp_default_model_env = ''CPA_CLAUDE_MODEL'',
     sp_default_model = ''claude-sonnet-4-6'',
     sp_models_env = ''CPA_CLAUDE_MODELS'',
     sp_models = [''claude-sonnet-4-6''],
     sp_model_prefixes = [],
     sp_passthrough_unknown_models = False,
     sp_max_tokens_field = MaxTokens,
     sp_deduplicate_stream_text = False\<rparr>"

definition deepseek_openai_spec :: ProviderSpec where
  "deepseek_openai_spec =
    \<lparr>sp_id = ''deepseek_openai'',
     sp_display_name = ''DeepSeek'',
     sp_protocol = OpenaiCompat,
     sp_base_url_env = ''DEEPSEEK_OPENAI_BASE_URL'',
     sp_base_url_env_fallbacks = [],
     sp_default_base_url = ''https://api.deepseek.com'',
     sp_api_key_env = Some ''DEEPSEEK_OPENAI_API_KEY'',
     sp_api_key_env_fallbacks = [''DEEPSEEK_API_KEY''],
     sp_api_key_required = True,
     sp_default_model_env = ''DEEPSEEK_OPENAI_MODEL'',
     sp_default_model = ''deepseek-v4-flash'',
     sp_models_env = ''DEEPSEEK_OPENAI_MODELS'',
     sp_models =
       [''deepseek-v4-pro'', ''deepseek-v4-flash'', ''deepseek-chat'',
        ''deepseek-reasoner''],
     sp_model_prefixes = [''deepseek-''],
     sp_passthrough_unknown_models = False,
     sp_max_tokens_field = MaxTokens,
     sp_deduplicate_stream_text = False\<rparr>"

definition anthropic_spec :: ProviderSpec where
  "anthropic_spec =
    \<lparr>sp_id = ''anthropic'',
     sp_display_name = ''Anthropic Claude'',
     sp_protocol = Anthropic,
     sp_base_url_env = ''ANTHROPIC_UPSTREAM_BASE_URL'',
     sp_base_url_env_fallbacks = [],
     sp_default_base_url = ''https://api.anthropic.com'',
     sp_api_key_env = Some ''ANTHROPIC_API_KEY'',
     sp_api_key_env_fallbacks = [],
     sp_api_key_required = True,
     sp_default_model_env = ''ANTHROPIC_UPSTREAM_MODEL'',
     sp_default_model = ''claude-fable-5'',
     sp_models_env = ''ANTHROPIC_UPSTREAM_MODELS'',
     sp_models =
       [''claude-fable-5'', ''claude-mythos-5'', ''claude-opus-4-8'',
        ''claude-opus-4-7'', ''claude-sonnet-4-6'', ''claude-sonnet-4-5'',
        ''claude-haiku-4-5'', ''claude-opus-4-20250514'', ''claude-sonnet-4-20250514'',
        ''claude-3-5-haiku-20241022''],
     sp_model_prefixes = [''claude-''],
     sp_passthrough_unknown_models = False,
     sp_max_tokens_field = MaxTokens,
     sp_deduplicate_stream_text = False\<rparr>"

definition openai_spec :: ProviderSpec where
  "openai_spec =
    \<lparr>sp_id = ''openai'',
     sp_display_name = ''OpenAI'',
     sp_protocol = OpenaiCompat,
     sp_base_url_env = ''MODELPORT_OPENAI_BASE_URL'',
     sp_base_url_env_fallbacks = [''OPENAI_BASE_URL''],
     sp_default_base_url = ''https://api.openai.com/v1'',
     sp_api_key_env = Some ''MODELPORT_OPENAI_API_KEY'',
     sp_api_key_env_fallbacks = [''OPENAI_API_KEY''],
     sp_api_key_required = True,
     sp_default_model_env = ''MODELPORT_OPENAI_MODEL'',
     sp_default_model = ''gpt-5.5'',
     sp_models_env = ''MODELPORT_OPENAI_MODELS'',
     sp_models =
       [''gpt-5.5'', ''gpt-5.5-pro'', ''gpt-5.4'', ''gpt-5.4-pro'', ''gpt-5.4-mini'',
        ''gpt-5.4-nano'', ''gpt-5.3-codex'', ''gpt-5.2'', ''gpt-5'', ''gpt-5-mini'',
        ''gpt-4.1'', ''gpt-4.1-mini''],
     sp_model_prefixes = [''gpt-'', ''o1'', ''o3'', ''o4'', ''o5'', ''chatgpt-''],
     sp_passthrough_unknown_models = False,
     sp_max_tokens_field = MaxCompletionTokens,
     sp_deduplicate_stream_text = False\<rparr>"

definition openrouter_spec :: ProviderSpec where
  "openrouter_spec =
    \<lparr>sp_id = ''openrouter'',
     sp_display_name = ''OpenRouter'',
     sp_protocol = OpenaiCompat,
     sp_base_url_env = ''OPENROUTER_BASE_URL'',
     sp_base_url_env_fallbacks = [],
     sp_default_base_url = ''https://openrouter.ai/api/v1'',
     sp_api_key_env = Some ''OPENROUTER_API_KEY'',
     sp_api_key_env_fallbacks = [],
     sp_api_key_required = True,
     sp_default_model_env = ''OPENROUTER_MODEL'',
     sp_default_model = ''openrouter/auto'',
     sp_models_env = ''OPENROUTER_MODELS'',
     sp_models = [''openrouter/auto''],
     sp_model_prefixes =
       [''anthropic/'', ''deepseek/'', ''google/'', ''meta-llama/'', ''mistralai/'',
        ''moonshotai/'', ''openai/'', ''qwen/'', ''x-ai/'', ''z-ai/''],
     sp_passthrough_unknown_models = True,
     sp_max_tokens_field = MaxCompletionTokens,
     sp_deduplicate_stream_text = False\<rparr>"

definition gemini_spec :: ProviderSpec where
  "gemini_spec =
    \<lparr>sp_id = ''gemini'',
     sp_display_name = ''Google Gemini'',
     sp_protocol = OpenaiCompat,
     sp_base_url_env = ''GEMINI_OPENAI_BASE_URL'',
     sp_base_url_env_fallbacks = [],
     sp_default_base_url = ''https://generativelanguage.googleapis.com/v1beta/openai'',
     sp_api_key_env = Some ''GEMINI_API_KEY'',
     sp_api_key_env_fallbacks = [''GOOGLE_API_KEY''],
     sp_api_key_required = True,
     sp_default_model_env = ''GEMINI_MODEL'',
     sp_default_model = ''gemini-3.5-flash'',
     sp_models_env = ''GEMINI_MODELS'',
     sp_models =
       [''gemini-3.5-flash'', ''gemini-3.5-pro'', ''gemini-2.5-pro'',
        ''gemini-2.5-flash'', ''gemini-2.5-flash-lite''],
     sp_model_prefixes = [''gemini-''],
     sp_passthrough_unknown_models = False,
     sp_max_tokens_field = MaxCompletionTokens,
     sp_deduplicate_stream_text = False\<rparr>"

definition xai_spec :: ProviderSpec where
  "xai_spec =
    \<lparr>sp_id = ''xai'',
     sp_display_name = ''xAI Grok'',
     sp_protocol = OpenaiCompat,
     sp_base_url_env = ''XAI_BASE_URL'',
     sp_base_url_env_fallbacks = [],
     sp_default_base_url = ''https://api.x.ai/v1'',
     sp_api_key_env = Some ''XAI_API_KEY'',
     sp_api_key_env_fallbacks = [],
     sp_api_key_required = True,
     sp_default_model_env = ''XAI_MODEL'',
     sp_default_model = ''grok-3'',
     sp_models_env = ''XAI_MODELS'',
     sp_models = [''grok-3'', ''grok-3-mini''],
     sp_model_prefixes = [''grok-''],
     sp_passthrough_unknown_models = False,
     sp_max_tokens_field = MaxCompletionTokens,
     sp_deduplicate_stream_text = False\<rparr>"

definition groq_spec :: ProviderSpec where
  "groq_spec =
    \<lparr>sp_id = ''groq'',
     sp_display_name = ''Groq'',
     sp_protocol = OpenaiCompat,
     sp_base_url_env = ''GROQ_BASE_URL'',
     sp_base_url_env_fallbacks = [],
     sp_default_base_url = ''https://api.groq.com/openai/v1'',
     sp_api_key_env = Some ''GROQ_API_KEY'',
     sp_api_key_env_fallbacks = [],
     sp_api_key_required = True,
     sp_default_model_env = ''GROQ_MODEL'',
     sp_default_model = ''llama-3.3-70b-versatile'',
     sp_models_env = ''GROQ_MODELS'',
     sp_models = [''llama-3.3-70b-versatile'', ''llama-3.1-8b-instant''],
     sp_model_prefixes = [''llama-'', ''mixtral-'', ''gemma-'', ''openai/''],
     sp_passthrough_unknown_models = False,
     sp_max_tokens_field = MaxCompletionTokens,
     sp_deduplicate_stream_text = False\<rparr>"

definition dashscope_spec :: ProviderSpec where
  "dashscope_spec =
    \<lparr>sp_id = ''dashscope'',
     sp_display_name =
       [CHR 0xE9, CHR 0x98, CHR 0xBF, CHR 0xE9, CHR 0x87, CHR 0x8C, CHR 0xE4, CHR 0xBA, CHR 0x91, CHR 0xE7, CHR 0x99, CHR 0xBE, CHR 0xE7, CHR 0x82, CHR 0xBC] @
       '' Qwen'',
     sp_protocol = OpenaiCompat,
     sp_base_url_env = ''DASHSCOPE_BASE_URL'',
     sp_base_url_env_fallbacks = [],
     sp_default_base_url = ''https://dashscope.aliyuncs.com/compatible-mode/v1'',
     sp_api_key_env = Some ''DASHSCOPE_API_KEY'',
     sp_api_key_env_fallbacks = [''QWEN_API_KEY''],
     sp_api_key_required = True,
     sp_default_model_env = ''DASHSCOPE_MODEL'',
     sp_default_model = ''qwen-plus'',
     sp_models_env = ''DASHSCOPE_MODELS'',
     sp_models =
       [''qwen-plus'', ''qwen-max'', ''qwen-turbo'', ''qwen3-plus'', ''qwen3-max'',
        ''qwq-plus'', ''qvq-max''],
     sp_model_prefixes = [''qwen-'', ''qwq-'', ''qvq-''],
     sp_passthrough_unknown_models = False,
     sp_max_tokens_field = MaxTokens,
     sp_deduplicate_stream_text = False\<rparr>"

definition kimi_spec :: ProviderSpec where
  "kimi_spec =
    \<lparr>sp_id = ''kimi'',
     sp_display_name = ''Moonshot Kimi'',
     sp_protocol = OpenaiCompat,
     sp_base_url_env = ''KIMI_BASE_URL'',
     sp_base_url_env_fallbacks = [],
     sp_default_base_url = ''https://api.moonshot.cn/v1'',
     sp_api_key_env = Some ''MOONSHOT_API_KEY'',
     sp_api_key_env_fallbacks = [''KIMI_API_KEY''],
     sp_api_key_required = True,
     sp_default_model_env = ''KIMI_MODEL'',
     sp_default_model = ''kimi-k2.6'',
     sp_models_env = ''KIMI_MODELS'',
     sp_models =
       [''kimi-k2.6'', ''kimi-k2'', ''moonshot-v1-128k'', ''moonshot-v1-32k'',
        ''moonshot-v1-8k''],
     sp_model_prefixes = [''kimi-'', ''moonshot-''],
     sp_passthrough_unknown_models = False,
     sp_max_tokens_field = MaxCompletionTokens,
     sp_deduplicate_stream_text = False\<rparr>"

definition zhipu_spec :: ProviderSpec where
  "zhipu_spec =
    \<lparr>sp_id = ''zhipu'',
     sp_display_name = [CHR 0xE6, CHR 0x99, CHR 0xBA, CHR 0xE8, CHR 0xB0, CHR 0xB1] @ '' GLM'',
     sp_protocol = OpenaiCompat,
     sp_base_url_env = ''ZHIPU_BASE_URL'',
     sp_base_url_env_fallbacks = [],
     sp_default_base_url = ''https://open.bigmodel.cn/api/paas/v4'',
     sp_api_key_env = Some ''ZHIPU_API_KEY'',
     sp_api_key_env_fallbacks = [],
     sp_api_key_required = True,
     sp_default_model_env = ''ZHIPU_MODEL'',
     sp_default_model = ''glm-4.7'',
     sp_models_env = ''ZHIPU_MODELS'',
     sp_models = [''glm-4.7'', ''glm-4.6'', ''glm-4-flash'', ''glm-z1-flash''],
     sp_model_prefixes = [''glm-'', ''charglm-'', ''codegeex-''],
     sp_passthrough_unknown_models = False,
     sp_max_tokens_field = MaxTokens,
     sp_deduplicate_stream_text = False\<rparr>"

definition mistral_spec :: ProviderSpec where
  "mistral_spec =
    \<lparr>sp_id = ''mistral'',
     sp_display_name = ''Mistral AI'',
     sp_protocol = OpenaiCompat,
     sp_base_url_env = ''MISTRAL_BASE_URL'',
     sp_base_url_env_fallbacks = [],
     sp_default_base_url = ''https://api.mistral.ai/v1'',
     sp_api_key_env = Some ''MISTRAL_API_KEY'',
     sp_api_key_env_fallbacks = [],
     sp_api_key_required = True,
     sp_default_model_env = ''MISTRAL_MODEL'',
     sp_default_model = ''mistral-large-latest'',
     sp_models_env = ''MISTRAL_MODELS'',
     sp_models = [''mistral-large-latest'', ''codestral-latest''],
     sp_model_prefixes =
       [''codestral-'', ''devstral-'', ''ministral-'', ''mistral-'', ''pixtral-''],
     sp_passthrough_unknown_models = False,
     sp_max_tokens_field = MaxTokens,
     sp_deduplicate_stream_text = False\<rparr>"

definition ark_spec :: ProviderSpec where
  "ark_spec =
    \<lparr>sp_id = ''ark'',
     sp_display_name =
       [CHR 0xE7, CHR 0x81, CHR 0xAB, CHR 0xE5, CHR 0xB1, CHR 0xB1, CHR 0xE6, CHR 0x96, CHR 0xB9, CHR 0xE8, CHR 0x88, CHR 0x9F] @
       '' Doubao'',
     sp_protocol = OpenaiCompat,
     sp_base_url_env = ''ARK_BASE_URL'',
     sp_base_url_env_fallbacks = [],
     sp_default_base_url = ''https://ark.cn-beijing.volces.com/api/v3'',
     sp_api_key_env = Some ''ARK_API_KEY'',
     sp_api_key_env_fallbacks = [''VOLCENGINE_API_KEY''],
     sp_api_key_required = True,
     sp_default_model_env = ''ARK_MODEL'',
     sp_default_model = ''doubao-seed-1-6-250615'',
     sp_models_env = ''ARK_MODELS'',
     sp_models = [''doubao-seed-1-6-250615'', ''doubao-seed-1-6-flash-250615''],
     sp_model_prefixes = [''doubao-''],
     sp_passthrough_unknown_models = False,
     sp_max_tokens_field = MaxTokens,
     sp_deduplicate_stream_text = False\<rparr>"

definition ollama_spec :: ProviderSpec where
  "ollama_spec =
    \<lparr>sp_id = ''ollama'',
     sp_display_name = ''Ollama'',
     sp_protocol = OpenaiCompat,
     sp_base_url_env = ''OLLAMA_BASE_URL'',
     sp_base_url_env_fallbacks = [],
     sp_default_base_url = ''http://127.0.0.1:11434/v1'',
     sp_api_key_env = Some ''OLLAMA_API_KEY'',
     sp_api_key_env_fallbacks = [],
     sp_api_key_required = False,
     sp_default_model_env = ''OLLAMA_MODEL'',
     sp_default_model = ''llama3.1'',
     sp_models_env = ''OLLAMA_MODELS'',
     sp_models = [''llama3.1'', ''qwen2.5-coder''],
     sp_model_prefixes = [],
     sp_passthrough_unknown_models = True,
     sp_max_tokens_field = MaxTokens,
     sp_deduplicate_stream_text = False\<rparr>"

definition local_sglang_spec :: ProviderSpec where
  "local_sglang_spec =
    \<lparr>sp_id = ''local_sglang'',
     sp_display_name = ''Local SGLang'',
     sp_protocol = OpenaiCompat,
     sp_base_url_env = ''SGLANG_BASE_URL'',
     sp_base_url_env_fallbacks = [],
     sp_default_base_url = ''http://127.0.0.1:30000/v1'',
     sp_api_key_env = Some ''SGLANG_API_KEY'',
     sp_api_key_env_fallbacks = [],
     sp_api_key_required = False,
     sp_default_model_env = ''SGLANG_MODEL'',
     sp_default_model = ''local-model'',
     sp_models_env = ''SGLANG_MODELS'',
     sp_models = [''local-model''],
     sp_model_prefixes = [],
     sp_passthrough_unknown_models = True,
     sp_max_tokens_field = MaxTokens,
     sp_deduplicate_stream_text = False\<rparr>"

definition local_vllm_spec :: ProviderSpec where
  "local_vllm_spec =
    \<lparr>sp_id = ''local_vllm'',
     sp_display_name = ''Local vLLM'',
     sp_protocol = OpenaiCompat,
     sp_base_url_env = ''VLLM_BASE_URL'',
     sp_base_url_env_fallbacks = [],
     sp_default_base_url = ''http://127.0.0.1:8000/v1'',
     sp_api_key_env = Some ''VLLM_API_KEY'',
     sp_api_key_env_fallbacks = [],
     sp_api_key_required = False,
     sp_default_model_env = ''VLLM_MODEL'',
     sp_default_model = ''local-model'',
     sp_models_env = ''VLLM_MODELS'',
     sp_models = [''local-model''],
     sp_model_prefixes = [],
     sp_passthrough_unknown_models = True,
     sp_max_tokens_field = MaxTokens,
     sp_deduplicate_stream_text = False\<rparr>"

definition local_llamacpp_spec :: ProviderSpec where
  "local_llamacpp_spec =
    \<lparr>sp_id = ''local_llamacpp'',
     sp_display_name = ''Local llama.cpp'',
     sp_protocol = OpenaiCompat,
     sp_base_url_env = ''LLAMACPP_BASE_URL'',
     sp_base_url_env_fallbacks = [],
     sp_default_base_url = ''http://127.0.0.1:8080/v1'',
     sp_api_key_env = Some ''LLAMACPP_API_KEY'',
     sp_api_key_env_fallbacks = [],
     sp_api_key_required = False,
     sp_default_model_env = ''LLAMACPP_MODEL'',
     sp_default_model = ''local-model'',
     sp_models_env = ''LLAMACPP_MODELS'',
     sp_models = [''local-model''],
     sp_model_prefixes = [],
     sp_passthrough_unknown_models = True,
     sp_max_tokens_field = MaxTokens,
     sp_deduplicate_stream_text = False\<rparr>"

definition OPTIONAL_PROVIDER_SPECS :: "ProviderSpec list" where
  "OPTIONAL_PROVIDER_SPECS =
    [cpa_codex_spec, cpa_claude_spec, deepseek_openai_spec, anthropic_spec, openai_spec, openrouter_spec, gemini_spec, xai_spec, groq_spec, dashscope_spec, kimi_spec, zhipu_spec, mistral_spec, ark_spec, ollama_spec, local_sglang_spec, local_vllm_spec, local_llamacpp_spec]"

definition CUSTOM_OPENAI_SPEC :: ProviderSpec where
  "CUSTOM_OPENAI_SPEC =
    \<lparr>sp_id = ''custom'',
     sp_display_name =
       [CHR 0xE8, CHR 0x87, CHR 0xAA, CHR 0xE5, CHR 0xAE, CHR 0x9A, CHR 0xE4, CHR 0xB9, CHR 0x89] @
       '' OpenAI '' @
       [CHR 0xE5, CHR 0x85, CHR 0xBC, CHR 0xE5, CHR 0xAE, CHR 0xB9],
     sp_protocol = OpenaiCompat,
     sp_base_url_env = ''CUSTOM_OPENAI_BASE_URL'',
     sp_base_url_env_fallbacks = [],
     sp_default_base_url = ''http://127.0.0.1:8000/v1'',
     sp_api_key_env = Some ''CUSTOM_OPENAI_API_KEY'',
     sp_api_key_env_fallbacks = [],
     sp_api_key_required = False,
     sp_default_model_env = ''CUSTOM_OPENAI_MODEL'',
     sp_default_model = ''default'',
     sp_models_env = ''CUSTOM_OPENAI_MODELS'',
     sp_models = [''default''],
     sp_model_prefixes = [],
     sp_passthrough_unknown_models = True,
     sp_max_tokens_field = MaxCompletionTokens,
     sp_deduplicate_stream_text = False\<rparr>"

text \<open>The specifications in the order in which the defaults insert them.\<close>

definition all_specs :: "ProviderSpec list" where
  "all_specs = DEEPSEEK_SPEC # MIMO_SPEC # OPTIONAL_PROVIDER_SPECS @ [CUSTOM_OPENAI_SPEC]"

lemmas spec_defs =
  DEEPSEEK_SPEC_def MIMO_SPEC_def cpa_codex_spec_def cpa_claude_spec_def deepseek_openai_spec_def
  anthropic_spec_def openai_spec_def openrouter_spec_def gemini_spec_def xai_spec_def groq_spec_def
  dashscope_spec_def kimi_spec_def zhipu_spec_def mistral_spec_def ark_spec_def ollama_spec_def
  local_sglang_spec_def local_vllm_spec_def local_llamacpp_spec_def CUSTOM_OPENAI_SPEC_def

lemma distinct_spec_ids: "distinct (map sp_id all_specs)"
  by (simp add: all_specs_def OPTIONAL_PROVIDER_SPECS_def spec_defs)

end
