(* ===== verification/Configuration.thy ===== *)
theory Configuration
  imports ConfigTypes
begin

text \<open>
  Loading the configuration and resolving a requested model, \<^verbatim>\<open>src/src/config.rs\<close>: the environment and
  its file, the configuration file or the built-in defaults, the choice of provider and model for a
  request, and the advertised model list.

  The process environment is a function; the text of the environment file is an argument, as are the
  text of the configuration file and the TOML parser. A variable is looked up through \<open>env_value\<close>;
  the operations below take the resulting function.
\<close>

type_synonym env = "string \<Rightarrow> string option"

section \<open>Text\<close>

text \<open>\<^verbatim>\<open>str::split\<close> on an ASCII character and \<^verbatim>\<open>str::lines\<close>.\<close>

fun split_on :: "char \<Rightarrow> string \<Rightarrow> string list" where
  "split_on d [] = [[]]"
| "split_on d (c # cs) =
     (if c = d then [] # split_on d cs
      else (case split_on d cs of p # ps \<Rightarrow> (c # p) # ps | [] \<Rightarrow> [[c]]))"

definition strip_cr :: "string \<Rightarrow> string" where
  "strip_cr s = (case strip_suffix s [CHR 0x0D] of Some r \<Rightarrow> r | None \<Rightarrow> s)"

definition lines :: "string \<Rightarrow> string list" where
  "lines s =
     (let ps = split_on CHR 0x0A s
      in map strip_cr (butlast ps) @ (if last ps = [] then [] else [last ps]))"

definition ascii_upper :: "char \<Rightarrow> char" where
  "ascii_upper c = (if is_ascii_lowercase c then char_of (of_char c - 32 :: int) else c)"

text \<open>\<^verbatim>\<open>trim_end_matches\<close> and \<^verbatim>\<open>trim_start_matches\<close> of one ASCII character.\<close>

definition trim_end_char :: "char \<Rightarrow> string \<Rightarrow> string" where
  "trim_end_char d s = rev (dropWhile (\<lambda>c. c = d) (rev s))"

definition trim_start_char :: "char \<Rightarrow> string \<Rightarrow> string" where
  "trim_start_char d s = dropWhile (\<lambda>c. c = d) s"

section \<open>The environment\<close>

definition strip_env_quotes :: "string \<Rightarrow> string" where
  "strip_env_quotes value =
     (if length value < 2 then value
      else if hd value \<in> {CHR 0x27, CHR 0x22} \<and> hd value = last value
      then butlast (tl value) else value)"

definition parse_env_line :: "string \<Rightarrow> (string \<times> string) option" where
  "parse_env_line raw =
     (let line = trim raw
      in if line = [] \<or> starts_with line ''#'' then None
         else let line = trim_start (case strip_prefix line ''export '' of Some r \<Rightarrow> r | None \<Rightarrow> line)
              in (case split_once CHR ''='' line of
                    None \<Rightarrow> None
                  | Some (k, v) \<Rightarrow>
                      if trim k = [] then None else Some (trim k, strip_env_quotes (trim v))))"

definition env_file_values :: "string option \<Rightarrow> (string, string) hmap" where
  "env_file_values file =
     (case file of
        None \<Rightarrow> []
      | Some raw \<Rightarrow>
          foldl (\<lambda>m (k, v). AList.update k v m) [] (List.map_filter parse_env_line (lines raw)))"

definition select_env_value :: "string option \<Rightarrow> string option \<Rightarrow> string option" where
  "select_env_value process_value file_value =
     (case process_value of Some v \<Rightarrow> Some v | None \<Rightarrow> file_value)"

definition env_value :: "env \<Rightarrow> string option \<Rightarrow> env" where
  "env_value process file name =
     (case process name of
        Some v \<Rightarrow> Some v
      | None \<Rightarrow> select_env_value None (map_of (env_file_values file) name))"

definition first_env :: "env \<Rightarrow> string list \<Rightarrow> string option" where
  "first_env ev names = find_map ev names"

definition env_flag :: "env \<Rightarrow> string \<Rightarrow> bool" where
  "env_flag ev name =
     (case ev name of
        Some v \<Rightarrow> v \<in> set [''1'', ''true'', ''TRUE'', ''yes'', ''YES'', ''on'', ''ON'']
      | None \<Rightarrow> False)"

definition env_bool :: "env \<Rightarrow> string \<Rightarrow> bool \<Rightarrow> bool" where
  "env_bool ev name dflt =
     (case ev name of
        Some v \<Rightarrow>
          if v \<in> set [''1'', ''true'', ''TRUE'', ''yes'', ''YES'', ''on'', ''ON''] then True
          else if v \<in> set [''0'', ''false'', ''FALSE'', ''no'', ''NO'', ''off'', ''OFF''] then False
          else dflt
      | None \<Rightarrow> dflt)"

definition env_key_fragment :: "string \<Rightarrow> string" where
  "env_key_fragment i = map (\<lambda>ch. if ch = CHR ''-'' then CHR ''_'' else ascii_upper ch) i"

definition config_path :: "env \<Rightarrow> string option \<Rightarrow> string" where
  "config_path ev home_var =
     (case ev ''MODELPORT_CONFIG'' of
        Some path \<Rightarrow> path
      | None \<Rightarrow>
          (let home = (case home_var of Some h \<Rightarrow> h | None \<Rightarrow> ''.'')
           in if home = [] \<or> last home = CHR ''/'' then home @ ''.config/modelport/config.toml''
              else home @ ''/.config/modelport/config.toml''))"

definition default_auth_token :: "env \<Rightarrow> string option" where
  "default_auth_token ev =
     (case ev ''MODELPORT_AUTH_TOKEN'' of Some t \<Rightarrow> Some t | None \<Rightarrow> ev ''ANTHROPIC_AUTH_TOKEN'')"

definition require_auth_token :: "env \<Rightarrow> string option \<Rightarrow> string option result" where
  "require_auth_token ev auth_token =
     (if auth_token \<noteq> None \<or> env_flag ev ''MODELPORT_ALLOW_NO_AUTH'' then Inr auth_token
      else Inl (Config (''MODELPORT_AUTH_TOKEN or ANTHROPIC_AUTH_TOKEN is required; '' @
        ''set MODELPORT_ALLOW_NO_AUTH=1 only for isolated local testing'')))"

text \<open>\<^verbatim>\<open>str::parse::<SocketAddr>\<close>: an IPv4 address, or an IPv6 one in brackets with an optional scope, and a port.\<close>

definition read_port :: "nat reader" where
  "read_port s =
     (case read_given_char CHR '':'' s of
        Some (_, rest) \<Rightarrow> read_number 10 (length rest) True 65535 rest
      | None \<Rightarrow> None)"

definition read_socket_v4 :: "socket_addr reader" where
  "read_socket_v4 s =
     (case read_ipv4_addr s of
        Some (ip, rest) \<Rightarrow> map_option (\<lambda>(p, r). ((V4 ip, p), r)) (read_port rest)
      | None \<Rightarrow> None)"

definition skip_scope :: "string \<Rightarrow> string" where
  "skip_scope s =
     (case read_given_char CHR ''%'' s of
        Some (_, rest) \<Rightarrow>
          (case read_number 10 (length rest) True u32_max rest of Some (_, r) \<Rightarrow> r | None \<Rightarrow> s)
      | None \<Rightarrow> s)"

definition read_socket_v6 :: "socket_addr reader" where
  "read_socket_v6 s =
     (case read_given_char CHR ''['' s of None \<Rightarrow> None | Some (_, r1) \<Rightarrow>
       (case read_ipv6_addr r1 of None \<Rightarrow> None | Some (ip, r2) \<Rightarrow>
         (case read_given_char CHR '']'' (skip_scope r2) of None \<Rightarrow> None | Some (_, r3) \<Rightarrow>
           map_option (\<lambda>(p, r). ((V6 ip, p), r)) (read_port r3))))"

definition parse_socket_addr :: "string \<Rightarrow> socket_addr option" where
  "parse_socket_addr s =
     (case (case read_socket_v4 s of Some x \<Rightarrow> Some x | None \<Rightarrow> read_socket_v6 s) of
        Some (addr, []) \<Rightarrow> Some addr
      | _ \<Rightarrow> None)"

definition resolve_bind :: "string option \<Rightarrow> socket_addr result" where
  "resolve_bind value =
     ok_or (parse_socket_addr (case value of Some v \<Rightarrow> v | None \<Rightarrow> ''127.0.0.1:17878''))
       (Config ''invalid bind address: invalid socket address syntax'')"

definition resolve_usize_env :: "env \<Rightarrow> nat option \<Rightarrow> string \<Rightarrow> nat \<Rightarrow> nat" where
  "resolve_usize_env ev value env_name dflt =
     (case (case value of
              Some v \<Rightarrow> Some v
            | None \<Rightarrow> Option.bind (ev env_name) (parse_uint u64_max)) of
        Some v \<Rightarrow> if 0 < v then v else dflt
      | None \<Rightarrow> dflt)"

section \<open>Smart-routing overrides\<close>

definition override_mode :: "env \<Rightarrow> SmartRoutingConfig \<Rightarrow> SmartRoutingConfig result" where
  "override_mode ev config =
     (case ev ''MODELPORT_SMART_ROUTING_MODE'' of
        None \<Rightarrow> Inr config
      | Some value \<Rightarrow>
          (let v = to_ascii_lowercase (trim value)
           in if v = ''off'' then Inr (config\<lparr>sr_mode := Off\<rparr>)
              else if v = ''shadow'' then Inr (config\<lparr>sr_mode := Shadow\<rparr>)
              else if v = ''active'' then Inr (config\<lparr>sr_mode := Active\<rparr>)
              else Inl (Config ''MODELPORT_SMART_ROUTING_MODE must be off, shadow, or active'')))"

definition override_profile :: "env \<Rightarrow> SmartRoutingConfig \<Rightarrow> SmartRoutingConfig result" where
  "override_profile ev config =
     (case ev ''MODELPORT_SMART_ROUTING_PROFILE'' of
        None \<Rightarrow> Inr config
      | Some value \<Rightarrow>
          (case profile_parse value of
             Some profile \<Rightarrow> Inr (config\<lparr>sr_default_profile := profile\<rparr>)
           | None \<Rightarrow> Inl (Config (''MODELPORT_SMART_ROUTING_PROFILE must be quality, balanced, '' @
               ''economy, or latency''))))"

definition override_activation :: "env \<Rightarrow> SmartRoutingConfig \<Rightarrow> SmartRoutingConfig result" where
  "override_activation ev config =
     (case ev ''MODELPORT_SMART_ROUTING_ACTIVATION_PERCENT'' of
        None \<Rightarrow> Inr config
      | Some value \<Rightarrow>
          (case parse_uint 255 value of
             None \<Rightarrow> Inl (Config (''MODELPORT_SMART_ROUTING_ACTIVATION_PERCENT must be an '' @
               ''integer from 0 to 100''))
           | Some percent \<Rightarrow>
               if 100 < percent
               then Inl (Config ''MODELPORT_SMART_ROUTING_ACTIVATION_PERCENT must be from 0 to 100'')
               else Inr (config\<lparr>sr_activation_percent := percent\<rparr>)))"

definition apply_smart_routing_env_override ::
    "env \<Rightarrow> SmartRoutingConfig \<Rightarrow> SmartRoutingConfig result" where
  "apply_smart_routing_env_override ev config =
     res_bind (override_mode ev config) (\<lambda>config.
     res_bind (override_profile ev config) (\<lambda>config.
     override_activation ev config))"

section \<open>Provider defaults\<close>

definition is_single_tool_runtime :: "string \<Rightarrow> bool" where
  "is_single_tool_runtime provider_id \<longleftrightarrow>
     provider_id \<in> set [''ollama'', ''local_sglang'', ''local_vllm'', ''local_llamacpp'']"

definition is_unknown_tool_runtime :: "string \<Rightarrow> bool" where
  "is_unknown_tool_runtime provider_id \<longleftrightarrow>
     provider_id \<in> set [''custom'', ''ollama'', ''local_sglang'', ''local_vllm'', ''local_llamacpp'']"

definition default_tool_use_config :: "string \<Rightarrow> ProviderProtocol \<Rightarrow> bool \<Rightarrow> ToolUseConfig" where
  "default_tool_use_config provider_id protocol deduplicate =
    \<lparr>tu_supported = True,
     tu_tool_choice = True,
     tu_parallel_tool_calls = (\<not> is_single_tool_runtime provider_id),
     tu_streaming_arguments =
       (case protocol of
          Anthropic \<Rightarrow> Native
        | OpenaiCompat \<Rightarrow>
            if deduplicate then Cumulative
            else if is_unknown_tool_runtime provider_id then ArgumentsBestEffort
            else Delta),
     tu_response_validation = ValidationBestEffort,
     tu_repair_invalid_arguments = False\<rparr>"

definition default_fidelity_mode :: "bool \<Rightarrow> bool \<Rightarrow> FidelityMode" where
  "default_fidelity_mode deduplicate buffer = (if deduplicate \<or> buffer then Stability else BestEffort)"

definition default_buffer_stream_text :: "env \<Rightarrow> string \<Rightarrow> bool" where
  "default_buffer_stream_text ev provider_id =
     env_bool ev (''MODELPORT_'' @ env_key_fragment provider_id @ ''_BUFFER_STREAM_TEXT'') False"

definition openai_legacy_env_name :: "string \<Rightarrow> string \<Rightarrow> string option" where
  "openai_legacy_env_name provider_id preferred_name =
     (if provider_id \<noteq> ''openai'' then None
      else if preferred_name = ''MODELPORT_OPENAI_MODEL'' then Some ''OPENAI_MODEL''
      else if preferred_name = ''MODELPORT_OPENAI_MODELS'' then Some ''OPENAI_MODELS''
      else None)"

definition provider_env_value :: "env \<Rightarrow> ProviderSpec \<Rightarrow> string \<Rightarrow> string option" where
  "provider_env_value ev spec name =
     (case ev name of
        Some v \<Rightarrow> Some v
      | None \<Rightarrow> Option.bind (openai_legacy_env_name (sp_id spec) name) ev)"

definition provider_env_list :: "env \<Rightarrow> ProviderSpec \<Rightarrow> string \<Rightarrow> string list \<Rightarrow> string list" where
  "provider_env_list ev spec name defaults =
     (case provider_env_value ev spec name of
        Some value \<Rightarrow>
          (let values = filter (\<lambda>v. v \<noteq> []) (map trim (split_on CHR '','' value))
           in if values = [] then defaults else values)
      | None \<Rightarrow> defaults)"

definition claude_model_variables :: "string list" where
  "claude_model_variables =
    [''ANTHROPIC_MODEL'', ''ANTHROPIC_DEFAULT_OPUS_MODEL'', ''ANTHROPIC_DEFAULT_SONNET_MODEL'',
     ''ANTHROPIC_DEFAULT_HAIKU_MODEL'', ''ANTHROPIC_SMALL_FAST_MODEL'']"

definition extend_mimo_models_from_claude_env :: "env \<Rightarrow> string list \<Rightarrow> string list" where
  "extend_mimo_models_from_claude_env ev models =
     foldl (\<lambda>models name.
       (case ev name of
          Some value \<Rightarrow>
            if starts_with value ''mimo-'' \<and> value \<notin> set models then models @ [value] else models
        | None \<Rightarrow> models)) models claude_model_variables"

definition default_aliases :: "env \<Rightarrow> (string, string) hmap" where
  "default_aliases ev =
     foldl (\<lambda>aliases name.
       (case ev name of
          Some model \<Rightarrow>
            if starts_with model ''deepseek-'' then AList.update model ''deepseek'' aliases
            else if starts_with model ''mimo-'' then AList.update model ''mimo'' aliases
            else aliases
        | None \<Rightarrow> aliases)) [] claude_model_variables"

type_synonym provider_table = "(string, ProviderConfig) hmap \<times> string list"

fun insert_provider :: "string \<Rightarrow> ProviderConfig \<Rightarrow> provider_table \<Rightarrow> provider_table" where
  "insert_provider i provider (providers, order) =
     (AList.update i provider providers,
      if contains_key providers i then order else order @ [i])"

definition spec_default_model :: "env \<Rightarrow> ProviderSpec \<Rightarrow> string" where
  "spec_default_model ev spec =
     (case provider_env_value ev spec (sp_default_model_env spec) of
        Some model \<Rightarrow> model
      | None \<Rightarrow>
          if sp_id spec = ''mimo''
          then (case ev ''ANTHROPIC_MODEL'' of
                  Some model \<Rightarrow> if starts_with model ''mimo-'' then model else sp_default_model spec
                | None \<Rightarrow> sp_default_model spec)
          else sp_default_model spec)"

definition spec_models :: "env \<Rightarrow> ProviderSpec \<Rightarrow> string list" where
  "spec_models ev spec =
     (let models = provider_env_list ev spec (sp_models_env spec) (sp_models spec);
          default_model = spec_default_model ev spec;
          models = (if default_model \<in> set models then models else default_model # models)
      in if sp_id spec = ''mimo'' then extend_mimo_models_from_claude_env ev models else models)"

definition spec_provider :: "env \<Rightarrow> ProviderSpec \<Rightarrow> ProviderConfig" where
  "spec_provider ev spec =
     (let buffer = default_buffer_stream_text ev (sp_id spec)
      in \<lparr>pc_display_name = sp_display_name spec,
          pc_protocol = sp_protocol spec,
          pc_base_url =
            (case ev (sp_base_url_env spec) of
               Some url \<Rightarrow> url
             | None \<Rightarrow>
                 (case first_env ev (sp_base_url_env_fallbacks spec) of
                    Some url \<Rightarrow> url
                  | None \<Rightarrow> sp_default_base_url spec)),
          pc_api_key_env = sp_api_key_env spec,
          pc_api_key =
            (case Option.bind (sp_api_key_env spec) ev of
               Some key \<Rightarrow> Some key
             | None \<Rightarrow> first_env ev (sp_api_key_env_fallbacks spec)),
          pc_api_key_required = sp_api_key_required spec,
          pc_default_model = spec_default_model ev spec,
          pc_models = spec_models ev spec,
          pc_model_prefixes = sp_model_prefixes spec,
          pc_passthrough_unknown_models = sp_passthrough_unknown_models spec,
          pc_max_tokens_field = sp_max_tokens_field spec,
          pc_deduplicate_stream_text = sp_deduplicate_stream_text spec,
          pc_buffer_stream_text = buffer,
          pc_fidelity_mode = default_fidelity_mode (sp_deduplicate_stream_text spec) buffer,
          pc_tool_use =
            default_tool_use_config (sp_id spec) (sp_protocol spec) (sp_deduplicate_stream_text spec),
          pc_reasoning = reasoning_default,
          pc_sampling = sampling_default,
          pc_token_counting = token_counting_default,
          pc_pricing = None\<rparr>)"

definition insert_spec :: "env \<Rightarrow> ProviderSpec \<Rightarrow> provider_table \<Rightarrow> provider_table" where
  "insert_spec ev spec table = insert_provider (sp_id spec) (spec_provider ev spec) table"

definition should_enable_provider :: "env \<Rightarrow> ProviderSpec \<Rightarrow> bool" where
  "should_enable_provider ev spec \<longleftrightarrow>
     env_flag ev (''MODELPORT_ENABLE_'' @ env_key_fragment (sp_id spec)) \<or>
     ev (sp_base_url_env spec) \<noteq> None \<or>
     provider_env_value ev spec (sp_default_model_env spec) \<noteq> None \<or>
     provider_env_value ev spec (sp_models_env spec) \<noteq> None \<or>
     first_env ev (sp_base_url_env_fallbacks spec) \<noteq> None \<or>
     Option.bind (sp_api_key_env spec) ev \<noteq> None \<or>
     first_env ev (sp_api_key_env_fallbacks spec) \<noteq> None"

definition should_enable_custom_openai_provider :: "env \<Rightarrow> bool" where
  "should_enable_custom_openai_provider ev \<longleftrightarrow>
     ev (sp_base_url_env CUSTOM_OPENAI_SPEC) \<noteq> None \<or>
     ev (sp_default_model_env CUSTOM_OPENAI_SPEC) \<noteq> None \<or>
     ev ''CUSTOM_OPENAI_API_KEY'' \<noteq> None \<or>
     env_flag ev ''MODELPORT_ENABLE_CUSTOM''"

definition DEFAULT_MAX_REQUEST_BODY_BYTES :: nat where
  "DEFAULT_MAX_REQUEST_BODY_BYTES = 32 * 1024 * 1024"

definition DEFAULT_MAX_CONCURRENT_REQUESTS :: nat where
  "DEFAULT_MAX_CONCURRENT_REQUESTS = 64"

section \<open>Loading\<close>

text \<open>The built-in providers that the environment enables.\<close>

definition default_table :: "env \<Rightarrow> provider_table" where
  "default_table ev =
     (let table = insert_spec ev DEEPSEEK_SPEC ([], []);
          table = (if should_enable_provider ev MIMO_SPEC then insert_spec ev MIMO_SPEC table else table);
          table = foldl (\<lambda>table spec.
              if should_enable_provider ev spec then insert_spec ev spec table else table)
            table OPTIONAL_PROVIDER_SPECS
      in if should_enable_custom_openai_provider ev
         then insert_spec ev CUSTOM_OPENAI_SPEC table else table)"

definition from_env_defaults :: "env \<Rightarrow> AppConfig result" where
  "from_env_defaults ev =
     res_bind (resolve_bind (ev ''MODELPORT_BIND'')) (\<lambda>bind_addr.
     res_bind (apply_smart_routing_env_override ev smart_routing_default) (\<lambda>smart_routing.
     res_bind (require_auth_token ev (default_auth_token ev)) (\<lambda>auth_token.
     Inr \<lparr>cfg_bind_addr = bind_addr,
          cfg_max_request_body_bytes =
            resolve_usize_env ev None ''MODELPORT_MAX_REQUEST_BODY_BYTES'' DEFAULT_MAX_REQUEST_BODY_BYTES,
          cfg_max_concurrent_requests =
            resolve_usize_env ev None ''MODELPORT_MAX_CONCURRENT_REQUESTS'' DEFAULT_MAX_CONCURRENT_REQUESTS,
          cfg_auth_token = auth_token,
          cfg_default_provider =
            (case ev ''MODELPORT_DEFAULT_PROVIDER'' of Some p \<Rightarrow> p | None \<Rightarrow> ''deepseek''),
          cfg_provider_order = snd (default_table ev),
          cfg_providers = fst (default_table ev),
          cfg_aliases = default_aliases ev,
          cfg_smart_routing = smart_routing\<rparr>)))"

text \<open>The sections of the file in the order in which they are inserted.\<close>

definition ordered_provider_ids ::
    "string list \<Rightarrow> (string, ProviderSection) hmap \<Rightarrow> string list" where
  "ordered_provider_ids order sections =
     (let ordered = foldl (\<lambda>ids i.
            if contains_key sections i \<and> i \<notin> set ids then ids @ [i] else ids) [] order
      in foldl (\<lambda>ids i. if i \<notin> set ids then ids @ [i] else ids)
           ordered (sort (map_keys sections)))"

definition section_base_url :: "env \<Rightarrow> string \<Rightarrow> ProviderSection \<Rightarrow> string result" where
  "section_base_url ev i section =
     ok_or
       (case Option.bind (ps_base_url_env section) ev of
          Some url \<Rightarrow> Some url
        | None \<Rightarrow>
            (case Option.bind (ps_base_url_env_fallbacks section) (first_env ev) of
               Some url \<Rightarrow> Some url
             | None \<Rightarrow> ps_base_url section))
       (Config (''provider `'' @ i @ ''` needs base_url or base_url_env''))"

abbreviation unwrap_or :: "'a option \<Rightarrow> 'a \<Rightarrow> 'a" where
  "unwrap_or x d \<equiv> (case x of Some v \<Rightarrow> v | None \<Rightarrow> d)"

definition section_api_key_required :: "ProviderSection \<Rightarrow> bool" where
  "section_api_key_required section =
     unwrap_or (ps_api_key_required section) (ps_api_key_env section \<noteq> None)"

definition section_default_model :: "string \<Rightarrow> ProviderSection \<Rightarrow> string" where
  "section_default_model i section =
     (case ps_default_model section of
        Some model \<Rightarrow> model
      | None \<Rightarrow> (case unwrap_or (ps_models section) [] of model # _ \<Rightarrow> model | [] \<Rightarrow> i))"

definition section_provider :: "env \<Rightarrow> string \<Rightarrow> ProviderSection \<Rightarrow> string \<Rightarrow> ProviderConfig" where
  "section_provider ev i section base_url =
     (let deduplicate = unwrap_or (ps_deduplicate_stream_text section) False;
          buffer = unwrap_or (ps_buffer_stream_text section) False
      in \<lparr>pc_display_name = unwrap_or (ps_display_name section) i,
          pc_protocol = ps_protocol section,
          pc_base_url = base_url,
          pc_api_key_env = ps_api_key_env section,
          pc_api_key = Option.bind (ps_api_key_env section) ev,
          pc_api_key_required = section_api_key_required section,
          pc_default_model = section_default_model i section,
          pc_models = unwrap_or (ps_models section) [],
          pc_model_prefixes = unwrap_or (ps_model_prefixes section) [],
          pc_passthrough_unknown_models = unwrap_or (ps_passthrough_unknown_models section) False,
          pc_max_tokens_field = unwrap_or (ps_max_tokens_field section) MaxCompletionTokens,
          pc_deduplicate_stream_text = deduplicate,
          pc_buffer_stream_text = buffer,
          pc_fidelity_mode =
            unwrap_or (ps_fidelity_mode section) (default_fidelity_mode deduplicate buffer),
          pc_tool_use =
            unwrap_or (ps_tool_use section)
              (default_tool_use_config i (ps_protocol section) deduplicate),
          pc_reasoning = unwrap_or (ps_reasoning section) reasoning_default,
          pc_sampling = unwrap_or (ps_sampling section) sampling_default,
          pc_token_counting = unwrap_or (ps_token_counting section) token_counting_default,
          pc_pricing = ps_pricing section\<rparr>)"

text \<open>A provider whose key is missing is left out, unless it is the default or the operator asks for it.\<close>

definition section_skipped :: "env \<Rightarrow> string option \<Rightarrow> string \<Rightarrow> ProviderSection \<Rightarrow> bool" where
  "section_skipped ev configured_default i section \<longleftrightarrow>
     section_api_key_required section \<and>
     Option.bind (ps_api_key_env section) ev = None \<and>
     configured_default \<noteq> Some i \<and>
     \<not> env_flag ev ''MODELPORT_INCLUDE_UNAVAILABLE_PROVIDERS''"

fun load_sections ::
    "env \<Rightarrow> string option \<Rightarrow> string list \<Rightarrow> (string, ProviderSection) hmap \<Rightarrow> provider_table \<Rightarrow>
     provider_table result" where
  "load_sections ev configured_default [] sections table = Inr table"
| "load_sections ev configured_default (i # ids) sections table =
     res_bind (ok_or (map_of sections i)
       (Config (''provider `'' @ i @ ''` disappeared while loading config''))) (\<lambda>section.
     res_bind (section_base_url ev i section) (\<lambda>base_url.
     load_sections ev configured_default ids (AList.delete i sections)
       (if section_skipped ev configured_default i section then table
        else insert_provider i (section_provider ev i section base_url) table)))"

definition from_parsed_file :: "env \<Rightarrow> FileConfig \<Rightarrow> AppConfig result" where
  "from_parsed_file ev file =
     (let server = unwrap_or (fc_server file)
            \<lparr>sec_bind = None, sec_max_request_body_bytes = None, sec_max_concurrent_requests = None\<rparr>;
          sections = unwrap_or (fc_providers file) []
      in res_bind (resolve_bind (sec_bind server)) (\<lambda>bind_addr.
         res_bind (require_auth_token ev
           (case Option.bind (Option.bind (fc_auth file) sec_token_env) ev of
              Some token \<Rightarrow> Some token
            | None \<Rightarrow> default_auth_token ev)) (\<lambda>auth_token.
         res_bind (load_sections ev (fc_default_provider file)
           (ordered_provider_ids (unwrap_or (fc_provider_order file) []) sections) sections ([], []))
           (\<lambda>(providers, provider_order).
         res_bind (ok_or
           (case fc_default_provider file of
              Some p \<Rightarrow> Some p
            | None \<Rightarrow> (case provider_order of p # _ \<Rightarrow> Some p | [] \<Rightarrow> None))
           (Config ''at least one provider is required'')) (\<lambda>default_provider.
         res_bind (apply_smart_routing_env_override ev
           (unwrap_or (fc_routing file) smart_routing_default)) (\<lambda>smart_routing.
         Inr \<lparr>cfg_bind_addr = bind_addr,
              cfg_max_request_body_bytes =
                resolve_usize_env ev (sec_max_request_body_bytes server)
                  ''MODELPORT_MAX_REQUEST_BODY_BYTES'' DEFAULT_MAX_REQUEST_BODY_BYTES,
              cfg_max_concurrent_requests =
                resolve_usize_env ev (sec_max_concurrent_requests server)
                  ''MODELPORT_MAX_CONCURRENT_REQUESTS'' DEFAULT_MAX_CONCURRENT_REQUESTS,
              cfg_auth_token = auth_token,
              cfg_default_provider = default_provider,
              cfg_provider_order = provider_order,
              cfg_providers = providers,
              cfg_aliases = unwrap_or (fc_aliases file) [],
              cfg_smart_routing = smart_routing\<rparr>))))))"

text \<open>
  The configuration file is \<open>None\<close> when its path does not exist, and otherwise the outcome of reading
  it; \<open>parse_toml\<close> is the TOML library.
\<close>

definition from_file ::
    "(string \<Rightarrow> string + FileConfig) \<Rightarrow> env \<Rightarrow> string + string \<Rightarrow> AppConfig result" where
  "from_file parse_toml ev contents =
     (case contents of
        Inl err \<Rightarrow> Inl (Io err)
      | Inr raw \<Rightarrow>
          (case parse_toml raw of
             Inl err \<Rightarrow> Inl (Config err)
           | Inr file \<Rightarrow> from_parsed_file ev file))"

definition load_config ::
    "(string \<Rightarrow> string + FileConfig) \<Rightarrow> env \<Rightarrow> (string + string) option \<Rightarrow> AppConfig result" where
  "load_config parse_toml ev file =
     (case file of
        Some contents \<Rightarrow> from_file parse_toml ev contents
      | None \<Rightarrow> from_env_defaults ev)"

section \<open>Resolving a requested model\<close>

abbreviation provider_known :: "AppConfig \<Rightarrow> string \<Rightarrow> bool" where
  "provider_known config i \<equiv> contains_key (cfg_providers config) i"

definition parse_provider_model :: "AppConfig \<Rightarrow> string \<Rightarrow> (string \<times> string) option" where
  "parse_provider_model config value =
     (case split_once CHR '':'' value of
        Some (provider_id, model) \<Rightarrow>
          if provider_known config provider_id then Some (provider_id, trim model) else None
      | None \<Rightarrow> None)"

definition find_provider_by_exact_model ::
    "AppConfig \<Rightarrow> string \<Rightarrow> (string \<times> ProviderConfig) option" where
  "find_provider_by_exact_model config model =
     find_map (\<lambda>i.
       (case map_of (cfg_providers config) i of
          Some provider \<Rightarrow> if model \<in> set (pc_models provider) then Some (i, provider) else None
        | None \<Rightarrow> None)) (cfg_provider_order config)"

definition find_provider_by_model_prefix ::
    "AppConfig \<Rightarrow> string \<Rightarrow> (string \<times> ProviderConfig) option" where
  "find_provider_by_model_prefix config model =
     find_map (\<lambda>i.
       (case map_of (cfg_providers config) i of
          Some provider \<Rightarrow>
            if list_ex (starts_with model) (pc_model_prefixes provider) then Some (i, provider) else None
        | None \<Rightarrow> None)) (cfg_provider_order config)"

definition resolve_for_provider ::
    "AppConfig \<Rightarrow> string \<Rightarrow> string option \<Rightarrow> ResolvedProvider result" where
  "resolve_for_provider config provider_id model =
     res_bind (ok_or (map_of (cfg_providers config) provider_id) (ProviderNotFound provider_id)) (\<lambda>provider.
     Inr \<lparr>rp_provider_id = provider_id, rp_provider = provider,
          rp_model =
            (case model of
               Some m \<Rightarrow> if trim m \<noteq> [] then m else pc_default_model provider
             | None \<Rightarrow> pc_default_model provider)\<rparr>)"

text \<open>The last rule of the resolution: the default provider takes an unknown model or replaces it.\<close>

definition resolve_default :: "AppConfig \<Rightarrow> string \<Rightarrow> ResolvedProvider result" where
  "resolve_default config requested_model =
     res_bind (ok_or (map_of (cfg_providers config) (cfg_default_provider config))
       (ProviderNotFound (cfg_default_provider config))) (\<lambda>provider.
     Inr \<lparr>rp_provider_id = cfg_default_provider config, rp_provider = provider,
          rp_model =
            (if pc_passthrough_unknown_models provider then requested_model
             else pc_default_model provider)\<rparr>)"

function (sequential) resolve_inner :: "AppConfig \<Rightarrow> string \<Rightarrow> nat \<Rightarrow> ResolvedProvider result"
  and resolve_alias_target :: "AppConfig \<Rightarrow> string \<Rightarrow> string \<Rightarrow> nat \<Rightarrow> ResolvedProvider result" where
  "resolve_inner config requested_model depth =
     (if 8 < depth then Inl (InvalidRequest ''model alias chain is too deep or cyclic'')
      else if requested_model = [] then resolve_for_provider config (cfg_default_provider config) None
      else case parse_provider_model config requested_model of
        Some (provider_id, model) \<Rightarrow> resolve_for_provider config provider_id (Some model)
      | None \<Rightarrow>
          (case map_of (cfg_aliases config) requested_model of
             Some target \<Rightarrow> resolve_alias_target config requested_model target (depth + 1)
           | None \<Rightarrow>
               (case find_provider_by_exact_model config requested_model of
                  Some (provider_id, provider) \<Rightarrow>
                    Inr \<lparr>rp_provider_id = provider_id, rp_provider = provider,
                         rp_model = requested_model\<rparr>
                | None \<Rightarrow>
                    (case find_provider_by_model_prefix config requested_model of
                       Some (provider_id, provider) \<Rightarrow>
                         Inr \<lparr>rp_provider_id = provider_id, rp_provider = provider,
                              rp_model = requested_model\<rparr>
                     | None \<Rightarrow> resolve_default config requested_model))))"
| "resolve_alias_target config alias target depth =
     (case split_once CHR '':'' target of
        Some (provider_id, model) \<Rightarrow>
          if provider_known config provider_id
          then resolve_for_provider config provider_id (Some model)
          else Inl (ProviderNotFound provider_id)
      | None \<Rightarrow>
          (case map_of (cfg_providers config) target of
             Some provider \<Rightarrow>
               Inr \<lparr>rp_provider_id = target, rp_provider = provider,
                    rp_model = (if alias \<in> set (pc_models provider) then alias
                                else pc_default_model provider)\<rparr>
           | None \<Rightarrow> resolve_inner config target depth))"
  by pat_completeness auto
termination
  by (relation "measure (\<lambda>x. case x of Inl (_, _, depth) \<Rightarrow> 2 * (9 - depth)
                                    | Inr (_, _, _, depth) \<Rightarrow> 2 * (9 - depth) + 1)") auto

declare resolve_inner.simps [simp del] resolve_alias_target.simps [simp del]

definition resolve :: "AppConfig \<Rightarrow> string \<Rightarrow> ResolvedProvider result" where
  "resolve config requested_model = resolve_inner config (trim requested_model) 0"

definition alias_display_name :: "AppConfig \<Rightarrow> string \<Rightarrow> string option" where
  "alias_display_name config target =
     (case parse_provider_model config target of
        Some (provider_id, _) \<Rightarrow> map_option pc_display_name (map_of (cfg_providers config) provider_id)
      | None \<Rightarrow>
          (case map_of (cfg_providers config) target of
             Some provider \<Rightarrow> Some (pc_display_name provider)
           | None \<Rightarrow>
               map_option (pc_display_name \<circ> snd)
                 (case find_provider_by_exact_model config target of
                    Some p \<Rightarrow> Some p
                  | None \<Rightarrow> find_provider_by_model_prefix config target)))"

text \<open>The list of advertised models; a model already listed is not listed again.\<close>

definition push_model :: "string \<Rightarrow> string \<Rightarrow> (string \<times> string) list \<Rightarrow> (string \<times> string) list" where
  "push_model model display_name models =
     (if model \<in> set (map fst models) then models else models @ [(model, display_name)])"

definition model_list :: "AppConfig \<Rightarrow> (string \<times> string) list" where
  "model_list config =
     (let models = foldl (\<lambda>models i.
            (case map_of (cfg_providers config) i of
               Some provider \<Rightarrow>
                 foldl (\<lambda>models model. push_model model (pc_display_name provider) models)
                   models (pc_models provider)
             | None \<Rightarrow> models)) [] (cfg_provider_order config);
          models = foldl (\<lambda>models (alias, target).
            (if alias \<in> set (map fst models) then models
             else case alias_display_name config target of
               Some display_name \<Rightarrow> push_model alias display_name models
             | None \<Rightarrow> models)) models (cfg_aliases config)
      in if sr_mode (cfg_smart_routing config) \<noteq> Off
         then foldl (\<lambda>models alias. push_model alias ''ModelPort Smart Router'' models) models
           (sort (concat (map group_aliases (map_values (sr_groups (cfg_smart_routing config))))))
         else models)"

definition smart_route_group :: "AppConfig \<Rightarrow> string \<Rightarrow> (string \<times> RouteGroupConfig) option" where
  "smart_route_group config requested_model =
     List.find (\<lambda>(_, group). trim requested_model \<in> set (group_aliases group))
       (sr_groups (cfg_smart_routing config))"

section \<open>Using a provider\<close>

text \<open>\<open>to_upper\<close> is Unicode upper-casing.\<close>

definition provider_api_key :: "(string \<Rightarrow> string) \<Rightarrow> ProviderConfig \<Rightarrow> string option result" where
  "provider_api_key to_upper provider =
     (case pc_api_key provider of
        Some key \<Rightarrow> Inr (Some key)
      | None \<Rightarrow>
          if pc_api_key_required provider
          then Inl (MissingSecret
            (case pc_api_key_env provider of
               Some name \<Rightarrow> name
             | None \<Rightarrow> to_upper (pc_display_name provider) @ ''_API_KEY''))
          else Inr None)"

definition endpoint :: "ProviderConfig \<Rightarrow> string \<Rightarrow> string" where
  "endpoint provider path =
     trim_end_char CHR ''/'' (pc_base_url provider) @ ''/'' @ trim_start_char CHR ''/'' path"

text \<open>Request headers by lower-case name; \<^verbatim>\<open>HeaderValue::to_str\<close> accepts visible ASCII and tabs.\<close>

definition header_str :: "(string \<Rightarrow> string option) \<Rightarrow> string \<Rightarrow> string option" where
  "header_str headers name =
     (case headers name of
        Some v \<Rightarrow>
          if list_all (\<lambda>c. let n = (of_char c :: int) in 32 \<le> n \<and> n < 127 \<or> n = 9) v
          then Some v else None
      | None \<Rightarrow> None)"

definition validate_client_auth :: "AppConfig \<Rightarrow> (string \<Rightarrow> string option) \<Rightarrow> unit result" where
  "validate_client_auth config headers =
     (case cfg_auth_token config of
        None \<Rightarrow> Inr ()
      | Some expected \<Rightarrow>
          if header_str headers ''x-api-key'' = Some expected \<or>
             Option.bind (header_str headers ''authorization'') (\<lambda>v. strip_prefix v ''Bearer '') =
               Some expected
          then Inr () else Inl Auth)"

end
