(* ===== verification/ConfigValidation.thy ===== *)
theory ConfigValidation
  imports Configuration
begin

text \<open>
  Validation of a configuration and its reload, \<^verbatim>\<open>src/src/config.rs\<close>: the policy on provider base URLs, the
  checks on every provider, alias and routing group, and the runtime configuration that only a
  validated configuration replaces.

  URLs are parsed by a library: \<open>parse_url\<close> is an argument, its result the parts the code reads.
\<close>

unbundle bit_operations_syntax

record Url =
  url_scheme :: string
  url_username :: string
  url_password :: "string option"
  url_host_str :: "string option"
  url_port_or_known_default :: "nat option"
  url_path :: string
  url_query :: "string option"
  url_fragment :: "string option"

type_synonym url_parser = "string \<Rightarrow> string + Url"

datatype ConfigIssueSeverity = Error | Warning

record ConfigIssue =
  severity :: ConfigIssueSeverity
  issue_message :: string

definition issue_error :: "string \<Rightarrow> ConfigIssue" where
  "issue_error m = \<lparr>severity = Error, issue_message = m\<rparr>"

definition issue_warning :: "string \<Rightarrow> ConfigIssue" where
  "issue_warning m = \<lparr>severity = Warning, issue_message = m\<rparr>"

definition error_when :: "bool \<Rightarrow> string \<Rightarrow> ConfigIssue list" where
  "error_when b m = (if b then [issue_error m] else [])"

definition warn_when :: "bool \<Rightarrow> string \<Rightarrow> ConfigIssue list" where
  "warn_when b m = (if b then [issue_warning m] else [])"

section \<open>Addresses\<close>

definition ipv4_octet :: "nat \<Rightarrow> nat \<Rightarrow> nat" where
  "ipv4_octet i v = v div 256 ^ (3 - i) mod 256"

definition ipv4_is_private :: "nat \<Rightarrow> bool" where
  "ipv4_is_private v \<longleftrightarrow>
     ipv4_octet 0 v = 10 \<or>
     ipv4_octet 0 v = 172 \<and> 16 \<le> ipv4_octet 1 v \<and> ipv4_octet 1 v \<le> 31 \<or>
     ipv4_octet 0 v = 192 \<and> ipv4_octet 1 v = 168"

definition ipv4_is_link_local :: "nat \<Rightarrow> bool" where
  "ipv4_is_link_local v \<longleftrightarrow> ipv4_octet 0 v = 169 \<and> ipv4_octet 1 v = 254"

fun ip_is_loopback :: "IpAddr \<Rightarrow> bool" where
  "ip_is_loopback (V4 v) \<longleftrightarrow> ipv4_octet 0 v = 127"
| "ip_is_loopback (V6 v) \<longleftrightarrow> v = 1"

fun ip_is_unspecified :: "IpAddr \<Rightarrow> bool" where
  "ip_is_unspecified (V4 v) \<longleftrightarrow> v = 0"
| "ip_is_unspecified (V6 v) \<longleftrightarrow> v = 0"

text \<open>\<^verbatim>\<open>Ipv6Addr::to_ipv4_mapped\<close>: the addresses \<^verbatim>\<open>::ffff:a.b.c.d\<close>.\<close>

definition to_ipv4_mapped :: "nat \<Rightarrow> nat option" where
  "to_ipv4_mapped v = (if v div 2 ^ 32 = 65535 then Some (v mod 2 ^ 32) else None)"

definition ipv6_segment0 :: "nat \<Rightarrow> nat" where
  "ipv6_segment0 v = v div 2 ^ 112"

definition ipv6_is_unique_local :: "nat \<Rightarrow> bool" where
  "ipv6_is_unique_local v \<longleftrightarrow> ipv6_segment0 v AND 0xFE00 = 0xFC00"

definition ipv6_is_unicast_link_local :: "nat \<Rightarrow> bool" where
  "ipv6_is_unicast_link_local v \<longleftrightarrow> ipv6_segment0 v AND 0xFFC0 = 0xFE80"

definition private_or_metadata_ipv4 :: "nat \<Rightarrow> bool" where
  "private_or_metadata_ipv4 v \<longleftrightarrow>
     ipv4_is_private v \<or> ip_is_loopback (V4 v) \<or> ipv4_is_link_local v \<or> ip_is_unspecified (V4 v) \<or>
     map (\<lambda>i. ipv4_octet i v) [0, 1, 2, 3] = [169, 254, 169, 254]"

fun private_or_metadata_ip :: "IpAddr \<Rightarrow> bool" where
  "private_or_metadata_ip (V4 v) = private_or_metadata_ipv4 v"
| "private_or_metadata_ip (V6 v) =
     (case to_ipv4_mapped v of
        Some w \<Rightarrow> private_or_metadata_ipv4 w
      | None \<Rightarrow>
          ip_is_loopback (V6 v) \<or> ip_is_unspecified (V6 v) \<or> ipv6_is_unique_local v \<or>
          ipv6_is_unicast_link_local v)"

section \<open>Provider base URLs\<close>

definition eq_ignore_ascii_case :: "string \<Rightarrow> string \<Rightarrow> bool" where
  "eq_ignore_ascii_case a b \<longleftrightarrow> to_ascii_lowercase a = to_ascii_lowercase b"

text \<open>The host without brackets and trailing dots.\<close>

definition plain_host :: "string \<Rightarrow> string" where
  "plain_host host =
     (let bracket = (\<lambda>c. c = CHR ''['' \<or> c = CHR '']'')
      in trim_end_char CHR ''.'' (rev (dropWhile bracket (rev (dropWhile bracket host)))))"

definition provider_allows_loopback_base_url :: "string \<Rightarrow> bool" where
  "provider_allows_loopback_base_url provider_id \<longleftrightarrow>
     starts_with provider_id ''local_'' \<or>
     provider_id \<in> set [''custom'', ''ollama'', ''local_sglang'', ''local_vllm'', ''local_llamacpp'']"

definition provider_allows_trusted_internal_http :: "string \<Rightarrow> string \<Rightarrow> bool" where
  "provider_allows_trusted_internal_http provider_id host \<longleftrightarrow>
     starts_with provider_id ''cpa_'' \<and>
     (eq_ignore_ascii_case host ''localhost'' \<or>
      eq_ignore_ascii_case host ''host.docker.internal'' \<or>
      (case parse_ip host of Some ip \<Rightarrow> ip_is_loopback ip | None \<Rightarrow> False) \<or>
      CHR ''.'' \<notin> set host)"

text \<open>The checks on the parsed parts before the host is looked at.\<close>

definition check_url_parts :: "Url \<Rightarrow> string + unit" where
  "check_url_parts url =
     (if url_scheme url \<notin> set [''http'', ''https''] then Inl ''URL scheme must be http or https''
      else if url_username url \<noteq> [] \<or> url_password url \<noteq> None then Inl ''URL userinfo is not allowed''
      else if url_fragment url \<noteq> None then Inl ''URL fragments are not allowed''
      else if url_query url \<noteq> None
      then Inl ''URL query parameters are not allowed; provider credentials must use headers''
      else Inr ())"

definition literal_host_private :: "string \<Rightarrow> bool" where
  "literal_host_private host \<longleftrightarrow>
     eq_ignore_ascii_case host ''localhost'' \<or>
     (case parse_ip host of Some ip \<Rightarrow> private_or_metadata_ip ip | None \<Rightarrow> False)"

definition check_private_host :: "string \<Rightarrow> string \<Rightarrow> string + unit" where
  "check_private_host provider_id host =
     (let trusted = provider_allows_loopback_base_url provider_id \<or>
            provider_allows_trusted_internal_http provider_id host
      in if eq_ignore_ascii_case host ''localhost''
         then (if trusted then Inr ()
               else Inl ''localhost base URLs are only allowed for local/custom/CPA providers'')
         else case parse_ip host of
           Some ip \<Rightarrow>
             if ip_is_loopback ip \<and> trusted then Inr ()
             else if private_or_metadata_ip ip
             then Inl (''private, link-local, metadata, or unspecified IP `'' @ show_ip ip @
               ''` requires MODELPORT_ALLOW_PRIVATE_PROVIDER_URLS=1'')
             else Inr ()
         | None \<Rightarrow> Inr ())"

definition validate_provider_base_url_policy ::
    "url_parser \<Rightarrow> env \<Rightarrow> string \<Rightarrow> string \<Rightarrow> bool \<Rightarrow> string + unit" where
  "validate_provider_base_url_policy parse_url ev provider_id base_url allow_private =
     (case parse_url base_url of
        Inl err \<Rightarrow> Inl (''invalid URL: '' @ err)
      | Inr url \<Rightarrow>
          res_bind (check_url_parts url) (\<lambda>_.
          res_bind (ok_or (map_option plain_host (url_host_str url)) ''URL host is required'') (\<lambda>host.
          if host = [] then Inl ''URL host is required''
          else if url_scheme url = ''http'' \<and>
             \<not> provider_allows_loopback_base_url provider_id \<and>
             \<not> provider_allows_trusted_internal_http provider_id host \<and>
             (\<not> allow_private \<or> \<not> literal_host_private host) \<and>
             \<not> env_flag ev ''MODELPORT_ALLOW_INSECURE_PROVIDER_HTTP''
          then Inl (''remote provider URLs must use https; set '' @
            ''MODELPORT_ALLOW_INSECURE_PROVIDER_HTTP=1 only for a trusted internal HTTP upstream'')
          else if allow_private then Inr ()
          else check_private_host provider_id host)))"

definition validate_provider_base_url_for_request ::
    "url_parser \<Rightarrow> env \<Rightarrow> string \<Rightarrow> string \<Rightarrow> bool \<Rightarrow> unit result" where
  "validate_provider_base_url_for_request parse_url ev provider_id base_url allow_private =
     (case validate_provider_base_url_policy parse_url ev provider_id base_url allow_private of
        Inl m \<Rightarrow> Inl (InvalidRequest m)
      | Inr u \<Rightarrow> Inr u)"

definition openai_base_url_targets_modelport_listener ::
    "url_parser \<Rightarrow> string \<Rightarrow> socket_addr \<Rightarrow> bool" where
  "openai_base_url_targets_modelport_listener parse_url base_url bind_addr =
     (case parse_url base_url of
        Inl _ \<Rightarrow> False
      | Inr url \<Rightarrow>
          if url_port_or_known_default url \<noteq> Some (snd bind_addr) then False
          else if trim_end_char CHR ''/'' (trim_start_char CHR ''/'' (url_path url)) \<noteq> ''v1'' then False
          else (case url_host_str url of
            None \<Rightarrow> False
          | Some host_str \<Rightarrow>
              (let host = plain_host host_str; bind = fst bind_addr
               in if eq_ignore_ascii_case host ''localhost''
                  then ip_is_loopback bind \<or> ip_is_unspecified bind
                  else (case parse_ip host of
                    None \<Rightarrow> False
                  | Some host_ip \<Rightarrow>
                      if \<not> ip_is_loopback host_ip \<and> \<not> ip_is_unspecified host_ip then False
                      else if ip_is_unspecified bind then True
                      else (case (host_ip, bind) of
                          (V4 h, V4 b) \<Rightarrow> ip_is_unspecified host_ip \<or> h = b
                        | (V6 h, V6 b) \<Rightarrow> ip_is_unspecified host_ip \<or> h = b
                        | _ \<Rightarrow> False)))))"

section \<open>One provider\<close>

definition is_placeholder_value :: "string \<Rightarrow> bool" where
  "is_placeholder_value value \<longleftrightarrow>
     (let v = trim value
      in v = [] \<or> starts_with v ''replace-with-'' \<or> contains v ''placeholder'' \<or> contains v ''your-'' \<or>
         v = ''changeme'' \<or> v = ''change-me'')"

definition has_whitespace :: "string \<Rightarrow> bool" where
  "has_whitespace s \<longleftrightarrow> list_ex (\<lambda>c. c \<in> set white_space) (utf8_chars s)"

abbreviation blank :: "string \<Rightarrow> bool" where
  "blank s \<equiv> trim s = []"

abbreviation quoted_provider :: "string \<Rightarrow> string" where
  "quoted_provider i \<equiv> ''provider `'' @ i @ ''` ''"

definition identity_issues :: "url_parser \<Rightarrow> env \<Rightarrow> string \<Rightarrow> ProviderConfig \<Rightarrow> ConfigIssue list" where
  "identity_issues parse_url ev i p =
     error_when (blank i) ''provider id cannot be empty'' @
     error_when (blank (pc_display_name p)) (quoted_provider i @ ''display_name cannot be empty'') @
     (if blank (pc_base_url p) then [issue_error (quoted_provider i @ ''base_url cannot be empty'')]
      else if \<not> starts_with (pc_base_url p) ''http://'' \<and> \<not> starts_with (pc_base_url p) ''https://''
      then [issue_error (quoted_provider i @ ''base_url must start with http:// or https://'')]
      else error_when (has_whitespace (pc_base_url p)) (quoted_provider i @ ''base_url contains whitespace'')) @
     warn_when (ends_with (pc_base_url p) ''/chat/completions'' \<or> ends_with (pc_base_url p) ''/messages'')
       (quoted_provider i @
        ''base_url looks like a full endpoint; configure the API base URL instead'') @
     (case validate_provider_base_url_policy parse_url ev i (pc_base_url p)
             (env_flag ev ''MODELPORT_ALLOW_PRIVATE_PROVIDER_URLS'') of
        Inl err \<Rightarrow> [issue_error (quoted_provider i @ ''base_url is not allowed: '' @ err)]
      | Inr _ \<Rightarrow> [])"

definition key_issues :: "string \<Rightarrow> ProviderConfig \<Rightarrow> bool \<Rightarrow> ConfigIssue list" where
  "key_issues i p is_default_provider =
     (if pc_api_key_required p \<and> pc_api_key p = None
      then (let name = unwrap_or (pc_api_key_env p) ''<provider api key env>''
            in if is_default_provider
               then [issue_error (''default '' @ quoted_provider i @ ''requires API key env `'' @ name @ ''`'')]
               else [issue_warning (quoted_provider i @ ''requires API key env `'' @ name @
                       ''` and will fail if selected'')])
      else []) @
     error_when (case pc_api_key p of Some k \<Rightarrow> is_placeholder_value k | None \<Rightarrow> False)
       (quoted_provider i @ ''API key `'' @ unwrap_or (pc_api_key_env p) ''provider API key'' @
        ''` is still a placeholder'')"

definition model_issues :: "string \<Rightarrow> ProviderConfig \<Rightarrow> ConfigIssue list" where
  "model_issues i p =
     error_when (blank (pc_default_model p)) (quoted_provider i @ ''default_model cannot be empty'') @
     error_when (list_ex blank (pc_models p)) (quoted_provider i @ ''models cannot contain empty values'') @
     warn_when (pc_models p \<noteq> [] \<and> pc_default_model p \<notin> set (pc_models p) \<and>
         \<not> pc_passthrough_unknown_models p)
       (quoted_provider i @ ''default_model `'' @ pc_default_model p @ ''` is not listed in models'') @
     error_when (list_ex blank (pc_model_prefixes p))
       (quoted_provider i @ ''model_prefixes cannot contain empty values'')"

definition capability_issues :: "string \<Rightarrow> ProviderConfig \<Rightarrow> ConfigIssue list" where
  "capability_issues i p =
     (let tu = pc_tool_use p
      in error_when (pc_fidelity_mode p = Strict \<and> (pc_deduplicate_stream_text p \<or> pc_buffer_stream_text p))
           (quoted_provider i @
            ''cannot use fidelity_mode=strict together with stream text rewriting'') @
         error_when (\<not> tu_supported tu \<and> (tu_tool_choice tu \<or> tu_parallel_tool_calls tu))
           (quoted_provider i @
            ''cannot enable tool_choice or parallel_tool_calls when tool_use.supported=false'') @
         error_when (tu_repair_invalid_arguments tu \<and>
             (pc_protocol p \<noteq> OpenaiCompat \<or> tu_response_validation tu \<noteq> ValidationStrict))
           (quoted_provider i @ ''can enable tool_use.repair_invalid_arguments only for an '' @
            ''OpenAI-compatible provider with strict response validation'') @
         warn_when (pc_protocol p = Anthropic \<and> tu_streaming_arguments tu \<noteq> Native)
           (quoted_provider i @
            ''uses Anthropic protocol; tool_use.streaming_arguments is normally native''))"

definition reasoning_issues :: "string \<Rightarrow> ProviderConfig \<Rightarrow> ConfigIssue list" where
  "reasoning_issues i p =
     (let rc = pc_reasoning p
      in error_when (rc_mode rc = ReasoningLlamaCpp \<and> pc_protocol p \<noteq> OpenaiCompat)
           (quoted_provider i @ ''reasoning.mode=llama_cpp requires protocol=openai-compat'') @
         error_when (rc_mode rc = ReasoningNone \<and>
             (rc_default_enabled rc \<noteq> None \<or> rc_model_enabled rc \<noteq> [] \<or>
              rc_default_budget_tokens rc \<noteq> None \<or> rc_model_budget_tokens rc \<noteq> []))
           (quoted_provider i @ ''reasoning defaults require a non-none reasoning.mode'') @
         error_when (rc_default_budget_tokens rc = Some 0)
           (quoted_provider i @ ''reasoning.default_budget_tokens must be positive'') @
         concat (map (\<lambda>(model, budget).
             error_when (blank model \<or> budget = 0)
               (quoted_provider i @ ''reasoning.model_budget_tokens requires non-empty model names '' @
                ''and positive budgets'')) (rc_model_budget_tokens rc)))"

definition outside :: "rat \<Rightarrow> rat \<Rightarrow> f64 option \<Rightarrow> bool" where
  "outside lo hi value =
     (case value of
        None \<Rightarrow> False
      | Some v \<Rightarrow> \<not> is_finite v \<or> \<not> (f64_le (Fin lo) v \<and> f64_le v (Fin hi)))"

definition profile_issues :: "string \<Rightarrow> string \<Rightarrow> SamplingProfile \<Rightarrow> ConfigIssue list" where
  "profile_issues i model profile =
     (let subject = quoted_provider i @ ''sampling profile `'' @ model @ ''` ''
      in error_when (blank model) (quoted_provider i @ ''sampling.profiles requires non-empty model names'') @
         error_when (outside 0 2 (temperature profile)) (subject @ ''temperature must be between 0 and 2'') @
         error_when (outside 0 1 (top_p profile)) (subject @ ''top_p must be between 0 and 1'') @
         error_when (outside 0 1 (min_p profile)) (subject @ ''min_p must be between 0 and 1'') @
         error_when (top_k profile = Some 0) (subject @ ''top_k must be positive'') @
         error_when (outside (- 2) 2 (presence_penalty profile))
           (subject @ ''presence_penalty must be between -2 and 2'') @
         error_when (case repeat_penalty profile of
               Some v \<Rightarrow> \<not> is_finite v \<or> f64_le v (Fin 0) | None \<Rightarrow> False)
           (subject @ ''repeat_penalty must be positive''))"

definition sampling_issues :: "string \<Rightarrow> ProviderConfig \<Rightarrow> ConfigIssue list" where
  "sampling_issues i p =
     (let sc = pc_sampling p
      in error_when (sc_mode sc = SamplingLlamaCpp \<and> pc_protocol p \<noteq> OpenaiCompat)
           (quoted_provider i @ ''sampling.mode=llama_cpp requires protocol=openai-compat'') @
         error_when (sc_mode sc = SamplingNone \<and> sc_profiles sc \<noteq> [])
           (quoted_provider i @ ''sampling profiles require a non-none sampling.mode'') @
         concat (map (\<lambda>(model, profile). profile_issues i model profile) (sc_profiles sc)))"

definition exceeds :: "nat option \<Rightarrow> nat option \<Rightarrow> bool" where
  "exceeds value limit =
     (case (value, limit) of (Some v, Some l) \<Rightarrow> l < v | _ \<Rightarrow> False)"

definition context_issues :: "string \<Rightarrow> TokenCountingConfig \<Rightarrow> ConfigIssue list" where
  "context_issues i tc =
     error_when (tc_mode tc = CountingNone \<and>
         (tc_context_tokens tc \<noteq> None \<or> tc_recommended_reasoning_input_tokens tc \<noteq> None \<or>
          tc_model_recommended_input_tokens tc \<noteq> [] \<or> tc_max_output_tokens tc \<noteq> None \<or>
          tc_model_max_output_tokens tc \<noteq> []))
       (quoted_provider i @ ''context admission requires token_counting.mode=anthropic'') @
     error_when (tc_context_tokens tc = Some 0)
       (quoted_provider i @ ''token_counting.context_tokens must be positive'') @
     error_when (tc_recommended_reasoning_input_tokens tc = Some 0)
       (quoted_provider i @ ''token_counting.recommended_reasoning_input_tokens must be positive'') @
     concat (map (\<lambda>(model, limit).
         error_when (blank model \<or> limit = 0)
           (quoted_provider i @ ''token_counting.model_recommended_input_tokens requires '' @
            ''non-empty model names and positive limits'') @
         error_when (exceeds (Some limit) (tc_context_tokens tc))
           (quoted_provider i @ ''recommended input limit for `'' @ model @
            ''` cannot exceed token_counting.context_tokens''))
       (tc_model_recommended_input_tokens tc))"

definition output_limit_issues :: "string \<Rightarrow> TokenCountingConfig \<Rightarrow> ConfigIssue list" where
  "output_limit_issues i tc =
     error_when (tc_max_output_tokens tc = Some 0)
       (quoted_provider i @ ''token_counting.max_output_tokens must be positive'') @
     error_when (exceeds (tc_max_output_tokens tc) (tc_context_tokens tc))
       (quoted_provider i @ ''token_counting.max_output_tokens cannot exceed context_tokens'') @
     concat (map (\<lambda>(model, limit).
         error_when (blank model \<or> limit = 0)
           (quoted_provider i @ ''token_counting.model_max_output_tokens requires '' @
            ''non-empty model names and positive limits'') @
         error_when (exceeds (Some limit) (tc_max_output_tokens tc))
           (quoted_provider i @ ''output limit for `'' @ model @
            ''` cannot exceed token_counting.max_output_tokens'') @
         error_when (exceeds (Some limit) (tc_context_tokens tc))
           (quoted_provider i @ ''output limit for `'' @ model @
            ''` cannot exceed token_counting.context_tokens''))
       (tc_model_max_output_tokens tc)) @
     error_when (exceeds (tc_recommended_reasoning_input_tokens tc) (tc_context_tokens tc))
       (quoted_provider i @ ''recommended reasoning input cannot exceed context_tokens'')"

definition pricing_issues :: "string \<Rightarrow> ProviderConfig \<Rightarrow> ConfigIssue list" where
  "pricing_issues i p =
     (case pc_pricing p of
        None \<Rightarrow> []
      | Some pricing \<Rightarrow>
          concat (map (\<lambda>(field, value).
            error_when (\<not> is_finite value \<or> f64_lt value (Fin 0))
              (quoted_provider i @ ''pricing.'' @ field @ '' must be a finite non-negative number''))
            [(''input_per_million'', input_per_million pricing),
             (''output_per_million'', output_per_million pricing),
             (''cache_write_per_million'', cache_write_per_million pricing),
             (''cache_read_per_million'', cache_read_per_million pricing)]))"

text \<open>The map of seen models that the code also fills is read nowhere; the model leaves it out.\<close>

definition validate_provider ::
    "url_parser \<Rightarrow> env \<Rightarrow> string \<Rightarrow> ProviderConfig \<Rightarrow> bool \<Rightarrow> ConfigIssue list" where
  "validate_provider parse_url ev i p is_default_provider =
     identity_issues parse_url ev i p @ key_issues i p is_default_provider @ model_issues i p @
     capability_issues i p @ reasoning_issues i p @ sampling_issues i p @
     context_issues i (pc_token_counting p) @ output_limit_issues i (pc_token_counting p) @
     pricing_issues i p"

definition cpa_protocol :: "string \<Rightarrow> ProviderProtocol option" where
  "cpa_protocol i =
     (if i = ''cpa_codex'' then Some OpenaiCompat else if i = ''cpa_claude'' then Some Anthropic else None)"

fun protocol_name :: "ProviderProtocol \<Rightarrow> string" where
  "protocol_name OpenaiCompat = ''openai-compat''"
| "protocol_name Anthropic = ''anthropic''"

definition validate_cpa_provider :: "url_parser \<Rightarrow> string \<Rightarrow> ProviderConfig \<Rightarrow> ConfigIssue list" where
  "validate_cpa_provider parse_url i p =
     (case cpa_protocol i of
        None \<Rightarrow> []
      | Some expected \<Rightarrow>
          error_when (pc_protocol p \<noteq> expected)
            (quoted_provider i @ ''must use protocol='' @ protocol_name expected) @
          error_when (\<not> pc_api_key_required p \<or> pc_api_key_env p = None)
            (quoted_provider i @ ''must require a dedicated CPA client API key'') @
          error_when (pc_models p = []) (quoted_provider i @ ''requires an explicit model allowlist'') @
          error_when (pc_passthrough_unknown_models p)
            (quoted_provider i @ ''cannot enable passthrough_unknown_models'') @
          error_when (pc_model_prefixes p \<noteq> [])
            (quoted_provider i @ ''cannot claim model prefixes; use provider-qualified model names'') @
          (case parse_url (pc_base_url p) of
             Inl _ \<Rightarrow> []
           | Inr url \<Rightarrow>
               (let path = trim_end_char CHR ''/'' (url_path url)
                in error_when (contains path ''/v0/management'')
                     (quoted_provider i @ ''must use CPA's client API, not its management API'') @
                   error_when (i = ''cpa_codex'' \<and> \<not> ends_with path ''/v1'')
                     ''provider `cpa_codex` base_url must end with `/v1`'' @
                   error_when (i = ''cpa_claude'' \<and> ends_with path ''/v1'')
                     (''provider `cpa_claude` base_url must omit `/v1`; ModelPort appends '' @
                      ''`/v1/messages`''))))"

section \<open>Guardrail variables\<close>

datatype NumericEnvRequirement = NonZeroU64 | NonZeroUsize | U32

definition positive_issue :: "string \<Rightarrow> nat option \<Rightarrow> ConfigIssue list" where
  "positive_issue name parsed =
     (case parsed of
        Some n \<Rightarrow> error_when (n = 0) (name @ '' must be greater than 0'')
      | None \<Rightarrow> [issue_error (name @ '' must be an unsigned integer'')])"

definition validate_numeric_env_value ::
    "string \<Rightarrow> string \<Rightarrow> NumericEnvRequirement \<Rightarrow> ConfigIssue list" where
  "validate_numeric_env_value name value requirement =
     (if blank value then [issue_error (name @ '' must not be empty'')]
      else case requirement of
        NonZeroU64 \<Rightarrow> positive_issue name (parse_uint u64_max (trim value))
      | NonZeroUsize \<Rightarrow> positive_issue name (parse_uint u64_max (trim value))
      | U32 \<Rightarrow>
          error_when (parse_uint u32_max (trim value) = None)
            (name @ '' must be an unsigned 32-bit integer''))"

definition guardrail_variables :: "(string \<times> NumericEnvRequirement) list" where
  "guardrail_variables =
    [(''MODELPORT_MAX_REQUEST_BODY_BYTES'', NonZeroUsize),
     (''MODELPORT_MAX_CONCURRENT_REQUESTS'', NonZeroUsize),
     (''MODELPORT_MAX_CONCURRENT_STREAMS'', NonZeroUsize),
     (''MODELPORT_RATE_LIMIT_WINDOW_SECONDS'', NonZeroU64),
     (''MODELPORT_RATE_LIMIT_GLOBAL_PER_MINUTE'', U32),
     (''MODELPORT_RATE_LIMIT_API_KEY_PER_MINUTE'', U32),
     (''MODELPORT_RATE_LIMIT_IP_PER_MINUTE'', U32),
     (''MODELPORT_RATE_LIMIT_PROVIDER_PER_MINUTE'', U32),
     (''MODELPORT_RATE_LIMIT_MODEL_PER_MINUTE'', U32),
     (''MODELPORT_MAX_MODEL_NAME_CHARS'', NonZeroUsize),
     (''MODELPORT_MAX_MESSAGES'', NonZeroUsize),
     (''MODELPORT_MAX_MESSAGES_JSON_CHARS'', NonZeroUsize),
     (''MODELPORT_MAX_SYSTEM_JSON_CHARS'', NonZeroUsize),
     (''MODELPORT_MAX_TOOLS'', NonZeroUsize),
     (''MODELPORT_MAX_TOOLS_JSON_CHARS'', NonZeroUsize),
     (''MODELPORT_MAX_OUTPUT_TOKENS'', NonZeroU64),
     (''MODELPORT_HTTP_CONNECT_TIMEOUT_SECS'', NonZeroU64),
     (''MODELPORT_HTTP_REQUEST_TIMEOUT_SECS'', NonZeroU64),
     (''MODELPORT_HTTP_STREAM_IDLE_TIMEOUT_SECS'', NonZeroU64),
     (''MODELPORT_HTTP_MAX_RESPONSE_BYTES'', NonZeroUsize),
     (''MODELPORT_HTTP_SSE_MAX_LINE_BYTES'', NonZeroUsize),
     (''MODELPORT_HTTP_SSE_MAX_EVENT_BYTES'', NonZeroUsize),
     (''MODELPORT_HTTP_SSE_MAX_STREAM_BYTES'', NonZeroUsize),
     (''MODELPORT_ADMIN_SESSION_TTL_SECONDS'', NonZeroU64)]"

definition validate_runtime_guardrail_env :: "env \<Rightarrow> ConfigIssue list" where
  "validate_runtime_guardrail_env ev =
     concat (map (\<lambda>(name, requirement).
       (case ev name of
          Some value \<Rightarrow> validate_numeric_env_value name value requirement
        | None \<Rightarrow> [])) guardrail_variables)"

definition OPENAI_LEGACY_ENV_MIGRATIONS :: "(string \<times> string) list" where
  "OPENAI_LEGACY_ENV_MIGRATIONS =
    [(''MODELPORT_OPENAI_BASE_URL'', ''OPENAI_BASE_URL''),
     (''MODELPORT_OPENAI_API_KEY'', ''OPENAI_API_KEY''),
     (''MODELPORT_OPENAI_MODEL'', ''OPENAI_MODEL''),
     (''MODELPORT_OPENAI_MODELS'', ''OPENAI_MODELS'')]"

definition validate_openai_legacy_env_fallbacks :: "env \<Rightarrow> ConfigIssue list" where
  "validate_openai_legacy_env_fallbacks ev =
     (let active = map (\<lambda>(preferred, legacy). ''`'' @ legacy @ ''` -> `'' @ preferred @ ''`'')
            (filter (\<lambda>(preferred, legacy). ev preferred = None \<and> ev legacy \<noteq> None)
              OPENAI_LEGACY_ENV_MIGRATIONS)
      in warn_when (active \<noteq> [])
           (''provider `openai` is using legacy client-style environment fallback(s): '' @
            join '', '' active @
            ''; migrate the ModelPort server to `MODELPORT_OPENAI_*` names so client `OPENAI_*` '' @
            ''settings cannot be mistaken for upstream configuration''))"

section \<open>Routing groups\<close>

abbreviation quoted_group :: "string \<Rightarrow> string" where
  "quoted_group g \<equiv> ''routing group `'' @ g @ ''` ''"

text \<open>The aliases of one group, given the valid aliases of the groups before it.\<close>

fun alias_issues :: "AppConfig \<Rightarrow> string \<Rightarrow> string list \<Rightarrow> string list \<Rightarrow> ConfigIssue list \<times> string list" where
  "alias_issues config g seen [] = ([], seen)"
| "alias_issues config g seen (alias # rest) =
     (let (issues, seen') =
            (if blank alias \<or> 160 < length alias \<or> CHR '':'' \<in> set alias \<or> has_control alias
             then ([issue_error (quoted_group g @ ''contains an invalid alias'')], seen)
             else if alias \<in> set seen
             then ([issue_error (''smart routing alias `'' @ alias @ ''` is assigned more than once'')], seen)
             else if contains_key (cfg_aliases config) alias
             then ([issue_error (''smart routing alias `'' @ alias @
                      ''` conflicts with a static model alias'')], alias # seen)
             else if list_ex (\<lambda>p. alias \<in> set (pc_models p)) (map_values (cfg_providers config))
             then ([issue_error (''smart routing alias `'' @ alias @
                      ''` conflicts with a configured Provider model'')], alias # seen)
             else ([], alias # seen));
          (more, seen'') = alias_issues config g seen' rest
      in (issues @ more, seen''))"

abbreviation candidate_name :: "RouteCandidateConfig \<Rightarrow> string" where
  "candidate_name c \<equiv> cand_provider c @ '':'' @ cand_model c"

definition candidate_model_issues :: "string \<Rightarrow> ProviderConfig \<Rightarrow> RouteCandidateConfig \<Rightarrow> ConfigIssue list" where
  "candidate_model_issues g p c =
     (if blank (cand_model c) \<or> 240 < length (cand_model c)
      then [issue_error (quoted_group g @ ''contains an invalid model'')]
      else error_when (cand_model c \<notin> set (pc_models p) \<and>
          \<not> list_ex (starts_with (cand_model c)) (pc_model_prefixes p) \<and>
          \<not> pc_passthrough_unknown_models p)
        (''routing candidate `'' @ candidate_name c @ ''` is not accepted by its provider''))"

text \<open>The candidates of one group: the issues and the number of enabled candidates counted.\<close>

fun candidate_issues ::
    "AppConfig \<Rightarrow> string \<Rightarrow> (string \<times> string) list \<Rightarrow> RouteCandidateConfig list \<Rightarrow> ConfigIssue list \<times> nat" where
  "candidate_issues config g seen [] = ([], 0)"
| "candidate_issues config g seen (c # cs) =
     (let repeated = error_when ((cand_provider c, cand_model c) \<in> set seen)
            (quoted_group g @ ''repeats candidate `'' @ candidate_name c @ ''`'');
          (more, enabled) = candidate_issues config g ((cand_provider c, cand_model c) # seen) cs
      in case map_of (cfg_providers config) (cand_provider c) of
           None \<Rightarrow>
             (repeated @ [issue_error (quoted_group g @ ''references missing provider `'' @
                cand_provider c @ ''`'')] @ more, enabled)
         | Some p \<Rightarrow>
             (repeated @ candidate_model_issues g p c @
              error_when (\<not> is_finite (cand_quality c) \<or>
                  \<not> (f64_le (Fin 0) (cand_quality c) \<and> f64_le (cand_quality c) (Fin 1)))
                (''routing candidate `'' @ candidate_name c @ ''` quality must be between 0 and 1'') @
              error_when (cand_latency_hint_ms c < 1 \<or> 600000 < cand_latency_hint_ms c)
                (''routing candidate `'' @ candidate_name c @
                 ''` latency_hint_ms must be between 1 and 600000'') @
              more, enabled + (if cand_enabled c then 1 else 0)))"

text \<open>One group; the issues and the aliases seen so far.\<close>

definition group_issues ::
    "AppConfig \<Rightarrow> string \<Rightarrow> RouteGroupConfig \<Rightarrow> string list \<Rightarrow> ConfigIssue list \<times> string list" where
  "group_issues config g grp seen =
     (let (aliases, seen') = alias_issues config g seen (group_aliases grp);
          (candidates, enabled) = candidate_issues config g [] (group_candidates grp)
      in (error_when (blank g \<or> 80 < length g \<or> has_control g)
            ''routing group IDs must contain 1-80 non-control bytes'' @
          error_when (group_aliases grp = []) (quoted_group g @ ''requires at least one alias'') @
          error_when (64 < length (group_aliases grp)) (quoted_group g @ ''supports at most 64 aliases'') @
          aliases @
          error_when (256 < length (group_candidates grp))
            (quoted_group g @ ''supports at most 256 candidates'') @
          candidates @
          error_when (enabled = 0) (quoted_group g @ ''requires at least one enabled candidate''),
          seen'))"

fun groups_issues ::
    "AppConfig \<Rightarrow> string list \<Rightarrow> (string, RouteGroupConfig) hmap \<Rightarrow> ConfigIssue list" where
  "groups_issues config seen [] = []"
| "groups_issues config seen ((g, grp) # rest) =
     (let (issues, seen') = group_issues config g grp seen
      in issues @ groups_issues config seen' rest)"

definition validate_smart_routing :: "AppConfig \<Rightarrow> ConfigIssue list" where
  "validate_smart_routing config =
     (let routing = cfg_smart_routing config; groups = map_values (sr_groups routing)
      in error_when (128 < length (sr_groups routing)) ''smart routing supports at most 128 routing groups'' @
         error_when (blank (sr_policy_version routing) \<or> 64 < length (sr_policy_version routing) \<or>
             has_control (sr_policy_version routing))
           ''routing.policy_version must contain 1-64 non-control bytes'' @
         error_when (sr_mode routing \<noteq> Off \<and> sr_groups routing = [])
           ''smart routing shadow/active mode requires at least one routing group'' @
         error_when (100 < sr_activation_percent routing) ''routing.activation_percent must be from 0 to 100'' @
         warn_when (sr_mode routing = Active \<and> sr_activation_percent routing = 0)
           (''smart routing active mode has activation_percent=0; requests remain on the '' @
            ''configured baseline order'') @
         groups_issues config [] (sr_groups routing) @
         error_when (1024 < foldl (\<lambda>n g. u64_add n (length (group_aliases g))) 0 groups)
           ''smart routing supports at most 1024 aliases in total'' @
         error_when (1024 < foldl (\<lambda>n g. u64_add n (length (group_candidates g))) 0 groups)
           ''smart routing supports at most 1024 candidates in total'')"

section \<open>The whole configuration\<close>

definition show_socket_addr :: "socket_addr \<Rightarrow> string" where
  "show_socket_addr addr =
     (case fst addr of
        V4 v \<Rightarrow> show_ipv4 v @ '':'' @ show_nat (snd addr)
      | V6 v \<Rightarrow> ''['' @ show_ipv6 v @ '']:'' @ show_nat (snd addr))"

definition server_issues :: "env \<Rightarrow> AppConfig \<Rightarrow> ConfigIssue list" where
  "server_issues ev config =
     (case cfg_auth_token config of
        None \<Rightarrow>
          [issue_warning (''client authentication is disabled; only use '' @
             ''MODELPORT_ALLOW_NO_AUTH=1 in isolated local testing'')]
      | Some token \<Rightarrow>
          if is_placeholder_value token
          then [issue_error ''MODELPORT_AUTH_TOKEN or ANTHROPIC_AUTH_TOKEN is still a placeholder'']
          else warn_when (length token < 16)
            ''client auth token is short; use a long random local token for production'') @
     warn_when (\<not> ip_is_loopback (fst (cfg_bind_addr config)))
       (''MODELPORT_BIND is '' @ show_socket_addr (cfg_bind_addr config) @
        ''; keep a reverse proxy or firewall in front when not binding loopback'') @
     error_when (cfg_max_request_body_bytes config = 0)
       ''MODELPORT_MAX_REQUEST_BODY_BYTES must be greater than 0'' @
     error_when (cfg_max_concurrent_requests config = 0)
       ''MODELPORT_MAX_CONCURRENT_REQUESTS must be greater than 0'' @
     validate_runtime_guardrail_env ev"

definition provider_order_issues :: "AppConfig \<Rightarrow> ConfigIssue list" where
  "provider_order_issues config =
     error_when (cfg_providers config = []) ''at least one provider must be configured'' @
     (if cfg_provider_order config = []
      then [issue_error ''provider_order is empty; at least one provider must be routable'']
      else error_when (256 < length (cfg_provider_order config))
        ''provider_order supports at most 256 routable providers'') @
     error_when (\<not> provider_known config (cfg_default_provider config))
       (''default provider `'' @ cfg_default_provider config @ ''` is not configured'') @
     concat (map (\<lambda>i. error_when (\<not> provider_known config i)
       (''provider_order references missing provider `'' @ i @ ''`'')) (cfg_provider_order config))"

definition provider_issues :: "url_parser \<Rightarrow> env \<Rightarrow> AppConfig \<Rightarrow> ConfigIssue list" where
  "provider_issues parse_url ev config =
     concat (map (\<lambda>(i, p).
       validate_provider parse_url ev i p (i = cfg_default_provider config) @
       validate_cpa_provider parse_url i p @
       error_when (i = ''openai'' \<and>
           openai_base_url_targets_modelport_listener parse_url (pc_base_url p) (cfg_bind_addr config))
         (''provider `openai` base_url `'' @ pc_base_url p @
          ''` points back to this ModelPort listener; set server-side `MODELPORT_OPENAI_BASE_URL` '' @
          ''to the upstream OpenAI API and reserve `OPENAI_BASE_URL` for client processes''))
       (cfg_providers config)) @
     (case map_of (cfg_providers config) ''openai'' of
        Some p \<Rightarrow>
          if pc_api_key_env p = Some ''MODELPORT_OPENAI_API_KEY''
          then validate_openai_legacy_env_fallbacks ev else []
      | None \<Rightarrow> [])"

definition static_alias_issues :: "AppConfig \<Rightarrow> ConfigIssue list" where
  "static_alias_issues config =
     concat (map (\<lambda>(alias, target).
       (if blank alias then [issue_error ''model alias name cannot be empty'']
        else if blank target then [issue_error (''alias `'' @ alias @ ''` has an empty target'')]
        else case resolve config alias of
          Inl err \<Rightarrow> [issue_error (''alias `'' @ alias @ ''` cannot resolve target `'' @ target @ ''`: '' @
            display err)]
        | Inr _ \<Rightarrow> [])) (cfg_aliases config))"

definition validation_issues :: "url_parser \<Rightarrow> env \<Rightarrow> AppConfig \<Rightarrow> ConfigIssue list" where
  "validation_issues parse_url ev config =
     server_issues ev config @ provider_order_issues config @ provider_issues parse_url ev config @
     static_alias_issues config @ validate_smart_routing config"

definition error_count :: "ConfigIssue list \<Rightarrow> nat" where
  "error_count issues = length (filter (\<lambda>issue. severity issue = Error) issues)"

text \<open>
  A reload: the outcome of the loader, and the configuration in use before and after.
\<close>

definition reload ::
    "url_parser \<Rightarrow> env \<Rightarrow> AppConfig result \<Rightarrow> AppConfig \<Rightarrow> AppConfig result \<times> AppConfig" where
  "reload parse_url ev loaded current =
     (case loaded of
        Inl err \<Rightarrow> (Inl err, current)
      | Inr config \<Rightarrow>
          (let n = error_count (validation_issues parse_url ev config)
           in if 0 < n
              then (Inl (Config (''configuration reload rejected with '' @ show_nat n @
                     '' error(s); run `model-port config validate` for details'')), current)
              else (Inr config, config)))"

end
