(* ===== verification/ConfigProps.thy ===== *)
theory ConfigProps
  imports Configuration
begin

text \<open>
  Properties of loading and resolving: every loaded configuration is well-formed, the environment file
  round-trips, a requested model resolves to a configured provider after at most eight alias hops, and
  an alias cycle is an error.
\<close>

section \<open>Alias chains\<close>

text \<open>One hop of an alias chain: an alias whose target is neither qualified nor a provider.\<close>

definition alias_next :: "AppConfig \<Rightarrow> string \<Rightarrow> string option" where
  "alias_next config m =
     (if m = [] \<or> parse_provider_model config m \<noteq> None then None
      else case map_of (cfg_aliases config) m of
        Some target \<Rightarrow>
          if CHR '':'' \<in> set target \<or> provider_known config target then None else Some target
      | None \<Rightarrow> None)"

fun alias_hops :: "AppConfig \<Rightarrow> nat \<Rightarrow> string \<Rightarrow> string option" where
  "alias_hops config 0 m = Some m"
| "alias_hops config (Suc n) m = Option.bind (alias_next config m) (alias_hops config n)"

text \<open>
  The outcome for a name that starts no further hop, without any depth: the qualified selection, the
  alias of a provider or of a qualified model, the first provider listing the model, the first with a
  matching prefix, or the default provider.
\<close>

definition served_by :: "string \<Rightarrow> ProviderConfig \<Rightarrow> string \<Rightarrow> ResolvedProvider result" where
  "served_by i provider model =
     Inr \<lparr>rp_provider_id = i, rp_provider = provider, rp_model = model\<rparr>"

definition alias_lands :: "AppConfig \<Rightarrow> string \<Rightarrow> string \<Rightarrow> ResolvedProvider result" where
  "alias_lands config alias target =
     (case split_once CHR '':'' target of
        Some (i, model) \<Rightarrow> resolve_for_provider config i (Some model)
      | None \<Rightarrow>
          (case map_of (cfg_providers config) target of
             Some p \<Rightarrow>
               served_by target p (if alias \<in> set (pc_models p) then alias else pc_default_model p)
           | None \<Rightarrow> Inl (ProviderNotFound target)))"

definition lands :: "AppConfig \<Rightarrow> string \<Rightarrow> ResolvedProvider result" where
  "lands config m =
     (if m = [] then resolve_for_provider config (cfg_default_provider config) None
      else case parse_provider_model config m of
        Some (i, model) \<Rightarrow> resolve_for_provider config i (Some model)
      | None \<Rightarrow>
          (case map_of (cfg_aliases config) m of
             Some target \<Rightarrow> alias_lands config m target
           | None \<Rightarrow>
               (case find_provider_by_exact_model config m of
                  Some (i, p) \<Rightarrow> served_by i p m
                | None \<Rightarrow>
                    (case find_provider_by_model_prefix config m of
                       Some (i, p) \<Rightarrow> served_by i p m
                     | None \<Rightarrow> resolve_default config m))))"

lemma contains_key_map_of: "contains_key m k \<longleftrightarrow> map_of m k \<noteq> None"
  by (auto simp: contains_key_def)

lemma alias_target_lands:
  assumes "CHR '':'' \<in> set target \<or> provider_known config target"
  shows "resolve_alias_target config alias target d = alias_lands config alias target"
proof (cases "split_once CHR '':'' target")
  case None
  moreover have "CHR '':'' \<notin> set target"
    using None by (simp add: split_once_None)
  ultimately show ?thesis
    using assms
    by (auto simp: resolve_alias_target.simps alias_lands_def served_by_def contains_key_map_of)
next
  case (Some q)
  then show ?thesis
    by (cases q) (auto simp: resolve_alias_target.simps alias_lands_def resolve_for_provider_def
        contains_key_map_of)
qed

lemma resolve_inner_lands:
  assumes "alias_next config m = None" "d \<le> 8"
  shows "resolve_inner config m d = lands config m"
proof -
  have "parse_provider_model config m = None \<Longrightarrow> m \<noteq> [] \<Longrightarrow>
      map_of (cfg_aliases config) m = Some target \<Longrightarrow>
      resolve_alias_target config m target (d + 1) = alias_lands config m target" for target
    using assms(1) by (intro alias_target_lands) (auto simp: alias_next_def split: if_splits)
  then show ?thesis
    using assms(2) unfolding lands_def served_by_def resolve_inner.simps[of config m]
    by (auto split: option.splits)
qed

lemma resolve_inner_hop:
  assumes "alias_next config m = Some m'" "d \<le> 8"
  shows "resolve_inner config m d = resolve_inner config m' (Suc d)"
proof -
  have *: "m \<noteq> []" "parse_provider_model config m = None"
    using assms(1)
    by (cases "parse_provider_model config m", simp_all add: alias_next_def split: if_splits)+
  then have **: "map_of (cfg_aliases config) m = Some m'" "CHR '':'' \<notin> set m'" "\<not> provider_known config m'"
    using assms(1) by (auto simp: alias_next_def split: if_splits option.splits)
  then have "resolve_alias_target config m m' (Suc d) = resolve_inner config m' (Suc d)"
    by (simp add: resolve_alias_target.simps contains_key_map_of split_once_None[THEN iffD2])
  then show ?thesis
    using * ** assms(2) by (simp add: resolve_inner.simps[of config m])
qed

lemma resolve_inner_hops:
  "alias_hops config n m = Some m' \<Longrightarrow> d + n \<le> 9 \<Longrightarrow>
   resolve_inner config m d = resolve_inner config m' (d + n)"
proof (induction n arbitrary: m d)
  case (Suc n)
  then obtain m1 where "alias_next config m = Some m1" "alias_hops config n m1 = Some m'"
    by (auto split: bind_splits)
  then show ?case
    using Suc.IH[of m1 "Suc d"] Suc.prems(2) by (simp add: resolve_inner_hop)
qed simp

text \<open>
  C25: Resolution terminates within eight alias hops: a request whose alias chain stops after at most
  eight hops gets the outcome of the name it stops at, and one whose chain goes on for a ninth hop,
  as every alias cycle does, is rejected as too deep or cyclic.
\<close>

theorem alias_chain_bounded:
  "(n \<le> 8 \<longrightarrow> alias_hops config n (trim m) = Some m' \<longrightarrow> alias_next config m' = None \<longrightarrow>
      resolve config m = lands config m') \<and>
   (alias_hops config 9 (trim m) \<noteq> None \<longrightarrow>
      resolve config m = Inl (InvalidRequest ''model alias chain is too deep or cyclic''))"
proof (intro conjI impI)
  assume "n \<le> 8" "alias_hops config n (trim m) = Some m'" "alias_next config m' = None"
  then show "resolve config m = lands config m'"
    using resolve_inner_hops[of config n "trim m" m' 0]
    by (simp add: resolve_def resolve_inner_lands)
next
  assume "alias_hops config 9 (trim m) \<noteq> None"
  then obtain x where "alias_hops config 9 (trim m) = Some x" by auto
  then show "resolve config m = Inl (InvalidRequest ''model alias chain is too deep or cyclic'')"
    using resolve_inner_hops[of config 9 "trim m" x 0]
    by (simp add: resolve_def resolve_inner.simps)
qed

section \<open>Resolved providers\<close>

definition accepts :: "ProviderConfig \<Rightarrow> string \<Rightarrow> bool" where
  "accepts p model \<longleftrightarrow>
     model \<in> set (pc_models p) \<or> list_ex (starts_with model) (pc_model_prefixes p) \<or>
     pc_passthrough_unknown_models p \<or> model = pc_default_model p"

text \<open>A selection \<open>provider:model\<close> that names the resolved provider and model.\<close>

definition selects :: "string \<Rightarrow> ResolvedProvider \<Rightarrow> bool" where
  "selects s r \<longleftrightarrow>
     (case split_once CHR '':'' s of
        Some (i, x) \<Rightarrow> i = rp_provider_id r \<and> trim x = trim (rp_model r)
      | None \<Rightarrow> False)"

definition configured :: "AppConfig \<Rightarrow> ResolvedProvider \<Rightarrow> bool" where
  "configured config r \<longleftrightarrow> map_of (cfg_providers config) (rp_provider_id r) = Some (rp_provider r)"

lemma find_provider_Some:
  "find_provider_by_exact_model config m = Some (i, p) \<Longrightarrow>
     map_of (cfg_providers config) i = Some p \<and> m \<in> set (pc_models p)"
  "find_provider_by_model_prefix config m = Some (i, p) \<Longrightarrow>
     map_of (cfg_providers config) i = Some p \<and> list_ex (starts_with m) (pc_model_prefixes p)"
  by (auto simp: find_provider_by_exact_model_def find_provider_by_model_prefix_def
      dest!: find_map_Some split: option.splits if_splits)

lemma resolve_for_provider_sound:
  "resolve_for_provider config i model = Inr r \<Longrightarrow>
   configured config r \<and> rp_provider_id r = i \<and>
   (accepts (rp_provider r) (rp_model r) \<or> model = Some (rp_model r))"
  by (auto simp: resolve_for_provider_def configured_def accepts_def res_bind_Inr_iff split: option.splits)

lemma served_by_sound:
  "served_by i p m = Inr r \<Longrightarrow> map_of (cfg_providers config) i = Some p \<Longrightarrow> accepts p m \<Longrightarrow>
   configured config r \<and> accepts (rp_provider r) (rp_model r)"
  by (auto simp: served_by_def configured_def)

lemma alias_lands_sound:
  assumes "alias_lands config alias target = Inr r"
  shows "configured config r \<and> (accepts (rp_provider r) (rp_model r) \<or> selects target r)"
  using assms
  by (auto simp: alias_lands_def selects_def accepts_def served_by_def configured_def
      split: option.splits prod.splits if_splits dest!: resolve_for_provider_sound)

lemma parse_provider_model_selects:
  assumes "parse_provider_model config m = Some (i, model)" "resolve_for_provider config i (Some model) = Inr r"
  shows "configured config r \<and> (accepts (rp_provider r) (rp_model r) \<or> selects m r)"
proof -
  obtain x where "split_once CHR '':'' m = Some (i, x)" "model = trim x"
    using assms(1) by (auto simp: parse_provider_model_def split: option.splits if_splits)
  then show ?thesis
    using resolve_for_provider_sound[OF assms(2)] by (auto simp: selects_def) (metis trim_idem)
qed

lemma resolve_default_sound:
  "resolve_default config m = Inr r \<Longrightarrow> configured config r \<and> accepts (rp_provider r) (rp_model r)"
  by (auto simp: resolve_default_def configured_def accepts_def res_bind_Inr_iff split: if_splits)

lemma lands_sound:
  assumes "lands config m = Inr r"
  shows "configured config r \<and>
    (accepts (rp_provider r) (rp_model r) \<or> selects m r \<or>
     (\<exists>s\<in>set (map_values (cfg_aliases config)). selects s r))"
proof (cases "m = []")
  case True
  then show ?thesis
    using assms by (auto simp: lands_def dest!: resolve_for_provider_sound)
next
  case False
  show ?thesis
  proof (cases "parse_provider_model config m")
    case (Some q)
    then show ?thesis
      using assms False parse_provider_model_selects[of config m "fst q" "snd q" r]
      by (cases q) (auto simp: lands_def)
  next
    case None
    show ?thesis
    proof (cases "map_of (cfg_aliases config) m")
      case (Some target)
      then have "target \<in> set (map_values (cfg_aliases config))"
        by (force dest: map_of_SomeD)
      then show ?thesis
        using assms False None Some alias_lands_sound[of config m target r]
        by (auto simp: lands_def)
    next
      case None': None
      show ?thesis
        using assms False None None'
        by (auto simp: lands_def accepts_def split: option.splits
            dest!: find_provider_Some resolve_default_sound served_by_sound)
    qed
  qed
qed

lemma resolve_inner_lands_some:
  "resolve_inner config m d = Inr r \<Longrightarrow>
   \<exists>m'. (m' = m \<or> m' \<in> set (map_values (cfg_aliases config)) \<and> CHR '':'' \<notin> set m') \<and>
     lands config m' = Inr r"
proof (induction "9 - d" arbitrary: m d)
  case 0
  then show ?case by (simp add: resolve_inner.simps)
next
  case (Suc k)
  then have d: "d \<le> 8" by simp
  show ?case
  proof (cases "alias_next config m")
    case None
    then show ?thesis using Suc.prems d by (auto simp: resolve_inner_lands)
  next
    case (Some m1)
    then have "m1 \<in> set (map_values (cfg_aliases config))" "CHR '':'' \<notin> set m1"
      by (auto simp: alias_next_def split: if_splits option.splits) (force dest: map_of_SomeD)
    moreover have "k = 9 - Suc d" "resolve_inner config m1 (Suc d) = Inr r"
      using Suc.hyps(2) Suc.prems resolve_inner_hop[OF Some d] by auto
    ultimately show ?thesis
      using Suc.hyps(1) by metis
  qed
qed

lemma selects_unqualified: "CHR '':'' \<notin> set s \<Longrightarrow> \<not> selects s r"
  by (simp add: selects_def split_once_None[THEN iffD2])

text \<open>
  C26: A request is only ever routed to a provider of the configuration, under the configuration it has
  there, and only with a model that this provider lists, has a prefix for, passes through, or has as
  its default. The one exception is a \<open>provider:model\<close> selection, written by the client or by the operator as an
  alias target, which names that provider and model.
\<close>

theorem resolve_sound:
  assumes "resolve config m = Inr r"
  shows "configured config r \<and>
    (accepts (rp_provider r) (rp_model r) \<or>
     (\<exists>s\<in>set (trim m # map_values (cfg_aliases config)). selects s r))"
proof -
  obtain m' where m': "m' = trim m \<or> m' \<in> set (map_values (cfg_aliases config)) \<and> CHR '':'' \<notin> set m'"
    "lands config m' = Inr r"
    using assms resolve_inner_lands_some[of config "trim m" 0 r] by (auto simp: resolve_def)
  then show ?thesis
    using lands_sound[OF m'(2)] selects_unqualified[of m' r] by auto
qed

section \<open>Loaded configurations\<close>

text \<open>
  The providers have distinct identifiers, the order lists each of them exactly once, the limits are
  positive and the address is one.
\<close>

fun table_ok :: "provider_table \<Rightarrow> bool" where
  "table_ok (providers, order) \<longleftrightarrow>
     hm_distinct providers \<and> distinct order \<and> set order = dom (map_of providers)"

definition config_wf :: "AppConfig \<Rightarrow> bool" where
  "config_wf config \<longleftrightarrow>
     table_ok (cfg_providers config, cfg_provider_order config) \<and>
     0 < cfg_max_request_body_bytes config \<and> 0 < cfg_max_concurrent_requests config \<and>
     ip_range (fst (cfg_bind_addr config)) \<and> snd (cfg_bind_addr config) \<le> 65535"

lemma table_ok_insert [simp]: "table_ok table \<Longrightarrow> table_ok (insert_provider i p table)"
  by (cases table) (auto simp: contains_key_map_of update_conv')

lemma table_ok_insert_spec [simp]: "table_ok table \<Longrightarrow> table_ok (insert_spec ev spec table)"
  by (simp add: insert_spec_def)

lemma table_ok_Nil: "table_ok ([], [])"
  by simp

declare table_ok.simps [simp del]

lemma table_ok_foldl:
  "(\<And>table x. table_ok table \<Longrightarrow> table_ok (f table x)) \<Longrightarrow> table_ok table \<Longrightarrow> table_ok (foldl f table xs)"
  by (induction xs arbitrary: table) auto

lemma default_table_ok: "table_ok (default_table ev)"
  unfolding default_table_def Let_def
  by (auto intro!: table_ok_foldl table_ok_insert_spec table_ok_Nil)

lemma load_sections_ok:
  "load_sections ev d ids sections table = Inr table' \<Longrightarrow> table_ok table \<Longrightarrow> table_ok table'"
proof (induction ids arbitrary: sections table)
  case (Cons i ids)
  then obtain sec url where "load_sections ev d ids (AList.delete i sections)
      (if section_skipped ev d i sec then table
       else insert_provider i (section_provider ev i sec url) table) = Inr table'"
    by (auto simp: res_bind_Inr_iff)
  then show ?case
    by (rule Cons.IH) (simp add: Cons.prems(2))
qed simp

lemma resolve_usize_env_pos: "0 < dflt \<Longrightarrow> 0 < resolve_usize_env ev v name dflt"
  by (auto simp: resolve_usize_env_def split: option.splits)

lemma read_port_bound: "read_port s = Some (p, rest) \<Longrightarrow> p \<le> 65535"
  by (auto simp: read_port_def split: option.splits dest: read_number_bound)

lemma resolve_bind_ok: "resolve_bind v = Inr addr \<Longrightarrow> ip_range (fst addr) \<and> snd addr \<le> 65535"
  by (auto simp: resolve_bind_def parse_socket_addr_def read_socket_v4_def read_socket_v6_def ip_range_def
      split: option.splits list.splits dest!: read_ipv4_bound read_ipv6_bound read_port_bound)

lemma from_env_defaults_wf: "from_env_defaults ev = Inr config \<Longrightarrow> config_wf config"
  using default_table_ok[of ev]
  by (auto simp: from_env_defaults_def config_wf_def res_bind_Inr_iff DEFAULT_MAX_REQUEST_BODY_BYTES_def
      DEFAULT_MAX_CONCURRENT_REQUESTS_def
      intro!: resolve_usize_env_pos dest: resolve_bind_ok)

lemma from_parsed_file_wf: "from_parsed_file ev file = Inr config \<Longrightarrow> config_wf config"
  by (auto simp: from_parsed_file_def config_wf_def res_bind_Inr_iff DEFAULT_MAX_REQUEST_BODY_BYTES_def
      DEFAULT_MAX_CONCURRENT_REQUESTS_def Let_def
      intro!: resolve_usize_env_pos dest: resolve_bind_ok load_sections_ok[OF _ table_ok_Nil])

lemma require_auth_token_Inr:
  "require_auth_token ev t = Inr t' \<Longrightarrow> t' = t \<and> (t = None \<longrightarrow> env_flag ev ''MODELPORT_ALLOW_NO_AUTH'')"
  by (auto simp: require_auth_token_def split: if_splits)

lemma loaded_auth:
  "from_parsed_file ev file = Inr config \<Longrightarrow> cfg_auth_token config = None \<Longrightarrow>
     env_flag ev ''MODELPORT_ALLOW_NO_AUTH''"
  "from_env_defaults ev = Inr config \<Longrightarrow> cfg_auth_token config = None \<Longrightarrow>
     env_flag ev ''MODELPORT_ALLOW_NO_AUTH''"
  by (auto simp: from_parsed_file_def from_env_defaults_def res_bind_Inr_iff Let_def
      dest!: require_auth_token_Inr)

text \<open>
  C28: Every configuration the gateway loads, from a file or from the defaults, is well-formed: the
  provider order lists every provider exactly once and nothing else, the limits are positive, and the
  bind address is a valid one. Client authentication is only ever off when the operator said so.
\<close>

theorem loaded_config_wf:
  assumes "load_config parse_toml ev file = Inr config"
  shows "config_wf config \<and>
    (cfg_auth_token config = None \<longrightarrow> env_flag ev ''MODELPORT_ALLOW_NO_AUTH'')"
  using assms
  by (auto simp: load_config_def from_file_def split: option.splits sum.splits
      dest: from_env_defaults_wf from_parsed_file_wf loaded_auth)

section \<open>The environment file\<close>

lemma utf8_chars_append:
  "ys \<noteq> [] \<Longrightarrow> \<not> is_continuation (hd ys) \<Longrightarrow> utf8_chars (xs @ ys) = utf8_chars xs @ utf8_chars ys"
proof (induction xs rule: utf8_chars.induct)
  case (2 c cs)
  obtain y ys' where ys: "ys = y # ys'" using 2(2) by (cases ys) auto
  have "takeWhile is_continuation (cs @ ys) = takeWhile is_continuation cs"
    "dropWhile is_continuation (cs @ ys) = dropWhile is_continuation cs @ ys"
    using 2(3) by (induction cs) (auto simp: ys)
  then show ?case using 2 by simp
qed simp

lemma utf8_chars_Nil_iff [simp]: "utf8_chars s = [] \<longleftrightarrow> s = []"
  by (cases s) auto

abbreviation white :: "string \<Rightarrow> bool" where
  "white c \<equiv> c \<in> set white_space"

lemma trim_start_fixed: "s \<noteq> [] \<Longrightarrow> \<not> white (hd (utf8_chars s)) \<Longrightarrow> trim_start s = s"
proof -
  assume "s \<noteq> []" "\<not> white (hd (utf8_chars s))"
  then have "dropWhile white (utf8_chars s) = utf8_chars s"
    by (cases "utf8_chars s") auto
  then show ?thesis by (simp add: trim_start_def)
qed

lemma trim_end_fixed: "s \<noteq> [] \<Longrightarrow> \<not> white (last (utf8_chars s)) \<Longrightarrow> trim_end s = s"
proof -
  assume "s \<noteq> []" "\<not> white (last (utf8_chars s))"
  then have "dropWhile white (rev (utf8_chars s)) = rev (utf8_chars s)"
    by (cases "utf8_chars s" rule: rev_cases) auto
  then show ?thesis by (simp add: trim_end_def)
qed

lemma trim_fixed_head:
  assumes "trim s = s" "s \<noteq> []"
  shows "\<not> white (hd (utf8_chars s))"
proof -
  have "utf8_chars s = strip (utf8_chars s)"
    using assms(1) utf8_chars_concat[OF trim_strip(2)] by (metis trim_strip(1))
  then have *: "dropWhile white (rev (dropWhile white (utf8_chars s))) = rev (utf8_chars s)"
    unfolding strip_def by (metis rev_rev_ident)
  then have "length (utf8_chars s) \<le> length (dropWhile white (utf8_chars s))"
    by (metis length_dropWhile_le length_rev)
  then show ?thesis
    using assms(2) length_dropWhile_le[of white "tl (utf8_chars s)"]
    by (cases "utf8_chars s") auto
qed

text \<open>Writing an assignment: the optional \<^verbatim>\<open>export\<close>, the name, and the value between two equal quotes.\<close>

definition render_env_line :: "char \<Rightarrow> bool \<times> string \<times> string \<Rightarrow> string" where
  "render_env_line q = (\<lambda>(exported, k, v).
     (if exported then ''export '' else []) @ k @ CHR ''='' # q # v @ [q])"

definition render_env_file :: "char \<Rightarrow> (bool \<times> string \<times> string) list \<Rightarrow> string" where
  "render_env_file q kvs = concat (map (\<lambda>e. render_env_line q e @ [CHR 0x0A]) kvs)"

definition env_name :: "string \<Rightarrow> bool" where
  "env_name k \<longleftrightarrow> k \<noteq> [] \<and> trim k = k \<and> CHR ''='' \<notin> set k \<and> CHR 0x0A \<notin> set k \<and>
     \<not> starts_with k ''#'' \<and> \<not> starts_with k ''export ''"

lemma quote_trim:
  assumes "q \<in> {CHR 0x27, CHR 0x22}"
  shows "trim (q # v @ [q]) = q # v @ [q]" "strip_env_quotes (q # v @ [q]) = v"
    "\<not> is_continuation q" "\<not> white [q]"
proof -
  show q: "\<not> is_continuation q" "\<not> white [q]"
    using assms by (auto simp: is_continuation_def white_space_def)
  show "strip_env_quotes (q # v @ [q]) = v"
    using assms by (auto simp: strip_env_quotes_def)
  have "\<not> white (hd (utf8_chars (q # v @ [q])))"
    using assms by (auto simp: white_space_def)
  moreover have "\<not> white (last (utf8_chars (q # v @ [q])))"
    using utf8_chars_append[of "[q]" "q # v"] q by simp
  ultimately show "trim (q # v @ [q]) = q # v @ [q]"
    by (simp add: trim_def trim_start_fixed trim_end_fixed del: utf8_chars.simps)
qed

lemma assignment_trim:
  assumes "q \<in> {CHR 0x27, CHR 0x22}" "k \<noteq> []" "\<not> white (hd (utf8_chars k))"
  shows "trim (k @ CHR ''='' # q # v @ [q]) = k @ CHR ''='' # q # v @ [q]"
    "trim_start (k @ CHR ''='' # q # v @ [q]) = k @ CHR ''='' # q # v @ [q]"
proof -
  let ?s = "k @ CHR ''='' # q # v @ [q]"
  have "utf8_chars ?s = utf8_chars k @ utf8_chars (CHR ''='' # q # v @ [q])"
    by (rule utf8_chars_append) (auto simp: is_continuation_def)
  then have hd: "\<not> white (hd (utf8_chars ?s))" using assms(2,3) by simp
  have "utf8_chars ?s = utf8_chars (k @ CHR ''='' # q # v) @ [[q]]"
    using utf8_chars_append[of "[q]" "k @ CHR ''='' # q # v"] quote_trim(3)[OF assms(1)] by simp
  then have "\<not> white (last (utf8_chars ?s))" using quote_trim(4)[OF assms(1)] by simp
  with hd show "trim ?s = ?s" "trim_start ?s = ?s"
    by (simp_all add: trim_def trim_start_fixed trim_end_fixed del: utf8_chars.simps)
qed

lemma parse_env_line_render:
  assumes "q \<in> {CHR 0x27, CHR 0x22}" "env_name k"
  shows "parse_env_line (render_env_line q (exported, k, v)) = Some (k, v)"
proof -
  let ?s = "k @ CHR ''='' # q # v @ [q]"
  have k: "k \<noteq> []" "trim k = k" "CHR ''='' \<notin> set k" "\<not> starts_with ?s ''#''"
    "\<not> starts_with ?s ''export ''" "\<not> white (hd (utf8_chars k))"
    using assms(2) trim_fixed_head
    by (auto simp: env_name_def starts_with_prefix prefix_def neq_Nil_conv)
      (auto simp: append_eq_append_conv2 Cons_eq_append_conv append_eq_Cons_conv)
  have split: "split_once CHR ''='' ?s = Some (k, q # v @ [q])"
    using k(3) by (simp add: split_once_Some)
  have ex: "trim (''export '' @ ?s) = ''export '' @ ?s"
    using assignment_trim(1)[of q "''export '' @ k" v] assms(1)
    by (simp add: is_continuation_def white_space_def)
  show ?thesis
    using assignment_trim[OF assms(1) k(1) k(6)] k split quote_trim(1,2)[OF assms(1)] ex
    by (simp add: render_env_line_def parse_env_line_def strip_prefix_def Let_def)
qed

lemma split_on_Cons: "d \<notin> set l \<Longrightarrow> split_on d (l @ d # rest) = l # split_on d rest"
  by (induction l) auto

lemma lines_render:
  assumes "\<And>e. e \<in> set es \<Longrightarrow> CHR 0x0A \<notin> set (f e) \<and> f e \<noteq> [] \<and> last (f e) \<noteq> CHR 0x0D"
  shows "lines (concat (map (\<lambda>e. f e @ [CHR 0x0A]) es)) = map f es"
proof -
  have "split_on CHR 0x0A (concat (map (\<lambda>e. f e @ [CHR 0x0A]) es)) = map f es @ [[]]"
    using assms by (induction es) (auto simp: split_on_Cons)
  moreover have "strip_cr (f e) = f e" if "e \<in> set es" for e
    using assms[OF that]
    by (cases "strip_suffix (f e) [CHR 0x0D]") (auto simp: strip_cr_def strip_suffix_Some)
  ultimately show ?thesis by (simp add: lines_def)
qed

lemma map_of_foldl_update:
  "map_of (foldl (\<lambda>m (k, v). AList.update k v m) m kvs) = map_of m ++ map_of (rev kvs)"
  by (induction kvs arbitrary: m) (simp_all add: update_conv' split_beta)

lemma env_file_values_render:
  assumes "q \<in> {CHR 0x27, CHR 0x22}"
    "\<forall>(exported, k, v)\<in>set kvs. env_name k \<and> CHR 0x0A \<notin> set v"
  shows "map_of (env_file_values (Some (render_env_file q kvs))) = map_of (rev (map snd kvs))"
proof -
  have q: "q \<noteq> CHR 0x0A" "q \<noteq> CHR 0x0D" using assms(1) by auto
  have e: "env_name (fst (snd e)) \<and> CHR 0x0A \<notin> set (snd (snd e))" if "e \<in> set kvs" for e
    using assms(2) that by auto
  have "lines (render_env_file q kvs) = map (render_env_line q) kvs"
    unfolding render_env_file_def
  proof (rule lines_render)
    fix x assume "x \<in> set kvs"
    then show "CHR 0x0A \<notin> set (render_env_line q x) \<and> render_env_line q x \<noteq> [] \<and>
        last (render_env_line q x) \<noteq> CHR 0x0D"
      using e[of x] q by (simp add: render_env_line_def env_name_def split_beta)
  qed
  moreover have "parse_env_line (render_env_line q x) = Some (snd x)" if "x \<in> set kvs" for x
    using parse_env_line_render[OF assms(1), of "fst (snd x)" "fst x" "snd (snd x)"] e[OF that] by simp
  then have "List.map_filter parse_env_line (map (render_env_line q) kvs) = map snd kvs"
    by (induction kvs) (simp_all add: map_filter_simps)
  ultimately show ?thesis
    by (simp add: env_file_values_def map_of_foldl_update)
qed

text \<open>
  C29: The environment file round-trips: whatever assignments are written, quoted either way, exported
  or not, each variable reads back with the last value written for it, unless the process environment
  defines it, which always wins.
\<close>

theorem env_file_roundtrip:
  assumes "q \<in> {CHR 0x27, CHR 0x22}"
    "\<forall>(exported, k, v)\<in>set kvs. env_name k \<and> CHR 0x0A \<notin> set v"
  shows "env_value process (Some (render_env_file q kvs)) name =
    (case process name of Some v \<Rightarrow> Some v | None \<Rightarrow> map_of (rev (map snd kvs)) name)"
  using env_file_values_render[OF assms]
  by (simp add: env_value_def select_env_value_def split: option.splits)

section \<open>Examples\<close>

definition ex_provider :: "string \<Rightarrow> string \<Rightarrow> ProviderConfig" where
  "ex_provider url model =
    \<lparr>pc_display_name = ''Example'', pc_protocol = OpenaiCompat, pc_base_url = url,
     pc_api_key_env = None, pc_api_key = None, pc_api_key_required = False,
     pc_default_model = model, pc_models = [model], pc_model_prefixes = [],
     pc_passthrough_unknown_models = False, pc_max_tokens_field = MaxTokens,
     pc_deduplicate_stream_text = False, pc_buffer_stream_text = False, pc_fidelity_mode = BestEffort,
     pc_tool_use = default_tool_use_config ''example'' OpenaiCompat False,
     pc_reasoning = reasoning_default, pc_sampling = sampling_default,
     pc_token_counting = token_counting_default, pc_pricing = None\<rparr>"

definition ex_config :: AppConfig where
  "ex_config =
    \<lparr>cfg_bind_addr = (V4 2130706433, 17878), cfg_max_request_body_bytes = 1024,
     cfg_max_concurrent_requests = 4, cfg_auth_token = Some ''0123456789abcdef'',
     cfg_default_provider = ''a'', cfg_provider_order = [''a''],
     cfg_providers = [(''a'', ex_provider ''https://api.example.com/v1'' ''m1'')],
     cfg_aliases = [(''fast'', ''quick''), (''quick'', ''a:m2''), (''x'', ''y''), (''y'', ''x'')],
     cfg_smart_routing = smart_routing_default\<rparr>"

lemma trim_literals:
  "trim ''fast'' = ''fast''" "trim ''x'' = ''x''" "trim ''m2'' = ''m2''" "trim ''KEY'' = ''KEY''"
  by code_simp+

lemma ex_hops:
  "alias_hops ex_config 1 ''fast'' = Some ''quick''" "alias_next ex_config ''quick'' = None"
  "alias_hops ex_config 9 ''x'' = Some ''y''"
proof -
  have nx: "alias_next ex_config ''fast'' = Some ''quick''" "alias_next ex_config ''quick'' = None"
    "alias_next ex_config ''x'' = Some ''y''" "alias_next ex_config ''y'' = Some ''x''"
    by (simp_all add: alias_next_def parse_provider_model_def ex_config_def contains_key_map_of)
  then show "alias_hops ex_config 1 ''fast'' = Some ''quick''" "alias_next ex_config ''quick'' = None"
    "alias_hops ex_config 9 ''x'' = Some ''y''"
    by (simp_all add: eval_nat_numeral)
qed

theorem alias_chain_bounded_witness:
  "resolve ex_config ''fast'' = lands ex_config ''quick'' \<and>
   resolve ex_config ''x'' = Inl (InvalidRequest ''model alias chain is too deep or cyclic'')"
  using alias_chain_bounded[of 1 ex_config "''fast''" "''quick''"]
    alias_chain_bounded[of 1 ex_config "''x''" "''y''"] ex_hops
  by (simp add: trim_literals)

lemma ex_resolve:
  "resolve ex_config ''fast'' =
    Inr \<lparr>rp_provider_id = ''a'', rp_provider = ex_provider ''https://api.example.com/v1'' ''m1'',
         rp_model = ''m2''\<rparr>"
proof -
  have "lands ex_config ''quick'' = resolve_for_provider ex_config ''a'' (Some ''m2'')"
    by (simp add: lands_def alias_lands_def parse_provider_model_def ex_config_def)
  then show ?thesis
    using resolve_inner_hops[of ex_config 1 "''fast''" "''quick''" 0] ex_hops
    by (simp add: resolve_def trim_literals resolve_inner_lands resolve_for_provider_def)
      (simp add: ex_config_def trim_literals)
qed

theorem resolve_sound_witness:
  "configured ex_config \<lparr>rp_provider_id = ''a'',
     rp_provider = ex_provider ''https://api.example.com/v1'' ''m1'', rp_model = ''m2''\<rparr>"
  using resolve_sound[OF ex_resolve] by blast

definition ex_env :: env where
  "ex_env name = (if name = ''MODELPORT_AUTH_TOKEN'' then Some ''secret'' else None)"

lemma ex_bind: "resolve_bind None = Inr (V4 2130706433, 17878)"
  by (simp add: resolve_bind_def parse_socket_addr_def read_socket_v4_def read_port_def ip_reader_defs)

lemma ex_load: "\<exists>config. load_config parse_toml ex_env None = Inr config"
  by (simp add: load_config_def from_env_defaults_def ex_env_def ex_bind
      apply_smart_routing_env_override_def override_mode_def override_profile_def
      override_activation_def require_auth_token_def default_auth_token_def)

theorem loaded_config_wf_witness:
  "\<exists>config. load_config (\<lambda>_. Inl ''unreadable'') ex_env None = Inr config \<and> config_wf config"
  using ex_load loaded_config_wf by blast

theorem env_file_roundtrip_witness:
  "env_value (\<lambda>_. None) (Some (render_env_file CHR 0x22 [(True, ''KEY'', ''a=b # c'')])) ''KEY'' =
     Some ''a=b # c''"
  using env_file_roundtrip[of "CHR 0x22" "[(True, ''KEY'', ''a=b # c'')]" "\<lambda>_. None" "''KEY''"]
  by (simp add: env_name_def trim_literals)

end
