(* ===== verification/ConfigChecked.thy ===== *)
theory ConfigChecked
  imports ConfigValidation ConfigProps "HOL-Library.Multiset"
begin

text \<open>
  What validation guarantees: the addresses a provider may be reached at, that a reload only installs
  a configuration in which every request resolves, and that smart-routing aliases name one group
  whatever order the hash map is iterated in.
\<close>

section \<open>Addresses as ranges\<close>

text \<open>The private, loopback, link-local and unspecified ranges, without octets and masks.\<close>

definition internal_ipv4 :: "nat \<Rightarrow> bool" where
  "internal_ipv4 v \<longleftrightarrow>
     v = 0 \<or> v \<in> {0x0A000000..<0x0B000000} \<or> v \<in> {0x7F000000..<0x80000000} \<or>
     v \<in> {0xA9FE0000..<0xA9FF0000} \<or> v \<in> {0xAC100000..<0xAC200000} \<or> v \<in> {0xC0A80000..<0xC0A90000}"

fun internal_ip :: "IpAddr \<Rightarrow> bool" where
  "internal_ip (V4 v) = internal_ipv4 v"
| "internal_ip (V6 v) \<longleftrightarrow>
     v \<le> 1 \<or> v \<in> {0xFC00 * 2 ^ 112..<0xFE00 * 2 ^ 112} \<or> v \<in> {0xFE80 * 2 ^ 112..<0xFEC0 * 2 ^ 112} \<or>
     (\<exists>w. w < 2 ^ 32 \<and> internal_ipv4 w \<and> v = 0xFFFF * 2 ^ 32 + w)"

lemma octets01:
  assumes "v < 2 ^ 32"
  shows "ipv4_octet 0 v = v div 65536 div 256" "ipv4_octet 1 v = v div 65536 mod 256"
  using assms by (simp_all add: ipv4_octet_def div_mult2_eq[symmetric])

lemma octet0_range: "v < 2 ^ 32 \<Longrightarrow> ipv4_octet 0 v = a \<longleftrightarrow> a * 16777216 \<le> v \<and> v < (a + 1) * 16777216"
  by (auto simp: ipv4_octet_def)

lemma octets_range:
  assumes "v < 2 ^ 32" "l \<le> h" "h < 256"
  shows "ipv4_octet 0 v = a \<and> l \<le> ipv4_octet 1 v \<and> ipv4_octet 1 v \<le> h \<longleftrightarrow>
    (a * 256 + l) * 65536 \<le> v \<and> v < (a * 256 + h + 1) * 65536"
proof -
  define x where "x = v div 65536"
  define q r where "q = x div 256" and "r = x mod 256"
  have x: "x = q * 256 + r" "r < 256" by (simp_all add: q_def r_def)
  have "ipv4_octet 0 v = a \<and> l \<le> ipv4_octet 1 v \<and> ipv4_octet 1 v \<le> h \<longleftrightarrow>
      a * 256 + l \<le> x \<and> x \<le> a * 256 + h"
    unfolding octets01[OF assms(1)] x_def[symmetric] q_def[symmetric] r_def[symmetric]
    using assms(2,3) x by (cases q a rule: linorder_cases) auto
  also have "\<dots> \<longleftrightarrow> (a * 256 + l) * 65536 \<le> v \<and> v < (a * 256 + h + 1) * 65536"
  proof -
    have "a * 256 + l \<le> x \<longleftrightarrow> (a * 256 + l) * 65536 \<le> v"
      unfolding x_def by (rule less_eq_div_iff_mult_less_eq) simp
    moreover have "x < a * 256 + h + 1 \<longleftrightarrow> v < (a * 256 + h + 1) * 65536"
      unfolding x_def by (rule div_less_iff_less_mult) simp
    ultimately show ?thesis by (simp only: less_Suc_eq_le Suc_eq_plus1[symmetric])
  qed
  finally show ?thesis .
qed

lemma private_ipv4_ranges:
  assumes "v < 2 ^ 32"
  shows "private_or_metadata_ipv4 v \<longleftrightarrow> internal_ipv4 v"
proof -
  have "private_or_metadata_ipv4 v \<longleftrightarrow> ipv4_octet 0 v = 10 \<or>
      (ipv4_octet 0 v = 172 \<and> 16 \<le> ipv4_octet 1 v \<and> ipv4_octet 1 v \<le> 31) \<or>
      (ipv4_octet 0 v = 192 \<and> 168 \<le> ipv4_octet 1 v \<and> ipv4_octet 1 v \<le> 168) \<or>
      ipv4_octet 0 v = 127 \<or>
      (ipv4_octet 0 v = 169 \<and> 254 \<le> ipv4_octet 1 v \<and> ipv4_octet 1 v \<le> 254) \<or> v = 0"
    by (auto simp: private_or_metadata_ipv4_def ipv4_is_private_def ipv4_is_link_local_def)
  also have "\<dots> \<longleftrightarrow> internal_ipv4 v"
  proof -
    have "ipv4_octet 0 v = 172 \<and> 16 \<le> ipv4_octet 1 v \<and> ipv4_octet 1 v \<le> 31 \<longleftrightarrow>
        v \<in> {0xAC100000..<0xAC200000}"
      using octets_range[OF assms, of 16 31 172] by simp
    moreover have "ipv4_octet 0 v = 192 \<and> 168 \<le> ipv4_octet 1 v \<and> ipv4_octet 1 v \<le> 168 \<longleftrightarrow>
        v \<in> {0xC0A80000..<0xC0A90000}"
      using octets_range[OF assms, of 168 168 192] by simp
    moreover have "ipv4_octet 0 v = 169 \<and> 254 \<le> ipv4_octet 1 v \<and> ipv4_octet 1 v \<le> 254 \<longleftrightarrow>
        v \<in> {0xA9FE0000..<0xA9FF0000}"
      using octets_range[OF assms, of 254 254 169] by simp
    moreover have "ipv4_octet 0 v = 10 \<longleftrightarrow> v \<in> {0x0A000000..<0x0B000000}"
      "ipv4_octet 0 v = 127 \<longleftrightarrow> v \<in> {0x7F000000..<0x80000000}"
      using octet0_range[OF assms] by simp_all
    ultimately show ?thesis unfolding internal_ipv4_def by blast
  qed
  finally show ?thesis .
qed

lemma and_high_mask:
  "(s::nat) < 2 ^ 16 \<Longrightarrow> s AND 0xFE00 = s div 512 * 512" "s < 2 ^ 16 \<Longrightarrow> s AND 0xFFC0 = s div 64 * 64"
proof -
  have *: "s AND push_bit k (mask (16 - k)) = s div 2 ^ k * 2 ^ k" if "s < 2 ^ 16" for k and s :: nat
  proof -
    have "s AND push_bit k (mask (16 - k)) = push_bit k (drop_bit k s)"
    proof (rule bit_eqI)
      fix n
      have "bit s n \<Longrightarrow> n < 16"
        using that by (metis bit_take_bit_iff take_bit_nat_eq_self)
      then show "bit (s AND push_bit k (mask (16 - k))) n = bit (push_bit k (drop_bit k s)) n"
        by (auto simp: bit_simps)
    qed
    then show ?thesis by (simp add: push_bit_eq_mult drop_bit_eq_div)
  qed
  show "s < 2 ^ 16 \<Longrightarrow> s AND 0xFE00 = s div 512 * 512" "s < 2 ^ 16 \<Longrightarrow> s AND 0xFFC0 = s div 64 * 64"
    using *[of s 9] *[of s 6] by (simp_all add: push_bit_eq_mult mask_eq_exp_minus_1)
qed

lemma ipv6_prefix_ranges:
  assumes "v < 2 ^ 128"
  shows "ipv6_is_unique_local v \<longleftrightarrow> v \<in> {0xFC00 * 2 ^ 112..<0xFE00 * 2 ^ 112}"
    "ipv6_is_unicast_link_local v \<longleftrightarrow> v \<in> {0xFE80 * 2 ^ 112..<0xFEC0 * 2 ^ 112}"
proof -
  define s where "s = ipv6_segment0 v"
  have s: "s < 2 ^ 16" using assms by (simp add: s_def ipv6_segment0_def less_mult_imp_div_less)
  have r: "v \<in> {a * 2 ^ 112..<b * 2 ^ 112} \<longleftrightarrow> a \<le> s \<and> s < b" for a b
    unfolding s_def ipv6_segment0_def atLeastLessThan_iff
    by (simp only: less_eq_div_iff_mult_less_eq div_less_iff_less_mult zero_less_power zero_less_numeral)
  have d: "s div k * k = a * k \<longleftrightarrow> a * k \<le> s \<and> s < (a + 1) * k" if "0 < k" for a k
  proof -
    have "s div k * k = a * k \<longleftrightarrow> a \<le> s div k \<and> s div k < a + 1" using that by auto
    then show ?thesis using that by (simp only: less_eq_div_iff_mult_less_eq div_less_iff_less_mult)
  qed
  have "s AND 0xFE00 = 0xFC00 \<longleftrightarrow> 0xFC00 \<le> s \<and> s < 0xFE00"
    "s AND 0xFFC0 = 0xFE80 \<longleftrightarrow> 0xFE80 \<le> s \<and> s < 0xFEC0"
    unfolding and_high_mask[OF s] using d[of 512 126] d[of 64 1018] by simp_all
  then show "ipv6_is_unique_local v \<longleftrightarrow> v \<in> {0xFC00 * 2 ^ 112..<0xFE00 * 2 ^ 112}"
    "ipv6_is_unicast_link_local v \<longleftrightarrow> v \<in> {0xFE80 * 2 ^ 112..<0xFEC0 * 2 ^ 112}"
    unfolding r ipv6_is_unique_local_def ipv6_is_unicast_link_local_def s_def[symmetric] by simp_all
qed

lemma mapped_iff: "to_ipv4_mapped v = Some w \<longleftrightarrow> w < 2 ^ 32 \<and> v = 0xFFFF * 2 ^ 32 + w"
proof
  assume "to_ipv4_mapped v = Some w"
  then show "w < 2 ^ 32 \<and> v = 0xFFFF * 2 ^ 32 + w"
    unfolding to_ipv4_mapped_def
    by (metis div_mult_mod_eq mod_less_divisor option.distinct(1) option.inject zero_less_numeral
        zero_less_power)
next
  assume "w < 2 ^ 32 \<and> v = 0xFFFF * 2 ^ 32 + w"
  then have "v div 2 ^ 32 = 0xFFFF" "v mod 2 ^ 32 = w"
    by (auto intro!: div_nat_eqI mod_nat_eqI)
  then show "to_ipv4_mapped v = Some w" by (simp add: to_ipv4_mapped_def)
qed

lemma private_ip_ranges: "ip_range ip \<Longrightarrow> private_or_metadata_ip ip \<longleftrightarrow> internal_ip ip"
proof (cases ip)
  case (V4 v)
  then show "ip_range ip \<Longrightarrow> ?thesis" by (simp add: ip_range_def private_ipv4_ranges)
next
  case (V6 v)
  assume "ip_range ip"
  then have v: "v < 2 ^ 128" by (simp add: V6 ip_range_def)
  show ?thesis
  proof (cases "to_ipv4_mapped v")
    case None
    then have "\<not> (\<exists>w. w < 2 ^ 32 \<and> internal_ipv4 w \<and> v = 0xFFFF * 2 ^ 32 + w)"
      using mapped_iff[of v] by auto
    then show ?thesis
      unfolding V6 private_or_metadata_ip.simps internal_ip.simps None ipv6_prefix_ranges[OF v]
      by (auto simp: le_Suc_eq)
  next
    case (Some w)
    then have w: "w < 2 ^ 32" "v = 0xFFFF * 2 ^ 32 + w" by (simp_all add: mapped_iff)
    then show ?thesis
      unfolding V6 private_or_metadata_ip.simps internal_ip.simps Some
      using private_ipv4_ranges[OF w(1)] by auto
  qed
qed

section \<open>Base URLs\<close>

text \<open>A provider may use a host on this machine, or plain HTTP, when it is local or a trusted sidecar.\<close>

definition trusted_host :: "string \<Rightarrow> string \<Rightarrow> bool" where
  "trusted_host i host \<longleftrightarrow>
     provider_allows_loopback_base_url i \<or> provider_allows_trusted_internal_http i host"

definition credential_free :: "Url \<Rightarrow> bool" where
  "credential_free url \<longleftrightarrow>
     url_scheme url \<in> {''http'', ''https''} \<and> url_username url = [] \<and> url_password url = None \<and>
     url_query url = None \<and> url_fragment url = None"

lemma check_url_parts_Inr: "check_url_parts url = Inr () \<longleftrightarrow> credential_free url"
  by (auto simp: check_url_parts_def credential_free_def)

lemma check_private_host_Inr:
  "check_private_host i host = Inr () \<longleftrightarrow>
   (if eq_ignore_ascii_case host ''localhost'' then trusted_host i host
    else \<forall>ip. parse_ip host = Some ip \<longrightarrow> internal_ip ip \<longrightarrow> ip_is_loopback ip \<and> trusted_host i host)"
  using parse_ip_range[of host] private_ip_ranges
  by (auto simp: check_private_host_def trusted_host_def Let_def split: option.splits)

lemma no_ip_start:
  assumes "hex_digit c = None" "c \<noteq> CHR '':''"
  shows "parse_ip (c # cs) = None"
proof -
  have "read_number radix k z b (c # cs) = None" for radix k z b
    using assms(1) by (simp add: read_number_def to_digit_def)
  then show ?thesis
    using assms(2)
    by (simp add: parse_ip_def read_ip_addr_def read_ipv4_addr_def read_ipv6_addr_def
        read_octets_numeral read_groups_numeral read_separator_def read_given_char_def)
qed

lemma localhost_no_ip: "eq_ignore_ascii_case h ''localhost'' \<Longrightarrow> parse_ip h = None"
proof -
  assume "eq_ignore_ascii_case h ''localhost''"
  then obtain c cs where h: "h = c # cs" "ascii_lower c = CHR ''l''"
    by (auto simp: eq_ignore_ascii_case_def to_ascii_lowercase_def ascii_lower_def map_eq_Cons_conv)
  have "(of_char (ascii_lower c) :: int) = 108" using h(2) by simp
  then have "(of_char c :: int) = 76 \<or> (of_char c :: int) = 108"
    by (auto simp: ascii_lower_def split: if_splits)
  then have "hex_digit c = None" "c \<noteq> CHR '':''"
    by (auto simp: hex_digit_def Let_def)
  then show ?thesis by (simp add: h(1) no_ip_start)
qed

text \<open>
  C24: Unless the operator allows private addresses, a base URL that passes the policy carries no
  credentials, and an untrusted provider is reached over HTTPS (or the operator allowed plain HTTP),
  never at \<^verbatim>\<open>localhost\<close> and never at a literal address in a private, loopback, link-local, metadata or
  unspecified range, including those ranges mapped into IPv6; a trusted provider is at most given
  the loopback range of these.
\<close>

theorem base_url_policy_blocks_internal:
  assumes "validate_provider_base_url_policy parse_url ev i base_url False = Inr ()"
  shows "\<exists>url h. parse_url base_url = Inr url \<and> url_host_str url = Some h \<and> credential_free url \<and>
    (trusted_host i (plain_host h) \<or> url_scheme url = ''https'' \<or>
       env_flag ev ''MODELPORT_ALLOW_INSECURE_PROVIDER_HTTP'') \<and>
    (eq_ignore_ascii_case (plain_host h) ''localhost'' \<longrightarrow> trusted_host i (plain_host h)) \<and>
    (\<forall>ip. parse_ip (plain_host h) = Some ip \<longrightarrow> internal_ip ip \<longrightarrow>
       ip_is_loopback ip \<and> trusted_host i (plain_host h))"
proof -
  obtain url h where url: "parse_url base_url = Inr url" "credential_free url" "url_host_str url = Some h"
    "\<not> (url_scheme url = ''http'' \<and> \<not> trusted_host i (plain_host h) \<and>
      \<not> env_flag ev ''MODELPORT_ALLOW_INSECURE_PROVIDER_HTTP'')"
    "check_private_host i (plain_host h) = Inr ()"
    using assms
    by (auto simp: validate_provider_base_url_policy_def res_bind_Inr_iff check_url_parts_Inr trusted_host_def
        split: sum.splits if_splits)
  moreover have "parse_ip h' = None" if "eq_ignore_ascii_case h' ''localhost''" for h'
    using that by (rule localhost_no_ip)
  ultimately show ?thesis
    by (auto simp: check_private_host_Inr credential_free_def split: if_splits)
qed

text \<open>
  A host without a dot counts as a trusted internal name for a sidecar provider; an IPv6 literal has no
  dot either, so plain HTTP to a public IPv6 address passes.
\<close>

definition ipv6_url :: Url where
  "ipv6_url =
    \<lparr>url_scheme = ''http'', url_username = [], url_password = None,
     url_host_str = Some ''[2606:4700::1111]'', url_port_or_known_default = Some 80,
     url_path = ''/v1'', url_query = None, url_fragment = None\<rparr>"

lemma replicate_5: "replicate 5 x = [x, x, x, x, x]"
  by (simp add: eval_nat_numeral)

lemma cpa_plain_http_public_ipv6:
  assumes "parse_url ''http://[2606:4700::1111]/v1'' = Inr ipv6_url"
  shows "validate_provider_base_url_policy parse_url (\<lambda>_. None) ''cpa_codex''
      ''http://[2606:4700::1111]/v1'' False = Inr () \<and>
    parse_ip ''2606:4700::1111'' = Some (V6 (0x26064700 * 2 ^ 96 + 0x1111)) \<and>
    \<not> internal_ip (V6 (0x26064700 * 2 ^ 96 + 0x1111))"
proof -
  have host: "plain_host ''[2606:4700::1111]'' = ''2606:4700::1111''"
    by (simp add: plain_host_def trim_end_char_def)
  have ip: "parse_ip ''2606:4700::1111'' = Some (V6 (0x26064700 * 2 ^ 96 + 0x1111))"
    by (simp add: ip_reader_defs groups_value_def replicate_5)
  have trusted: "provider_allows_trusted_internal_http ''cpa_codex'' ''2606:4700::1111''"
    by (simp add: provider_allows_trusted_internal_http_def)
  have "\<not> internal_ip (V6 (0x26064700 * 2 ^ 96 + 0x1111))"
    by (simp add: internal_ipv4_def)
  moreover have "\<not> eq_ignore_ascii_case ''2606:4700::1111'' ''localhost''"
    by (simp add: eq_ignore_ascii_case_def to_ascii_lowercase_def)
  ultimately have "check_private_host ''cpa_codex'' ''2606:4700::1111'' = Inr ()"
    unfolding check_private_host_Inr ip by simp
  then show ?thesis
    using ip trusted assms \<open>\<not> internal_ip _\<close>
    by (simp add: validate_provider_base_url_policy_def check_url_parts_def ipv6_url_def host)
qed

section \<open>Reloading\<close>

definition valid_config :: "url_parser \<Rightarrow> env \<Rightarrow> AppConfig \<Rightarrow> bool" where
  "valid_config parse_url ev config \<longleftrightarrow> error_count (validation_issues parse_url ev config) = 0"

named_theorems issue_simps \<open>when a list of issues holds no error\<close>

lemma error_count_append [issue_simps]: "error_count (xs @ ys) = 0 \<longleftrightarrow> error_count xs = 0 \<and> error_count ys = 0"
  by (simp add: error_count_def)

lemma error_count_concat [issue_simps]:
  "error_count (concat (map f xs)) = 0 \<longleftrightarrow> (\<forall>x\<in>set xs. error_count (f x) = 0)"
  by (induction xs) (auto simp: error_count_def)

lemma error_count_when [issue_simps]:
  "error_count (error_when b m) = 0 \<longleftrightarrow> \<not> b" "error_count (warn_when b m) = 0"
  "error_count (issue_error m # xs) \<noteq> 0" "error_count [] = 0"
  by (auto simp: error_count_def error_when_def warn_when_def issue_error_def issue_warning_def)

lemma valid_default: "valid_config parse_url ev config \<Longrightarrow> provider_known config (cfg_default_provider config)"
  by (simp add: valid_config_def validation_issues_def provider_order_issues_def issue_simps)

lemma valid_base_urls:
  assumes "valid_config parse_url ev config" "map_of (cfg_providers config) i = Some p"
  shows "validate_provider_base_url_policy parse_url ev i (pc_base_url p)
    (env_flag ev ''MODELPORT_ALLOW_PRIVATE_PROVIDER_URLS'') = Inr ()"
  using assms map_of_SomeD[OF assms(2)]
  by (fastforce simp: valid_config_def validation_issues_def provider_issues_def validate_provider_def
      identity_issues_def issue_simps split: sum.splits)

lemma valid_alias_resolves:
  assumes "valid_config parse_url ev config" "map_of (cfg_aliases config) (trim m) = Some target" "trim m \<noteq> []"
  shows "\<exists>r. resolve config m = Inr r"
proof -
  have "error_count (static_alias_issues config) = 0"
    using assms(1) by (simp add: valid_config_def validation_issues_def issue_simps)
  then have "\<exists>r. resolve config (trim m) = Inr r"
    using map_of_SomeD[OF assms(2)] assms(3)
    by (fastforce simp: static_alias_issues_def issue_simps split: sum.splits if_splits)
  then show ?thesis by (simp add: resolve_def)
qed

lemma valid_resolves:
  assumes "valid_config parse_url ev config"
  shows "\<exists>r. resolve config m = Inr r"
proof (cases "trim m \<noteq> [] \<and> map_of (cfg_aliases config) (trim m) \<noteq> None")
  case True
  then show ?thesis using valid_alias_resolves[OF assms] by auto
next
  case False
  then have "alias_next config (trim m) = None" by (auto simp: alias_next_def)
  then have "resolve config m = lands config (trim m)"
    by (simp add: resolve_def resolve_inner_lands)
  moreover have "\<exists>r. lands config (trim m) = Inr r"
    using False valid_default[OF assms]
    by (auto simp: lands_def resolve_for_provider_def resolve_default_def served_by_def contains_key_map_of
        parse_provider_model_def res_bind_Inr_iff split: option.splits if_splits)
  ultimately show ?thesis by simp
qed

text \<open>
  C23: A reload either fails and leaves the configuration in use untouched, or installs exactly what
  was loaded; then every request, whatever model it asks for, resolves to a configured provider whose
  base URL passed the policy.
\<close>

theorem reload_installs_routable:
  "(case reload parse_url ev loaded current of
      (Inl _, after) \<Rightarrow> after = current
    | (Inr config, after) \<Rightarrow>
        loaded = Inr config \<and> after = config \<and>
        (\<forall>m. \<exists>r. resolve config m = Inr r \<and> configured config r \<and>
           validate_provider_base_url_policy parse_url ev (rp_provider_id r) (pc_base_url (rp_provider r))
             (env_flag ev ''MODELPORT_ALLOW_PRIVATE_PROVIDER_URLS'') = Inr ()))"
proof (cases "\<exists>config. loaded = Inr config \<and> valid_config parse_url ev config")
  case True
  then obtain config where c: "loaded = Inr config" "valid_config parse_url ev config" by blast
  have "\<exists>r. resolve config m = Inr r \<and> configured config r \<and>
      validate_provider_base_url_policy parse_url ev (rp_provider_id r) (pc_base_url (rp_provider r))
        (env_flag ev ''MODELPORT_ALLOW_PRIVATE_PROVIDER_URLS'') = Inr ()" for m
  proof -
    obtain r where r: "resolve config m = Inr r" using valid_resolves[OF c(2)] by blast
    have "configured config r"
      using resolve_inner_lands_some[of config "trim m" 0 r] lands_sound r by (auto simp: resolve_def)
    then show ?thesis
      using r valid_base_urls[OF c(2)] unfolding configured_def by blast
  qed
  then show ?thesis using c by (simp add: reload_def valid_config_def)
next
  case False
  then show ?thesis
    by (cases loaded) (auto simp: reload_def valid_config_def Let_def)
qed

section \<open>Routing groups\<close>

lemma alias_issues_ok:
  "alias_issues config g seen as = (issues, seen') \<Longrightarrow> error_count issues = 0 \<Longrightarrow>
   distinct as \<and> set as \<inter> set seen = {} \<and> set seen' = set seen \<union> set as"
proof (induction as arbitrary: seen issues seen')
  case (Cons a as)
  obtain more seen'' where rec: "alias_issues config g (a # seen) as = (more, seen'')"
    by (cases "alias_issues config g (a # seen) as")
  have "a \<notin> set seen \<and> error_count more = 0 \<and> seen' = seen''"
    using Cons.prems rec
    by (auto simp: issue_simps Let_def split: if_splits prod.splits)
  then show ?case using Cons.IH[OF rec] by auto
qed simp

lemma candidate_issues_ok:
  "candidate_issues config g seen cs = (issues, n) \<Longrightarrow> error_count issues = 0 \<Longrightarrow>
   (\<forall>c\<in>set cs. provider_known config (cand_provider c)) \<and> (0 < n \<longrightarrow> (\<exists>c\<in>set cs. cand_enabled c))"
proof (induction cs arbitrary: seen issues n)
  case (Cons c cs)
  let ?seen = "(cand_provider c, cand_model c) # seen"
  obtain more k where rec: "candidate_issues config g ?seen cs = (more, k)"
    by (cases "candidate_issues config g ?seen cs")
  then have "provider_known config (cand_provider c) \<and> error_count more = 0 \<and>
      n = k + (if cand_enabled c then 1 else 0)"
    using Cons.prems by (auto simp: contains_key_map_of issue_simps Let_def split: option.splits)
  then show ?case using Cons.IH[OF rec] by auto
qed simp

text \<open>What validation leaves of one group, and of all of them.\<close>

definition group_ok :: "AppConfig \<Rightarrow> RouteGroupConfig \<Rightarrow> bool" where
  "group_ok config grp \<longleftrightarrow>
     (\<forall>c\<in>set (group_candidates grp). provider_known config (cand_provider c)) \<and>
     (\<exists>c\<in>set (group_candidates grp). cand_enabled c)"

lemma group_issues_ok:
  assumes "group_issues config g grp seen = (issues, seen')" "error_count issues = 0"
  shows "group_ok config grp \<and> distinct (group_aliases grp) \<and> set (group_aliases grp) \<inter> set seen = {} \<and>
    set seen' = set seen \<union> set (group_aliases grp)"
  using assms
  by (auto simp: group_issues_def group_ok_def issue_simps split: prod.splits
      dest: alias_issues_ok candidate_issues_ok)

abbreviation all_aliases :: "(string, RouteGroupConfig) hmap \<Rightarrow> string list" where
  "all_aliases groups \<equiv> concat (map (\<lambda>e. group_aliases (snd e)) groups)"

lemma groups_issues_ok:
  "error_count (groups_issues config seen groups) = 0 \<Longrightarrow>
   (\<forall>e\<in>set groups. group_ok config (snd e)) \<and> distinct (all_aliases groups) \<and>
   set (all_aliases groups) \<inter> set seen = {}"
proof (induction groups arbitrary: seen)
  case (Cons e groups)
  obtain g grp where e: "e = (g, grp)" by (cases e)
  obtain issues seen' where gi: "group_issues config g grp seen = (issues, seen')"
    by (cases "group_issues config g grp seen")
  have "error_count issues = 0" "error_count (groups_issues config seen' groups) = 0"
    using Cons.prems by (simp_all add: e gi issue_simps)
  then show ?case using group_issues_ok[OF gi] Cons.IH[of seen'] by (auto simp: e)
qed simp

lemma distinct_concat_unique:
  "distinct (concat (map f xs)) \<Longrightarrow> x \<in> set xs \<Longrightarrow> y \<in> set xs \<Longrightarrow> a \<in> set (f x) \<Longrightarrow> a \<in> set (f y) \<Longrightarrow>
   x = y"
  by (induction xs) auto

lemma find_unique:
  "(\<And>x y. x \<in> set xs \<Longrightarrow> y \<in> set xs \<Longrightarrow> P x \<Longrightarrow> P y \<Longrightarrow> x = y) \<Longrightarrow> x \<in> set xs \<Longrightarrow> P x \<Longrightarrow>
   List.find P xs = Some x"
  by (metis find_SomeD find_None_iff not_Some_eq)

lemma find_permuted:
  assumes "\<And>x y. x \<in> set xs \<Longrightarrow> y \<in> set xs \<Longrightarrow> P x \<Longrightarrow> P y \<Longrightarrow> x = y" "set ys = set xs"
  shows "List.find P ys = List.find P xs"
proof (cases "List.find P xs")
  case None
  then have "List.find P ys = None" using assms(2) by (simp add: find_None_iff)
  with None show ?thesis by simp
next
  case (Some x)
  then show ?thesis using find_unique[of ys P x] find_SomeD[OF Some] assms by simp
qed

definition with_groups :: "(string, RouteGroupConfig) hmap \<Rightarrow> AppConfig \<Rightarrow> AppConfig" where
  "with_groups groups config =
     config\<lparr>cfg_smart_routing := (cfg_smart_routing config)\<lparr>sr_groups := groups\<rparr>\<rparr>"

text \<open>
  C27: In a validated configuration a smart-routing alias names one group, whatever order the hash map
  of groups is iterated in, and every candidate of the group that is found has a configured
  provider, at least one of them enabled.
\<close>

theorem routing_group_deterministic:
  assumes "valid_config parse_url ev config"
    "mset groups = mset (sr_groups (cfg_smart_routing config))"
  shows "smart_route_group (with_groups groups config) m = smart_route_group config m \<and>
    (case smart_route_group config m of
       Some (g, grp) \<Rightarrow> group_ok config grp
     | None \<Rightarrow> True)"
proof -
  let ?gs = "sr_groups (cfg_smart_routing config)"
  let ?P = "\<lambda>(_ :: string, grp). trim m \<in> set (group_aliases grp)"
  have "error_count (groups_issues config [] ?gs) = 0"
    using assms(1)
    by (simp add: valid_config_def validation_issues_def validate_smart_routing_def issue_simps Let_def)
  then have ok: "\<forall>e\<in>set ?gs. group_ok config (snd e)" "distinct (all_aliases ?gs)"
    using groups_issues_ok by blast+
  have "x = y" if "x \<in> set ?gs" "y \<in> set ?gs" "?P x" "?P y" for x y
    using distinct_concat_unique[OF ok(2) that(1,2)] that(3,4) by (simp add: split_beta)
  then have "List.find ?P groups = List.find ?P ?gs"
    using mset_eq_setD[OF assms(2)] by (intro find_permuted) auto
  then show ?thesis
    using ok(1) by (auto simp: smart_route_group_def with_groups_def dest!: find_SomeD split: option.splits)
qed

section \<open>Examples\<close>

definition ex_url :: Url where
  "ex_url =
    \<lparr>url_scheme = ''https'', url_username = [], url_password = None,
     url_host_str = Some ''api.example.com'', url_port_or_known_default = Some 443,
     url_path = ''/v1'', url_query = None, url_fragment = None\<rparr>"

definition ex_parse_url :: url_parser where
  "ex_parse_url s = (if s = ''https://api.example.com/v1'' then Inr ex_url else Inl ''unsupported'')"

lemma ex_policy:
  "validate_provider_base_url_policy ex_parse_url (\<lambda>_. None) ''a'' ''https://api.example.com/v1'' b = Inr ()"
proof -
  have "plain_host ''api.example.com'' = ''api.example.com''"
    by (simp add: plain_host_def trim_end_char_def)
  moreover have "parse_ip ''api.example.com'' = None"
    by (simp add: ip_reader_defs)
  moreover have "\<not> eq_ignore_ascii_case ''api.example.com'' ''localhost''"
    by (simp add: eq_ignore_ascii_case_def to_ascii_lowercase_def)
  ultimately show ?thesis
    by (simp add: validate_provider_base_url_policy_def ex_parse_url_def check_url_parts_def ex_url_def
        check_private_host_def)
qed

theorem base_url_policy_blocks_internal_witness:
  "credential_free ex_url \<and> url_scheme ex_url = ''https''"
  using base_url_policy_blocks_internal[OF ex_policy]
  by (auto simp: ex_parse_url_def ex_url_def)

definition ex_group :: RouteGroupConfig where
  "ex_group =
    \<lparr>group_aliases = [''auto''], group_default_profile = None,
     group_candidates =
       [\<lparr>cand_provider = ''a'', cand_model = ''m1'', cand_quality = Fin 1, cand_latency_hint_ms = 100,
         cand_enabled = True\<rparr>]\<rparr>"

definition ex_routed :: AppConfig where
  "ex_routed =
     ex_config\<lparr>cfg_aliases := [],
       cfg_smart_routing := smart_routing_default\<lparr>sr_groups := [(''g'', ex_group)]\<rparr>\<rparr>"

lemma ex_texts:
  "trim ''a'' = ''a''" "trim ''Example'' = ''Example''" "trim ''m1'' = ''m1''" "trim ''g'' = ''g''"
  "trim ''auto'' = ''auto''" "trim ''builtin-v1'' = ''builtin-v1''"
  "trim ''0123456789abcdef'' = ''0123456789abcdef''"
  "trim ''https://api.example.com/v1'' = ''https://api.example.com/v1''"
  "has_whitespace ''https://api.example.com/v1'' \<longleftrightarrow> False"
  "has_control ''auto'' \<longleftrightarrow> False" "has_control ''g'' \<longleftrightarrow> False" "has_control ''builtin-v1'' \<longleftrightarrow> False"
  by code_simp+

lemma ex_provider_valid:
  "error_count (validate_provider ex_parse_url (\<lambda>_. None) ''a''
     (ex_provider ''https://api.example.com/v1'' ''m1'') True) = 0"
  by (simp add: validate_provider_def identity_issues_def key_issues_def model_issues_def
      capability_issues_def reasoning_issues_def sampling_issues_def context_issues_def
      output_limit_issues_def pricing_issues_def issue_simps ex_provider_def ex_texts ex_policy
      reasoning_default_def sampling_default_def token_counting_default_def default_tool_use_config_def
      exceeds_def)

lemma ex_routed_valid: "valid_config ex_parse_url (\<lambda>_. None) ex_routed"
proof -
  have "error_count (provider_issues ex_parse_url (\<lambda>_. None) ex_routed) = 0"
    using ex_provider_valid
    by (simp add: provider_issues_def ex_routed_def ex_config_def issue_simps validate_cpa_provider_def
        cpa_protocol_def)
  moreover have "error_count (server_issues (\<lambda>_. None) ex_routed) = 0"
    by (simp add: server_issues_def ex_routed_def ex_config_def issue_simps validate_runtime_guardrail_env_def
        is_placeholder_value_def ex_texts)
  moreover have "error_count (provider_order_issues ex_routed) = 0"
    "error_count (static_alias_issues ex_routed) = 0"
    by (simp_all add: provider_order_issues_def static_alias_issues_def ex_routed_def ex_config_def
        issue_simps contains_key_def)
  moreover have "error_count (validate_smart_routing ex_routed) = 0"
    by (simp add: validate_smart_routing_def ex_routed_def ex_config_def smart_routing_default_def
        issue_simps group_issues_def ex_group_def ex_provider_def candidate_model_issues_def
        default_routing_policy_version_def default_routing_activation_percent_def ex_texts contains_key_def
        is_finite_def sat_simps u64_max_def)
  ultimately show ?thesis
    by (simp add: valid_config_def validation_issues_def issue_simps)
qed

theorem routing_group_deterministic_witness:
  "smart_route_group ex_routed ''auto'' = Some (''g'', ex_group) \<and> group_ok ex_routed ex_group"
proof -
  have "smart_route_group ex_routed ''auto'' = Some (''g'', ex_group)"
    by (simp add: smart_route_group_def ex_routed_def smart_routing_default_def ex_group_def ex_texts)
  then show ?thesis
    using routing_group_deterministic[OF ex_routed_valid refl, of "''auto''"] by simp
qed

end
