(* ===== verification/Governance.thy ===== *)
theory Governance
  imports ConfigValidation Domain
begin

text \<open>
  Hybrid-routing governance, \<^verbatim>\<open>src/src/governance.rs\<close>: routing modes and data classifications, the
  boundary of a provider, project policies, and the two-person approval of high-risk changes. The part
  of the request handler of \<^verbatim>\<open>src/src/routes/client_api.rs\<close> that decides where a request may go
  composes them.

  The JSON printer, the deserialisation of a policy and SHA-256 are arguments, as are clock readings
  and fresh identifiers. A store that is backed by the database saves by compare-and-swap; its
  outcome is an argument too.
\<close>

section \<open>Modes, classifications and boundaries\<close>

datatype HybridMode = LocalStrict | LocalFirst | HybridBalanced | CloudFirst

fun mode_as_str :: "HybridMode \<Rightarrow> string" where
  "mode_as_str LocalStrict = ''local_strict''"
| "mode_as_str LocalFirst = ''local_first''"
| "mode_as_str HybridBalanced = ''balanced''"
| "mode_as_str CloudFirst = ''cloud_first''"

definition mode_parse :: "string \<Rightarrow> HybridMode option" where
  "mode_parse value =
     (let v = to_ascii_lowercase (trim value)
      in if v = ''local_strict'' then Some LocalStrict
         else if v = ''local_first'' then Some LocalFirst
         else if v = ''balanced'' then Some HybridBalanced
         else if v = ''cloud_first'' then Some CloudFirst
         else None)"

fun egress_rank :: "HybridMode \<Rightarrow> nat" where
  "egress_rank LocalStrict = 0"
| "egress_rank LocalFirst = 1"
| "egress_rank HybridBalanced = 2"
| "egress_rank CloudFirst = 3"

definition restrict_to :: "HybridMode \<Rightarrow> HybridMode \<Rightarrow> HybridMode result" where
  "restrict_to mode maximum =
     (if egress_rank mode \<le> egress_rank maximum then Inr mode
      else Inl (Forbidden (''requested routing mode '' @ mode_as_str mode @
        '' exceeds project maximum '' @ mode_as_str maximum)))"

datatype DataClassification = Unknown | Sensitive | Internal | Public

definition classification_parse :: "string \<Rightarrow> DataClassification option" where
  "classification_parse value =
     (let v = to_ascii_lowercase (trim value)
      in if v = ''unknown'' then Some Unknown
         else if v = ''sensitive'' then Some Sensitive
         else if v = ''internal'' then Some Internal
         else if v = ''public'' then Some Public
         else None)"

definition forces_local :: "DataClassification \<Rightarrow> bool" where
  "forces_local c \<longleftrightarrow> c = Unknown \<or> c = Sensitive"

datatype WorkloadClass = Interactive | Batch

definition workload_parse :: "string \<Rightarrow> WorkloadClass option" where
  "workload_parse value =
     (let v = to_ascii_lowercase (trim value)
      in if v \<in> set [''interactive'', ''business'', ''diagnostic'', ''synthetic''] then Some Interactive
         else if v = ''batch'' then Some Batch
         else None)"

datatype ProviderBoundary = Local | Cloud

fun is_local_address :: "IpAddr \<Rightarrow> bool" where
  "is_local_address (V4 v) \<longleftrightarrow>
     ip_is_loopback (V4 v) \<or> ipv4_is_private v \<or> ipv4_is_link_local v \<or> ip_is_unspecified (V4 v)"
| "is_local_address (V6 v) \<longleftrightarrow>
     ip_is_loopback (V6 v) \<or> ipv6_is_unique_local v \<or> ipv6_is_unicast_link_local v"

definition url_host :: "url_parser \<Rightarrow> string \<Rightarrow> string option" where
  "url_host parse_url base_url =
     (case parse_url base_url of Inr url \<Rightarrow> url_host_str url | Inl _ \<Rightarrow> None)"

definition for_resolved :: "url_parser \<Rightarrow> ResolvedProvider \<Rightarrow> ProviderBoundary" where
  "for_resolved parse_url r =
     (if starts_with (rp_provider_id r) ''local_'' \<or> starts_with (rp_provider_id r) ''cpa_'' \<or>
         rp_provider_id r = ''ollama'' \<or>
         (case url_host parse_url (pc_base_url (rp_provider r)) of
            Some host \<Rightarrow>
              eq_ignore_ascii_case host ''localhost'' \<or>
              (case parse_ip host of Some ip \<Rightarrow> is_local_address ip | None \<Rightarrow> False)
          | None \<Rightarrow> False)
      then Local else Cloud)"

section \<open>Project policies\<close>

record ProjectPolicy =
  pp_organization_id :: string
  pp_project_id :: string
  pp_environment_id :: string
  pp_maximum_mode :: HybridMode
  pp_default_classification :: DataClassification
  pp_allowed_providers :: "string list"
  pp_allowed_models :: "string list"
  pp_allowed_regions :: "string list"
  pp_allowed_api_versions :: "string list"
  pp_cloud_enabled :: bool
  pp_updated_by :: string
  pp_updated_at_ms :: nat

definition policy_key :: "string \<Rightarrow> string \<Rightarrow> string \<Rightarrow> string" where
  "policy_key organization_id project_id environment_id =
     organization_id @ ''/'' @ project_id @ ''/'' @ environment_id"

definition fail_closed :: "TenantScope \<Rightarrow> ProjectPolicy" where
  "fail_closed tenant =
    \<lparr>pp_organization_id = scope_organization_id tenant,
     pp_project_id = scope_project_id tenant,
     pp_environment_id = scope_environment_id tenant,
     pp_maximum_mode = LocalStrict,
     pp_default_classification = Unknown,
     pp_allowed_providers = [],
     pp_allowed_models = [],
     pp_allowed_regions = [''local''],
     pp_allowed_api_versions = [],
     pp_cloud_enabled = False,
     pp_updated_by = ''builtin-fail-closed'',
     pp_updated_at_ms = 0\<rparr>"

definition project_policy_key :: "ProjectPolicy \<Rightarrow> string" where
  "project_policy_key p = policy_key (pp_organization_id p) (pp_project_id p) (pp_environment_id p)"

definition effective_mode ::
    "ProjectPolicy \<Rightarrow> HybridMode option \<Rightarrow> DataClassification \<Rightarrow> HybridMode result" where
  "effective_mode p requested classification =
     (if forces_local classification then Inr LocalStrict
      else restrict_to (unwrap_or requested (pp_maximum_mode p)) (pp_maximum_mode p))"

definition matches_policy :: "string list \<Rightarrow> string \<Rightarrow> bool" where
  "matches_policy rules value =
     list_ex (\<lambda>rule. rule = ''*'' \<or> rule = value \<or>
       (case strip_suffix rule ''*'' of Some pre \<Rightarrow> starts_with value pre | None \<Rightarrow> False)) rules"

definition host_region :: "string \<Rightarrow> string" where
  "host_region host =
     (if ends_with host ''.cn'' \<or> contains host ''cn-'' then ''cn''
      else if contains host ''eu-'' \<or> ends_with host ''.eu'' then ''eu''
      else if contains host ''us-'' \<or> ends_with host ''.us'' then ''us''
      else ''global'')"

definition provider_governance_metadata :: "url_parser \<Rightarrow> ResolvedProvider \<Rightarrow> string \<times> string" where
  "provider_governance_metadata parse_url r =
     (if for_resolved parse_url r = Local then (''local'', ''openai-compatible-v1'')
      else (host_region (unwrap_or (url_host parse_url (pc_base_url (rp_provider r))) []),
            case pc_protocol (rp_provider r) of
              Anthropic \<Rightarrow> ''anthropic-v1''
            | OpenaiCompat \<Rightarrow> ''openai-compatible-v1''))"

text \<open>An empty allow-list allows everything.\<close>

definition allow_listed :: "string list \<Rightarrow> string \<Rightarrow> bool" where
  "allow_listed rules value \<longleftrightarrow> rules = [] \<or> matches_policy rules value"

definition enforce_attempt :: "url_parser \<Rightarrow> ProjectPolicy \<Rightarrow> ResolvedProvider \<Rightarrow> unit result" where
  "enforce_attempt parse_url p r =
     (if for_resolved parse_url r = Cloud \<and> \<not> pp_cloud_enabled p
      then Inl (Forbidden ''project policy does not enable cloud routing'')
      else if \<not> allow_listed (pp_allowed_providers p) (rp_provider_id r)
      then Inl (Forbidden (''project policy does not allow provider '' @ rp_provider_id r))
      else if \<not> allow_listed (pp_allowed_models p) (rp_model r)
      then Inl (Forbidden (''project policy does not allow model '' @ rp_model r))
      else let (region, api_version) = provider_governance_metadata parse_url r
           in if \<not> allow_listed (pp_allowed_regions p) region
              then Inl (Forbidden (''project policy does not allow provider region '' @ region))
              else if \<not> allow_listed (pp_allowed_api_versions p) api_version
              then Inl (Forbidden (''project policy does not allow provider API version '' @ api_version))
              else Inr ())"

definition order_attempts :: "url_parser \<Rightarrow> ResolvedProvider list \<Rightarrow> HybridMode \<Rightarrow> ResolvedProvider list" where
  "order_attempts parse_url attempts mode =
     (let local = filter (\<lambda>r. for_resolved parse_url r = Local) attempts;
          cloud = filter (\<lambda>r. for_resolved parse_url r = Cloud) attempts
      in case mode of
           LocalStrict \<Rightarrow> local
         | LocalFirst \<Rightarrow> local @ cloud
         | HybridBalanced \<Rightarrow> local @ cloud
         | CloudFirst \<Rightarrow> cloud @ local)"

definition validate_project_policy :: "ProjectPolicy \<Rightarrow> unit result" where
  "validate_project_policy p =
     res_bind (res_each (\<lambda>v. ensure (valid_tenant_identifier v)
         (InvalidRequest ''project policy contains an invalid tenant identifier''))
       [pp_organization_id p, pp_project_id p, pp_environment_id p]) (\<lambda>_.
     res_bind (ensure (pp_cloud_enabled p \<or> pp_maximum_mode p = LocalStrict)
       (InvalidRequest ''cloud-disabled project policy must use local_strict maximum mode'')) (\<lambda>_.
     res_each (\<lambda>rules. ensure (length rules \<le> 256 \<and>
           \<not> list_ex (\<lambda>v. trim v = [] \<or> 160 < length v) rules)
         (InvalidRequest ''project policy allowlists contain invalid entries''))
       [pp_allowed_providers p, pp_allowed_models p, pp_allowed_regions p, pp_allowed_api_versions p]))"

section \<open>The request handler's decision\<close>

text \<open>
  The classification and mode headers, already read, and the attempts of the routing plan: the attempts
  the handler may make, or the rejection.
\<close>

definition request_classification :: "ProjectPolicy \<Rightarrow> string option \<Rightarrow> DataClassification result" where
  "request_classification p header =
     (case header of
        Some value \<Rightarrow>
          ok_or (classification_parse value) (InvalidRequest
            (''x-modelport-data-classification must be unknown, sensitive, internal, or public''))
      | None \<Rightarrow> Inr (pp_default_classification p))"

definition requested_hybrid_mode :: "string option \<Rightarrow> HybridMode option result" where
  "requested_hybrid_mode header =
     (case header of
        Some value \<Rightarrow>
          res_bind (ok_or (mode_parse value) (InvalidRequest
            (''x-modelport-hybrid-mode must be local_strict, local_first, balanced, or cloud_first'')))
            (\<lambda>mode. Inr (Some mode))
      | None \<Rightarrow> Inr None)"

definition first_policy_error ::
    "url_parser \<Rightarrow> ProjectPolicy \<Rightarrow> ResolvedProvider list \<Rightarrow> AppError option" where
  "first_policy_error parse_url p attempts =
     find_map (\<lambda>r. case enforce_attempt parse_url p r of Inl e \<Rightarrow> Some e | Inr _ \<Rightarrow> None) attempts"

definition authorized_attempts ::
    "url_parser \<Rightarrow> ProjectPolicy \<Rightarrow> HybridMode \<Rightarrow> ResolvedProvider list \<Rightarrow> ResolvedProvider list result" where
  "authorized_attempts parse_url p mode attempts =
     (let ordered = order_attempts parse_url attempts mode;
          authorized = filter (\<lambda>r. enforce_attempt parse_url p r = Inr ()) ordered
      in if authorized = []
         then Inl (unwrap_or (first_policy_error parse_url p ordered)
           (ProviderNotFound (''no '' @ mode_as_str mode @ '' provider is authorized for this project'')))
         else Inr authorized)"

definition govern_request ::
    "url_parser \<Rightarrow> ProjectPolicy \<Rightarrow> string option \<Rightarrow> string option \<Rightarrow> ResolvedProvider list result \<Rightarrow>
     ResolvedProvider list result" where
  "govern_request parse_url p classification_header mode_header plan =
     res_bind (request_classification p classification_header) (\<lambda>classification.
     res_bind (requested_hybrid_mode mode_header) (\<lambda>requested.
     res_bind (effective_mode p requested classification) (\<lambda>mode.
     res_bind plan (\<lambda>attempts.
     authorized_attempts parse_url p mode attempts))))"

section \<open>Change requests\<close>

record ChangeRequestInput =
  ci_action :: string
  ci_target :: string
  ci_payload :: json
  ci_reason :: string

record ChangeApproval =
  ca_actor_id :: string
  ca_actor_name :: string
  ca_approved_at_ms :: nat

record ChangeRequest =
  cr_id :: string
  cr_action :: string
  cr_target :: string
  cr_payload :: json
  cr_payload_sha256 :: string
  cr_reason :: string
  cr_risk :: string
  cr_status :: string
  cr_requested_by :: string
  cr_requested_by_name :: string
  cr_approvals :: "ChangeApproval list"
  cr_created_at_ms :: nat
  cr_updated_at_ms :: nat
  cr_applied_at_ms :: "nat option"

record GovernanceDocument =
  project_policies :: "(string, ProjectPolicy) btree"
  change_requests :: "(string, ChangeRequest) btree"

record GovernanceStore =
  gs_store :: bool
  gs_inner :: GovernanceDocument
  gs_revision :: nat
  gs_persistence_degraded :: bool

text \<open>The library operations and the hash.\<close>

record json_codec =
  to_vec :: "json \<Rightarrow> string + string"
  sha256_hex :: "string \<Rightarrow> string"
  policy_from_value :: "json \<Rightarrow> string + ProjectPolicy"

fun canonical_json :: "json \<Rightarrow> json" where
  "canonical_json (JObject m) =
     JObject (foldl (\<lambda>t (k, v). bt_insert k v t) [] (map (\<lambda>(k, v). (k, canonical_json v)) m))"
| "canonical_json (JArray vs) = JArray (map canonical_json vs)"
| "canonical_json v = v"

definition to_vec_or_error :: "json_codec \<Rightarrow> json \<Rightarrow> string result" where
  "to_vec_or_error codec v = (case to_vec codec v of Inl e \<Rightarrow> Inl (JsonError e) | Inr b \<Rightarrow> Inr b)"

definition payload_sha256 :: "json_codec \<Rightarrow> json \<Rightarrow> string result" where
  "payload_sha256 codec payload =
     res_bind (to_vec_or_error codec (canonical_json payload)) (\<lambda>bytes. Inr (sha256_hex codec bytes))"

definition supported_actions :: "string list" where
  "supported_actions =
    [''project_policy.upsert'', ''provider.allowlist_change'', ''routing.cloud_first'',
     ''budget.hard_limit'', ''identity.permission'', ''model.production_promotion'',
     ''data_egress.change'', ''database.major_migration'', ''secret.rotation'']"

definition validate_change_input :: "json_codec \<Rightarrow> ChangeRequestInput \<Rightarrow> unit result" where
  "validate_change_input codec input =
     res_bind (ensure (ci_action input \<in> set supported_actions)
       (InvalidRequest ''unsupported high-risk change action'')) (\<lambda>_.
     res_bind (ensure (trim (ci_target input) \<noteq> [] \<and> length (ci_target input) \<le> 240)
       (InvalidRequest ''change request target must contain 1-240 characters'')) (\<lambda>_.
     res_bind (ensure (8 \<le> length (trim (ci_reason input)) \<and> length (ci_reason input) \<le> 1000)
       (InvalidRequest ''change request reason must contain 8-1000 characters'')) (\<lambda>_.
     res_bind (to_vec_or_error codec (ci_payload input)) (\<lambda>bytes.
     ensure (length bytes \<le> 64 * 1024) (InvalidRequest ''change request payload exceeds 64 KiB'')))))"

text \<open>Saving a changed document; \<open>cas\<close> is the compare-and-swap of the database.\<close>

type_synonym cas = "nat \<Rightarrow> GovernanceDocument \<Rightarrow> nat result"

definition save_or_restore ::
    "cas \<Rightarrow> GovernanceStore \<Rightarrow> GovernanceDocument \<Rightarrow> unit result \<times> GovernanceStore" where
  "save_or_restore cas st inner =
     (if gs_store st
      then (case cas (gs_revision st) inner of
          Inr revision \<Rightarrow>
            (Inr (), st\<lparr>gs_inner := inner, gs_revision := revision, gs_persistence_degraded := False\<rparr>)
        | Inl e \<Rightarrow> (Inl e, st\<lparr>gs_persistence_degraded := True\<rparr>))
      else (Inr (), st\<lparr>gs_inner := inner, gs_persistence_degraded := False\<rparr>))"

definition is_ready :: "GovernanceStore \<Rightarrow> bool" where
  "is_ready st \<longleftrightarrow> \<not> gs_persistence_degraded st"

definition effective_policy :: "GovernanceStore \<Rightarrow> TenantScope \<Rightarrow> ProjectPolicy" where
  "effective_policy st tenant =
     unwrap_or (map_of (project_policies (gs_inner st))
         (policy_key (scope_organization_id tenant) (scope_project_id tenant) (scope_environment_id tenant)))
       (fail_closed tenant)"

definition list_policies :: "GovernanceStore \<Rightarrow> ProjectPolicy list" where
  "list_policies st = map_values (project_policies (gs_inner st))"

definition list_change_requests :: "GovernanceStore \<Rightarrow> ChangeRequest list" where
  "list_change_requests st = rev (map_values (change_requests (gs_inner st)))"

abbreviation find_change :: "GovernanceStore \<Rightarrow> string \<Rightarrow> ChangeRequest option" where
  "find_change st \<equiv> map_of (change_requests (gs_inner st))"

definition put_change :: "ChangeRequest \<Rightarrow> string \<Rightarrow> GovernanceDocument \<Rightarrow> GovernanceDocument" where
  "put_change request request_id doc =
     doc\<lparr>change_requests := bt_insert request_id request (change_requests doc)\<rparr>"

definition new_change ::
    "json_codec \<Rightarrow> string \<Rightarrow> nat \<Rightarrow> string \<Rightarrow> string \<Rightarrow> ChangeRequestInput \<Rightarrow> ChangeRequest result" where
  "new_change codec uuid now actor_id actor_name input =
     res_bind (validate_change_input codec input) (\<lambda>_.
     res_bind (payload_sha256 codec (ci_payload input)) (\<lambda>hash.
     Inr \<lparr>cr_id = ''chg_'' @ uuid, cr_action = ci_action input, cr_target = ci_target input,
          cr_payload = ci_payload input, cr_payload_sha256 = hash, cr_reason = trim (ci_reason input),
          cr_risk = ''high'', cr_status = ''pending_second_approval'',
          cr_requested_by = actor_id, cr_requested_by_name = actor_name,
          cr_approvals = [\<lparr>ca_actor_id = actor_id, ca_actor_name = actor_name, ca_approved_at_ms = now\<rparr>],
          cr_created_at_ms = now, cr_updated_at_ms = now, cr_applied_at_ms = None\<rparr>))"

definition create_change_request ::
    "json_codec \<Rightarrow> cas \<Rightarrow> string \<Rightarrow> nat \<Rightarrow> string \<Rightarrow> string \<Rightarrow> ChangeRequestInput \<Rightarrow> GovernanceStore \<Rightarrow>
     ChangeRequest result \<times> GovernanceStore" where
  "create_change_request codec cas uuid now actor_id actor_name input st =
     (case new_change codec uuid now actor_id actor_name input of
        Inl e \<Rightarrow> (Inl e, st)
      | Inr request \<Rightarrow>
          (case save_or_restore cas st (put_change request (cr_id request) (gs_inner st)) of
             (Inl e, st') \<Rightarrow> (Inl e, st')
           | (Inr _, st') \<Rightarrow> (Inr request, st')))"

definition approve :: "nat \<Rightarrow> nat \<Rightarrow> string \<Rightarrow> string \<Rightarrow> ChangeRequest \<Rightarrow> ChangeRequest result" where
  "approve now now' actor_id actor_name request =
     (if cr_status request = ''applied''
      then Inl (StateConflict ''change request has already been applied'')
      else if list_ex (\<lambda>a. ca_actor_id a = actor_id) (cr_approvals request)
      then Inl (InvalidRequest ''the same administrator cannot provide both approvals'')
      else Inr (request\<lparr>
        cr_approvals := cr_approvals request @
          [\<lparr>ca_actor_id = actor_id, ca_actor_name = actor_name, ca_approved_at_ms = now\<rparr>],
        cr_status := ''approved'', cr_updated_at_ms := now'\<rparr>))"

definition approve_change_request ::
    "cas \<Rightarrow> nat \<Rightarrow> nat \<Rightarrow> string \<Rightarrow> string \<Rightarrow> string \<Rightarrow> GovernanceStore \<Rightarrow>
     ChangeRequest result \<times> GovernanceStore" where
  "approve_change_request cas now now' request_id actor_id actor_name st =
     (case find_change st request_id of
        None \<Rightarrow> (Inl (NotFound ''change request not found''), st)
      | Some request \<Rightarrow>
          (case approve now now' actor_id actor_name request of
             Inl e \<Rightarrow> (Inl e, st)
           | Inr request' \<Rightarrow>
               (case save_or_restore cas st (put_change request' request_id (gs_inner st)) of
                  (Inl e, st') \<Rightarrow> (Inl e, st')
                | (Inr _, st') \<Rightarrow> (Inr request', st'))))"

definition require_approved :: "ChangeRequest \<Rightarrow> unit result" where
  "require_approved request =
     ensure (cr_status request = ''approved'' \<and> 2 \<le> length (cr_approvals request))
       (Forbidden ''high-risk change requires two distinct administrator approvals'')"

definition approved_change :: "GovernanceStore \<Rightarrow> string \<Rightarrow> ChangeRequest result" where
  "approved_change st request_id =
     res_bind (ok_or (find_change st request_id) (NotFound ''change request not found'')) (\<lambda>request.
     res_bind (require_approved request) (\<lambda>_. Inr request))"

definition verify_approved_change ::
    "json_codec \<Rightarrow> GovernanceStore \<Rightarrow> string \<Rightarrow> string \<Rightarrow> string \<Rightarrow> json \<Rightarrow> ChangeRequest result" where
  "verify_approved_change codec st request_id action target payload =
     res_bind (approved_change st request_id) (\<lambda>request.
     let mismatch = Inl (Forbidden
           ''approved change request does not match this action, target, and payload'')
     in if cr_action request \<noteq> action \<or> cr_target request \<noteq> target then mismatch
        else res_bind (payload_sha256 codec payload) (\<lambda>hash.
          if cr_payload_sha256 request \<noteq> hash then mismatch else Inr request))"

definition mark_applied :: "nat \<Rightarrow> nat \<Rightarrow> ChangeRequest \<Rightarrow> ChangeRequest" where
  "mark_applied now now' request =
     request\<lparr>cr_status := ''applied'', cr_applied_at_ms := Some now, cr_updated_at_ms := now'\<rparr>"

definition mark_change_applied ::
    "cas \<Rightarrow> nat \<Rightarrow> nat \<Rightarrow> string \<Rightarrow> GovernanceStore \<Rightarrow> unit result \<times> GovernanceStore" where
  "mark_change_applied cas now now' request_id st =
     (case find_change st request_id of
        None \<Rightarrow> (Inl (NotFound ''change request not found''), st)
      | Some request \<Rightarrow>
          (case require_approved request of
             Inl e \<Rightarrow> (Inl e, st)
           | Inr _ \<Rightarrow>
               save_or_restore cas st (put_change (mark_applied now now' request) request_id (gs_inner st))))"

text \<open>
  Applying a project policy takes the lock twice: first the approved request is read and its policy
  checked, then, with whatever the document is by then, the policy is installed.
\<close>

definition approved_policy ::
    "json_codec \<Rightarrow> string \<Rightarrow> string \<Rightarrow> nat \<Rightarrow> GovernanceStore \<Rightarrow> ProjectPolicy result" where
  "approved_policy codec request_id actor_id now st =
     res_bind (approved_change st request_id) (\<lambda>request.
     res_bind (ensure (cr_action request = ''project_policy.upsert'')
       (InvalidRequest ''change request is not a project policy update'')) (\<lambda>_.
     res_bind (case policy_from_value codec (cr_payload request) of
         Inl e \<Rightarrow> Inl (JsonError e) | Inr p \<Rightarrow> Inr p) (\<lambda>policy.
     res_bind (validate_project_policy policy) (\<lambda>_.
     Inr (policy\<lparr>pp_updated_by := actor_id, pp_updated_at_ms := now\<rparr>)))))"

definition install_policy ::
    "cas \<Rightarrow> nat \<Rightarrow> nat \<Rightarrow> string \<Rightarrow> ProjectPolicy \<Rightarrow> GovernanceStore \<Rightarrow>
     ProjectPolicy result \<times> GovernanceStore" where
  "install_policy cas now now' request_id policy st =
     (case find_change st request_id of
        None \<Rightarrow>
          (Inl (NotFound ''change request not found''),
           st\<lparr>gs_inner := (gs_inner st)\<lparr>project_policies :=
             bt_insert (project_policy_key policy) policy (project_policies (gs_inner st))\<rparr>\<rparr>)
      | Some request \<Rightarrow>
          (let doc = (gs_inner st)\<lparr>project_policies :=
                 bt_insert (project_policy_key policy) policy (project_policies (gs_inner st))\<rparr>
           in case save_or_restore cas st (put_change (mark_applied now now' request) request_id doc) of
                (Inl e, st') \<Rightarrow> (Inl e, st')
              | (Inr _, st') \<Rightarrow> (Inr policy, st')))"

definition apply_project_policy ::
    "json_codec \<Rightarrow> cas \<Rightarrow> string \<Rightarrow> string \<Rightarrow> nat \<Rightarrow> nat \<Rightarrow> nat \<Rightarrow> GovernanceStore \<Rightarrow>
     ProjectPolicy result \<times> GovernanceStore" where
  "apply_project_policy codec cas request_id actor_id now now' now'' st =
     (case approved_policy codec request_id actor_id now st of
        Inl e \<Rightarrow> (Inl e, st)
      | Inr policy \<Rightarrow> install_policy cas now' now'' request_id policy st)"

end
