(* ===== verification/GovernanceProps.thy ===== *)
theory GovernanceProps
  imports Governance ConfigChecked
begin

text \<open>
  Properties of governance: where a request may be sent, the two-person rule over every run of the
  store, and that installing a policy concerns its own tenant only.
\<close>

section \<open>Egress\<close>

text \<open>The attempt passes every allow-list of the policy.\<close>

definition policy_admits :: "url_parser \<Rightarrow> ProjectPolicy \<Rightarrow> ResolvedProvider \<Rightarrow> bool" where
  "policy_admits parse_url p r \<longleftrightarrow>
     allow_listed (pp_allowed_providers p) (rp_provider_id r) \<and>
     allow_listed (pp_allowed_models p) (rp_model r) \<and>
     allow_listed (pp_allowed_regions p) (fst (provider_governance_metadata parse_url r)) \<and>
     allow_listed (pp_allowed_api_versions p) (snd (provider_governance_metadata parse_url r))"

lemma enforce_attempt_Inr:
  "enforce_attempt parse_url p r = Inr () \<longleftrightarrow>
   policy_admits parse_url p r \<and> (for_resolved parse_url r = Cloud \<longrightarrow> pp_cloud_enabled p)"
  by (auto simp: enforce_attempt_def policy_admits_def split: prod.splits)

lemma boundary_not_Cloud: "b \<noteq> Cloud \<longleftrightarrow> b = Local"
  by (cases b) auto

lemma set_order_attempts:
  "set (order_attempts parse_url rs mode) =
   {r \<in> set rs. mode = LocalStrict \<longrightarrow> for_resolved parse_url r = Local}"
  using boundary_not_Cloud by (cases mode) (auto simp: order_attempts_def Let_def)

lemma set_authorized:
  "authorized_attempts parse_url p mode plan = Inr rs \<Longrightarrow>
   rs \<noteq> [] \<and> set rs = {r \<in> set plan. (mode = LocalStrict \<longrightarrow> for_resolved parse_url r = Local) \<and>
     policy_admits parse_url p r \<and> (for_resolved parse_url r = Cloud \<longrightarrow> pp_cloud_enabled p)}"
  by (auto simp: authorized_attempts_def Let_def set_order_attempts enforce_attempt_Inr split: if_splits)

lemma effective_mode_egress:
  "effective_mode p requested c = Inr mode \<Longrightarrow> mode \<noteq> LocalStrict \<Longrightarrow>
   \<not> forces_local c \<and> pp_maximum_mode p \<noteq> LocalStrict \<and> egress_rank mode \<le> egress_rank (pp_maximum_mode p)"
  by (cases "pp_maximum_mode p"; cases mode)
    (auto simp: effective_mode_def restrict_to_def split: if_splits option.splits)

text \<open>
  C30: Data leaves the local boundary only under governance: the attempts the handler may make are a
  non-empty part of the routing plan that passes the policy's allow-lists, and a cloud provider is
  among them only if the policy enables the cloud, its maximum mode is not local-strict and the data
  is classified, as internal or public.
\<close>

theorem cloud_egress_governed:
  assumes "govern_request parse_url p classification_header mode_header plan = Inr rs"
  shows "\<exists>attempts c. plan = Inr attempts \<and> request_classification p classification_header = Inr c \<and>
    rs \<noteq> [] \<and> set rs \<subseteq> set attempts \<and> (\<forall>r\<in>set rs. policy_admits parse_url p r) \<and>
    ((\<exists>r\<in>set rs. for_resolved parse_url r = Cloud) \<longrightarrow>
       pp_cloud_enabled p \<and> pp_maximum_mode p \<noteq> LocalStrict \<and> c \<in> {Internal, Public})"
proof -
  obtain c requested mode attempts where
    *: "request_classification p classification_header = Inr c" "plan = Inr attempts"
      "effective_mode p requested c = Inr mode" "authorized_attempts parse_url p mode attempts = Inr rs"
    using assms by (auto simp: govern_request_def res_bind_Inr_iff)
  have "c \<in> {Internal, Public}" if "\<not> forces_local c"
    using that by (cases c) (auto simp: forces_local_def)
  then show ?thesis
    using * set_authorized[OF *(4)] effective_mode_egress[OF *(3)] by (cases "mode = LocalStrict") auto
qed

section \<open>The two-person rule\<close>

text \<open>
  A run interleaves the operations of any administrators. Applying a policy is two steps: the checked
  policy is held between them.
\<close>

record governance_run =
  run_store :: GovernanceStore
  run_checked :: "(string \<times> ProjectPolicy) list"

inductive governance_step :: "json_codec \<Rightarrow> governance_run \<Rightarrow> governance_run \<Rightarrow> bool" for codec where
  create:
    "find_change (run_store s) (''chg_'' @ uuid) = None \<Longrightarrow>
     governance_step codec s (s\<lparr>run_store :=
       snd (create_change_request codec cas uuid now actor_id actor_name input (run_store s))\<rparr>)"
| approve:
    "governance_step codec s (s\<lparr>run_store :=
       snd (approve_change_request cas now now' request_id actor_id actor_name (run_store s))\<rparr>)"
| mark:
    "governance_step codec s (s\<lparr>run_store :=
       snd (mark_change_applied cas now now' request_id (run_store s))\<rparr>)"
| check:
    "approved_policy codec request_id actor_id now (run_store s) = Inr policy \<Longrightarrow>
     governance_step codec s (s\<lparr>run_checked := (request_id, policy) # run_checked s\<rparr>)"
| install:
    "(request_id, policy) \<in> set (run_checked s) \<Longrightarrow>
     governance_step codec s (s\<lparr>run_store :=
       snd (install_policy cas now now' request_id policy (run_store s))\<rparr>)"

definition empty_run :: "bool \<Rightarrow> governance_run" where
  "empty_run persistent =
    \<lparr>run_store = \<lparr>gs_store = persistent,
       gs_inner = \<lparr>project_policies = [], change_requests = []\<rparr>,
       gs_revision = 0, gs_persistence_degraded = False\<rparr>,
     run_checked = []\<rparr>"

abbreviation governance_reachable :: "json_codec \<Rightarrow> governance_run \<Rightarrow> bool" where
  "governance_reachable codec s \<equiv> \<exists>persistent. (governance_step codec)\<^sup>*\<^sup>* (empty_run persistent) s"

definition approvers :: "ChangeRequest \<Rightarrow> string list" where
  "approvers r = map ca_actor_id (cr_approvals r)"

definition settled :: "ChangeRequest \<Rightarrow> bool" where
  "settled r \<longleftrightarrow> cr_status r \<in> {''approved'', ''applied''}"

definition request_ok :: "ChangeRequest \<Rightarrow> bool" where
  "request_ok r \<longleftrightarrow>
     distinct (approvers r) \<and> approvers r \<noteq> [] \<and> hd (approvers r) = cr_requested_by r \<and>
     (settled r \<longrightarrow> 2 \<le> length (approvers r))"

text \<open>The policy is the payload of the request, apart from who updated it and when.\<close>

definition policy_of :: "json_codec \<Rightarrow> ChangeRequest \<Rightarrow> ProjectPolicy \<Rightarrow> bool" where
  "policy_of codec r p \<longleftrightarrow>
     cr_action r = ''project_policy.upsert'' \<and>
     (\<exists>p0. policy_from_value codec (cr_payload r) = Inr p0 \<and> validate_project_policy p0 = Inr () \<and>
       p = p0\<lparr>pp_updated_by := pp_updated_by p, pp_updated_at_ms := pp_updated_at_ms p\<rparr>)"

type_synonym change_lookup = "string \<Rightarrow> ChangeRequest option"

definition requests_ok :: "change_lookup \<Rightarrow> bool" where
  "requests_ok look \<longleftrightarrow> (\<forall>i r. look i = Some r \<longrightarrow> request_ok r)"

definition checked_ok :: "json_codec \<Rightarrow> change_lookup \<Rightarrow> (string \<times> ProjectPolicy) list \<Rightarrow> bool" where
  "checked_ok codec look checked \<longleftrightarrow>
     (\<forall>(i, p)\<in>set checked. \<exists>r. look i = Some r \<and> settled r \<and> policy_of codec r p)"

definition policies_ok :: "json_codec \<Rightarrow> change_lookup \<Rightarrow> (string, ProjectPolicy) btree \<Rightarrow> bool" where
  "policies_ok codec look policies \<longleftrightarrow>
     (\<forall>k p. map_of policies k = Some p \<longrightarrow> k = project_policy_key p \<and>
       (\<exists>i r. look i = Some r \<and> settled r \<and> policy_of codec r p))"

definition run_inv :: "json_codec \<Rightarrow> governance_run \<Rightarrow> bool" where
  "run_inv codec s \<longleftrightarrow>
     requests_ok (find_change (run_store s)) \<and>
     checked_ok codec (find_change (run_store s)) (run_checked s) \<and>
     policies_ok codec (find_change (run_store s)) (project_policies (gs_inner (run_store s)))"

text \<open>A change of the requests that keeps what settled requests asked for keeps the invariant.\<close>

definition evolves :: "change_lookup \<Rightarrow> change_lookup \<Rightarrow> bool" where
  "evolves look look' \<longleftrightarrow>
     (\<forall>i r. look i = Some r \<longrightarrow> (\<exists>r'. look' i = Some r' \<and> cr_action r' = cr_action r \<and>
        cr_payload r' = cr_payload r \<and> (settled r \<longrightarrow> settled r')))"

lemma evolves_refl [simp]: "evolves look look"
  by (auto simp: evolves_def)

lemma evolves_upd:
  "look i = None \<or> (\<exists>r. look i = Some r \<and> cr_action r' = cr_action r \<and> cr_payload r' = cr_payload r \<and>
     (settled r \<longrightarrow> settled r')) \<Longrightarrow> evolves look (look(i \<mapsto> r'))"
  by (auto simp: evolves_def)

lemma evolves_policy:
  assumes "evolves look look'" "look i = Some r" "settled r" "policy_of codec r p"
  shows "\<exists>r'. look' i = Some r' \<and> settled r' \<and> policy_of codec r' p"
proof -
  obtain r' where "look' i = Some r'" "cr_action r' = cr_action r" "cr_payload r' = cr_payload r" "settled r'"
    using assms(1,2,3) unfolding evolves_def by blast
  then show ?thesis using assms(4) by (auto simp: policy_of_def)
qed

lemma checked_ok_evolves: "checked_ok codec look checked \<Longrightarrow> evolves look look' \<Longrightarrow> checked_ok codec look' checked"
  unfolding checked_ok_def by (fastforce dest: evolves_policy)

lemma policies_ok_evolves: "policies_ok codec look ps \<Longrightarrow> evolves look look' \<Longrightarrow> policies_ok codec look' ps"
  unfolding policies_ok_def by (blast dest: evolves_policy)

lemma requests_ok_upd: "requests_ok look \<Longrightarrow> request_ok r \<Longrightarrow> requests_ok (look(i \<mapsto> r))"
  by (auto simp: requests_ok_def)

text \<open>The documents a save may leave: the previous one or the new one.\<close>

lemma save_cases:
  assumes "snd (save_or_restore cas st doc) = st'"
  shows "gs_inner st' = gs_inner st \<or> gs_inner st' = doc"
  using assms by (auto simp: save_or_restore_def split: if_splits sum.splits)

lemma run_inv_store:
  assumes "run_inv codec s" "gs_inner st' = gs_inner (run_store s) \<or>
      (\<exists>i r. gs_inner st' = put_change r i (gs_inner (run_store s)) \<and> request_ok r \<and>
        evolves (find_change (run_store s)) ((find_change (run_store s))(i \<mapsto> r)))"
  shows "run_inv codec (s\<lparr>run_store := st'\<rparr>)"
  using assms
  by (auto simp: run_inv_def put_change_def intro: requests_ok_upd checked_ok_evolves policies_ok_evolves)

lemma new_change_ok: "new_change codec uuid now a n input = Inr r \<Longrightarrow> request_ok r \<and> cr_id r = ''chg_'' @ uuid"
  by (auto simp: new_change_def res_bind_Inr_iff request_ok_def approvers_def settled_def)

lemma approve_ok:
  assumes "approve now now' a n r = Inr r'" "request_ok r"
  shows "request_ok r' \<and> cr_action r' = cr_action r \<and> cr_payload r' = cr_payload r \<and> settled r'"
  using assms
  by (auto simp: approve_def request_ok_def approvers_def settled_def list_ex_iff Suc_le_eq split: if_splits)

lemma mark_applied_ok:
  "request_ok r \<Longrightarrow> settled r \<Longrightarrow> request_ok (mark_applied now now' r)"
  "cr_action (mark_applied now now' r) = cr_action r" "cr_payload (mark_applied now now' r) = cr_payload r"
  "settled (mark_applied now now' r)"
  by (auto simp: mark_applied_def request_ok_def approvers_def settled_def)

lemma approved_policy_ok:
  assumes "approved_policy codec i a now st = Inr p"
  shows "\<exists>r. find_change st i = Some r \<and> settled r \<and> policy_of codec r p"
proof -
  obtain r where r: "find_change st i = Some r" "settled r" "cr_action r = ''project_policy.upsert''"
    and p: "res_bind (case policy_from_value codec (cr_payload r) of
         Inl e \<Rightarrow> Inl (JsonError e) | Inr p \<Rightarrow> Inr p) (\<lambda>policy.
       res_bind (validate_project_policy policy) (\<lambda>_.
       Inr (policy\<lparr>pp_updated_by := a, pp_updated_at_ms := now\<rparr>))) = Inr p"
    using assms
    by (auto simp: approved_policy_def approved_change_def require_approved_def settled_def res_bind_Inr_iff)
  then have "policy_of codec r p"
    by (cases "policy_from_value codec (cr_payload r)") (auto simp: policy_of_def res_bind_Inr_iff)
  then show ?thesis using r by blast
qed

lemma project_policy_key_updated [simp]:
  "project_policy_key (p\<lparr>pp_updated_by := a, pp_updated_at_ms := t\<rparr>) = project_policy_key p"
  by (simp add: project_policy_key_def)

lemma install_inv:
  assumes "run_inv codec s" "(i, p) \<in> set (run_checked s)"
  shows "run_inv codec (s\<lparr>run_store := snd (install_policy cas now now' i p (run_store s))\<rparr>)"
proof -
  let ?st = "run_store s"
  obtain r where r: "find_change ?st i = Some r" "settled r" "policy_of codec r p" "request_ok r"
    using assms unfolding run_inv_def checked_ok_def requests_ok_def by blast
  let ?r = "mark_applied now now' r"
  let ?f = "(find_change ?st)(i \<mapsto> ?r)"
  have ev: "evolves (find_change ?st) ?f"
    by (intro evolves_upd disjI2 exI[of _ r]) (simp add: r mark_applied_ok)
  have p: "policy_of codec ?r p" using r(3) by (simp add: policy_of_def mark_applied_ok)
  let ?ps = "project_policies (gs_inner ?st)"
  have "policies_ok codec ?f ?ps"
    using assms(1) ev policies_ok_evolves unfolding run_inv_def by blast
  then have "policies_ok codec ?f (bt_insert (project_policy_key p) p ?ps)"
    using p mark_applied_ok(4) unfolding policies_ok_def by auto
  moreover have "requests_ok ?f" "checked_ok codec ?f (run_checked s)"
    using assms(1) r requests_ok_upd checked_ok_evolves[OF _ ev] mark_applied_ok(1) unfolding run_inv_def by blast+
  ultimately have new: "run_inv codec (s\<lparr>run_store := st'\<rparr>)" if "gs_inner st' =
      put_change ?r i ((gs_inner ?st)\<lparr>project_policies := bt_insert (project_policy_key p) p ?ps\<rparr>)" for st'
    using that by (simp add: run_inv_def put_change_def)
  have "snd (install_policy cas now now' i p ?st) = snd (save_or_restore cas ?st
      (put_change ?r i ((gs_inner ?st)\<lparr>project_policies := bt_insert (project_policy_key p) p ?ps\<rparr>)))"
    by (simp add: install_policy_def r(1) Let_def split: prod.splits sum.splits)
  then show ?thesis
    using save_cases new run_inv_store[OF assms(1)] by metis
qed

lemma run_inv_step: "governance_step codec s s' \<Longrightarrow> run_inv codec s \<Longrightarrow> run_inv codec s'"
proof (induction rule: governance_step.induct)
  case (create s uuid cas now actor_id actor_name input)
  show ?case
  proof (rule run_inv_store[OF create.prems])
    show "gs_inner (snd (create_change_request codec cas uuid now actor_id actor_name input (run_store s))) =
        gs_inner (run_store s) \<or>
      (\<exists>i r. gs_inner (snd (create_change_request codec cas uuid now actor_id actor_name input (run_store s))) =
          put_change r i (gs_inner (run_store s)) \<and> request_ok r \<and>
        evolves (find_change (run_store s)) ((find_change (run_store s))(i \<mapsto> r)))"
      using create.hyps
      by (auto simp: create_change_request_def save_or_restore_def split: sum.splits
          dest!: new_change_ok intro!: exI evolves_upd)
  qed
next
  case (approve s cas now now' i a n)
  show ?case
  proof (cases "find_change (run_store s) i")
    case (Some r)
    then have "request_ok r" using approve.prems by (auto simp: run_inv_def requests_ok_def)
    then show ?thesis
      using Some approve_ok
      by (intro run_inv_store[OF approve.prems])
        (auto simp: approve_change_request_def save_or_restore_def split: sum.splits
          dest!: approve_ok intro!: exI evolves_upd)
  qed (simp add: approve_change_request_def approve.prems)
next
  case (mark s cas now now' i)
  show ?case
  proof (cases "find_change (run_store s) i")
    case (Some r)
    then have "request_ok r" using mark.prems by (auto simp: run_inv_def requests_ok_def)
    moreover have "require_approved r = Inr u \<Longrightarrow> settled r" for u
      by (simp add: require_approved_def settled_def)
    ultimately show ?thesis
      using Some
      by (intro run_inv_store[OF mark.prems])
        (auto simp: mark_change_applied_def save_or_restore_def mark_applied_ok
          split: sum.splits intro!: exI evolves_upd)
  qed (simp add: mark_change_applied_def mark.prems)
next
  case (check i a now s p)
  then show ?case using approved_policy_ok[OF check.hyps] by (auto simp: run_inv_def checked_ok_def)
next
  case (install i p s cas now now')
  then show ?case by (simp add: install_inv)
qed

lemma reachable_inv: "governance_reachable codec s \<Longrightarrow> run_inv codec s"
proof (elim exE)
  fix persistent
  assume "(governance_step codec)\<^sup>*\<^sup>* (empty_run persistent) s"
  then show ?thesis
  proof (induction rule: rtranclp_induct)
    case base
    show ?case by (simp add: empty_run_def run_inv_def requests_ok_def checked_ok_def policies_ok_def)
  next
    case (step s s')
    then show ?case by (simp add: run_inv_step)
  qed
qed

text \<open>
  C31: The two-person rule holds in every run of the governance store, whatever administrators do
  concurrently and whichever saves fail: an approved or applied change has approvals of at least two
  different administrators, the requester among them, and every project policy in force is the valid
  payload of such a change.
\<close>

theorem two_person_rule:
  assumes "governance_reachable codec s"
  shows "(\<forall>i r. find_change (run_store s) i = Some r \<longrightarrow> cr_status r \<in> {''approved'', ''applied''} \<longrightarrow>
      2 \<le> card (set (approvers r)) \<and> cr_requested_by r \<in> set (approvers r)) \<and>
    (\<forall>k p. map_of (project_policies (gs_inner (run_store s))) k = Some p \<longrightarrow>
      k = project_policy_key p \<and>
      (\<exists>i r. find_change (run_store s) i = Some r \<and> policy_of codec r p \<and>
         2 \<le> card (set (approvers r))))"
proof -
  have two: "2 \<le> card (set (approvers r)) \<and> cr_requested_by r \<in> set (approvers r)"
    if "find_change (run_store s) i = Some r" "settled r" for i r
    using reachable_inv[OF assms] that
    by (auto simp: run_inv_def requests_ok_def request_ok_def distinct_card)
      (metis hd_in_set)
  then show ?thesis
    using reachable_inv[OF assms] unfolding run_inv_def policies_ok_def settled_def by metis
qed

section \<open>Tenants\<close>

definition tenant_valid :: "TenantScope \<Rightarrow> bool" where
  "tenant_valid t \<longleftrightarrow>
     valid_tenant_identifier (scope_organization_id t) \<and> valid_tenant_identifier (scope_project_id t) \<and>
     valid_tenant_identifier (scope_environment_id t)"

definition policy_tenant :: "ProjectPolicy \<Rightarrow> TenantScope" where
  "policy_tenant p =
    \<lparr>scope_organization_id = pp_organization_id p, scope_project_id = pp_project_id p,
     scope_environment_id = pp_environment_id p\<rparr>"

lemma identifier_no_slash: "valid_tenant_identifier v \<Longrightarrow> CHR ''/'' \<notin> set v"
  by (auto simp: valid_tenant_identifier_def list_all_iff is_ascii_alphanumeric_def is_ascii_alphabetic_def
      is_ascii_lowercase_def is_ascii_uppercase_def is_ascii_digit_def)

lemma policy_key_inj:
  assumes "CHR ''/'' \<notin> set a" "CHR ''/'' \<notin> set b" "CHR ''/'' \<notin> set a'" "CHR ''/'' \<notin> set b'"
    "policy_key a b c = policy_key a' b' c'"
  shows "a = a' \<and> b = b' \<and> c = c'"
proof -
  have "split_once CHR ''/'' (policy_key a b c) = Some (a, b @ ''/'' @ c)"
    "split_once CHR ''/'' (policy_key a' b' c') = Some (a', b' @ ''/'' @ c')"
    "split_once CHR ''/'' (b @ ''/'' @ c) = Some (b, c)" "split_once CHR ''/'' (b' @ ''/'' @ c') = Some (b', c')"
    using assms by (simp_all add: policy_key_def split_once_Some)
  then show ?thesis using assms(5) by (metis Pair_inject option.inject)
qed

lemma tenant_key_eq:
  assumes "tenant_valid t" "tenant_valid (policy_tenant p)"
  shows "policy_key (scope_organization_id t) (scope_project_id t) (scope_environment_id t) =
    project_policy_key p \<longleftrightarrow> t = policy_tenant p"
proof
  assume "policy_key (scope_organization_id t) (scope_project_id t) (scope_environment_id t) =
    project_policy_key p"
  then show "t = policy_tenant p"
    unfolding project_policy_key_def
    using policy_key_inj[of "scope_organization_id t" "scope_project_id t" "pp_organization_id p"
        "pp_project_id p" "scope_environment_id t" "pp_environment_id p"] assms identifier_no_slash
    by (simp add: tenant_valid_def policy_tenant_def)
next
  assume "t = policy_tenant p"
  then show "policy_key (scope_organization_id t) (scope_project_id t) (scope_environment_id t) =
    project_policy_key p"
    by (simp add: policy_tenant_def project_policy_key_def)
qed

lemma apply_project_policy_Inr:
  assumes "apply_project_policy codec cas i a now now' now'' st = (Inr p, st')"
  shows "tenant_valid (policy_tenant p) \<and>
    project_policies (gs_inner st') = bt_insert (project_policy_key p) p (project_policies (gs_inner st))"
proof -
  obtain q where q: "approved_policy codec i a now st = Inr q" "install_policy cas now' now'' i q st = (Inr p, st')"
    using assms by (auto simp: apply_project_policy_def split: sum.splits)
  then have "q = p" "project_policies (gs_inner st') = bt_insert (project_policy_key p) p (project_policies (gs_inner st))"
    by (auto simp: install_policy_def Let_def save_or_restore_def put_change_def
        split: option.splits prod.splits sum.splits if_splits)
  moreover obtain p0 where p0: "validate_project_policy p0 = Inr ()"
    "q = p0\<lparr>pp_updated_by := pp_updated_by q, pp_updated_at_ms := pp_updated_at_ms q\<rparr>"
    using approved_policy_ok[OF q(1)] unfolding policy_of_def by blast
  have "policy_tenant q = policy_tenant p0"
    using arg_cong[OF p0(2), of policy_tenant] by (simp add: policy_tenant_def)
  then have "tenant_valid (policy_tenant q)"
    using p0(1) by (simp add: validate_project_policy_def tenant_valid_def policy_tenant_def res_bind_Inr_iff)
  ultimately show ?thesis by simp
qed

lemma policy_of_tenant_valid: "policy_of codec r p \<Longrightarrow> tenant_valid (policy_tenant p)"
proof -
  assume "policy_of codec r p"
  then obtain p0 where p0: "validate_project_policy p0 = Inr ()"
    "p = p0\<lparr>pp_updated_by := pp_updated_by p, pp_updated_at_ms := pp_updated_at_ms p\<rparr>"
    unfolding policy_of_def by blast
  have "policy_tenant p = policy_tenant p0" using arg_cong[OF p0(2), of policy_tenant] by (simp add: policy_tenant_def)
  then show ?thesis
    using p0(1) by (simp add: validate_project_policy_def tenant_valid_def policy_tenant_def res_bind_Inr_iff)
qed

lemma policy_tenant_fail_closed [simp]: "policy_tenant (fail_closed t) = t"
  by (simp add: policy_tenant_def fail_closed_def)

text \<open>
  C32: Tenants are isolated. In every run of the governance store the policy in force for a tenant is one
  made for exactly that tenant: the fail-closed default, or a stored policy that names the tenant and
  was approved by two administrators. Applying an approved policy gives it to the tenant it names and
  leaves every other tenant with the policy it had.
\<close>

theorem policy_tenant_isolation:
  assumes "governance_reachable codec s" "tenant_valid t"
  shows "policy_tenant (effective_policy (run_store s) t) = t \<and>
    (effective_policy (run_store s) t = fail_closed t \<or>
     (\<exists>i r. find_change (run_store s) i = Some r \<and> policy_of codec r (effective_policy (run_store s) t) \<and>
        2 \<le> card (set (approvers r)))) \<and>
    (apply_project_policy codec cas i a now now' now'' (run_store s) = (Inr p, st') \<longrightarrow>
      effective_policy st' t = (if t = policy_tenant p then p else effective_policy (run_store s) t))"
proof -
  let ?k = "policy_key (scope_organization_id t) (scope_project_id t) (scope_environment_id t)"
  let ?st = "run_store s"
  have "policy_tenant (effective_policy ?st t) = t \<and> (effective_policy ?st t = fail_closed t \<or>
     (\<exists>i r. find_change ?st i = Some r \<and> policy_of codec r (effective_policy ?st t) \<and> 2 \<le> card (set (approvers r))))"
  proof (cases "map_of (project_policies (gs_inner ?st)) ?k")
    case None
    then show ?thesis by (simp add: effective_policy_def)
  next
    case (Some q)
    then obtain i r where r: "?k = project_policy_key q" "find_change ?st i = Some r" "settled r" "policy_of codec r q"
      "request_ok r"
      using reachable_inv[OF assms(1)] unfolding run_inv_def policies_ok_def requests_ok_def by metis
    then have "t = policy_tenant q" using tenant_key_eq[OF assms(2) policy_of_tenant_valid[OF r(4)]] by simp
    moreover have "2 \<le> card (set (approvers r))" using r(3,5) by (simp add: request_ok_def distinct_card)
    ultimately show ?thesis using Some r by (auto simp: effective_policy_def)
  qed
  moreover have "effective_policy st' t = (if t = policy_tenant p then p else effective_policy ?st t)"
    if "apply_project_policy codec cas i a now now' now'' ?st = (Inr p, st')"
    using apply_project_policy_Inr[OF that] tenant_key_eq[OF assms(2)] by (simp add: effective_policy_def)
  ultimately show ?thesis by blast
qed

section \<open>Applying a change twice\<close>



section \<open>Boundaries by name\<close>

text \<open>
  The boundary of a provider goes by its identifier before its address: a provider named \<^verbatim>\<open>local_...\<close> at a
  public address passes the URL policy and counts as local, so data of every classification may be
  sent to it.
\<close>

definition ex_local :: ResolvedProvider where
  "ex_local =
    \<lparr>rp_provider_id = ''local_x'', rp_provider = ex_provider ''https://api.example.com/v1'' ''m1'',
     rp_model = ''m1''\<rparr>"

lemma public_provider_counts_as_local:
  "validate_provider_base_url_policy ex_parse_url (\<lambda>_. None) (rp_provider_id ex_local)
     (pc_base_url (rp_provider ex_local)) False = Inr () \<and>
   url_host ex_parse_url (pc_base_url (rp_provider ex_local)) = Some ''api.example.com'' \<and>
   govern_request ex_parse_url (fail_closed legacy_local) (Some ''sensitive'') None (Inr [ex_local]) =
     Inr [ex_local]"
proof -
  have host: "plain_host ''api.example.com'' = ''api.example.com''" "parse_ip ''api.example.com'' = None"
    "\<not> eq_ignore_ascii_case ''api.example.com'' ''localhost''"
    by (simp_all add: plain_host_def trim_end_char_def ip_reader_defs eq_ignore_ascii_case_def
        to_ascii_lowercase_def)
  have "classification_parse ''sensitive'' = Some Sensitive" by code_simp
  moreover have "for_resolved ex_parse_url ex_local = Local" by (simp add: for_resolved_def ex_local_def)
  moreover have "matches_policy [''local''] ''local''" by (simp add: matches_policy_def)
  ultimately show ?thesis
    using host
    by (simp add: validate_provider_base_url_policy_def ex_local_def ex_provider_def ex_parse_url_def
        check_url_parts_def ex_url_def check_private_host_def url_host_def)
      (simp add: govern_request_def request_classification_def requested_hybrid_mode_def effective_mode_def
        forces_local_def authorized_attempts_def order_attempts_def enforce_attempt_def fail_closed_def
        allow_listed_def provider_governance_metadata_def)
qed

section \<open>Examples\<close>

definition ex_ollama :: ResolvedProvider where
  "ex_ollama =
    \<lparr>rp_provider_id = ''ollama'', rp_provider = ex_provider ''http://127.0.0.1:11434/v1'' ''llama3.1'',
     rp_model = ''llama3.1''\<rparr>"

lemma ex_governed:
  "govern_request ex_parse_url (fail_closed legacy_local) None None (Inr [ex_ollama]) = Inr [ex_ollama]"
proof -
  have "for_resolved ex_parse_url ex_ollama = Local" by (simp add: for_resolved_def ex_ollama_def)
  moreover have "matches_policy [''local''] ''local''" by (simp add: matches_policy_def)
  ultimately show ?thesis
    by (simp add: govern_request_def request_classification_def requested_hybrid_mode_def effective_mode_def
        forces_local_def authorized_attempts_def order_attempts_def enforce_attempt_def fail_closed_def
        allow_listed_def provider_governance_metadata_def)
qed

theorem cloud_egress_governed_witness:
  "policy_admits ex_parse_url (fail_closed legacy_local) ex_ollama"
  using cloud_egress_governed[OF ex_governed] by auto

definition ex_project :: ProjectPolicy where
  "ex_project = (fail_closed legacy_local)\<lparr>pp_cloud_enabled := True, pp_maximum_mode := LocalFirst\<rparr>"

definition ex_codec :: json_codec where
  "ex_codec = \<lparr>to_vec = (\<lambda>_. Inr ''{}''), sha256_hex = (\<lambda>s. s), policy_from_value = (\<lambda>_. Inr ex_project)\<rparr>"

definition ex_input :: ChangeRequestInput where
  "ex_input =
    \<lparr>ci_action = ''project_policy.upsert'', ci_target = ''org_local'', ci_payload = JObject [],
     ci_reason = ''enable the cloud''\<rparr>"

definition ex_cas :: cas where
  "ex_cas revision doc = Inr (revision + 1)"

definition ex_change :: ChangeRequest where
  "ex_change =
    \<lparr>cr_id = ''chg_1'', cr_action = ''project_policy.upsert'', cr_target = ''org_local'',
     cr_payload = JObject [], cr_payload_sha256 = ''{}'', cr_reason = ''enable the cloud'',
     cr_risk = ''high'', cr_status = ''approved'', cr_requested_by = ''alice'',
     cr_requested_by_name = ''Alice'',
     cr_approvals = [\<lparr>ca_actor_id = ''alice'', ca_actor_name = ''Alice'', ca_approved_at_ms = 5\<rparr>,
       \<lparr>ca_actor_id = ''bob'', ca_actor_name = ''Bob'', ca_approved_at_ms = 6\<rparr>],
     cr_created_at_ms = 5, cr_updated_at_ms = 7, cr_applied_at_ms = None\<rparr>"

definition ex_store :: GovernanceStore where
  "ex_store =
    \<lparr>gs_store = True, gs_inner = \<lparr>project_policies = [], change_requests = [(''chg_1'', ex_change)]\<rparr>,
     gs_revision = 2, gs_persistence_degraded = False\<rparr>"

lemma ex_reasons:
  "trim ''enable the cloud'' = ''enable the cloud''" "trim ''org_local'' = ''org_local''"
  "trim ''local'' = ''local''"
  by code_simp+

lemma ex_store_reached:
  "snd (approve_change_request ex_cas 6 7 ''chg_1'' ''bob'' ''Bob''
     (snd (create_change_request ex_codec ex_cas ''1'' 5 ''alice'' ''Alice'' ex_input
       (run_store (empty_run True))))) = ex_store"
  by (simp add: create_change_request_def new_change_def validate_change_input_def ex_input_def ex_codec_def
      supported_actions_def ex_reasons ensure_def to_vec_or_error_def payload_sha256_def empty_run_def
      save_or_restore_def ex_cas_def put_change_def approve_change_request_def approve_def ex_store_def
      ex_change_def)

lemma ex_reachable_run: "governance_reachable ex_codec ((empty_run True)\<lparr>run_store := ex_store\<rparr>)"
proof -
  let ?s1 = "(empty_run True)\<lparr>run_store := snd (create_change_request ex_codec ex_cas ''1'' 5 ''alice'' ''Alice''
      ex_input (run_store (empty_run True)))\<rparr>"
  have created: "governance_step ex_codec (empty_run True) ?s1"
    by (rule governance_step.create) (simp add: empty_run_def)
  have "governance_step ex_codec ?s1 (?s1\<lparr>run_store :=
      snd (approve_change_request ex_cas 6 7 ''chg_1'' ''bob'' ''Bob'' (run_store ?s1))\<rparr>)"
    by (rule governance_step.approve)
  then have "governance_step ex_codec ?s1 ((empty_run True)\<lparr>run_store := ex_store\<rparr>)"
    by (simp add: ex_store_reached)
  then show ?thesis
    using created by (meson converse_rtranclp_into_rtranclp r_into_rtranclp)
qed

theorem two_person_rule_witness: "2 \<le> card (set (approvers ex_change))"
  using two_person_rule[OF ex_reachable_run] by (simp add: ex_store_def ex_change_def)

lemma ex_applied:
  "\<exists>st' p. apply_project_policy ex_codec ex_cas ''chg_1'' ''carol'' 8 9 10 ex_store = (Inr p, st') \<and>
     p = ex_project\<lparr>pp_updated_by := ''carol'', pp_updated_at_ms := 8\<rparr>"
  by (simp add: apply_project_policy_def approved_policy_def approved_change_def require_approved_def
      ex_store_def ex_change_def ex_codec_def ensure_def validate_project_policy_def ex_project_def
      fail_closed_def legacy_local_def valid_tenant_identifier_def install_policy_def save_or_restore_def
      ex_cas_def is_ascii_alphanumeric_def is_ascii_alphabetic_def is_ascii_lowercase_def ex_reasons)

theorem policy_tenant_isolation_witness:
  "\<exists>st'. effective_policy st' legacy_local =
     ex_project\<lparr>pp_updated_by := ''carol'', pp_updated_at_ms := 8\<rparr>"
proof -
  let ?p = "ex_project\<lparr>pp_updated_by := ''carol'', pp_updated_at_ms := 8\<rparr>"
  obtain st' where "apply_project_policy ex_codec ex_cas ''chg_1'' ''carol'' 8 9 10 ex_store = (Inr ?p, st')"
    using ex_applied by blast
  moreover have "tenant_valid legacy_local"
    by (simp add: tenant_valid_def legacy_local_def valid_tenant_identifier_def is_ascii_alphanumeric_def
        is_ascii_alphabetic_def is_ascii_lowercase_def)
  ultimately show ?thesis
    using policy_tenant_isolation[OF ex_reachable_run, of legacy_local ex_cas "''chg_1''" "''carol''" 8 9 10 ?p st']
    by (auto simp: policy_tenant_def ex_project_def fail_closed_def legacy_local_def)
qed



end
