(* ===== verification/Scheduler.thy ===== *)
theory Scheduler
  imports Governance
begin

text \<open>
  The scheduler of local execution, \<^verbatim>\<open>src/src/governance.rs\<close>: one execution permit, an interactive and a
  batch queue, per-user and global limits. Requests run concurrently; a step of the model is one atomic
  action of one request, a critical section of the mutex or one operation on the semaphore or on a
  notification, in the order in which \<^verbatim>\<open>acquire\<close> and the lease's \<^verbatim>\<open>drop\<close> perform them. The fast path gives
  its permit back while it still holds the mutex; here that is a step of its own, \<open>FastDrop\<close>, which
  allows more interleavings than the code has.

  Times are milliseconds. The clock reading of a step is arbitrary. A queued request's notification
  is the number of the process waiting on it; it stores at most one wake-up.
\<close>

section \<open>Configuration and state\<close>

record LocalSchedulerConfig =
  lc_executing_per_user :: nat
  lc_queued_per_user :: nat
  lc_global_interactive_queue :: nat
  lc_global_batch_queue :: nat
  lc_overflow_after :: nat
  lc_strict_wait :: nat

definition env_number :: "env \<Rightarrow> string \<Rightarrow> nat \<Rightarrow> nat" where
  "env_number process name dflt =
     (case Option.bind (process name) (parse_uint u64_max) of Some n \<Rightarrow> n | None \<Rightarrow> dflt)"

definition scheduler_config_from_env :: "env \<Rightarrow> LocalSchedulerConfig result" where
  "scheduler_config_from_env process =
     (let config =
        \<lparr>lc_executing_per_user = env_number process ''MODELPORT_LOCAL_EXECUTING_PER_USER'' 1,
         lc_queued_per_user = env_number process ''MODELPORT_LOCAL_QUEUED_PER_USER'' 2,
         lc_global_interactive_queue = env_number process ''MODELPORT_LOCAL_QUEUE_GLOBAL'' 16,
         lc_global_batch_queue = env_number process ''MODELPORT_BATCH_QUEUE_GLOBAL'' 16,
         lc_overflow_after = 1000 * env_number process ''MODELPORT_LOCAL_OVERFLOW_AFTER_SECONDS'' 5,
         lc_strict_wait = 1000 * env_number process ''MODELPORT_LOCAL_STRICT_WAIT_SECONDS'' 60\<rparr>
      in if lc_executing_per_user config \<noteq> 1 \<or> lc_queued_per_user config \<noteq> 2 \<or>
            lc_global_interactive_queue config \<noteq> 16 \<or> lc_overflow_after config \<noteq> 5000 \<or>
            lc_strict_wait config \<noteq> 60000
         then Inl (Config (''the 40-user baseline requires local limits 1 executing / 2 queued per '' @
           ''user, global queue 16, overflow 5s, strict wait 60s''))
         else Inr config)"

record QueuedRequest =
  q_id :: nat
  q_enqueued :: nat
  q_notify :: nat

record SchedulerState =
  running_by_user :: "(string, nat) btree"
  queued_by_user :: "(string, nat) btree"
  interactive :: "QueuedRequest list"
  batch :: "QueuedRequest list"
  next_id :: nat
  service_time_ms :: nat

definition scheduler_new :: SchedulerState where
  "scheduler_new =
    \<lparr>running_by_user = [], queued_by_user = [], interactive = [], batch = [], next_id = 0,
     service_time_ms = 5000\<rparr>"

section \<open>Critical sections\<close>

definition count_of :: "(string, nat) btree \<Rightarrow> string \<Rightarrow> nat" where
  "count_of m u = unwrap_or (map_of m u) 0"

text \<open>A counter that reaches zero is removed.\<close>

definition decrement :: "string \<Rightarrow> (string, nat) btree \<Rightarrow> (string, nat) btree" where
  "decrement u m =
     (case map_of m u of
        Some n \<Rightarrow> if n - 1 = 0 then bt_remove u m else bt_insert u (n - 1) m
      | None \<Rightarrow> m)"

definition retry_after_seconds :: "nat \<Rightarrow> nat" where
  "retry_after_seconds ms = max 1 (min 60 ((ms + 999) div 1000))"

definition estimated_wait :: "WorkloadClass \<Rightarrow> SchedulerState \<Rightarrow> nat" where
  "estimated_wait c st =
     u64_mul (service_time_ms st)
       (length (interactive st) + (if c = Batch then length (batch st) else 0) +
        sum_list (map_values (running_by_user st)))"

text \<open>The fast path: the user's counter, and whether it could be raised.\<close>

definition fast_path :: "LocalSchedulerConfig \<Rightarrow> string \<Rightarrow> SchedulerState \<Rightarrow> bool \<times> SchedulerState" where
  "fast_path cfg u st =
     (let running = count_of (running_by_user st) u
      in if running < lc_executing_per_user cfg
         then (True, st\<lparr>running_by_user := bt_insert u (running + 1) (running_by_user st)\<rparr>)
         else (False, st\<lparr>running_by_user := bt_insert u running (running_by_user st)\<rparr>))"

definition queue_of :: "WorkloadClass \<Rightarrow> SchedulerState \<Rightarrow> QueuedRequest list" where
  "queue_of c st = (case c of Interactive \<Rightarrow> interactive st | Batch \<Rightarrow> batch st)"

definition set_queue :: "WorkloadClass \<Rightarrow> QueuedRequest list \<Rightarrow> SchedulerState \<Rightarrow> SchedulerState" where
  "set_queue c qs st =
     (case c of Interactive \<Rightarrow> st\<lparr>interactive := qs\<rparr> | Batch \<Rightarrow> st\<lparr>batch := qs\<rparr>)"

definition queue_limit :: "LocalSchedulerConfig \<Rightarrow> WorkloadClass \<Rightarrow> nat" where
  "queue_limit cfg c =
     (case c of Interactive \<Rightarrow> lc_global_interactive_queue cfg | Batch \<Rightarrow> lc_global_batch_queue cfg)"

definition class_name :: "WorkloadClass \<Rightarrow> string" where
  "class_name c = (case c of Interactive \<Rightarrow> ''Interactive'' | Batch \<Rightarrow> ''Batch'')"

definition may_overflow :: "HybridMode \<Rightarrow> bool \<Rightarrow> bool" where
  "may_overflow mode cloud_available \<longleftrightarrow> (mode = LocalFirst \<or> mode = HybridBalanced) \<and> cloud_available"

datatype enqueue_outcome = Rejected AppError | Overflow | Enqueued nat

definition enqueue ::
    "LocalSchedulerConfig \<Rightarrow> string \<Rightarrow> HybridMode \<Rightarrow> WorkloadClass \<Rightarrow> bool \<Rightarrow> nat \<Rightarrow> nat \<Rightarrow> SchedulerState \<Rightarrow>
     enqueue_outcome \<times> SchedulerState" where
  "enqueue cfg u mode c cloud_available now notify st =
     (let queued = count_of (queued_by_user st) u
      in if lc_queued_per_user cfg \<le> queued
         then (Rejected (RateLimited ''per-user local queue limit exceeded (2 queued)''
                 (retry_after_seconds (service_time_ms st))), st)
         else if queue_limit cfg c \<le> length (queue_of c st)
         then (if may_overflow mode cloud_available then (Overflow, st)
               else (Rejected (RateLimited (''global '' @ class_name c @ '' local queue limit exceeded'')
                       (retry_after_seconds (service_time_ms st))), st))
         else let i = u64_add (next_id st) 1
              in (Enqueued i,
                  set_queue c (queue_of c st @ [\<lparr>q_id = i, q_enqueued = now, q_notify = notify\<rparr>])
                    (st\<lparr>next_id := i, queued_by_user := bt_insert u (queued + 1) (queued_by_user st)\<rparr>)))"

definition is_front :: "LocalSchedulerConfig \<Rightarrow> nat \<Rightarrow> WorkloadClass \<Rightarrow> string \<Rightarrow> SchedulerState \<Rightarrow> bool" where
  "is_front cfg i c u st =
     (if lc_executing_per_user cfg \<le> count_of (running_by_user st) u then False
      else case c of
        Interactive \<Rightarrow> (case interactive st of q # _ \<Rightarrow> q_id q = i | [] \<Rightarrow> False)
      | Batch \<Rightarrow> interactive st = [] \<and> (case batch st of q # _ \<Rightarrow> q_id q = i | [] \<Rightarrow> False))"

fun remove_id :: "nat \<Rightarrow> QueuedRequest list \<Rightarrow> QueuedRequest list" where
  "remove_id i [] = []"
| "remove_id i (q # qs) = (if q_id q = i then qs else q # remove_id i qs)"

text \<open>The critical section of \<^verbatim>\<open>remove_queued\<close>; the notification that follows it is a step of its own.\<close>

definition remove_queued :: "nat \<Rightarrow> WorkloadClass \<Rightarrow> string \<Rightarrow> SchedulerState \<Rightarrow> SchedulerState" where
  "remove_queued i c u st =
     (set_queue c (remove_id i (queue_of c st)) st)\<lparr>queued_by_user := decrement u (queued_by_user st)\<rparr>"

text \<open>The request \<^verbatim>\<open>notify_next\<close> picks.\<close>

definition next_waiter :: "SchedulerState \<Rightarrow> nat option" where
  "next_waiter st =
     (case interactive st of
        q # _ \<Rightarrow> Some (q_notify q)
      | [] \<Rightarrow> (case batch st of q # _ \<Rightarrow> Some (q_notify q) | [] \<Rightarrow> None))"

definition add_running :: "string \<Rightarrow> SchedulerState \<Rightarrow> SchedulerState" where
  "add_running u st =
     st\<lparr>running_by_user := bt_insert u (count_of (running_by_user st) u + 1) (running_by_user st)\<rparr>"

definition drop_lease :: "string \<Rightarrow> nat \<Rightarrow> SchedulerState \<Rightarrow> SchedulerState" where
  "drop_lease u elapsed st =
     (let elapsed_ms = min elapsed u64_max
      in st\<lparr>running_by_user := decrement u (running_by_user st),
            service_time_ms :=
              (if service_time_ms st = 0 then max elapsed_ms 1
               else u64_add (u64_mul (service_time_ms st) 4) (max elapsed_ms 1) div 5)\<rparr>)"

definition oldest_wait :: "nat \<Rightarrow> QueuedRequest list \<Rightarrow> nat" where
  "oldest_wait now qs = (case qs of q # _ \<Rightarrow> now - q_enqueued q | [] \<Rightarrow> 0)"

definition scheduler_snapshot :: "LocalSchedulerConfig \<Rightarrow> nat \<Rightarrow> SchedulerState \<Rightarrow> json" where
  "scheduler_snapshot cfg now st =
     (let num = (\<lambda>n. JNumber (PosInt n))
      in JObject
        [(''running'', num (sum_list (map_values (running_by_user st)))),
         (''interactiveQueued'', num (length (interactive st))),
         (''batchQueued'', num (length (batch st))),
         (''usersQueued'', num (length (queued_by_user st))),
         (''estimatedServiceMs'', num (service_time_ms st)),
         (''oldestInteractiveWaitMs'', num (oldest_wait now (interactive st))),
         (''oldestBatchWaitMs'', num (oldest_wait now (batch st))),
         (''limits'', JObject
           [(''executingPerUser'', num (lc_executing_per_user cfg)),
            (''queuedPerUser'', num (lc_queued_per_user cfg)),
            (''globalInteractiveQueue'', num (lc_global_interactive_queue cfg)),
            (''globalBatchQueue'', num (lc_global_batch_queue cfg)),
            (''overflowAfterSeconds'', num (lc_overflow_after cfg div 1000)),
            (''strictWaitSeconds'', num (lc_strict_wait cfg div 1000))])])"

section \<open>Requests as processes\<close>

datatype LocalAdmission = Acquired | OverflowToCloud | Refused AppError

text \<open>What follows a call of \<^verbatim>\<open>notify_next\<close>.\<close>

datatype after = ThenLoop | ThenRun | ThenExpire | ThenEnd

datatype pc =
    Start
  | FastCheck
  | FastDrop
  | Estimate
  | Enqueue
  | Pick after
  | Deliver "nat option" after
  | Front
  | Try
  | Remove
  | Run
  | Deadline
  | Sleep
  | Expired
  | RetryAfter
  | Leased
  | DropState
  | DropPermit
  | Finished LocalAdmission
  | Cancelled

record proc =
  p_user :: string
  p_mode :: HybridMode
  p_class :: WorkloadClass
  p_cloud_available :: bool
  p_id :: nat
  p_token :: bool
  p_deadline :: nat
  p_started :: nat
  p_pc :: pc

record scheduler =
  sh :: SchedulerState
  permits :: nat
  procs :: "proc list"

definition after_notify :: "LocalSchedulerConfig \<Rightarrow> nat \<Rightarrow> after \<Rightarrow> proc \<Rightarrow> proc" where
  "after_notify cfg now k p =
     (case k of
        ThenLoop \<Rightarrow>
          p\<lparr>p_deadline := now + (if p_mode p = LocalStrict then lc_strict_wait cfg else lc_overflow_after cfg),
            p_pc := Front\<rparr>
      | ThenRun \<Rightarrow> p\<lparr>p_pc := Run\<rparr>
      | ThenExpire \<Rightarrow>
          p\<lparr>p_pc := (if p_mode p \<noteq> LocalStrict \<and> p_cloud_available p then Finished OverflowToCloud
                     else RetryAfter)\<rparr>
      | ThenEnd \<Rightarrow> p\<lparr>p_pc := Finished Acquired\<rparr>)"

text \<open>
  One atomic action of process \<open>i\<close>: the shared state, the free permits, the process, and the process
  whose notification is raised. A process that is asleep, holds a lease or has ended has none.
\<close>

definition act ::
    "LocalSchedulerConfig \<Rightarrow> nat \<Rightarrow> nat \<Rightarrow> SchedulerState \<Rightarrow> nat \<Rightarrow> proc \<Rightarrow>
     (SchedulerState \<times> nat \<times> proc \<times> nat option) option" where
  "act cfg now i st free p =
     (case p_pc p of
        Start \<Rightarrow>
          if 0 < free then Some (st, free - 1, p\<lparr>p_pc := FastCheck\<rparr>, None)
          else Some (st, free, p\<lparr>p_pc := Estimate\<rparr>, None)
      | FastCheck \<Rightarrow>
          (case fast_path cfg (p_user p) st of
             (True, st') \<Rightarrow> Some (st', free, p\<lparr>p_started := now, p_pc := Leased\<rparr>, None)
           | (False, st') \<Rightarrow> Some (st', free, p\<lparr>p_pc := FastDrop\<rparr>, None))
      | FastDrop \<Rightarrow> Some (st, free + 1, p\<lparr>p_pc := Estimate\<rparr>, None)
      | Estimate \<Rightarrow>
          if may_overflow (p_mode p) (p_cloud_available p) \<and>
             lc_overflow_after cfg < estimated_wait (p_class p) st
          then Some (st, free, p\<lparr>p_pc := Finished OverflowToCloud\<rparr>, None)
          else Some (st, free, p\<lparr>p_pc := Enqueue\<rparr>, None)
      | Enqueue \<Rightarrow>
          (case enqueue cfg (p_user p) (p_mode p) (p_class p) (p_cloud_available p) now i st of
             (Rejected e, st') \<Rightarrow> Some (st', free, p\<lparr>p_pc := Finished (Refused e)\<rparr>, None)
           | (Overflow, st') \<Rightarrow> Some (st', free, p\<lparr>p_pc := Finished OverflowToCloud\<rparr>, None)
           | (Enqueued n, st') \<Rightarrow>
               Some (st', free, p\<lparr>p_id := n, p_token := False, p_pc := Pick ThenLoop\<rparr>, None))
      | Pick k \<Rightarrow> Some (st, free, p\<lparr>p_pc := Deliver (next_waiter st) k\<rparr>, None)
      | Deliver target k \<Rightarrow> Some (st, free, after_notify cfg now k p, target)
      | Front \<Rightarrow>
          Some (st, free, p\<lparr>p_pc :=
            (if is_front cfg (p_id p) (p_class p) (p_user p) st then Try else Deadline)\<rparr>, None)
      | Try \<Rightarrow>
          if 0 < free then Some (st, free - 1, p\<lparr>p_pc := Remove\<rparr>, None)
          else Some (st, free, p\<lparr>p_pc := Deadline\<rparr>, None)
      | Remove \<Rightarrow>
          Some (remove_queued (p_id p) (p_class p) (p_user p) st, free, p\<lparr>p_pc := Pick ThenRun\<rparr>, None)
      | Run \<Rightarrow> Some (add_running (p_user p) st, free, p\<lparr>p_started := now, p_pc := Leased\<rparr>, None)
      | Deadline \<Rightarrow>
          Some (st, free, p\<lparr>p_pc := (if p_deadline p \<le> now then Expired else Sleep)\<rparr>, None)
      | Sleep \<Rightarrow>
          if p_token p then Some (st, free, p\<lparr>p_token := False, p_pc := Front\<rparr>, None)
          else if p_deadline p \<le> now then Some (st, free, p\<lparr>p_pc := Front\<rparr>, None)
          else None
      | Expired \<Rightarrow>
          Some (remove_queued (p_id p) (p_class p) (p_user p) st, free, p\<lparr>p_pc := Pick ThenExpire\<rparr>, None)
      | RetryAfter \<Rightarrow>
          Some (st, free, p\<lparr>p_pc := Finished (Refused (RateLimited
            ''local_strict request exceeded the 60 second local wait limit''
            (retry_after_seconds (service_time_ms st))))\<rparr>, None)
      | Leased \<Rightarrow> None
      | DropState \<Rightarrow>
          Some (drop_lease (p_user p) (now - p_started p) st, free, p\<lparr>p_pc := DropPermit\<rparr>, None)
      | DropPermit \<Rightarrow> Some (st, free + 1, p\<lparr>p_pc := Pick ThenEnd\<rparr>, None)
      | Finished _ \<Rightarrow> None
      | Cancelled \<Rightarrow> None)"

definition raise_token :: "nat option \<Rightarrow> proc list \<Rightarrow> proc list" where
  "raise_token target ps =
     (case target of
        Some j \<Rightarrow> if j < length ps then ps[j := (ps ! j)\<lparr>p_token := True\<rparr>] else ps
      | None \<Rightarrow> ps)"

definition new_proc :: "string \<Rightarrow> HybridMode \<Rightarrow> WorkloadClass \<Rightarrow> bool \<Rightarrow> proc" where
  "new_proc u mode c cloud_available =
    \<lparr>p_user = u, p_mode = mode, p_class = c, p_cloud_available = cloud_available, p_id = 0,
     p_token = False, p_deadline = 0, p_started = 0, p_pc = Start\<rparr>"

text \<open>
  The steps of the system: a request arrives, a process acts, the holder of a lease drops it, or a
  request is abandoned, which can only happen where it waits.
\<close>

inductive scheduler_step :: "LocalSchedulerConfig \<Rightarrow> scheduler \<Rightarrow> scheduler \<Rightarrow> bool" for cfg where
  arrive: "scheduler_step cfg s (s\<lparr>procs := procs s @ [new_proc u mode c cloud_available]\<rparr>)"
| act:
    "i < length (procs s) \<Longrightarrow> act cfg now i (sh s) (permits s) (procs s ! i) = Some (st', free', p', target) \<Longrightarrow>
     scheduler_step cfg s \<lparr>sh = st', permits = free', procs = raise_token target ((procs s)[i := p'])\<rparr>"
| release:
    "i < length (procs s) \<Longrightarrow> p_pc (procs s ! i) = Leased \<Longrightarrow>
     scheduler_step cfg s (s\<lparr>procs := (procs s)[i := (procs s ! i)\<lparr>p_pc := DropState\<rparr>]\<rparr>)"
| cancel:
    "i < length (procs s) \<Longrightarrow> p_pc (procs s ! i) = Sleep \<Longrightarrow>
     scheduler_step cfg s (s\<lparr>procs := (procs s)[i := (procs s ! i)\<lparr>p_pc := Cancelled\<rparr>]\<rparr>)"

definition scheduler_start :: scheduler where
  "scheduler_start = \<lparr>sh = scheduler_new, permits = 1, procs = []\<rparr>"

abbreviation scheduler_reachable :: "LocalSchedulerConfig \<Rightarrow> scheduler \<Rightarrow> bool" where
  "scheduler_reachable cfg s \<equiv> (scheduler_step cfg)\<^sup>*\<^sup>* scheduler_start s"

end
