(* ===== verification/SchedulerInvariant.thy ===== *)
theory SchedulerInvariant
  imports Scheduler
begin

text \<open>
  The invariant of the local scheduler over every interleaving: how the permit, the counters and the
  queues agree with where the processes stand.

  Request identifiers saturate at the top of their type; the invariants hold while they do not.
\<close>

section \<open>What a process accounts for\<close>

text \<open>
  The process holds the permit, is counted as running, or has an entry in its queue. A request abandoned
  while it slept still has its entry: nothing removes it.
\<close>

fun holding :: "pc \<Rightarrow> bool" where
  "holding (Pick k) = (k = ThenRun)"
| "holding (Deliver t k) = (k = ThenRun)"
| "holding FastCheck = True"
| "holding FastDrop = True"
| "holding Remove = True"
| "holding Run = True"
| "holding Leased = True"
| "holding DropState = True"
| "holding DropPermit = True"
| "holding _ = False"

fun leased :: "pc \<Rightarrow> bool" where
  "leased Leased = True"
| "leased DropState = True"
| "leased _ = False"

fun queued :: "pc \<Rightarrow> bool" where
  "queued (Pick k) = (k = ThenLoop)"
| "queued (Deliver t k) = (k = ThenLoop)"
| "queued Front = True"
| "queued Try = True"
| "queued Remove = True"
| "queued Deadline = True"
| "queued Sleep = True"
| "queued Expired = True"
| "queued Cancelled = True"
| "queued _ = False"

definition cnt :: "(proc \<Rightarrow> bool) \<Rightarrow> proc list \<Rightarrow> nat" where
  "cnt P ps = length (filter P ps)"

lemma cnt_simps [simp]: "cnt P [] = 0" "cnt P (ps @ [p]) = cnt P ps + (if P p then 1 else 0)"
  by (simp_all add: cnt_def)

lemma cnt_update:
  "i < length ps \<Longrightarrow> cnt P (ps[i := p]) + (if P (ps ! i) then 1 else 0) = cnt P ps + (if P p then 1 else 0)"
proof (induction ps arbitrary: i)
  case (Cons q ps)
  then show ?case by (cases i) (auto simp: cnt_def)
qed simp

lemma cnt_pos: "i < length ps \<Longrightarrow> P (ps ! i) \<Longrightarrow> 0 < cnt P ps"
  by (auto simp: cnt_def filter_empty_conv)

lemma cnt_two:
  assumes "cnt P ps \<le> 1" "i < length ps" "j < length ps" "P (ps ! i)" "P (ps ! j)"
  shows "i = j"
proof (rule ccontr)
  assume "i \<noteq> j"
  have "{i, j} \<subseteq> {k. k < length ps \<and> P (ps ! k)}" using assms by auto
  then have "card {i, j} \<le> card {k. k < length ps \<and> P (ps ! k)}" by (intro card_mono) auto
  then show False
    using \<open>i \<noteq> j\<close> assms(1) by (simp add: cnt_def length_filter_conv_card)
qed

lemma raise_token_nth:
  "j < length ps \<Longrightarrow> raise_token t ps ! j =
     (if t = Some j then (ps ! j)\<lparr>p_token := True\<rparr> else ps ! j)"
  "length (raise_token t ps) = length ps"
  by (auto simp: raise_token_def split: option.splits)

lemma cnt_raise: "(\<And>p. P (p\<lparr>p_token := True\<rparr>) = P p) \<Longrightarrow> cnt P (raise_token t ps) = cnt P ps"
  using cnt_update[of "the t" ps P "(ps ! the t)\<lparr>p_token := True\<rparr>"]
  by (auto simp: raise_token_def split: option.splits if_splits)

section \<open>Counters\<close>

definition counters_ok :: "(string, nat) btree \<Rightarrow> (proc \<Rightarrow> bool) \<Rightarrow> proc list \<Rightarrow> bool" where
  "counters_ok m P ps \<longleftrightarrow> bt_sorted m \<and> (\<forall>u. count_of m u = cnt (\<lambda>p. P p \<and> p_user p = u) ps)"

lemma count_of_insert [simp]: "count_of (bt_insert u n m) v = (if v = u then n else count_of m v)"
  by (simp add: count_of_def)

lemma count_of_decrement [simp]:
  "bt_sorted m \<Longrightarrow> count_of (decrement u m) v = (if v = u then count_of m u - 1 else count_of m v)"
  using bt_sorted_distinct[of m]
  by (cases "map_of m u"; cases "the (map_of m u) - 1 = 0") (simp_all add: decrement_def count_of_def)

lemma bt_sorted_decrement [simp]: "bt_sorted m \<Longrightarrow> bt_sorted (decrement u m)"
  by (auto simp: decrement_def split: option.splits)

text \<open>The change one action makes to a counter, and that it keeps the counters exact.\<close>

definition counter_moves :: "(string, nat) btree \<Rightarrow> (string, nat) btree \<Rightarrow> (pc \<Rightarrow> bool) \<Rightarrow> proc \<Rightarrow> proc \<Rightarrow> bool" where
  "counter_moves m m' P p p' \<longleftrightarrow>
     p_user p' = p_user p \<and> bt_sorted m' \<and>
     (\<forall>u. count_of m' u + (if P (p_pc p) \<and> p_user p = u then 1 else 0) =
          count_of m u + (if P (p_pc p') \<and> p_user p = u then 1 else 0))"

lemma counters_ok_move:
  assumes "counters_ok m (\<lambda>p. P (p_pc p)) ps" "i < length ps" "counter_moves m m' P (ps ! i) p'"
  shows "counters_ok m' (\<lambda>p. P (p_pc p)) (raise_token t (ps[i := p']))"
proof -
  have "count_of m' u = cnt (\<lambda>p. P (p_pc p) \<and> p_user p = u) (raise_token t (ps[i := p']))" for u
  proof -
    let ?Q = "\<lambda>p. P (p_pc p) \<and> p_user p = u"
    have "cnt ?Q (raise_token t (ps[i := p'])) = cnt ?Q (ps[i := p'])"
      by (rule cnt_raise) simp
    moreover have "count_of m u = cnt ?Q ps"
      using assms(1) by (simp add: counters_ok_def)
    moreover have "count_of m' u + (if ?Q (ps ! i) then 1 else 0) = count_of m u + (if ?Q p' then 1 else 0)"
      using assms(3) by (simp add: counter_moves_def)
    ultimately show ?thesis
      using cnt_update[OF assms(2), of ?Q p'] by linarith
  qed
  then show ?thesis using assms(3) by (simp add: counters_ok_def counter_moves_def)
qed

lemma counters_ok_pos:
  "counters_ok m (\<lambda>p. P (p_pc p)) ps \<Longrightarrow> i < length ps \<Longrightarrow> P (p_pc (ps ! i)) \<Longrightarrow> 0 < count_of m (p_user (ps ! i))"
  using cnt_pos[of i ps "\<lambda>p. P (p_pc p) \<and> p_user p = p_user (ps ! i)"] by (simp add: counters_ok_def)

lemma set_queue_fields [simp]:
  "running_by_user (set_queue c qs st) = running_by_user st"
  "queued_by_user (set_queue c qs st) = queued_by_user st"
  "next_id (set_queue c qs st) = next_id st"
  "queue_of d (set_queue c qs st) = (if d = c then qs else queue_of d st)"
  by (auto simp: set_queue_def queue_of_def split: WorkloadClass.splits)

lemmas act_defs =
  act_def fast_path_def enqueue_def remove_queued_def add_running_def drop_lease_def after_notify_def Let_def

lemmas act_splits = if_splits bool.splits prod.splits enqueue_outcome.splits after.splits

lemma act_permits:
  assumes "act cfg now i st free p = Some (st', free', p', t)"
  shows "free' + (if holding (p_pc p') then 1 else 0) = free + (if holding (p_pc p) then 1 else 0)"
  using assms by (cases "p_pc p") (auto simp: act_defs split: act_splits)

lemma act_running:
  assumes "act cfg now i st free p = Some (st', free', p', t)" "bt_sorted (running_by_user st)"
    "leased (p_pc p) \<Longrightarrow> 0 < count_of (running_by_user st) (p_user p)"
  shows "counter_moves (running_by_user st) (running_by_user st') leased p p'"
  using assms by (cases "p_pc p") (auto simp: act_defs counter_moves_def split: act_splits)

lemma act_queued:
  assumes "act cfg now i st free p = Some (st', free', p', t)" "bt_sorted (queued_by_user st)"
    "queued (p_pc p) \<Longrightarrow> 0 < count_of (queued_by_user st) (p_user p)"
  shows "counter_moves (queued_by_user st) (queued_by_user st') queued p p'"
  using assms by (cases "p_pc p") (auto simp: act_defs counter_moves_def split: act_splits)

section \<open>Queues\<close>

text \<open>The entries of the queues and the processes that wait, as sets of class, identifier and process.\<close>

definition entries :: "SchedulerState \<Rightarrow> (WorkloadClass \<times> nat \<times> nat) set" where
  "entries st = {(c, q_id q, q_notify q) | c q. q \<in> set (queue_of c st)}"

definition own :: "nat \<Rightarrow> proc \<Rightarrow> (WorkloadClass \<times> nat \<times> nat) set" where
  "own i p = (if queued (p_pc p) then {(p_class p, p_id p, i)} else {})"

definition waiting :: "proc list \<Rightarrow> (WorkloadClass \<times> nat \<times> nat) set" where
  "waiting ps = (\<Union>i<length ps. own i (ps ! i))"

definition ids :: "SchedulerState \<Rightarrow> nat list" where
  "ids st = map q_id (queue_of Interactive st @ queue_of Batch st)"

definition ids_ok :: "SchedulerState \<Rightarrow> bool" where
  "ids_ok st \<longleftrightarrow> distinct (ids st) \<and> (\<forall>n\<in>set (ids st). n \<le> next_id st)"

definition within_limits :: "LocalSchedulerConfig \<Rightarrow> SchedulerState \<Rightarrow> bool" where
  "within_limits cfg st \<longleftrightarrow>
     (\<forall>c. length (queue_of c st) \<le> queue_limit cfg c) \<and>
     (\<forall>u. count_of (queued_by_user st) u \<le> lc_queued_per_user cfg)"

lemma entries_other [simp]:
  "entries (st\<lparr>running_by_user := r\<rparr>) = entries st" "ids (st\<lparr>running_by_user := r\<rparr>) = ids st"
  "entries (st\<lparr>service_time_ms := t\<rparr>) = entries st" "ids (st\<lparr>service_time_ms := t\<rparr>) = ids st"
  by (auto simp: entries_def ids_def queue_of_def split: WorkloadClass.splits)

lemma queue_of_other [simp]:
  "queue_of c (st\<lparr>running_by_user := r\<rparr>) = queue_of c st"
  "queue_of c (st\<lparr>service_time_ms := t\<rparr>) = queue_of c st"
  "queue_of c (st\<lparr>queued_by_user := m\<rparr>) = queue_of c st"
  "queue_of c (st\<lparr>next_id := n\<rparr>) = queue_of c st"
  by (auto simp: queue_of_def split: WorkloadClass.splits)

lemma waiting_update:
  assumes "i < length ps"
  shows "waiting (ps[i := p]) = {e \<in> waiting ps. snd (snd e) \<noteq> i} \<union> own i p"
  using assms by (auto simp: waiting_def own_def nth_list_update split: if_splits)

lemma waiting_raise: "waiting (raise_token t ps) = waiting ps"
  by (auto simp: waiting_def own_def raise_token_nth split: if_splits)

lemma waiting_snoc: "waiting (ps @ [p]) = waiting ps \<union> own (length ps) p"
  by (auto simp: waiting_def own_def nth_append less_Suc_eq split: if_splits)

lemma in_entries: "(c, n, j) \<in> entries st \<longleftrightarrow> (\<exists>q\<in>set (queue_of c st). q_id q = n \<and> q_notify q = j)"
  by (auto simp: entries_def)

lemma class_cases: "(c :: WorkloadClass) = Interactive \<or> c = Batch"
  by (cases c) auto

lemma queue_unique:
  assumes "distinct (ids st)" "q \<in> set (queue_of c st)" "q' \<in> set (queue_of c' st)" "q_id q = q_id q'"
  shows "c = c' \<and> q = q'"
  using assms by (cases c; cases c') (auto simp: ids_def inj_on_def distinct_map)

lemma entries_unique:
  "distinct (ids st) \<Longrightarrow> (c, n, j) \<in> entries st \<Longrightarrow> (c', n, j') \<in> entries st \<Longrightarrow> c = c' \<and> j = j'"
  by (auto simp: in_entries dest: queue_unique)

lemma remove_id_filter: "distinct (map q_id qs) \<Longrightarrow> remove_id n qs = filter (\<lambda>q. q_id q \<noteq> n) qs"
  by (induction qs) (auto intro!: filter_True[symmetric] simp: image_iff)

lemma ids_queue: "ids_ok st \<Longrightarrow> distinct (map q_id (queue_of c st))"
  by (cases c) (auto simp: ids_ok_def ids_def)

lemma remove_queued_entries:
  assumes "ids_ok st" "(c, n, j) \<in> entries st"
  shows "entries (remove_queued n c u st) = entries st - {(c, n, j)}" "ids_ok (remove_queued n c u st)"
    "next_id (remove_queued n c u st) = next_id st"
proof -
  let ?st = "remove_queued n c u st"
  have q: "queue_of d ?st = (if d = c then filter (\<lambda>q. q_id q \<noteq> n) (queue_of c st) else queue_of d st)" for d
    using remove_id_filter[OF ids_queue[OF assms(1)]]
    by (auto simp: remove_queued_def)
  show "entries ?st = entries st - {(c, n, j)}"
  proof (intro set_eqI)
    fix e :: "WorkloadClass \<times> nat \<times> nat"
    obtain d m k where e: "e = (d, m, k)" by (cases e) auto
    show "e \<in> entries ?st \<longleftrightarrow> e \<in> entries st - {(c, n, j)}"
    proof (cases "d = c \<and> m = n")
      case True
      then show ?thesis
        using entries_unique[of st c n j c k] assms by (auto simp: e in_entries[of _ _ _ ?st] q ids_ok_def)
    next
      case False
      then show ?thesis by (auto simp: e in_entries q)
    qed
  qed
  show n: "next_id ?st = next_id st" by (simp add: remove_queued_def)
  have "set (ids ?st) \<subseteq> set (ids st)" by (auto simp: ids_def q)
  moreover have "distinct (ids ?st)"
    using assms(1) q[of Interactive] q[of Batch] by (cases c) (auto simp: ids_ok_def ids_def distinct_map_filter)
  ultimately show "ids_ok ?st" using assms(1) by (auto simp: ids_ok_def n)
qed

lemma enqueue_entries:
  assumes "enqueue cfg u mode c cloud now j st = (Enqueued n, st')" "ids_ok st" "next_id st' < u64_max"
  shows "entries st' = entries st \<union> {(c, n, j)}" "ids_ok st'" "n = next_id st + 1" "next_id st' = n"
    "length (queue_of c st) < queue_limit cfg c" "length (queue_of c st') = length (queue_of c st) + 1"
    "d \<noteq> c \<Longrightarrow> queue_of d st' = queue_of d st" "count_of (queued_by_user st) u < lc_queued_per_user cfg"
proof -
  have st': "st' = set_queue c (queue_of c st @ [\<lparr>q_id = n, q_enqueued = now, q_notify = j\<rparr>])
        (st\<lparr>next_id := n, queued_by_user := bt_insert u (count_of (queued_by_user st) u + 1) (queued_by_user st)\<rparr>)"
    "n = u64_add (next_id st) 1" "length (queue_of c st) < queue_limit cfg c"
    "count_of (queued_by_user st) u < lc_queued_per_user cfg"
    using assms(1) by (auto simp: enqueue_def Let_def split: if_splits)
  have q: "queue_of d st' =
      (if d = c then queue_of c st @ [\<lparr>q_id = n, q_enqueued = now, q_notify = j\<rparr>] else queue_of d st)" for d
    by (auto simp: st'(1))
  show n: "next_id st' = n" by (simp add: st'(1))
  show n': "n = next_id st + 1"
    using assms(3) n st'(2) by (auto simp: u64_add_def min_def split: if_splits)
  show "entries st' = entries st \<union> {(c, n, j)}"
  proof (intro set_eqI)
    fix e :: "WorkloadClass \<times> nat \<times> nat"
    obtain d m k where e: "e = (d, m, k)" by (cases e) auto
    show "e \<in> entries st' \<longleftrightarrow> e \<in> entries st \<union> {(c, n, j)}" by (auto simp: e in_entries q)
  qed
  have "n \<notin> set (ids st)" using assms(2) n' by (auto simp: ids_ok_def)
  then show "ids_ok st'"
    using assms(2) n n' q[of Interactive] q[of Batch] by (cases c) (auto simp: ids_ok_def ids_def le_Suc_eq)
  show "length (queue_of c st) < queue_limit cfg c" "length (queue_of c st') = length (queue_of c st) + 1"
    "d \<noteq> c \<Longrightarrow> queue_of d st' = queue_of d st" "count_of (queued_by_user st) u < lc_queued_per_user cfg"
    using st' by (simp_all add: q)
qed

lemma remove_queued_queue:
  "length (queue_of d (remove_queued n c u st)) \<le> length (queue_of d st)"
proof -
  have "length (remove_id n qs) \<le> length qs" for qs by (induction qs) auto
  then show ?thesis by (simp add: remove_queued_def)
qed

text \<open>What an action does to the queues: the process's own entry comes or goes with its waiting.\<close>

definition queue_moves :: "nat \<Rightarrow> SchedulerState \<Rightarrow> SchedulerState \<Rightarrow> proc \<Rightarrow> proc \<Rightarrow> bool" where
  "queue_moves i st st' p p' \<longleftrightarrow>
     entries st' = (entries st - own i p) \<union> own i p' \<and> ids_ok st' \<and> next_id st \<le> next_id st'"

lemma act_queue:
  assumes "act cfg now i st free p = Some (st', free', p', t)" "ids_ok st" "next_id st' < u64_max"
    "own i p \<subseteq> entries st"
  shows "queue_moves i st st' p p'"
proof (cases "p_pc p \<in> {Enqueue, Remove, Expired}")
  case False
  then have "own i p' = own i p" "entries st' = entries st" "ids_ok st' \<longleftrightarrow> ids_ok st" "next_id st' = next_id st"
    using assms(1) by (cases "p_pc p"; auto simp: act_defs own_def ids_ok_def split: act_splits)+
  then show ?thesis using assms(2,4) by (auto simp: queue_moves_def)
next
  case True
  then consider "p_pc p = Enqueue" | "p_pc p \<in> {Remove, Expired}" by auto
  then show ?thesis
  proof cases
    case 1
    show ?thesis
    proof (cases "\<exists>n. p_pc p' = Pick ThenLoop")
      case True
      then obtain n where n: "enqueue cfg (p_user p) (p_mode p) (p_class p) (p_cloud_available p) now i st = (Enqueued n, st')"
        and p': "p' = p\<lparr>p_id := n, p_token := False, p_pc := Pick ThenLoop\<rparr>"
        using assms(1) 1 by (auto simp: act_def split: prod.splits enqueue_outcome.splits)
      show ?thesis
        using enqueue_entries(1-4)[OF n assms(2,3)] 1 by (simp add: queue_moves_def own_def p')
    next
      case False
      then have "st' = st" "\<not> queued (p_pc p')"
        using assms(1) 1 by (auto simp: act_def enqueue_def Let_def split: prod.splits enqueue_outcome.splits if_splits)
      then show ?thesis using assms(2) 1 by (auto simp: queue_moves_def own_def)
    qed
  next
    case 2
    then have "st' = remove_queued (p_id p) (p_class p) (p_user p) st" "own i p' = {}"
      "own i p = {(p_class p, p_id p, i)}"
      using assms(1) by (auto simp: act_def own_def)
    then show ?thesis
      using remove_queued_entries[OF assms(2)] assms(4) by (simp add: queue_moves_def)
  qed
qed

lemma act_limits:
  assumes "act cfg now i st free p = Some (st', free', p', t)" "ids_ok st" "next_id st' < u64_max"
    "within_limits cfg st" "bt_sorted (queued_by_user st)"
  shows "within_limits cfg st'"
proof (cases "p_pc p = Enqueue \<and> p_pc p' = Pick ThenLoop")
  case True
  then obtain n where n: "enqueue cfg (p_user p) (p_mode p) (p_class p) (p_cloud_available p) now i st = (Enqueued n, st')"
    using assms(1) by (auto simp: act_def split: prod.splits enqueue_outcome.splits)
  have "count_of (queued_by_user st') u \<le> lc_queued_per_user cfg" for u
    using n assms(4) by (auto simp: enqueue_def Let_def within_limits_def split: if_splits)
  moreover have "length (queue_of c st') \<le> queue_limit cfg c" for c
    using enqueue_entries(5,6)[OF n assms(2,3)] enqueue_entries(7)[OF n assms(2,3), of c] assms(4)
    by (cases "c = p_class p") (auto simp: within_limits_def)
  ultimately show ?thesis by (simp add: within_limits_def)
next
  case False
  then have q: "length (queue_of c st') \<le> length (queue_of c st)" for c
    using assms(1) remove_queued_queue[of c "p_id p" "p_class p" "p_user p" st]
    by (cases "p_pc p"; auto simp: act_defs split: act_splits)
  have "count_of (queued_by_user st') u \<le> count_of (queued_by_user st) u" for u
    using assms(1,5) False by (cases "p_pc p"; auto simp: act_defs split: act_splits)
  then show ?thesis using q assms(4) unfolding within_limits_def by (meson le_trans)
qed

section \<open>The invariant\<close>

definition scheduler_inv :: "LocalSchedulerConfig \<Rightarrow> scheduler \<Rightarrow> bool" where
  "scheduler_inv cfg s \<longleftrightarrow>
     permits s + cnt (\<lambda>p. holding (p_pc p)) (procs s) = 1 \<and>
     counters_ok (running_by_user (sh s)) (\<lambda>p. leased (p_pc p)) (procs s) \<and>
     counters_ok (queued_by_user (sh s)) (\<lambda>p. queued (p_pc p)) (procs s) \<and>
     entries (sh s) = waiting (procs s) \<and> ids_ok (sh s) \<and> within_limits cfg (sh s)"

lemma scheduler_inv_start: "scheduler_inv cfg scheduler_start"
  by (auto simp: scheduler_inv_def scheduler_start_def scheduler_new_def counters_ok_def entries_def waiting_def
      ids_ok_def ids_def within_limits_def queue_of_def count_of_def split: WorkloadClass.splits)

lemma own_waiting: "i < length ps \<Longrightarrow> own i (ps ! i) \<subseteq> waiting ps"
  by (auto simp: waiting_def)

lemma waiting_not_own: "i < length ps \<Longrightarrow> {e \<in> waiting ps. snd (snd e) \<noteq> i} = waiting ps - own i (ps ! i)"
  by (auto simp: waiting_def own_def split: if_splits)

lemma scheduler_inv_act:
  assumes inv: "scheduler_inv cfg s" and i: "i < length (procs s)"
    and a: "act cfg now i (sh s) (permits s) (procs s ! i) = Some (st', free', p', t)"
    and n: "next_id st' < u64_max"
  shows "scheduler_inv cfg \<lparr>sh = st', permits = free', procs = raise_token t ((procs s)[i := p'])\<rparr>"
proof -
  let ?p = "procs s ! i" and ?ps = "raise_token t ((procs s)[i := p'])"
  have run0: "counters_ok (running_by_user (sh s)) (\<lambda>p. leased (p_pc p)) (procs s)"
    and que0: "counters_ok (queued_by_user (sh s)) (\<lambda>p. queued (p_pc p)) (procs s)"
    using inv by (simp_all add: scheduler_inv_def)
  have run: "counters_ok (running_by_user st') (\<lambda>p. leased (p_pc p)) ?ps"
    using run0 act_running[OF a _ counters_ok_pos[OF run0 i]]
    by (intro counters_ok_move[OF _ i]) (auto simp: counters_ok_def)
  have que: "counters_ok (queued_by_user st') (\<lambda>p. queued (p_pc p)) ?ps"
    using que0 act_queued[OF a _ counters_ok_pos[OF que0 i]]
    by (intro counters_ok_move[OF _ i]) (auto simp: counters_ok_def)
  have "cnt (\<lambda>p. holding (p_pc p)) ?ps = cnt (\<lambda>p. holding (p_pc p)) ((procs s)[i := p'])"
    by (rule cnt_raise) simp
  then have hold: "free' + cnt (\<lambda>p. holding (p_pc p)) ?ps = 1"
    using inv act_permits[OF a] cnt_update[OF i, of "\<lambda>p. holding (p_pc p)" p']
    unfolding scheduler_inv_def by linarith
  have moves: "queue_moves i (sh s) st' ?p p'"
    using inv own_waiting[OF i] by (intro act_queue[OF a _ n]) (auto simp: scheduler_inv_def)
  have "waiting ?ps = entries st'"
    using inv moves waiting_update[OF i, of p'] waiting_not_own[OF i]
    by (simp add: waiting_raise scheduler_inv_def queue_moves_def)
  then show ?thesis
    using run que hold moves act_limits[OF a _ n] inv
    by (simp add: scheduler_inv_def queue_moves_def counters_ok_def)
qed

lemma act_next_id:
  "act cfg now i st free p = Some (st', free', p', t) \<Longrightarrow> next_id st' < u64_max \<Longrightarrow> next_id st < u64_max"
  by (cases "p_pc p") (auto simp: act_defs u64_add_def min_def split: act_splits)

lemma cnt_cong:
  assumes "i < length ps" "P p = P (ps ! i)"
  shows "cnt P (ps[i := p]) = cnt P ps"
  using cnt_update[OF assms(1), of P p] assms(2) by simp

text \<open>A process that changes nothing but its position, where neither position accounts differently.\<close>

lemma scheduler_inv_repoint:
  assumes "scheduler_inv cfg s" "i < length (procs s)"
    "holding k = holding (p_pc (procs s ! i))" "leased k = leased (p_pc (procs s ! i))"
    "queued k = queued (p_pc (procs s ! i))"
  shows "scheduler_inv cfg (s\<lparr>procs := (procs s)[i := (procs s ! i)\<lparr>p_pc := k\<rparr>]\<rparr>)"
proof -
  let ?p = "(procs s ! i)\<lparr>p_pc := k\<rparr>"
  have "own i ?p = own i (procs s ! i)" by (simp add: own_def assms(5))
  then have "waiting ((procs s)[i := ?p]) = waiting (procs s)"
    using waiting_update[OF assms(2), of ?p] waiting_not_own[OF assms(2)] own_waiting[OF assms(2)] by auto
  then show ?thesis
    using assms by (simp add: scheduler_inv_def counters_ok_def cnt_cong)
qed

lemma scheduler_inv_step:
  assumes "scheduler_step cfg s s'" "scheduler_inv cfg s" "next_id (sh s') < u64_max"
  shows "scheduler_inv cfg s'"
  using assms(1)
proof cases
  case (arrive u mode c cloud)
  have "own (length (procs s)) (new_proc u mode c cloud) = {}" by (simp add: own_def new_proc_def)
  then show ?thesis
    using assms(2) arrive by (simp add: scheduler_inv_def counters_ok_def waiting_snoc new_proc_def)
next
  case (act i now st' free' p' t)
  then show ?thesis using scheduler_inv_act[OF assms(2)] assms(3) by simp
next
  case (release i)
  then show ?thesis using scheduler_inv_repoint[OF assms(2)] by simp
next
  case (cancel i)
  then show ?thesis using scheduler_inv_repoint[OF assms(2)] by simp
qed

lemma step_next_id: "scheduler_step cfg s s' \<Longrightarrow> next_id (sh s') < u64_max \<Longrightarrow> next_id (sh s) < u64_max"
  by (auto elim!: scheduler_step.cases dest: act_next_id)

text \<open>Any invariant of the steps holds of the reachable states while identifiers do not saturate.\<close>

lemma scheduler_invariant:
  assumes "scheduler_reachable cfg s" "next_id (sh s) < u64_max" "I scheduler_start"
    and step: "\<And>s s'. scheduler_step cfg s s' \<Longrightarrow> scheduler_inv cfg s \<Longrightarrow> I s \<Longrightarrow> next_id (sh s') < u64_max \<Longrightarrow> I s'"
  shows "scheduler_inv cfg s \<and> I s"
  using assms(1,2)
proof (induction rule: rtranclp_induct)
  case base
  then show ?case by (simp add: scheduler_inv_start assms(3))
next
  case (step s s')
  then show ?case using step_next_id scheduler_inv_step assms(4) by blast
qed

lemmas reachable_inv = scheduler_invariant[where I = "\<lambda>_. True", simplified]

section \<open>No lost wake-up\<close>

lemma permit_free_idle:
  assumes "scheduler_inv cfg s" "0 < permits s" "i < length (procs s)"
  shows "\<not> holding (p_pc (procs s ! i))" "count_of (running_by_user (sh s)) u = 0"
proof -
  have z: "cnt (\<lambda>p. holding (p_pc p)) (procs s) = 0" using assms by (simp add: scheduler_inv_def)
  then show "\<not> holding (p_pc (procs s ! i))"
    using cnt_pos[OF assms(3), of "\<lambda>p. holding (p_pc p)"] by auto
  have "leased k \<Longrightarrow> holding k" for k by (cases k) auto
  then have "filter (\<lambda>p. leased (p_pc p) \<and> p_user p = u) (procs s) = []"
    using z by (auto simp: cnt_def filter_empty_conv)
  then show "count_of (running_by_user (sh s)) u = 0"
    using assms(1) by (simp add: scheduler_inv_def counters_ok_def cnt_def)
qed

lemma next_waiter_entry:
  assumes "scheduler_inv cfg s" "next_waiter (sh s) = Some j"
  shows "j < length (procs s)" "queued (p_pc (procs s ! j))"
    "0 < lc_executing_per_user cfg \<Longrightarrow> 0 < permits s \<Longrightarrow>
      is_front cfg (p_id (procs s ! j)) (p_class (procs s ! j)) (p_user (procs s ! j)) (sh s)"
proof -
  obtain c q where q: "q \<in> set (queue_of c (sh s))" "q_notify q = j" "\<exists>qs. queue_of c (sh s) = q # qs"
    "c = Batch \<Longrightarrow> interactive (sh s) = []"
  proof (cases "interactive (sh s)")
    case Nil
    then show thesis using assms(2) that[of _ Batch] by (auto simp: next_waiter_def queue_of_def split: list.splits)
  next
    case (Cons q qs)
    then show thesis using assms(2) that[of q Interactive] by (auto simp: next_waiter_def queue_of_def)
  qed
  then have "(c, q_id q, j) \<in> entries (sh s)" by (auto simp: in_entries)
  then have "(c, q_id q, j) \<in> waiting (procs s)"
    using assms(1) by (simp add: scheduler_inv_def)
  then have own: "j < length (procs s)" "queued (p_pc (procs s ! j))" "p_class (procs s ! j) = c" "p_id (procs s ! j) = q_id q"
    by (auto simp: waiting_def own_def split: if_splits)
  then show "j < length (procs s)" "queued (p_pc (procs s ! j))" by simp_all
  show "is_front cfg (p_id (procs s ! j)) (p_class (procs s ! j)) (p_user (procs s ! j)) (sh s)"
    if "0 < lc_executing_per_user cfg" "0 < permits s"
    using that q own permit_free_idle(2)[OF assms(1) that(2) own(1)]
    by (cases c) (auto simp: is_front_def queue_of_def)
qed

end
