(* ===== verification/SchedulerProps.thy ===== *)
theory SchedulerProps
  imports SchedulerInvariant
begin

text \<open>
  Properties of the local scheduler over every interleaving: mutual exclusion of leases, exact
  bookkeeping of counters and queues with their limits, no lost wake-up, and what an abandoned request
  at the head of a queue does to the requests behind it.
\<close>

section \<open>Runs\<close>

text \<open>A step named by what happens, so that a run is a list of events that can be evaluated.\<close>

datatype event =
    Arrival string HybridMode WorkloadClass bool
  | Action nat nat
  | Release nat
  | Abandon nat

definition happen :: "LocalSchedulerConfig \<Rightarrow> event \<Rightarrow> scheduler \<Rightarrow> scheduler option" where
  "happen cfg e s =
     (case e of
        Arrival u mode c cloud_available \<Rightarrow> Some (s\<lparr>procs := procs s @ [new_proc u mode c cloud_available]\<rparr>)
      | Action i now \<Rightarrow>
          if i < length (procs s)
          then map_option (\<lambda>(st', free', p', t).
                 \<lparr>sh = st', permits = free', procs = raise_token t ((procs s)[i := p'])\<rparr>)
                 (act cfg now i (sh s) (permits s) (procs s ! i))
          else None
      | Release i \<Rightarrow>
          if i < length (procs s) \<and> p_pc (procs s ! i) = Leased
          then Some (s\<lparr>procs := (procs s)[i := (procs s ! i)\<lparr>p_pc := DropState\<rparr>]\<rparr>) else None
      | Abandon i \<Rightarrow>
          if i < length (procs s) \<and> p_pc (procs s ! i) = Sleep
          then Some (s\<lparr>procs := (procs s)[i := (procs s ! i)\<lparr>p_pc := Cancelled\<rparr>]\<rparr>) else None)"

fun happens :: "LocalSchedulerConfig \<Rightarrow> event list \<Rightarrow> scheduler \<Rightarrow> scheduler option" where
  "happens cfg [] s = Some s"
| "happens cfg (e # es) s = Option.bind (happen cfg e s) (happens cfg es)"

lemma happen_step: "happen cfg e s = Some s' \<Longrightarrow> scheduler_step cfg s s'"
  by (cases e) (auto simp: happen_def split: if_splits intro: scheduler_step.intros)

lemma happens_steps: "happens cfg es s = Some s' \<Longrightarrow> (scheduler_step cfg)\<^sup>*\<^sup>* s s'"
  by (induction es arbitrary: s) (auto simp: bind_eq_Some_conv dest!: happen_step intro: converse_rtranclp_into_rtranclp)

section \<open>Wake-ups\<close>

text \<open>The request the permit is due to next, asleep or about to be, with no wake-up stored.\<close>

definition overlooked :: "scheduler \<Rightarrow> nat \<Rightarrow> bool" where
  "overlooked s j \<longleftrightarrow> 0 < permits s \<and> next_waiter (sh s) = Some j \<and> p_pc (procs s ! j) \<in> {Sleep, Deadline} \<and>
     \<not> p_token (procs s ! j)"

text \<open>A process about to notify it.\<close>

definition will_notify :: "nat \<Rightarrow> proc \<Rightarrow> bool" where
  "will_notify j p \<longleftrightarrow> (\<exists>k. p_pc p = Pick k \<or> p_pc p = Deliver (Some j) k)"

fun picking :: "pc \<Rightarrow> bool" where
  "picking (Pick k) = True"
| "picking _ = False"

lemma picking_notifies: "picking (p_pc p) \<Longrightarrow> will_notify j p"
  by (cases "p_pc p") (auto simp: will_notify_def)

definition wakeup_inv :: "scheduler \<Rightarrow> bool" where
  "wakeup_inv s \<longleftrightarrow> (\<forall>i<length (procs s). p_pc (procs s ! i) \<noteq> FastDrop) \<and>
     (\<forall>j. overlooked s j \<longrightarrow> (\<exists>k<length (procs s). will_notify j (procs s ! k)))"

lemma fast_check_idle:
  assumes "scheduler_inv cfg s" "i < length (procs s)" "p_pc (procs s ! i) = FastCheck"
  shows "count_of (running_by_user (sh s)) u = 0"
proof -
  have one: "cnt (\<lambda>p. holding (p_pc p)) (procs s) \<le> 1" using assms(1) by (simp add: scheduler_inv_def)
  have "\<not> leased (p_pc (procs s ! k))" if "k < length (procs s)" for k
  proof
    assume l: "leased (p_pc (procs s ! k))"
    have "leased x \<Longrightarrow> holding x" for x by (cases x) auto
    then have "k = i" using cnt_two[OF one that assms(2)] l assms(3) by simp
    then show False using l assms(3) by simp
  qed
  then have "filter (\<lambda>p. leased (p_pc p) \<and> p_user p = u) (procs s) = []"
    by (auto simp: filter_empty_conv in_set_conv_nth)
  then show ?thesis using assms(1) by (simp add: scheduler_inv_def counters_ok_def cnt_def)
qed

lemma act_fast_drop:
  "act cfg now i st free p = Some (st', free', p', t) \<Longrightarrow> p_pc p' = FastDrop \<Longrightarrow>
   p_pc p = FastCheck \<and> lc_executing_per_user cfg \<le> count_of (running_by_user st) (p_user p)"
  by (cases "p_pc p") (auto simp: act_defs split: act_splits)

lemma next_waiter_other [simp]:
  "next_waiter (st\<lparr>running_by_user := r\<rparr>) = next_waiter st"
  "next_waiter (st\<lparr>service_time_ms := m\<rparr>) = next_waiter st"
  by (simp_all add: next_waiter_def split: list.split)

text \<open>An action that leaves nobody about to pick a waiter changes neither the waiter nor frees the permit.\<close>

lemma act_silent:
  assumes "act cfg now i st free p = Some (st', free', p', t)" "p_pc p \<noteq> FastDrop"
    "\<not> picking (p_pc p')"
  shows "next_waiter st' = next_waiter st \<and> free' \<le> free \<and>
    (\<forall>k. p_pc p = Pick k \<longrightarrow> p_pc p' = Deliver (next_waiter st) k) \<and>
    (\<forall>g k. p_pc p = Deliver g k \<longrightarrow> t = g \<and> p_pc p' \<notin> {Sleep, Deadline}) \<and>
    ((\<forall>g k. p_pc p \<noteq> Deliver g k) \<longrightarrow> t = None) \<and>
    (p_pc p' \<in> {Sleep, Deadline} \<longrightarrow>
       p_pc p = Deadline \<and> p_token p' = p_token p \<or>
       p_pc p = Front \<and> \<not> is_front cfg (p_id p) (p_class p) (p_user p) st \<or>
       p_pc p = Try \<and> free = 0)"
  using assms by (cases "p_pc p") (auto simp: act_defs split: act_splits)

lemma overlooked_before:
  assumes inv: "scheduler_inv cfg s" and exec: "0 < lc_executing_per_user cfg" and i: "i < length (procs s)"
    and a: "act cfg now i (sh s) (permits s) (procs s ! i) = Some (st', free', p', t)"
    and fd: "p_pc (procs s ! i) \<noteq> FastDrop" and np: "\<not> picking (p_pc p')"
    and o: "overlooked \<lparr>sh = st', permits = free', procs = raise_token t ((procs s)[i := p'])\<rparr> j"
  shows "overlooked s j"
proof -
  note silent = act_silent[OF a fd np]
  have w: "next_waiter (sh s) = Some j" "0 < permits s" using o silent by (auto simp: overlooked_def)
  note e = next_waiter_entry[OF inv w(1)]
  have t: "t \<noteq> Some j" using o e(1) by (auto simp: overlooked_def raise_token_nth)
  show ?thesis
  proof (cases "j = i")
    case False
    then show ?thesis using o w e(1) t by (auto simp: overlooked_def raise_token_nth)
  next
    case True
    have "p_pc p' \<in> {Sleep, Deadline}" "\<not> p_token p'"
      using o e(1) t True by (auto simp: overlooked_def raise_token_nth)
    then show ?thesis
      using silent w e(3)[OF exec] True by (auto simp: overlooked_def)
  qed
qed

lemma wakeup_inv_act:
  assumes inv: "scheduler_inv cfg s" "wakeup_inv s" and exec: "0 < lc_executing_per_user cfg" and i: "i < length (procs s)"
    and a: "act cfg now i (sh s) (permits s) (procs s ! i) = Some (st', free', p', t)"
  shows "wakeup_inv \<lparr>sh = st', permits = free', procs = raise_token t ((procs s)[i := p'])\<rparr>"
proof -
  let ?s = "\<lparr>sh = st', permits = free', procs = raise_token t ((procs s)[i := p'])\<rparr>"
  have pcs: "p_pc (procs ?s ! k) = (if k = i then p_pc p' else p_pc (procs s ! k))" if "k < length (procs s)" for k
    using that i by (auto simp: raise_token_nth)
  have fd: "p_pc (procs s ! i) \<noteq> FastDrop" using inv(2) i by (simp add: wakeup_inv_def)
  have "p_pc p' \<noteq> FastDrop"
    using act_fast_drop[OF a] fast_check_idle[OF inv(1) i] exec by auto
  then have drop: "\<forall>k<length (procs ?s). p_pc (procs ?s ! k) \<noteq> FastDrop"
    using pcs inv(2) by (auto simp: wakeup_inv_def raise_token_nth(2))
  have "\<exists>k<length (procs ?s). will_notify j (procs ?s ! k)" if o: "overlooked ?s j" for j
  proof (cases "picking (p_pc p')")
    case True
    then have "will_notify j (procs ?s ! i)" using pcs[OF i] by (intro picking_notifies) simp
    then show ?thesis using i by (auto simp: raise_token_nth(2))
  next
    case np: False
    note silent = act_silent[OF a fd np]
    have before: "overlooked s j" by (rule overlooked_before[OF inv(1) exec i a fd np o])
    then obtain k where k: "k < length (procs s)" "will_notify j (procs s ! k)"
      using inv(2) by (auto simp: wakeup_inv_def)
    have j: "j < length (procs s)" using before next_waiter_entry(1)[OF inv(1)] by (simp add: overlooked_def)
    have "t \<noteq> Some j" using o j by (auto simp: overlooked_def raise_token_nth)
    then have "will_notify j (procs ?s ! k)"
      using k pcs[OF k(1)] silent before by (auto simp: will_notify_def overlooked_def)
    then show ?thesis using k(1) by (auto simp: raise_token_nth(2))
  qed
  then show ?thesis using drop by (simp add: wakeup_inv_def)
qed

lemma wakeup_inv_repoint:
  assumes "wakeup_inv s" "i < length (procs s)" "x \<notin> {FastDrop, Sleep, Deadline}"
    "p_pc (procs s ! i) \<in> {Leased, Sleep}"
  shows "wakeup_inv (s\<lparr>procs := (procs s)[i := (procs s ! i)\<lparr>p_pc := x\<rparr>]\<rparr>)"
proof -
  let ?s = "s\<lparr>procs := (procs s)[i := (procs s ! i)\<lparr>p_pc := x\<rparr>]\<rparr>"
  have "\<exists>k<length (procs ?s). will_notify j (procs ?s ! k)" if o: "overlooked ?s j" for j
  proof -
    have "overlooked s j" using o assms(2,3) by (cases "j = i") (auto simp: overlooked_def)
    then obtain k where k: "k < length (procs s)" "will_notify j (procs s ! k)"
      using assms(1) by (auto simp: wakeup_inv_def)
    then have "k \<noteq> i" using assms(4) by (auto simp: will_notify_def)
    then show ?thesis using k by (intro exI[of _ k]) simp
  qed
  then show ?thesis using assms(1-3) by (auto simp: wakeup_inv_def nth_list_update)
qed

lemma wakeup_inv_step:
  assumes "scheduler_step cfg s s'" "scheduler_inv cfg s" "wakeup_inv s" "0 < lc_executing_per_user cfg"
  shows "wakeup_inv s'"
  using assms(1)
proof cases
  case (arrive u mode c cloud)
  have "\<exists>k<length (procs s'). will_notify j (procs s' ! k)" if o: "overlooked s' j" for j
  proof -
    have j: "j < length (procs s)"
      using o arrive next_waiter_entry(1)[OF assms(2)] by (simp add: overlooked_def)
    then have "overlooked s j" using o arrive by (simp add: overlooked_def nth_append)
    then obtain k where "k < length (procs s)" "will_notify j (procs s ! k)"
      using assms(3) by (auto simp: wakeup_inv_def)
    then show ?thesis using arrive by (intro exI[of _ k]) (simp add: nth_append)
  qed
  then show ?thesis
    using assms(3) arrive by (auto simp: wakeup_inv_def nth_append new_proc_def)
next
  case (act i now st' free' p' t)
  then show ?thesis using wakeup_inv_act[OF assms(2,3,4)] by simp
next
  case (release i)
  then show ?thesis using wakeup_inv_repoint[OF assms(3)] by simp
next
  case (cancel i)
  then show ?thesis using wakeup_inv_repoint[OF assms(3)] by simp
qed

lemma wakeup_inv_start: "wakeup_inv scheduler_start"
  by (simp add: wakeup_inv_def scheduler_start_def overlooked_def scheduler_new_def next_waiter_def)

text \<open>The limits the deployment is checked for at start-up.\<close>

lemma scheduler_config_limits:
  "scheduler_config_from_env process = Inr cfg \<Longrightarrow>
   lc_executing_per_user cfg = 1 \<and> lc_queued_per_user cfg = 2 \<and> lc_global_interactive_queue cfg = 16"
  by (auto simp: scheduler_config_from_env_def Let_def split: if_splits)

section \<open>An abandoned request\<close>

text \<open>A request nobody awaits any more keeps the head of the interactive queue.\<close>

definition abandoned_head :: "QueuedRequest \<Rightarrow> scheduler \<Rightarrow> bool" where
  "abandoned_head q s \<longleftrightarrow> (\<exists>qs. interactive (sh s) = q # qs) \<and> p_pc (procs s ! q_notify q) = Cancelled"

lemma head_entry:
  "scheduler_inv cfg s \<Longrightarrow> interactive (sh s) = q # qs \<Longrightarrow>
   (Interactive, q_id q, q_notify q) \<in> waiting (procs s) \<and> q_notify q < length (procs s)"
  using in_entries[of Interactive "q_id q" "q_notify q" "sh s"]
  by (auto simp: scheduler_inv_def queue_of_def waiting_def own_def split: if_splits)

lemma own_id:
  assumes "scheduler_inv cfg s" "i < length (procs s)" "queued (p_pc (procs s ! i))"
    "interactive (sh s) = q # qs" "p_id (procs s ! i) = q_id q"
  shows "i = q_notify q"
proof -
  have "(p_class (procs s ! i), q_id q, i) \<in> entries (sh s)"
    using own_waiting[OF assms(2)] assms by (auto simp: scheduler_inv_def own_def)
  then show ?thesis
    using head_entry[OF assms(1,4)] assms(1) entries_unique[of "sh s"]
    by (auto simp: scheduler_inv_def ids_ok_def)
qed

lemma interactive_set_queue [simp]:
  "interactive (set_queue c qs st) = (if c = Interactive then qs else interactive st)"
  by (auto simp: set_queue_def split: WorkloadClass.split)

lemma act_head:
  assumes "act cfg now i st free p = Some (st', free', p', t)" "interactive st = q # qs"
    "queued (p_pc p) \<Longrightarrow> p_id p \<noteq> q_id q"
  shows "\<exists>qs'. interactive st' = q # qs'"
  using assms by (cases "p_pc p") (auto simp: act_defs queue_of_def split: act_splits WorkloadClass.splits)

lemma abandoned_head_step:
  assumes "scheduler_step cfg s s'" "scheduler_inv cfg s" "abandoned_head q s"
  shows "abandoned_head q s'"
proof -
  obtain qs where h: "interactive (sh s) = q # qs" "p_pc (procs s ! q_notify q) = Cancelled"
    using assms(3) by (auto simp: abandoned_head_def)
  note w = head_entry[OF assms(2) h(1)]
  from assms(1) show ?thesis
  proof cases
    case (act i now st' free' p' t)
    have "i \<noteq> q_notify q" using act h(2) by (auto simp: act_def)
    moreover have "\<exists>qs'. interactive st' = q # qs'"
      using act_head[OF act(3) h(1)] own_id[OF assms(2) act(2) _ h(1)] calculation by blast
    ultimately show ?thesis using act h w by (auto simp: abandoned_head_def raise_token_nth)
  qed (use h w in \<open>auto simp: abandoned_head_def nth_append nth_list_update\<close>)
qed

text \<open>A request that waits for local execution: it has an entry and was not abandoned.\<close>

definition awaiting :: "pc \<Rightarrow> bool" where
  "awaiting x \<longleftrightarrow> x \<in> {Pick ThenLoop, Front, Try, Remove, Deadline, Sleep, Expired} \<or> (\<exists>t. x = Deliver t ThenLoop)"

lemma queued_awaiting: "queued x \<longleftrightarrow> awaiting x \<or> x = Cancelled"
  by (cases x) (auto simp: awaiting_def)

text \<open>
  A request that was queued and has not got past the front check, or ended without a lease after that.
\<close>

fun unserved :: "pc \<Rightarrow> bool" where
  "unserved (Pick k) = (k = ThenLoop \<or> k = ThenExpire)"
| "unserved (Deliver t k) = (k = ThenLoop \<or> k = ThenExpire)"
| "unserved Front = True"
| "unserved Deadline = True"
| "unserved Sleep = True"
| "unserved Expired = True"
| "unserved RetryAfter = True"
| "unserved (Finished a) = (a \<noteq> Acquired)"
| "unserved Cancelled = True"
| "unserved _ = False"

lemma unserved_not_holding: "unserved x \<Longrightarrow> \<not> holding x \<and> x \<noteq> Finished Acquired"
  by (cases x) auto

lemma not_front_behind:
  assumes "scheduler_inv cfg s" "abandoned_head q s" "i < length (procs s)" "p_pc (procs s ! i) = Front"
  shows "\<not> is_front cfg (p_id (procs s ! i)) (p_class (procs s ! i)) (p_user (procs s ! i)) (sh s)"
proof -
  obtain qs where h: "interactive (sh s) = q # qs" "p_pc (procs s ! q_notify q) = Cancelled"
    using assms(2) by (auto simp: abandoned_head_def)
  show ?thesis
    using own_id[OF assms(1,3) _ h(1)] h assms(4) by (cases "p_class (procs s ! i)") (auto simp: is_front_def)
qed

lemma act_unserved:
  assumes "act cfg now i st free p = Some (st', free', p', t)" "unserved (p_pc p)"
    "p_pc p = Front \<Longrightarrow> \<not> is_front cfg (p_id p) (p_class p) (p_user p) st"
  shows "unserved (p_pc p')"
  using assms by (cases "p_pc p") (auto simp: act_def after_notify_def split: if_splits after.splits)

lemma unserved_step:
  assumes "scheduler_step cfg s s'" "scheduler_inv cfg s" "abandoned_head q s"
    "i < length (procs s)" "unserved (p_pc (procs s ! i))"
  shows "i < length (procs s') \<and> unserved (p_pc (procs s' ! i))"
  using assms(1)
proof cases
  case (act j now st' free' p' t)
  show ?thesis
  proof (cases "j = i")
    case True
    have "unserved (p_pc p')"
      using act_unserved[OF act(3)] not_front_behind[OF assms(2-4)] assms(5) by (simp add: True)
    then show ?thesis using act(1) assms(4) True by (simp add: raise_token_nth)
  next
    case False
    then show ?thesis using act(1) assms(4,5) by (simp add: raise_token_nth)
  qed
qed (use assms(4,5) in \<open>auto simp: nth_append nth_list_update\<close>)

section \<open>Runs for the witnesses\<close>

text \<open>
  Alice runs; Bob queues, is told once that the queue changed, and falls asleep. Then either Alice's
  lease is dropped, or Bob disconnects.
\<close>

definition ex_cfg :: LocalSchedulerConfig where
  "ex_cfg =
    \<lparr>lc_executing_per_user = 1, lc_queued_per_user = 2, lc_global_interactive_queue = 16,
     lc_global_batch_queue = 16, lc_overflow_after = 5000, lc_strict_wait = 60000\<rparr>"

definition ex_proc :: "string \<Rightarrow> nat \<Rightarrow> bool \<Rightarrow> nat \<Rightarrow> pc \<Rightarrow> proc" where
  "ex_proc u n token deadline x =
    \<lparr>p_user = u, p_mode = LocalStrict, p_class = Interactive, p_cloud_available = False, p_id = n,
     p_token = token, p_deadline = deadline, p_started = 0, p_pc = x\<rparr>"

definition ex_system :: "nat \<Rightarrow> (string, nat) btree \<Rightarrow> nat \<Rightarrow> proc list \<Rightarrow> scheduler" where
  "ex_system free running service ps =
    \<lparr>sh = \<lparr>running_by_user = running, queued_by_user = [(''b'', 1)],
        interactive = [\<lparr>q_id = 1, q_enqueued = 0, q_notify = 1\<rparr>], batch = [], next_id = 1,
        service_time_ms = service\<rparr>,
     permits = free, procs = ps\<rparr>"

definition ex_busy :: "bool \<Rightarrow> nat \<Rightarrow> pc \<Rightarrow> scheduler" where
  "ex_busy token deadline x =
     ex_system 0 [(''a'', 1)] 5000 [ex_proc ''a'' 0 False 0 Leased, ex_proc ''b'' 1 token deadline x]"

definition ex_idle :: "nat \<Rightarrow> pc \<Rightarrow> pc \<Rightarrow> scheduler" where
  "ex_idle free x y = ex_system free [] 4001 [ex_proc ''a'' 0 False 0 x, ex_proc ''b'' 1 False 60000 y]"

lemmas run_eval =
  ex_proc_def ex_system_def ex_busy_def ex_idle_def happen_def scheduler_start_def scheduler_new_def new_proc_def
  ex_cfg_def act_defs is_front_def estimated_wait_def may_overflow_def queue_of_def set_queue_def queue_limit_def
  count_of_def next_waiter_def raise_token_def decrement_def u64_add_def u64_mul_def u64_max_def

lemma ex_cfg_accepted: "scheduler_config_from_env (\<lambda>_. None) = Inr ex_cfg"
  by (simp add: scheduler_config_from_env_def env_number_def ex_cfg_def)

lemma ex_queued:
  "happens ex_cfg
     [Arrival ''a'' LocalStrict Interactive False, Action 0 0, Action 0 0,
      Arrival ''b'' LocalStrict Interactive False, Action 1 0, Action 1 0, Action 1 0, Action 1 0] scheduler_start =
   Some (ex_busy False 0 (Deliver (Some 1) ThenLoop))"
  by (simp add: run_eval)

lemma ex_bob:
  "happen ex_cfg (Action 1 0) (ex_busy False 0 (Deliver (Some 1) ThenLoop)) = Some (ex_busy True 60000 Front)"
  "happen ex_cfg (Action 1 0) (ex_busy True 60000 Front) = Some (ex_busy True 60000 Try)"
  "happen ex_cfg (Action 1 0) (ex_busy True 60000 Try) = Some (ex_busy True 60000 Deadline)"
  "happen ex_cfg (Action 1 0) (ex_busy True 60000 Deadline) = Some (ex_busy True 60000 Sleep)"
  "happen ex_cfg (Action 1 0) (ex_busy True 60000 Sleep) = Some (ex_busy False 60000 Front)"
  "happen ex_cfg (Action 1 0) (ex_busy False 60000 Front) = Some (ex_busy False 60000 Try)"
  "happen ex_cfg (Action 1 0) (ex_busy False 60000 Try) = Some (ex_busy False 60000 Deadline)"
  "happen ex_cfg (Action 1 0) (ex_busy False 60000 Deadline) = Some (ex_busy False 60000 Sleep)"
  by (simp_all add: run_eval)

lemma ex_dozing: "scheduler_reachable ex_cfg (ex_busy False 60000 Sleep)"
  by (rule rtranclp_trans[OF happens_steps[OF ex_queued]])
    ((rule converse_rtranclp_into_rtranclp, rule ex_bob[THEN happen_step])+, rule rtranclp.rtrancl_refl)

lemma ex_freed: "scheduler_reachable ex_cfg (ex_idle 1 (Pick ThenEnd) Sleep)"
proof -
  have "happens ex_cfg [Release 0, Action 0 7, Action 0 7] (ex_busy False 60000 Sleep) =
      Some (ex_idle 1 (Pick ThenEnd) Sleep)"
    by (simp add: run_eval)
  then show ?thesis using ex_dozing happens_steps by (meson rtranclp_trans)
qed

lemma ex_abandoned: "scheduler_reachable ex_cfg (ex_busy False 60000 Cancelled)"
proof -
  have "happens ex_cfg [Abandon 1] (ex_busy False 60000 Sleep) = Some (ex_busy False 60000 Cancelled)"
    by (simp add: run_eval)
  then show ?thesis using ex_dozing happens_steps by (meson rtranclp_trans)
qed

lemma ex_abandoned_later:
  "(scheduler_step ex_cfg)\<^sup>*\<^sup>* (ex_busy False 60000 Cancelled) (ex_idle 1 (Pick ThenEnd) Cancelled)"
  by (rule happens_steps[of _ "[Release 0, Action 0 7, Action 0 7]"]) (simp add: run_eval)

section \<open>Theorems\<close>

text \<open>
  C35: Local execution is exclusive. In every reachable state the free permits and the requests that hold
  one add up to one, so at most one request has a lease; and the running counter of every user is exactly
  the number of that user's leases.
\<close>

theorem local_execution_exclusive:
  assumes "scheduler_reachable cfg s" "next_id (sh s) < u64_max"
  shows "permits s + card {i. i < length (procs s) \<and> holding (p_pc (procs s ! i))} = 1 \<and>
    (\<forall>u. count_of (running_by_user (sh s)) u =
       card {i. i < length (procs s) \<and> leased (p_pc (procs s ! i)) \<and> p_user (procs s ! i) = u})"
  using reachable_inv[OF assms]
  by (simp add: scheduler_inv_def counters_ok_def cnt_def length_filter_conv_card)

theorem local_execution_exclusive_witness:
  "p_pc (procs (ex_busy False 60000 Sleep) ! 0) = Leased \<and>
   count_of (running_by_user (sh (ex_busy False 60000 Sleep))) ''a'' =
     card {i. i < length (procs (ex_busy False 60000 Sleep)) \<and> leased (p_pc (procs (ex_busy False 60000 Sleep) ! i)) \<and>
       p_user (procs (ex_busy False 60000 Sleep) ! i) = ''a''}"
proof -
  have "next_id (sh (ex_busy False 60000 Sleep)) < u64_max" by (simp add: run_eval)
  moreover have "p_pc (procs (ex_busy False 60000 Sleep) ! 0) = Leased" by (simp add: run_eval)
  ultimately show ?thesis using local_execution_exclusive[OF ex_dozing] by blast
qed

text \<open>
  C36: Queue accounting. With the configuration the gateway accepts at start-up, in every reachable
  state the entries of the two queues are those of the requests that wait for local execution and of
  the requests abandoned while they waited, each under its own identifier, class and process. A user's
  queued counter is the number of that user's entries and never exceeds two, the interactive queue has
  at most sixteen entries and the batch queue at most as many as configured.
\<close>

theorem queue_accounting:
  assumes "scheduler_config_from_env process = Inr cfg" "scheduler_reachable cfg s" "next_id (sh s) < u64_max"
  shows "{(c, q_id q, q_notify q) | c q. q \<in> set (queue_of c (sh s))} =
      {(p_class (procs s ! i), p_id (procs s ! i), i) | i. i < length (procs s) \<and>
         (awaiting (p_pc (procs s ! i)) \<or> p_pc (procs s ! i) = Cancelled)} \<and>
    (\<forall>u. count_of (queued_by_user (sh s)) u =
       card {i. i < length (procs s) \<and> (awaiting (p_pc (procs s ! i)) \<or> p_pc (procs s ! i) = Cancelled) \<and>
         p_user (procs s ! i) = u}) \<and>
    (\<forall>u. count_of (queued_by_user (sh s)) u \<le> 2) \<and>
    length (interactive (sh s)) \<le> 16 \<and> length (batch (sh s)) \<le> lc_global_batch_queue cfg"
proof -
  note inv = reachable_inv[OF assms(2,3)] and lim = scheduler_config_limits[OF assms(1)]
  have "waiting (procs s) =
      {(p_class (procs s ! i), p_id (procs s ! i), i) | i. i < length (procs s) \<and> queued (p_pc (procs s ! i))}"
    by (auto simp: waiting_def own_def split: if_splits)
  moreover have "length (queue_of Interactive (sh s)) \<le> queue_limit cfg Interactive"
    "length (queue_of Batch (sh s)) \<le> queue_limit cfg Batch" "\<forall>u. count_of (queued_by_user (sh s)) u \<le> 2"
    using inv lim by (simp_all add: scheduler_inv_def within_limits_def)
  then have "length (interactive (sh s)) \<le> 16" "length (batch (sh s)) \<le> lc_global_batch_queue cfg"
    "\<forall>u. count_of (queued_by_user (sh s)) u \<le> 2"
    using lim by (simp_all add: queue_limit_def queue_of_def)
  ultimately show ?thesis
    unfolding queued_awaiting[symmetric]
    using inv by (simp add: scheduler_inv_def counters_ok_def cnt_def length_filter_conv_card entries_def)
qed

theorem queue_accounting_witness:
  "count_of (queued_by_user (sh (ex_busy False 60000 Sleep))) ''b'' = 1 \<and>
   card {i. i < length (procs (ex_busy False 60000 Sleep)) \<and>
     (awaiting (p_pc (procs (ex_busy False 60000 Sleep) ! i)) \<or> p_pc (procs (ex_busy False 60000 Sleep) ! i) = Cancelled) \<and>
     p_user (procs (ex_busy False 60000 Sleep) ! i) = ''b''} = 1"
proof -
  have n: "next_id (sh (ex_busy False 60000 Sleep)) < u64_max" by (simp add: run_eval)
  have "count_of (queued_by_user (sh (ex_busy False 60000 Sleep))) ''b'' = 1" by (simp add: run_eval)
  then show ?thesis
    using conjunct1[OF conjunct2[OF queue_accounting[OF ex_cfg_accepted ex_dozing n]], rule_format, of "''b''"]
    by (intro conjI) (assumption, simp only:)
qed

text \<open>
  C34: No wake-up is lost. With the configuration the gateway accepts, whenever the permit is free and a
  request is next in line that was not abandoned, some process can act at once, whatever the time; and
  when that request is asleep with no wake-up stored, some other process is about to notify it.
\<close>

theorem no_lost_wakeup:
  assumes "scheduler_config_from_env process = Inr cfg" "scheduler_reachable cfg s" "next_id (sh s) < u64_max"
    and "0 < permits s" "next_waiter (sh s) = Some j" "p_pc (procs s ! j) \<noteq> Cancelled"
  shows "(\<exists>k<length (procs s). \<forall>now. act cfg now k (sh s) (permits s) (procs s ! k) \<noteq> None) \<and>
    (p_pc (procs s ! j) = Sleep \<and> \<not> p_token (procs s ! j) \<longrightarrow>
      (\<exists>k<length (procs s). k \<noteq> j \<and> will_notify j (procs s ! k)))"
proof -
  have exec: "0 < lc_executing_per_user cfg" using scheduler_config_limits[OF assms(1)] by simp
  have "scheduler_inv cfg s \<and> wakeup_inv s"
    using assms(2,3) wakeup_inv_start wakeup_inv_step[OF _ _ _ exec] by (intro scheduler_invariant) auto
  then have inv: "scheduler_inv cfg s" "wakeup_inv s" by simp_all
  note e = next_waiter_entry[OF inv(1) assms(5)]
  have notify: "\<exists>k<length (procs s). k \<noteq> j \<and> will_notify j (procs s ! k)"
    if "p_pc (procs s ! j) = Sleep" "\<not> p_token (procs s ! j)"
    using inv(2) that assms(4,5) by (fastforce simp: wakeup_inv_def overlooked_def will_notify_def)
  have "\<exists>k<length (procs s). \<forall>now. act cfg now k (sh s) (permits s) (procs s ! k) \<noteq> None"
  proof (cases "p_pc (procs s ! j) = Sleep \<and> \<not> p_token (procs s ! j)")
    case True
    then obtain k where "k < length (procs s)" "will_notify j (procs s ! k)" using notify by blast
    then show ?thesis by (intro exI[of _ k]) (auto simp: will_notify_def act_def)
  next
    case False
    have "\<forall>now. act cfg now j (sh s) (permits s) (procs s ! j) \<noteq> None"
      using False e(2) assms(6)
      by (cases "p_pc (procs s ! j)") (auto simp: act_def split: prod.splits bool.splits enqueue_outcome.splits)
    then show ?thesis using e(1) by blast
  qed
  then show ?thesis using notify by blast
qed

theorem no_lost_wakeup_witness:
  "permits (ex_idle 1 (Pick ThenEnd) Sleep) = 1 \<and> next_waiter (sh (ex_idle 1 (Pick ThenEnd) Sleep)) = Some 1 \<and>
   (\<exists>k<length (procs (ex_idle 1 (Pick ThenEnd) Sleep)). k \<noteq> 1 \<and> will_notify 1 (procs (ex_idle 1 (Pick ThenEnd) Sleep) ! k))"
proof -
  let ?s = "ex_idle 1 (Pick ThenEnd) Sleep"
  have s: "next_id (sh ?s) < u64_max" "0 < permits ?s" "next_waiter (sh ?s) = Some 1"
    "p_pc (procs ?s ! 1) = Sleep" "\<not> p_token (procs ?s ! 1)" "permits ?s = 1"
    by (simp_all add: run_eval)
  then show ?thesis using no_lost_wakeup[OF ex_cfg_accepted ex_freed s(1-3)] by simp
qed

text \<open>
  C37: A client that disconnects while its request is first in the interactive queue blocks the requests
  that wait. From then on its entry stays at the head whatever happens, and a request that is in a queue
  and has not passed the front check by then never gets the permit or a lease: it goes on waiting, is
  abandoned itself, or ends without local execution when its deadline passes.
\<close>

theorem abandoned_front_blocks:
  assumes "scheduler_reachable cfg s" "interactive (sh s) = q # qs" "p_pc (procs s ! q_notify q) = Cancelled"
    and "(scheduler_step cfg)\<^sup>*\<^sup>* s s'" "next_id (sh s') < u64_max"
    and "i < length (procs s)" "unserved (p_pc (procs s ! i))"
  shows "(\<exists>qs'. interactive (sh s') = q # qs') \<and> unserved (p_pc (procs s' ! i)) \<and>
    \<not> holding (p_pc (procs s' ! i)) \<and> p_pc (procs s' ! i) \<noteq> Finished Acquired"
proof -
  have "scheduler_inv cfg s' \<and> abandoned_head q s' \<and> i < length (procs s') \<and> unserved (p_pc (procs s' ! i))"
    using assms(4,5)
  proof (induction rule: rtranclp_induct)
    case base
    then show ?case using reachable_inv[OF assms(1)] assms(2,3,6,7) by (simp add: abandoned_head_def)
  next
    case (step s' s'')
    then have "scheduler_inv cfg s'" "abandoned_head q s'" "i < length (procs s')" "unserved (p_pc (procs s' ! i))"
      using step_next_id by blast+
    then show ?case
      using step scheduler_inv_step abandoned_head_step unserved_step by blast
  qed
  then show ?thesis using unserved_not_holding by (auto simp: abandoned_head_def)
qed

theorem abandoned_front_blocks_witness:
  "p_pc (procs (ex_idle 1 (Pick ThenEnd) Cancelled) ! 1) = Cancelled \<and>
   (\<exists>qs. interactive (sh (ex_idle 1 (Pick ThenEnd) Cancelled)) = \<lparr>q_id = 1, q_enqueued = 0, q_notify = 1\<rparr> # qs)"
proof -
  have "next_id (sh (ex_idle 1 (Pick ThenEnd) Cancelled)) < u64_max" by (simp add: run_eval)
  moreover have "1 < length (procs (ex_busy False 60000 Cancelled))"
    "unserved (p_pc (procs (ex_busy False 60000 Cancelled) ! 1))" by (simp_all add: run_eval)
  ultimately show ?thesis
    using abandoned_front_blocks[OF ex_abandoned _ _ ex_abandoned_later] by (simp add: run_eval)
qed

end
