(* ===== verification/Spec2Isabelle.thy ===== *)
theory Spec2Isabelle
  imports StreamLifecycle Calendar Policy LedgerRuns LedgerReports ConfigChecked GovernanceProps SchedulerProps
begin

text \<open>
  Verification of RouteSmith.
\<close>

end
